(* ===== verification/Prelude.thy ===== *)
theory Prelude
  imports Complex_Main "HOL-Library.AList" "HOL-Library.Multiset"
    "HOL-Library.List_Lexorder" "HOL-Library.Char_ord"
begin

text \<open>
  Shared vocabulary of the development: the error values that stand for the exceptions the
  Python code raises, the time and identifier types, and the generic facts on lists,
  association lists and results that the component theories use.

  Numbers.  Python integers are unbounded and are modelled by \<open>int\<close>; \<open>//\<close> on them is \<open>div\<close>
  (both round towards minus infinity for a positive divisor).  Scores are Python floats that the
  constructors confine to the interval from 0 to 1 and that the domain code only compares and
  passes on; a finite float is a rational number and comparing is exact, so they are \<open>rat\<close>.

  Time.  A timezone-aware \<open>datetime\<close> has microsecond resolution; it is modelled by the number of
  microseconds since the epoch (UTC), an \<open>int\<close>.
\<close>

section \<open>Types\<close>

type_synonym score = rat
type_synonym time_us = int
type_synonym uuid = string

datatype error =
    ValueError string
  | KeyError string
  | TypeError string
  | IntegrityError string
  | OperationalError string
  | IdempotencyConflictError
  | EvaluationClaimLostError
  | HTTPException int string
  | AdapterError string

type_synonym 'a result = "error + 'a"

abbreviation raise :: "error \<Rightarrow> 'a result" where
  "raise e \<equiv> Inl e"

abbreviation ret :: "'a \<Rightarrow> 'a result" where
  "ret x \<equiv> Inr x"

definition rbind :: "'a result \<Rightarrow> ('a \<Rightarrow> 'b result) \<Rightarrow> 'b result" where
  "rbind r f = (case r of Inl e \<Rightarrow> raise e | Inr x \<Rightarrow> f x)"

lemma rbind_simps [simp]: "rbind (Inl e) f = Inl e" "rbind (Inr x) f = f x"
  by (simp_all add: rbind_def)

lemma rbind_Inr: "rbind r f = Inr y \<longleftrightarrow> (\<exists>x. r = Inr x \<and> f x = Inr y)"
  by (cases r) simp_all

text \<open>A list comprehension whose element expression may raise.\<close>

fun rmap :: "('a \<Rightarrow> 'b result) \<Rightarrow> 'a list \<Rightarrow> 'b list result" where
  "rmap f [] = ret []"
| "rmap f (x # xs) = rbind (f x) (\<lambda>y. rbind (rmap f xs) (\<lambda>ys. ret (y # ys)))"

lemma rmap_total: "(\<And>x. x \<in> set xs \<Longrightarrow> f x = Inr (g x)) \<Longrightarrow> rmap f xs = Inr (map g xs)"
  by (induction xs) simp_all

abbreviation (input) us_per_second :: int where
  "us_per_second \<equiv> 1000000"

abbreviation (input) us_per_day :: int where
  "us_per_day \<equiv> 86400000000"

text \<open>A \<open>datetime\<close> value as it reaches a check of \<open>tzinfo\<close>: aware, or naive.  \<open>astimezone(UTC)\<close> reads a
  naive value as local time; the reference deployment runs in UTC.\<close>

datatype datetime = Aware time_us | Naive time_us

fun astimezone_utc :: "datetime \<Rightarrow> time_us" where
  "astimezone_utc (Aware t) = t"
| "astimezone_utc (Naive t) = t"

text \<open>The calendar day (UTC) and the time of day of a timestamp, as \<open>datetime.date\<close> and
  \<open>datetime.timetz\<close> read them off an aware UTC value.\<close>

definition utc_date :: "time_us \<Rightarrow> int" where
  "utc_date t = t div us_per_day"

definition utc_time_of_day :: "time_us \<Rightarrow> int" where
  "utc_time_of_day t = t mod us_per_day"

lemma utc_time_of_day_range: "0 \<le> utc_time_of_day t \<and> utc_time_of_day t < us_per_day"
  by (simp add: utc_time_of_day_def)

text \<open>Collections of definitions unfolded together by the component proofs.\<close>

named_theorems domain_defs
named_theorems policy_defs
named_theorems store_defs
named_theorems service_defs

section \<open>Python built-ins\<close>

text \<open>Decimal digits of an integer, as an f-string prints it.\<close>

fun show_nat :: "nat \<Rightarrow> string" where
  "show_nat n = (if n < 10 then [char_of (48 + n)] else show_nat (n div 10) @ [char_of (48 + n mod 10)])"

declare show_nat.simps [simp del]

definition show_int :: "int \<Rightarrow> string" where
  "show_int n = (if n < 0 then CHR ''-'' # show_nat (nat (- n)) else show_nat (nat n))"

text \<open>\<open>str.lower\<close> on an ASCII character.\<close>

definition lower_char :: "char \<Rightarrow> char" where
  "lower_char c = (if 65 \<le> (of_char c :: nat) \<and> (of_char c :: nat) \<le> 90 then char_of (of_char c + 32 :: nat) else c)"

text \<open>\<open>max(..., default=0)\<close> over a sequence of integers.\<close>

definition max_default :: "int \<Rightarrow> int list \<Rightarrow> int" where
  "max_default d xs = (case xs of [] \<Rightarrow> d | y # ys \<Rightarrow> fold max ys y)"

text \<open>\<open>sorted(s)\<close> of a set given by its elements in iteration order.\<close>

definition py_sorted :: "'a::linorder list \<Rightarrow> 'a list" where
  "py_sorted xs = sort (remdups xs)"

lemma set_py_sorted [simp]: "set (py_sorted xs) = set xs"
  by (simp add: py_sorted_def)

lemma distinct_py_sorted [simp]: "distinct (py_sorted xs)"
  by (simp add: py_sorted_def)

lemma sorted_py_sorted [simp]: "sorted (py_sorted xs)"
  by (simp add: py_sorted_def)

text \<open>Sorting forgets the iteration order: only the elements matter.\<close>

lemma py_sorted_cong: "set xs = set ys \<Longrightarrow> py_sorted xs = py_sorted ys"
  by (intro sorted_distinct_set_unique) auto

lemma fold_max_ge:
  fixes y :: int
  shows "n \<le> fold max ys y \<longleftrightarrow> n \<le> y \<or> (\<exists>x \<in> set ys. n \<le> x)"
  by (induction ys arbitrary: y) (auto simp: max_def)

text \<open>A threshold above the default is met by the maximum exactly when an element meets it.\<close>

lemma max_default_ge:
  "n \<le> max_default d xs \<longleftrightarrow> (if xs = [] then n \<le> d else \<exists>x \<in> set xs. n \<le> x)"
  by (cases xs) (auto simp: max_default_def fold_max_ge)

section \<open>Lists ordered by a relation\<close>

lemma sorted_wrt_snoc:
  "sorted_wrt R (xs @ [x]) \<longleftrightarrow> sorted_wrt R xs \<and> (\<forall>y \<in> set xs. R y x)"
  by (auto simp: sorted_wrt_append)

text \<open>Adjacent elements related: the shape of a transition log.\<close>

fun chained :: "('a \<Rightarrow> 'a \<Rightarrow> bool) \<Rightarrow> 'a list \<Rightarrow> bool" where
  "chained R [] = True"
| "chained R [x] = True"
| "chained R (x # y # zs) = (R x y \<and> chained R (y # zs))"

lemma chained_snoc:
  "chained R (xs @ [x]) \<longleftrightarrow> chained R xs \<and> (xs = [] \<or> R (last xs) x)"
  by (induction R xs rule: chained.induct) auto

section \<open>Association lists as dictionaries\<close>

lemma map_of_update [simp]:
  "map_of (AList.update k v al) = (map_of al)(k \<mapsto> v)"
  by (simp add: update_conv')

lemma distinct_fst_update [simp]:
  "distinct (map fst al) \<Longrightarrow> distinct (map fst (AList.update k v al))"
  by (rule distinct_update)

lemma map_of_sort_key_fst:
  assumes "distinct (map fst al)"
  shows "map_of (sort_key fst al) = map_of al"
proof -
  have "distinct (map fst (sort_key fst al))"
    using assms by (metis distinct_map distinct_sort set_sort)
  with assms show ?thesis
    by (metis map_of_inject_set set_sort)
qed

end
