(* ===== verification/Contracts.thy ===== *)
theory Contracts
  imports Prelude
begin

text \<open>
  The versioned wire contracts of \<open>src/tp_smoke_detect/contracts.py\<close>: the enumerations shared by
  every component, and the two envelopes the decision-to-audio path builds
  (\<open>DecisionCompleted\<close>, \<open>AudioCommand\<close>) with the field checks that pydantic performs when one is
  constructed.  A \<open>StrEnum\<close> is a datatype together with the function giving each member's string;
  Python compares a member equal to its string, so code that receives strings is modelled on the
  strings.
\<close>

section \<open>Enumerations\<close>

datatype Stage = DETECTED | QUALITY | POSE | OBJECT | TEMPORAL | REVIEW | COMPLETED

datatype DecisionOutcome = VERIFIED | REJECTED | UNCLEAR | ERROR

datatype RunMode = SIMULATION | REPLAY | SHADOW | HUMAN_CONFIRMED | AUTOMATIC

fun outcome_value :: "DecisionOutcome \<Rightarrow> string" where
  "outcome_value VERIFIED = ''verified''"
| "outcome_value REJECTED = ''rejected''"
| "outcome_value UNCLEAR = ''unclear''"
| "outcome_value ERROR = ''error''"

fun mode_value :: "RunMode \<Rightarrow> string" where
  "mode_value SIMULATION = ''simulation''"
| "mode_value REPLAY = ''replay''"
| "mode_value SHADOW = ''shadow''"
| "mode_value HUMAN_CONFIRMED = ''human_confirmed''"
| "mode_value AUTOMATIC = ''automatic''"

definition run_modes :: "RunMode list" where
  "run_modes = [SIMULATION, REPLAY, SHADOW, HUMAN_CONFIRMED, AUTOMATIC]"

text \<open>\<open>RunMode(s)\<close>: the member whose value is \<open>s\<close>, or \<open>ValueError\<close>.\<close>

definition RunMode_of :: "string \<Rightarrow> RunMode result" where
  "RunMode_of s = (case find (\<lambda>m. mode_value m = s) run_modes of
     Some m \<Rightarrow> ret m | None \<Rightarrow> raise (ValueError s))"

lemma set_run_modes: "set run_modes = UNIV"
proof -
  have "m \<in> set run_modes" for m
    by (cases m) (simp_all add: run_modes_def)
  then show ?thesis by blast
qed

lemma mode_value_inject: "mode_value a = mode_value b \<longleftrightarrow> a = b"
  by (cases a; cases b) simp_all

lemma RunMode_of_value [simp]: "RunMode_of (mode_value m) = ret m"
  by (cases m) (simp_all add: RunMode_of_def run_modes_def)

lemma outcome_value_inject: "outcome_value a = outcome_value b \<longleftrightarrow> a = b"
  by (cases a; cases b) simp_all

section \<open>Constrained fields\<close>

text \<open>\<open>str_strip_whitespace\<close>: the ASCII white space Python's \<open>str.strip\<close> removes (the model's
  strings are ASCII).\<close>

definition py_space :: "char \<Rightarrow> bool" where
  "py_space c \<longleftrightarrow> of_char c \<in> {9, 10, 11, 12, 13, 28, 29, 30, 31, 32 :: nat}"

definition str_strip :: "string \<Rightarrow> string" where
  "str_strip s = rev (dropWhile py_space (rev (dropWhile py_space s)))"

text \<open>\<open>Field(min_length=lo, max_length=hi)\<close> on a stripped string.\<close>

definition check_text :: "nat \<Rightarrow> nat \<Rightarrow> string \<Rightarrow> string result" where
  "check_text lo hi s = (let t = str_strip s in
     if lo \<le> length t \<and> length t \<le> hi then ret t else raise (ValueError ''string length''))"

text \<open>\<open>Field(ge=0, le=1)\<close>.\<close>

definition unit_score :: "score \<Rightarrow> bool" where
  "unit_score x \<longleftrightarrow> 0 \<le> x \<and> x \<le> 1"

record EvidenceChannel =
  ec_name :: string
  ec_score :: score
  ec_positive :: bool

definition EvidenceChannel_new :: "string \<Rightarrow> score \<Rightarrow> bool \<Rightarrow> EvidenceChannel result" where
  "EvidenceChannel_new name s positive = (case check_text 1 64 name of
     Inl e \<Rightarrow> raise e
   | Inr n \<Rightarrow> if unit_score s then ret \<lparr>ec_name = n, ec_score = s, ec_positive = positive\<rparr>
              else raise (ValueError ''score''))"

section \<open>Envelopes\<close>

record DecisionCompleted =
  dc_event_id :: "uuid option"
  dc_correlation_id :: "uuid option"
  dc_producer :: string
  dc_occurred_at :: "time_us option"
  dc_decision_id :: uuid
  dc_camera_id :: string
  dc_track_id :: string
  dc_outcome :: DecisionOutcome
  dc_reason_codes :: "string list"
  dc_evidence_channels :: "EvidenceChannel list"
  dc_model_revisions :: "(string \<times> string) list"
  dc_policy_revision :: string
  dc_latency_ms :: rat
  dc_mode :: RunMode
  dc_audio_eligibility :: bool

record AudioCommand =
  ac_event_id :: uuid
  ac_correlation_id :: uuid
  ac_producer :: string
  ac_occurred_at :: time_us
  ac_command_id :: uuid
  ac_decision_id :: uuid
  ac_zone_id :: string
  ac_message_id :: string
  ac_volume_profile :: string
  ac_expires_at :: time_us
  ac_policy_revision :: string

text \<open>Constructing an \<open>AudioCommand\<close>: the four constrained strings are stripped and measured.\<close>

definition AudioCommand_new :: "AudioCommand \<Rightarrow> AudioCommand result" where
  "AudioCommand_new c =
    (case (check_text 1 128 (ac_producer c), check_text 1 128 (ac_zone_id c),
           check_text 1 128 (ac_message_id c), check_text 1 64 (ac_volume_profile c),
           check_text 1 128 (ac_policy_revision c)) of
       (Inr p, Inr z, Inr m, Inr v, Inr r) \<Rightarrow>
         ret (c\<lparr>ac_producer := p, ac_zone_id := z, ac_message_id := m,
                ac_volume_profile := v, ac_policy_revision := r\<rparr>)
     | _ \<Rightarrow> raise (ValueError ''AudioCommand''))"

lemma check_text_bounds:
  "check_text lo hi s = Inr t \<Longrightarrow> lo \<le> length t \<and> length t \<le> hi \<and> t = str_strip s"
  by (auto simp: check_text_def Let_def split: if_splits)

text \<open>Stripping is what a second pass leaves alone, so a stored contract revalidates.\<close>

lemma dropWhile_id: "(s = [] \<or> \<not> P (hd s)) \<Longrightarrow> dropWhile P s = s"
  by (cases s) auto

lemma str_strip_idem [simp]: "str_strip (str_strip s) = str_strip s"
proof -
  let ?d = "dropWhile py_space"
  define u where "u = ?d s"
  have u: "u = [] \<or> \<not> py_space (hd u)"
    unfolding u_def using hd_dropWhile[of py_space s] by blast
  define w where "w = ?d (rev u)"
  have w: "w = [] \<or> \<not> py_space (hd w)"
    unfolding w_def using hd_dropWhile[of py_space "rev u"] by blast
  have "rev w = [] \<or> \<not> py_space (hd (rev w))"
  proof (cases "w = []")
    case False
    obtain p where "rev u = p @ w"
      unfolding w_def by (metis takeWhile_dropWhile_id)
    then have "u = rev w @ rev p" by (metis rev_append rev_rev_ident)
    with False u show ?thesis by auto
  qed simp
  then have "?d (rev w) = rev w" by (rule dropWhile_id)
  with w show ?thesis
    by (simp add: str_strip_def u_def[symmetric] w_def[symmetric] dropWhile_id)
qed

lemma AudioCommand_new_keeps:
  assumes "AudioCommand_new c = Inr c'"
  shows "ac_command_id c' = ac_command_id c" "ac_decision_id c' = ac_decision_id c"
    "ac_expires_at c' = ac_expires_at c" "ac_occurred_at c' = ac_occurred_at c"
    "ac_correlation_id c' = ac_correlation_id c"
    "ac_zone_id c' = str_strip (ac_zone_id c)" "ac_message_id c' = str_strip (ac_message_id c)"
  using assms by (auto simp: AudioCommand_new_def dest!: check_text_bounds split: sum.splits)

end
