(* ===== verification/Observations.thy ===== *)
theory Observations
  imports Contracts
begin

text \<open>
  The domain data of \<open>src/tp_smoke_detect/domain/models\<close>: reason codes, evidence signals, stage
  transitions, cascade decisions (\<open>decisions.py\<close>) and the timestamped observation with its
  validation and retry fingerprint (\<open>observations.py\<close>).  A \<open>frozenset\<close> of strings is the list of
  its elements in iteration order; the order is Python's choice, and the development shows that
  no result depends on it.
\<close>

section \<open>Decisions\<close>

datatype ReasonCode =
    QUALITY_REJECTED | POSE_REJECTED | NOSE_TOUCH | CHEWING | PHONE | DRINK | FOOD
  | PEN_OR_TOOTHPICK | VETO | CYCLE_DETECTED | PERSISTENCE_INSUFFICIENT
  | INDEPENDENT_EVIDENCE_INSUFFICIENT | TWO_INDEPENDENT_CHANNELS
  | VLM_UNCLEAR | VLM_TIMEOUT | VLM_MALFORMED | OUT_OF_ORDER | DUPLICATE | TRACK_GAP
  | VERIFIED | REJECTED | UNCLEAR

fun reason_value :: "ReasonCode \<Rightarrow> string" where
  "reason_value QUALITY_REJECTED = ''quality_rejected''"
| "reason_value POSE_REJECTED = ''pose_rejected''"
| "reason_value NOSE_TOUCH = ''veto_nose_touch''"
| "reason_value CHEWING = ''veto_chewing''"
| "reason_value PHONE = ''veto_phone''"
| "reason_value DRINK = ''veto_drink''"
| "reason_value FOOD = ''veto_food''"
| "reason_value PEN_OR_TOOTHPICK = ''veto_pen_toothpick''"
| "reason_value VETO = ''veto_other''"
| "reason_value CYCLE_DETECTED = ''smoking_cycle_detected''"
| "reason_value PERSISTENCE_INSUFFICIENT = ''temporal_persistence_insufficient''"
| "reason_value INDEPENDENT_EVIDENCE_INSUFFICIENT = ''independent_evidence_insufficient''"
| "reason_value TWO_INDEPENDENT_CHANNELS = ''two_independent_channels''"
| "reason_value VLM_UNCLEAR = ''vlm_unclear''"
| "reason_value VLM_TIMEOUT = ''vlm_timeout''"
| "reason_value VLM_MALFORMED = ''vlm_malformed''"
| "reason_value OUT_OF_ORDER = ''out_of_order_observation''"
| "reason_value DUPLICATE = ''duplicate_observation''"
| "reason_value TRACK_GAP = ''track_gap''"
| "reason_value ReasonCode.VERIFIED = ''verified''"
| "reason_value ReasonCode.REJECTED = ''rejected''"
| "reason_value ReasonCode.UNCLEAR = ''unclear''"

definition reason_codes :: "ReasonCode list" where
  "reason_codes = [QUALITY_REJECTED, POSE_REJECTED,
     NOSE_TOUCH, CHEWING, PHONE, DRINK, FOOD, PEN_OR_TOOTHPICK, VETO,
     CYCLE_DETECTED, PERSISTENCE_INSUFFICIENT, INDEPENDENT_EVIDENCE_INSUFFICIENT, TWO_INDEPENDENT_CHANNELS,
     VLM_UNCLEAR, VLM_TIMEOUT, VLM_MALFORMED, OUT_OF_ORDER, DUPLICATE, TRACK_GAP,
     ReasonCode.VERIFIED, ReasonCode.REJECTED, ReasonCode.UNCLEAR]"

record EvidenceSignal =
  es_name :: string
  es_score :: score
  es_positive :: bool

definition to_contract :: "EvidenceSignal \<Rightarrow> EvidenceChannel result" where
  "to_contract s = EvidenceChannel_new (es_name s) (es_score s) (es_positive s)"

record StageTransition =
  from_stage :: Stage
  to_stage :: Stage
  tr_timestamp_ns :: int
  tr_reason_codes :: "ReasonCode list"

record CascadeDecision =
  cd_outcome :: DecisionOutcome
  cd_reason_codes :: "ReasonCode list"
  cd_evidence_channels :: "EvidenceSignal list"
  cd_stage :: Stage
  cd_audio_eligibility :: bool
  cd_cycle_count :: nat
  cd_model_revisions :: "(string \<times> string) list"

definition positive_channel_names :: "CascadeDecision \<Rightarrow> string set" where
  "positive_channel_names d = es_name ` {s \<in> set (cd_evidence_channels d). es_positive s}"

section \<open>Observations\<close>

datatype VlmStatus = vlm_positive | vlm_negative | vlm_unclear | vlm_timeout | vlm_malformed

record OptionalVlmResult =
  vlm_status :: VlmStatus
  vlm_score :: score
  vlm_revision :: string

definition OptionalVlmResult_post_init :: "OptionalVlmResult \<Rightarrow> OptionalVlmResult result" where
  "OptionalVlmResult_post_init v =
    (if \<not> (0 \<le> vlm_score v \<and> vlm_score v \<le> 1)
     then raise (ValueError ''VLM score must be between 0 and 1'') else ret v)"

datatype ContactTarget = target_mouth | target_nose | target_unknown

record DomainObservation =
  timestamp_ns :: int
  event_id :: "string option"
  quality_eligible :: bool
  pose_eligible :: bool
  hand_to_mouth :: bool
  contact_target :: ContactTarget
  mouth_dwell_ms :: int
  hand_retreat :: bool
  object_label :: "string option"
  object_score :: score
  smoke_score :: score
  ember_score :: score
  persistence_ms :: int
  positive_channels :: "string list"
  vetoes :: "string list"
  vlm :: "OptionalVlmResult option"
  model_revisions :: "(string \<times> string) list"

text \<open>The dataclass defaults.\<close>

definition observation_at :: "int \<Rightarrow> DomainObservation" where
  "observation_at t =
    \<lparr>timestamp_ns = t, event_id = None, quality_eligible = True, pose_eligible = True,
     hand_to_mouth = False, contact_target = target_unknown, mouth_dwell_ms = 0,
     hand_retreat = False, object_label = None, object_score = 0, smoke_score = 0,
     ember_score = 0, persistence_ms = 0, positive_channels = [], vetoes = [], vlm = None,
     model_revisions = []\<rparr>"

definition DomainObservation_post_init :: "DomainObservation \<Rightarrow> DomainObservation result" where
  "DomainObservation_post_init ob =
    (if timestamp_ns ob < 0 then raise (ValueError ''timestamp_ns must be non-negative'')
     else if mouth_dwell_ms ob < 0 \<or> persistence_ms ob < 0
       then raise (ValueError ''durations must be non-negative'')
     else if \<not> (0 \<le> object_score ob \<and> object_score ob \<le> 1)
       then raise (ValueError ''object_score must be between 0 and 1'')
     else if \<not> (0 \<le> smoke_score ob \<and> smoke_score ob \<le> 1)
       then raise (ValueError ''smoke_score must be between 0 and 1'')
     else if \<not> (0 \<le> ember_score ob \<and> ember_score ob \<le> 1)
       then raise (ValueError ''ember_score must be between 0 and 1'')
     else ret ob)"

text \<open>The retry key: the event id where there is one, else a tuple of fields.\<close>

datatype fingerprint =
    fp_event string
  | fp_observation int bool bool bool ContactTarget int bool "string option"
      score score score int "string list" "string list" "OptionalVlmResult option"

definition fingerprint_of :: "DomainObservation \<Rightarrow> fingerprint" where
  "fingerprint_of ob = (case event_id ob of
     Some e \<Rightarrow> fp_event e
   | None \<Rightarrow> fp_observation (timestamp_ns ob) (quality_eligible ob) (pose_eligible ob)
       (hand_to_mouth ob) (contact_target ob) (mouth_dwell_ms ob) (hand_retreat ob)
       (object_label ob) (object_score ob) (smoke_score ob) (ember_score ob)
       (persistence_ms ob) (py_sorted (positive_channels ob)) (py_sorted (vetoes ob)) (vlm ob))"

text \<open>What a constructed observation satisfies.\<close>

definition valid_observation :: "DomainObservation \<Rightarrow> bool" where
  "valid_observation ob \<longleftrightarrow>
     0 \<le> timestamp_ns ob \<and> 0 \<le> mouth_dwell_ms ob \<and> 0 \<le> persistence_ms ob \<and>
     unit_score (object_score ob) \<and> unit_score (smoke_score ob) \<and> unit_score (ember_score ob)"

lemma post_init_valid: "DomainObservation_post_init ob = Inr ob' \<longleftrightarrow> ob' = ob \<and> valid_observation ob"
  by (auto simp: DomainObservation_post_init_def valid_observation_def unit_score_def)

text \<open>Two observations without an event id have the same key exactly when they agree on every
  field but \<open>model_revisions\<close>, the two sets being compared as sets.\<close>

lemma fingerprint_of_eq_iff:
  assumes "event_id a = None" and "event_id b = None"
  shows "fingerprint_of a = fingerprint_of b \<longleftrightarrow>
    a\<lparr>positive_channels := [], vetoes := [], model_revisions := []\<rparr> =
      b\<lparr>positive_channels := [], vetoes := [], model_revisions := []\<rparr> \<and>
    set (positive_channels a) = set (positive_channels b) \<and> set (vetoes a) = set (vetoes b)"
proof -
  have "py_sorted xs = py_sorted ys \<longleftrightarrow> set xs = set ys" for xs ys :: "string list"
    by (metis py_sorted_cong set_py_sorted)
  then show ?thesis
    using assms by (cases a; cases b) (auto simp: fingerprint_of_def)
qed

section \<open>Properties\<close>

text \<open>The retry fingerprint leaves out \<open>model_revisions\<close>: two observations without an
  event id that agree on everything else have the same fingerprint, so the second is taken for a
  retry of the first even when another model revision produced it.\<close>

theorem fingerprint_ignores_model_revisions:
  "fingerprint_of (ob\<lparr>model_revisions := revs\<rparr>) = fingerprint_of ob"
  by (simp add: fingerprint_of_def split: option.split)

end
