(* ===== verification/Cycle.thy ===== *)
theory Cycle
  imports Observations
begin

text \<open>
  The virtual-time smoking-cycle detector of \<open>src/tp_smoke_detect/domain/cascade/cycle.py\<close>.  The
  object's mutable fields are a record, \<open>observe\<close> returns the completed cycle (if any) and the new
  record.  The lemmas give the detector's invariant, its rejection of retries and late
  messages, and its equivalence with a three-event reference machine.
\<close>

section \<open>Configuration and state\<close>

record CycleDetectorConfig =
  min_dwell_ms :: int
  min_cycle_interval_ms :: int
  max_cycle_interval_ms :: int

definition default_cycle_config :: CycleDetectorConfig where
  "default_cycle_config =
     \<lparr>min_dwell_ms = 250, min_cycle_interval_ms = 500, max_cycle_interval_ms = 15000\<rparr>"

definition CycleDetectorConfig_post_init :: "CycleDetectorConfig \<Rightarrow> CycleDetectorConfig result" where
  "CycleDetectorConfig_post_init c =
    (if min_dwell_ms c < 0 \<or> min_cycle_interval_ms c < 0
     then raise (ValueError ''cycle thresholds must be non-negative'')
     else if max_cycle_interval_ms c < min_cycle_interval_ms c
     then raise (ValueError ''max_cycle_interval_ms must not be below minimum'')
     else ret c)"

record SmokingCycle =
  approach_at_ns :: int
  retreat_at_ns :: int
  interval_ms :: int

record CycleDetector =
  det_config :: CycleDetectorConfig
  det_approach_at_ns :: "int option"
  det_cycles :: "SmokingCycle list"
  det_last_timestamp_ns :: "int option"
  det_seen :: "fingerprint set"

definition CycleDetector_new :: "CycleDetectorConfig \<Rightarrow> CycleDetector" where
  "CycleDetector_new c = \<lparr>det_config = c, det_approach_at_ns = None, det_cycles = [],
     det_last_timestamp_ns = None, det_seen = {}\<rparr>"

definition det_count :: "CycleDetector \<Rightarrow> nat" where
  "det_count d = length (det_cycles d)"

section \<open>observe\<close>

text \<open>The part of \<open>observe\<close> after the retry and ordering checks (lines 64 to 89).\<close>

definition observe_contact ::
  "CycleDetector \<Rightarrow> DomainObservation \<Rightarrow> SmokingCycle option \<times> CycleDetector" where
  "observe_contact d ob =
    (if \<not> quality_eligible ob \<or> \<not> pose_eligible ob then (None, d)
     else if contact_target ob \<noteq> target_mouth then
       (None, if hand_retreat ob then d\<lparr>det_approach_at_ns := None\<rparr> else d)
     else if hand_to_mouth ob \<and> min_dwell_ms (det_config d) \<le> mouth_dwell_ms ob then
       (None, case det_approach_at_ns d of
                None \<Rightarrow> d\<lparr>det_approach_at_ns := Some (timestamp_ns ob)\<rparr>
              | Some _ \<Rightarrow> d)
     else case det_approach_at_ns d of
       None \<Rightarrow> (None, d)
     | Some approach \<Rightarrow>
         if \<not> hand_retreat ob then (None, d)
         else
           (let interval = (timestamp_ns ob - approach) div 1000000;
                d' = d\<lparr>det_approach_at_ns := None\<rparr>
            in if \<not> (min_cycle_interval_ms (det_config d) \<le> interval \<and>
                      interval \<le> max_cycle_interval_ms (det_config d))
               then (None, d')
               else (let cycle = \<lparr>approach_at_ns = approach, retreat_at_ns = timestamp_ns ob,
                                  interval_ms = interval\<rparr>
                     in (Some cycle, d'\<lparr>det_cycles := det_cycles d @ [cycle]\<rparr>))))"

definition late :: "int option \<Rightarrow> DomainObservation \<Rightarrow> bool" where
  "late prev ob = (case prev of None \<Rightarrow> False | Some t \<Rightarrow> timestamp_ns ob < t)"

definition observe ::
  "CycleDetector \<Rightarrow> DomainObservation \<Rightarrow> SmokingCycle option \<times> CycleDetector" where
  "observe d ob =
    (if fingerprint_of ob \<in> det_seen d then (None, d)
     else (let d1 = d\<lparr>det_seen := insert (fingerprint_of ob) (det_seen d)\<rparr>
           in if late (det_last_timestamp_ns d) ob then (None, d1)
              else observe_contact (d1\<lparr>det_last_timestamp_ns := Some (timestamp_ns ob)\<rparr>) ob))"

text \<open>Feeding a sequence of observations.\<close>

definition run_detector :: "CycleDetectorConfig \<Rightarrow> DomainObservation list \<Rightarrow> CycleDetector" where
  "run_detector c obs = fold (\<lambda>ob d. snd (observe d ob)) obs (CycleDetector_new c)"

lemma run_detector_Nil [simp]: "run_detector c [] = CycleDetector_new c"
  by (simp add: run_detector_def)

lemma run_detector_snoc [simp]:
  "run_detector c (obs @ [ob]) = snd (observe (run_detector c obs) ob)"
  by (simp add: run_detector_def)

section \<open>Frame facts\<close>

text \<open>The three ways through \<open>observe\<close>.\<close>

lemma observe_retry: "fingerprint_of ob \<in> det_seen d \<Longrightarrow> observe d ob = (None, d)"
  by (simp add: observe_def)

lemma observe_late:
  "fingerprint_of ob \<notin> det_seen d \<Longrightarrow> late (det_last_timestamp_ns d) ob \<Longrightarrow>
   observe d ob = (None, d\<lparr>det_seen := insert (fingerprint_of ob) (det_seen d)\<rparr>)"
  by (simp add: observe_def)

lemma observe_fresh:
  "fingerprint_of ob \<notin> det_seen d \<Longrightarrow> \<not> late (det_last_timestamp_ns d) ob \<Longrightarrow>
   observe d ob = observe_contact (d\<lparr>det_seen := insert (fingerprint_of ob) (det_seen d),
     det_last_timestamp_ns := Some (timestamp_ns ob)\<rparr>) ob"
  by (simp add: observe_def)

lemma observe_contact_frame [simp]:
  "det_config (snd (observe_contact d ob)) = det_config d"
  "det_seen (snd (observe_contact d ob)) = det_seen d"
  "det_last_timestamp_ns (snd (observe_contact d ob)) = det_last_timestamp_ns d"
  by (auto simp: observe_contact_def Let_def split: option.splits)

lemma observe_config [simp]: "det_config (snd (observe d ob)) = det_config d"
  by (simp add: observe_def Let_def)

lemma observe_seen [simp]:
  "det_seen (snd (observe d ob)) = insert (fingerprint_of ob) (det_seen d)"
  by (auto simp: observe_def Let_def insert_absorb)

lemma run_detector_config [simp]: "det_config (run_detector c obs) = c"
  by (induction obs rule: rev_induct) (simp_all add: CycleDetector_new_def)

lemma run_detector_seen: "det_seen (run_detector c obs) = fingerprint_of ` set obs"
  by (induction obs rule: rev_induct) (simp_all add: CycleDetector_new_def)

section \<open>Reference machine\<close>

text \<open>What one observation means to the detector, apart from its bookkeeping.\<close>

datatype contact_event = Approach int | Retreat int | Cancel | Ignore

definition classify :: "CycleDetectorConfig \<Rightarrow> DomainObservation \<Rightarrow> contact_event" where
  "classify c ob =
    (if \<not> quality_eligible ob \<or> \<not> pose_eligible ob then Ignore
     else if contact_target ob \<noteq> target_mouth then (if hand_retreat ob then Cancel else Ignore)
     else if hand_to_mouth ob \<and> min_dwell_ms c \<le> mouth_dwell_ms ob
       then Approach (timestamp_ns ob)
     else if hand_retreat ob then Retreat (timestamp_ns ob) else Ignore)"

text \<open>The pairs of an opening approach and the retreat that closes it.\<close>

fun pairs :: "int option \<Rightarrow> contact_event list \<Rightarrow> (int \<times> int) list" where
  "pairs pend [] = []"
| "pairs pend (Approach t # es) = pairs (case pend of None \<Rightarrow> Some t | Some a \<Rightarrow> Some a) es"
| "pairs pend (Retreat t # es) =
     (case pend of None \<Rightarrow> pairs None es | Some a \<Rightarrow> (a, t) # pairs None es)"
| "pairs pend (Cancel # es) = pairs None es"
| "pairs pend (Ignore # es) = pairs pend es"

fun final :: "int option \<Rightarrow> contact_event list \<Rightarrow> int option" where
  "final pend [] = pend"
| "final pend (Approach t # es) = final (case pend of None \<Rightarrow> Some t | Some a \<Rightarrow> Some a) es"
| "final pend (Retreat t # es) = final None es"
| "final pend (Cancel # es) = final None es"
| "final pend (Ignore # es) = final pend es"

lemma pairs_append: "pairs pend (es @ fs) = pairs pend es @ pairs (final pend es) fs"
  by (induction pend es rule: pairs.induct) (auto split: option.splits)

lemma pairs_Cons:
  "NO_MATCH [] es \<Longrightarrow> pairs pend (e # es) = pairs pend [e] @ pairs (final pend [e]) es"
  using pairs_append[of pend "[e]" es] by simp

lemma final_append: "final pend (es @ fs) = final (final pend es) fs"
  by (induction pend es rule: final.induct) auto

text \<open>A cycle is a pair whose length is within the configured bounds.\<close>

definition pair_cycles :: "CycleDetectorConfig \<Rightarrow> (int \<times> int) list \<Rightarrow> SmokingCycle list" where
  "pair_cycles c ps =
     [\<lparr>approach_at_ns = a, retreat_at_ns = r, interval_ms = (r - a) div 1000000\<rparr>.
        (a, r) \<leftarrow> ps,
        min_cycle_interval_ms c \<le> (r - a) div 1000000 \<and>
        (r - a) div 1000000 \<le> max_cycle_interval_ms c]"

lemma pair_cycles_append: "pair_cycles c (ps @ qs) = pair_cycles c ps @ pair_cycles c qs"
  by (simp add: pair_cycles_def)

lemma observe_contact_step:
  fixes d ob
  defines "e \<equiv> classify (det_config d) ob"
  shows "det_approach_at_ns (snd (observe_contact d ob)) = final (det_approach_at_ns d) [e]"
    and "det_cycles (snd (observe_contact d ob)) =
           det_cycles d @ pair_cycles (det_config d) (pairs (det_approach_at_ns d) [e])"
  by (auto simp: e_def observe_contact_def classify_def pair_cycles_def Let_def
      split: option.splits)

section \<open>Invariant\<close>

definition cycle_ok :: "CycleDetectorConfig \<Rightarrow> SmokingCycle \<Rightarrow> bool" where
  "cycle_ok c cy \<longleftrightarrow>
     interval_ms cy = (retreat_at_ns cy - approach_at_ns cy) div 1000000 \<and>
     min_cycle_interval_ms c \<le> interval_ms cy \<and> interval_ms cy \<le> max_cycle_interval_ms c \<and>
     approach_at_ns cy \<le> retreat_at_ns cy"

text \<open>Completed cycles lie in the past, one after the other, and the open approach is after all
  of them.\<close>

definition detector_inv :: "CycleDetector \<Rightarrow> bool" where
  "detector_inv d \<longleftrightarrow>
     (\<forall>cy \<in> set (det_cycles d). cycle_ok (det_config d) cy) \<and>
     sorted_wrt (\<lambda>a b. retreat_at_ns a \<le> approach_at_ns b) (det_cycles d) \<and>
     (case det_last_timestamp_ns d of
        None \<Rightarrow> det_cycles d = [] \<and> det_approach_at_ns d = None
      | Some prev \<Rightarrow>
          (\<forall>cy \<in> set (det_cycles d). retreat_at_ns cy \<le> prev) \<and>
          (\<forall>a. det_approach_at_ns d = Some a \<longrightarrow>
             a \<le> prev \<and> (\<forall>cy \<in> set (det_cycles d). retreat_at_ns cy \<le> a)))"

lemma cycle_ok_new:
  "a \<le> r \<Longrightarrow> min_cycle_interval_ms c \<le> (r - a) div 1000000 \<and>
    (r - a) div 1000000 \<le> max_cycle_interval_ms c \<Longrightarrow>
   cycle_ok c \<lparr>approach_at_ns = a, retreat_at_ns = r, interval_ms = (r - a) div 1000000\<rparr>"
  by (simp add: cycle_ok_def)

lemma detector_inv_new: "detector_inv (CycleDetector_new c)"
  by (simp add: detector_inv_def CycleDetector_new_def)

lemma detector_inv_observe_contact:
  assumes "detector_inv d" and "det_last_timestamp_ns d = Some (timestamp_ns ob)"
  shows "detector_inv (snd (observe_contact d ob))"
proof (cases "classify (det_config d) ob")
  case (Approach t)
  then have "t = timestamp_ns ob" by (simp add: classify_def split: if_splits)
  with assms Approach show ?thesis
    by (cases "det_approach_at_ns d")
      (simp_all add: detector_inv_def observe_contact_step pair_cycles_def)
next
  case (Retreat t)
  then have "t = timestamp_ns ob" by (simp add: classify_def split: if_splits)
  with assms Retreat show ?thesis
    by (cases "det_approach_at_ns d")
      (auto simp: detector_inv_def observe_contact_step pair_cycles_def sorted_wrt_snoc
        cycle_ok_new)
qed (use assms in \<open>simp_all add: detector_inv_def observe_contact_step pair_cycles_def\<close>)

lemma detector_inv_advance:
  assumes "detector_inv d" and "\<not> late (det_last_timestamp_ns d) ob"
  shows "detector_inv (d\<lparr>det_seen := S, det_last_timestamp_ns := Some (timestamp_ns ob)\<rparr>)"
  using assms by (force simp: detector_inv_def late_def split: option.splits)

lemma detector_inv_observe:
  assumes "detector_inv d"
  shows "detector_inv (snd (observe d ob))"
proof -
  have "detector_inv (d\<lparr>det_seen := S\<rparr>)" for S
    using assms by (simp add: detector_inv_def split: option.splits)
  then show ?thesis
    using assms detector_inv_observe_contact[OF detector_inv_advance[OF assms]]
    by (simp add: observe_def Let_def)
qed

lemma detector_inv_run: "detector_inv (run_detector c obs)"
  by (induction obs rule: rev_induct) (simp_all add: detector_inv_new detector_inv_observe)

section \<open>Equivalence with the reference machine\<close>

text \<open>The observations the detector acts on: the first with each fingerprint, unless it is older
  than one already accepted.\<close>

fun accepted :: "fingerprint set \<Rightarrow> int option \<Rightarrow> DomainObservation list \<Rightarrow> DomainObservation list"
where
  "accepted S prev [] = []"
| "accepted S prev (ob # obs) =
    (if fingerprint_of ob \<in> S then accepted S prev obs
     else if late prev ob then accepted (insert (fingerprint_of ob) S) prev obs
     else ob # accepted (insert (fingerprint_of ob) S) (Some (timestamp_ns ob)) obs)"

lemma run_from_reference:
  "det_cycles (fold (\<lambda>ob d. snd (observe d ob)) obs d) =
     det_cycles d @ pair_cycles (det_config d) (pairs (det_approach_at_ns d)
       (map (classify (det_config d)) (accepted (det_seen d) (det_last_timestamp_ns d) obs)))"
proof (induction obs arbitrary: d)
  case Nil
  show ?case by (simp add: pair_cycles_def)
next
  case (Cons ob obs)
  consider "fingerprint_of ob \<in> det_seen d"
    | "fingerprint_of ob \<notin> det_seen d" "late (det_last_timestamp_ns d) ob"
    | "fingerprint_of ob \<notin> det_seen d" "\<not> late (det_last_timestamp_ns d) ob"
    by blast
  then show ?case
  proof cases
    case 3
    then show ?thesis
      by (simp add: Cons.IH observe_fresh observe_contact_step pair_cycles_append pairs_Cons)
  qed (simp_all add: Cons.IH observe_retry observe_late)
qed

lemma run_detector_reference:
  "det_cycles (run_detector c obs) =
     pair_cycles c (pairs None (map (classify c) (accepted {} None obs)))"
  by (simp add: run_detector_def run_from_reference CycleDetector_new_def)

section \<open>Where cycles come from\<close>

lemma pairs_source:
  assumes "(a, r) \<in> set (pairs pend es)"
  shows "(Approach a \<in> set es \<or> pend = Some a) \<and> Retreat r \<in> set es"
  using assms by (induction pend es rule: pairs.induct) (auto split: option.splits)

lemma accepted_subset: "set (accepted S prev obs) \<subseteq> set obs"
  by (induction S prev obs rule: accepted.induct) auto

lemma classify_Approach:
  "classify c ob = Approach t \<longleftrightarrow>
     t = timestamp_ns ob \<and> quality_eligible ob \<and> pose_eligible ob \<and>
     contact_target ob = target_mouth \<and> hand_to_mouth ob \<and> min_dwell_ms c \<le> mouth_dwell_ms ob"
  by (auto simp: classify_def)

lemma classify_Retreat:
  "classify c ob = Retreat t \<longleftrightarrow>
     t = timestamp_ns ob \<and> quality_eligible ob \<and> pose_eligible ob \<and>
     contact_target ob = target_mouth \<and> hand_retreat ob \<and>
     \<not> (hand_to_mouth ob \<and> min_dwell_ms c \<le> mouth_dwell_ms ob)"
  by (auto simp: classify_def)

lemma cycle_from_observations:
  assumes "cy \<in> set (det_cycles (run_detector c obs))"
  shows "\<exists>a \<in> set obs. \<exists>r \<in> set obs.
    classify c a = Approach (approach_at_ns cy) \<and> classify c r = Retreat (retreat_at_ns cy)"
proof -
  let ?es = "map (classify c) (accepted {} None obs)"
  from assms have "(approach_at_ns cy, retreat_at_ns cy) \<in> set (pairs None ?es)"
    by (auto simp: run_detector_reference pair_cycles_def)
  from pairs_source[OF this] show ?thesis
    using accepted_subset[of "{}" None obs] by (fastforce simp: image_iff)
qed

section \<open>Properties\<close>

text \<open>Property C12.  The incremental cycle detector agrees with the reference machine: on any sequence
  of observations its cycles are the approach-retreat pairs of the accepted ones whose interval lies
  between the configured bounds; each comes from an eligible mouth approach with enough dwell and an
  eligible retreat among the observations, and they follow one another without overlap.\<close>

theorem cycle_detector_equals_reference:
  "det_cycles (run_detector c obs) =
     pair_cycles c (pairs None (map (classify c) (accepted {} None obs))) \<and>
   sorted_wrt (\<lambda>a b. retreat_at_ns a \<le> approach_at_ns b) (det_cycles (run_detector c obs)) \<and>
   (\<forall>cy \<in> set (det_cycles (run_detector c obs)). cycle_ok (det_config (run_detector c obs)) cy \<and>
     (\<exists>a \<in> set obs. \<exists>r \<in> set obs.
        classify c a = Approach (approach_at_ns cy) \<and> classify c r = Retreat (retreat_at_ns cy)))"
  using run_detector_reference[of c obs] detector_inv_run[of c obs] cycle_from_observations[of _ c obs]
  unfolding detector_inv_def by blast

text \<open>Witness: one approach and one retreat a second later make one cycle.\<close>

definition sample_contact :: "DomainObservation list" where
  "sample_contact =
    [(observation_at 0)\<lparr>hand_to_mouth := True, contact_target := target_mouth, mouth_dwell_ms := 300\<rparr>,
     (observation_at 1000000000)\<lparr>contact_target := target_mouth, hand_retreat := True\<rparr>]"

theorem cycle_detector_equals_reference_witness:
  "\<exists>cy. det_cycles (run_detector default_cycle_config sample_contact) = [cy] \<and>
    (\<exists>a \<in> set sample_contact. classify default_cycle_config a = Approach (approach_at_ns cy))"
proof -
  have "length (det_cycles (run_detector default_cycle_config sample_contact)) = 1"
    by code_simp
  then obtain cy where cy: "det_cycles (run_detector default_cycle_config sample_contact) = [cy]"
    by (auto simp: length_Suc_conv)
  then show ?thesis
    using cycle_detector_equals_reference[of default_cycle_config sample_contact] by auto
qed

end
