(* ===== verification/Track.thy ===== *)
theory Track
  imports Cycle
begin

text \<open>
  Track-level aggregation, \<open>src/tp_smoke_detect/domain/cascade/track.py\<close>: the mutable
  \<open>TrackState\<close> as a record, \<open>_transition\<close> and \<open>ingest\<close> as state-passing functions, and the
  invariant of the aggregation window and of the transition log.
\<close>

section \<open>State\<close>

record TrackState =
  ts_camera_id :: string
  ts_track_id :: string
  ts_gap_tolerance_ms :: int
  ts_cycle_config :: CycleDetectorConfig
  ts_stage :: Stage
  ts_first_seen_ns :: "int option"
  ts_last_seen_ns :: "int option"
  ts_observations :: "DomainObservation list"
  ts_transitions :: "StageTransition list"
  ts_seen :: "fingerprint set"
  ts_cycle_detector :: CycleDetector

text \<open>Construction with \<open>__post_init__\<close>.\<close>

definition TrackState_new :: "string \<Rightarrow> string \<Rightarrow> int \<Rightarrow> CycleDetectorConfig \<Rightarrow> TrackState result" where
  "TrackState_new camera track gap cfg =
    (if camera = [] \<or> track = [] then raise (ValueError ''camera_id and track_id are required'')
     else if gap < 0 then raise (ValueError ''gap_tolerance_ms must be non-negative'')
     else ret \<lparr>ts_camera_id = camera, ts_track_id = track, ts_gap_tolerance_ms = gap,
       ts_cycle_config = cfg, ts_stage = DETECTED, ts_first_seen_ns = None, ts_last_seen_ns = None,
       ts_observations = [], ts_transitions = [], ts_seen = {},
       ts_cycle_detector = CycleDetector_new cfg\<rparr>)"

definition track_cycle_count :: "TrackState \<Rightarrow> nat" where
  "track_cycle_count s = det_count (ts_cycle_detector s)"

definition track_persistence_ms :: "TrackState \<Rightarrow> int" where
  "track_persistence_ms s = (case (ts_first_seen_ns s, ts_last_seen_ns s) of
     (Some f, Some l) \<Rightarrow> (l - f) div 1000000 | _ \<Rightarrow> 0)"

definition transition :: "Stage \<Rightarrow> int \<Rightarrow> ReasonCode list \<Rightarrow> TrackState \<Rightarrow> TrackState" where
  "transition target t reasons s =
    (if ts_stage s = target then s
     else s\<lparr>ts_transitions := ts_transitions s @
              [\<lparr>from_stage = ts_stage s, to_stage = target, tr_timestamp_ns = t,
                tr_reason_codes = reasons\<rparr>],
            ts_stage := target\<rparr>)"

section \<open>ingest\<close>

text \<open>Lines 77 to 95: a gap beyond the tolerance opens a new aggregation window.\<close>

definition window_gap :: "TrackState \<Rightarrow> DomainObservation \<Rightarrow> bool" where
  "window_gap s ob = (case ts_last_seen_ns s of
     None \<Rightarrow> False
   | Some l \<Rightarrow> ts_gap_tolerance_ms s * 1000000 < timestamp_ns ob - l)"

definition open_window :: "DomainObservation \<Rightarrow> TrackState \<Rightarrow> ReasonCode list \<times> TrackState" where
  "open_window ob s =
    (if window_gap s ob then
       ([TRACK_GAP],
        s\<lparr>ts_observations := [],
          ts_cycle_detector := CycleDetector_new (ts_cycle_config s),
          ts_first_seen_ns := Some (timestamp_ns ob),
          ts_stage := DETECTED,
          ts_transitions := ts_transitions s @
            [\<lparr>from_stage = ts_stage s, to_stage = DETECTED, tr_timestamp_ns = timestamp_ns ob,
              tr_reason_codes = [TRACK_GAP]\<rparr>]\<rparr>)
     else if ts_first_seen_ns s = None then
       ([], s\<lparr>ts_first_seen_ns := Some (timestamp_ns ob)\<rparr>)
     else ([], s))"

text \<open>Lines 97 to 99.\<close>

definition append_observation :: "DomainObservation \<Rightarrow> TrackState \<Rightarrow> TrackState" where
  "append_observation ob s =
     s\<lparr>ts_last_seen_ns := Some (timestamp_ns ob),
       ts_observations := ts_observations s @ [ob],
       ts_cycle_detector := snd (observe (ts_cycle_detector s) ob)\<rparr>"

text \<open>Lines 101 to 116, in the order of the source.\<close>

definition advance_stage :: "DomainObservation \<Rightarrow> TrackState \<Rightarrow> TrackState" where
  "advance_stage ob s0 =
    (let t = timestamp_ns ob;
         s1 = (if \<not> quality_eligible ob then transition COMPLETED t [QUALITY_REJECTED] s0
               else if ts_stage s0 = DETECTED then transition QUALITY t [] s0
               else s0);
         s2 = (if quality_eligible ob \<and> \<not> pose_eligible ob
               then transition COMPLETED t [POSE_REJECTED] s1
               else if quality_eligible ob \<and> ts_stage s1 = QUALITY then transition POSE t [] s1
               else s1);
         s3 = (if quality_eligible ob \<and> pose_eligible ob \<and> ts_stage s2 = POSE
               then transition OBJECT t [] s2 else s2);
         s4 = (if ts_stage s3 = OBJECT \<and> (object_label ob \<noteq> None \<or> smoke_score ob > 0)
               then transition TEMPORAL t [] s3 else s3);
         s5 = (if ts_stage s4 = TEMPORAL \<and> track_cycle_count s4 > 0
               then transition REVIEW t [CYCLE_DETECTED] s4 else s4)
     in s5)"

definition track_ingest :: "DomainObservation \<Rightarrow> TrackState \<Rightarrow> ReasonCode list \<times> TrackState" where
  "track_ingest ob s =
    (let fp = fingerprint_of ob in
     if fp \<in> ts_seen s then ([DUPLICATE], s)
     else
       (let s1 = s\<lparr>ts_seen := insert fp (ts_seen s)\<rparr> in
        if late (ts_last_seen_ns s) ob then ([OUT_OF_ORDER], s1)
        else
          (let (reasons, s2) = open_window ob s1
           in (reasons, advance_stage ob (append_observation ob s2)))))"

definition track_run :: "DomainObservation list \<Rightarrow> TrackState \<Rightarrow> TrackState" where
  "track_run obs s = fold (\<lambda>ob s. snd (track_ingest ob s)) obs s"

lemma track_run_Nil [simp]: "track_run [] s = s"
  by (simp add: track_run_def)

lemma track_run_Cons [simp]: "track_run (ob # obs) s = track_run obs (snd (track_ingest ob s))"
  by (simp add: track_run_def)

lemma track_run_append: "track_run (xs @ ys) s = track_run ys (track_run xs s)"
  by (simp add: track_run_def)

section \<open>The ways through ingest\<close>

lemma ingest_duplicate:
  "fingerprint_of ob \<in> ts_seen s \<Longrightarrow> track_ingest ob s = ([DUPLICATE], s)"
  by (simp add: track_ingest_def)

lemma ingest_out_of_order:
  "fingerprint_of ob \<notin> ts_seen s \<Longrightarrow> late (ts_last_seen_ns s) ob \<Longrightarrow>
   track_ingest ob s = ([OUT_OF_ORDER], s\<lparr>ts_seen := insert (fingerprint_of ob) (ts_seen s)\<rparr>)"
  by (simp add: track_ingest_def Let_def)

lemma ingest_fresh:
  assumes "fingerprint_of ob \<notin> ts_seen s" and "\<not> late (ts_last_seen_ns s) ob"
  defines "s1 \<equiv> s\<lparr>ts_seen := insert (fingerprint_of ob) (ts_seen s)\<rparr>"
  shows "track_ingest ob s =
    (fst (open_window ob s1), advance_stage ob (append_observation ob (snd (open_window ob s1))))"
  using assms by (simp add: track_ingest_def Let_def case_prod_beta)

section \<open>Frame facts\<close>

lemma transition_frame [simp]:
  "ts_gap_tolerance_ms (transition g t rs s) = ts_gap_tolerance_ms s"
  "ts_cycle_config (transition g t rs s) = ts_cycle_config s"
  "ts_first_seen_ns (transition g t rs s) = ts_first_seen_ns s"
  "ts_last_seen_ns (transition g t rs s) = ts_last_seen_ns s"
  "ts_observations (transition g t rs s) = ts_observations s"
  "ts_seen (transition g t rs s) = ts_seen s"
  "ts_cycle_detector (transition g t rs s) = ts_cycle_detector s"
  "ts_camera_id (transition g t rs s) = ts_camera_id s"
  "ts_track_id (transition g t rs s) = ts_track_id s"
  "ts_stage (transition g t rs s) = g"
  by (simp_all add: transition_def)

lemma advance_stage_frame [simp]:
  "ts_gap_tolerance_ms (advance_stage ob s) = ts_gap_tolerance_ms s"
  "ts_cycle_config (advance_stage ob s) = ts_cycle_config s"
  "ts_first_seen_ns (advance_stage ob s) = ts_first_seen_ns s"
  "ts_last_seen_ns (advance_stage ob s) = ts_last_seen_ns s"
  "ts_observations (advance_stage ob s) = ts_observations s"
  "ts_seen (advance_stage ob s) = ts_seen s"
  "ts_cycle_detector (advance_stage ob s) = ts_cycle_detector s"
  "ts_camera_id (advance_stage ob s) = ts_camera_id s"
  "ts_track_id (advance_stage ob s) = ts_track_id s"
  by (simp_all add: advance_stage_def Let_def)

lemma open_window_frame [simp]:
  "ts_gap_tolerance_ms (snd (open_window ob s)) = ts_gap_tolerance_ms s"
  "ts_cycle_config (snd (open_window ob s)) = ts_cycle_config s"
  "ts_last_seen_ns (snd (open_window ob s)) = ts_last_seen_ns s"
  "ts_seen (snd (open_window ob s)) = ts_seen s"
  "ts_camera_id (snd (open_window ob s)) = ts_camera_id s"
  "ts_track_id (snd (open_window ob s)) = ts_track_id s"
  by (simp_all add: open_window_def)

lemma ingest_seen [simp]:
  "ts_seen (snd (track_ingest ob s)) = insert (fingerprint_of ob) (ts_seen s)"
  by (auto simp: track_ingest_def Let_def append_observation_def case_prod_beta insert_absorb)

lemma ingest_config [simp]:
  "ts_cycle_config (snd (track_ingest ob s)) = ts_cycle_config s"
  "ts_gap_tolerance_ms (snd (track_ingest ob s)) = ts_gap_tolerance_ms s"
  by (auto simp: track_ingest_def Let_def append_observation_def case_prod_beta)

lemma track_run_seen: "ts_seen (track_run obs s) = ts_seen s \<union> fingerprint_of ` set obs"
  by (induction obs arbitrary: s) auto

lemma track_run_config [simp]:
  "ts_cycle_config (track_run obs s) = ts_cycle_config s"
  "ts_gap_tolerance_ms (track_run obs s) = ts_gap_tolerance_ms s"
  by (induction obs arbitrary: s) auto

text \<open>A message already ingested changes nothing, however often it is delivered again.\<close>

lemma ingest_redelivery:
  "ob \<in> set obs \<Longrightarrow> track_ingest ob (track_run obs s) = ([DUPLICATE], track_run obs s)"
  by (rule ingest_duplicate) (auto simp: track_run_seen)

lemma track_run_redelivery:
  "set again \<subseteq> set obs \<Longrightarrow> track_run again (track_run obs s) = track_run obs s"
  by (induction again) (simp_all add: ingest_redelivery)

section \<open>The aggregation window\<close>

text \<open>Consecutive observations of a window: in order, and no further apart than the tolerance.\<close>

definition adjacent :: "int \<Rightarrow> DomainObservation \<Rightarrow> DomainObservation \<Rightarrow> bool" where
  "adjacent gap a b \<longleftrightarrow> timestamp_ns a \<le> timestamp_ns b \<and> timestamp_ns b - timestamp_ns a \<le> gap * 1000000"

definition window_inv :: "TrackState \<Rightarrow> bool" where
  "window_inv s \<longleftrightarrow>
     ts_cycle_detector s = run_detector (ts_cycle_config s) (ts_observations s) \<and>
     distinct (map fingerprint_of (ts_observations s)) \<and>
     fingerprint_of ` set (ts_observations s) \<subseteq> ts_seen s \<and>
     chained (adjacent (ts_gap_tolerance_ms s)) (ts_observations s) \<and>
     (if ts_observations s = [] then ts_first_seen_ns s = None \<and> ts_last_seen_ns s = None
      else ts_first_seen_ns s = Some (timestamp_ns (hd (ts_observations s))) \<and>
           ts_last_seen_ns s = Some (timestamp_ns (last (ts_observations s))))"

lemma window_inv_new: "TrackState_new cam trk gap cfg = Inr s \<Longrightarrow> window_inv s"
  by (auto simp: TrackState_new_def window_inv_def split: if_splits)

lemma window_inv_ingest:
  assumes "window_inv s"
  shows "window_inv (snd (track_ingest ob s))"
proof -
  consider "fingerprint_of ob \<in> ts_seen s"
    | "fingerprint_of ob \<notin> ts_seen s" "late (ts_last_seen_ns s) ob"
    | "fingerprint_of ob \<notin> ts_seen s" "\<not> late (ts_last_seen_ns s) ob"
    by blast
  then show ?thesis
  proof cases
    case 1
    then show ?thesis using assms by (simp add: ingest_duplicate)
  next
    case 2
    then show ?thesis using assms by (auto simp: ingest_out_of_order window_inv_def)
  next
    case 3
    show ?thesis
    proof (cases "window_gap s ob")
      case True
      then show ?thesis
        using assms run_detector_snoc[of "ts_cycle_config s" "[]" ob]
        by (simp add: ingest_fresh[OF 3] window_inv_def append_observation_def open_window_def
            window_gap_def split: option.splits)
    next
      case False
      then show ?thesis
        using assms 3
        by (auto simp: ingest_fresh[OF 3] window_inv_def append_observation_def open_window_def
            window_gap_def late_def chained_snoc adjacent_def split: if_splits option.splits)
    qed
  qed
qed

lemma window_inv_run: "window_inv s \<Longrightarrow> window_inv (track_run obs s)"
  by (induction obs arbitrary: s) (simp_all add: window_inv_ingest)

lemma chained_adjacent_sorted:
  "chained (adjacent gap) obs \<Longrightarrow> sorted (map timestamp_ns obs)"
  by (induction "adjacent gap" obs rule: chained.induct) (auto simp: adjacent_def)

section \<open>The transition log\<close>

text \<open>The moves the stage machine makes, with the reasons it records.\<close>

inductive stage_edge :: "Stage \<Rightarrow> Stage \<Rightarrow> ReasonCode list \<Rightarrow> bool" where
  enter_quality: "stage_edge DETECTED QUALITY []"
| enter_pose: "stage_edge QUALITY POSE []"
| enter_object: "stage_edge POSE OBJECT []"
| enter_temporal: "stage_edge OBJECT TEMPORAL []"
| enter_review: "stage_edge TEMPORAL REVIEW [CYCLE_DETECTED]"
| reject_quality: "g \<noteq> COMPLETED \<Longrightarrow> stage_edge g COMPLETED [QUALITY_REJECTED]"
| reject_pose: "g \<noteq> COMPLETED \<Longrightarrow> g \<noteq> DETECTED \<Longrightarrow> stage_edge g COMPLETED [POSE_REJECTED]"
| window_gap_reset: "g \<noteq> DETECTED \<Longrightarrow> stage_edge g DETECTED [TRACK_GAP]"

declare stage_edge.intros [intro]

inductive_cases edge_to_review: "stage_edge g REVIEW rs"

definition linked :: "StageTransition \<Rightarrow> StageTransition \<Rightarrow> bool" where
  "linked a b \<longleftrightarrow> to_stage a = from_stage b \<and> tr_timestamp_ns a \<le> tr_timestamp_ns b"

text \<open>The log is a path of the stage machine from \<open>DETECTED\<close> to the current stage, in time order
  and not beyond \<open>bound\<close>.\<close>

definition log_path :: "int option \<Rightarrow> TrackState \<Rightarrow> bool" where
  "log_path bound s \<longleftrightarrow>
     chained linked (ts_transitions s) \<and>
     (\<forall>tr \<in> set (ts_transitions s). stage_edge (from_stage tr) (to_stage tr) (tr_reason_codes tr)) \<and>
     (if ts_transitions s = [] then ts_stage s = DETECTED
      else from_stage (hd (ts_transitions s)) = DETECTED \<and>
           to_stage (last (ts_transitions s)) = ts_stage s \<and>
           (\<exists>b. bound = Some b \<and> tr_timestamp_ns (last (ts_transitions s)) \<le> b))"

lemma log_path_append_observation [simp]:
  "log_path b (append_observation ob s) = log_path b s"
  by (simp add: log_path_def append_observation_def)

lemma log_path_mono:
  "log_path (Some b) s \<Longrightarrow> b \<le> c \<Longrightarrow> log_path (Some c) s"
  by (auto simp: log_path_def)

lemma log_path_last:
  assumes "log_path b s" and "ts_transitions s \<noteq> []"
  defines "tr \<equiv> last (ts_transitions s)"
  shows "tr \<in> set (ts_transitions s)" and "to_stage tr = ts_stage s"
    and "stage_edge (from_stage tr) (ts_stage s) (tr_reason_codes tr)"
proof -
  show "tr \<in> set (ts_transitions s)" using assms by simp
  with assms(1) have "stage_edge (from_stage tr) (to_stage tr) (tr_reason_codes tr)"
    unfolding log_path_def by blast
  moreover show "to_stage tr = ts_stage s" using assms by (simp add: log_path_def)
  ultimately show "stage_edge (from_stage tr) (ts_stage s) (tr_reason_codes tr)" by simp
qed

lemma log_path_transition:
  assumes "log_path (Some t) s" and "ts_stage s = g \<or> stage_edge (ts_stage s) g rs"
  shows "log_path (Some t) (transition g t rs s)"
  using assms by (auto simp: log_path_def transition_def chained_snoc linked_def hd_append)

lemma log_path_advance:
  assumes "log_path (Some (timestamp_ns ob)) s"
  shows "log_path (Some (timestamp_ns ob)) (advance_stage ob s)"
  using assms
  by (auto simp: advance_stage_def Let_def intro!: log_path_transition)

lemma advance_leaves_detected: "ts_stage (advance_stage ob s) \<noteq> DETECTED"
  by (auto simp: advance_stage_def Let_def)

definition log_inv :: "TrackState \<Rightarrow> bool" where
  "log_inv s \<longleftrightarrow> log_path (ts_last_seen_ns s) s \<and>
     (ts_last_seen_ns s \<noteq> None \<longrightarrow> ts_stage s \<noteq> DETECTED)"

lemma log_inv_new: "TrackState_new cam trk gap cfg = Inr s \<Longrightarrow> log_inv s"
  by (auto simp: TrackState_new_def log_inv_def log_path_def split: if_splits)

lemma log_path_open_window:
  assumes "log_inv s" and "\<not> late (ts_last_seen_ns s) ob"
  shows "log_path (Some (timestamp_ns ob)) (snd (open_window ob s))"
  using assms
  by (auto simp: log_inv_def log_path_def open_window_def late_def window_gap_def chained_snoc
      linked_def hd_append split: option.splits)

lemma log_inv_ingest:
  assumes "log_inv s"
  shows "log_inv (snd (track_ingest ob s))"
proof -
  have seen: "log_inv (s\<lparr>ts_seen := S\<rparr>)" for S
    using assms by (simp add: log_inv_def log_path_def)
  consider "fingerprint_of ob \<in> ts_seen s"
    | "fingerprint_of ob \<notin> ts_seen s" "late (ts_last_seen_ns s) ob"
    | "fingerprint_of ob \<notin> ts_seen s" "\<not> late (ts_last_seen_ns s) ob"
    by blast
  then show ?thesis
  proof cases
    case 3
    let ?s1 = "s\<lparr>ts_seen := insert (fingerprint_of ob) (ts_seen s)\<rparr>"
    have "log_path (Some (timestamp_ns ob)) (snd (open_window ob ?s1))"
      using 3 by (intro log_path_open_window seen) simp
    then have "log_path (Some (timestamp_ns ob))
        (append_observation ob (snd (open_window ob ?s1)))"
      by simp
    from log_path_advance[OF this] show ?thesis
      by (simp add: ingest_fresh[OF 3] log_inv_def advance_leaves_detected append_observation_def)
  qed (use assms seen in \<open>simp_all add: ingest_duplicate ingest_out_of_order\<close>)
qed

lemma log_inv_run: "log_inv s \<Longrightarrow> log_inv (track_run obs s)"
  by (induction obs arbitrary: s) (simp_all add: log_inv_ingest)

end
