(* ===== verification/Evidence.thy ===== *)
theory Evidence
  imports Observations
begin

text \<open>
  Evidence aggregation and veto precedence, \<open>src/tp_smoke_detect/domain/policy/evidence.py\<close>.  The
  two module-level dictionaries are association lists, the dictionary of scores built by
  \<open>_canonical_channels\<close> is an association list in insertion order, and \<open>evaluate\<close> is the chain of
  early returns of the source.  The lemmas characterise the positive channels, the veto and the
  outcome by conditions on the observations alone.
\<close>

section \<open>Tables\<close>

definition VETO_REASON :: "(string \<times> ReasonCode) list" where
  "VETO_REASON =
    [(''nose'', NOSE_TOUCH), (''nose_touch'', NOSE_TOUCH), (''chewing'', CHEWING),
     (''betel_nut'', CHEWING), (''betel_quid'', CHEWING), (''phone'', PHONE),
     (''drink'', DRINK), (''cup'', DRINK), (''food'', FOOD), (''pen'', PEN_OR_TOOTHPICK),
     (''toothpick'', PEN_OR_TOOTHPICK), (''pen_toothpick'', PEN_OR_TOOTHPICK)]"

definition CHANNEL_ALIASES :: "(string \<times> string) list" where
  "CHANNEL_ALIASES =
    [(''object'', ''object''), (''cigarette'', ''object''), (''vape'', ''object''),
     (''heated_tobacco'', ''object''), (''smoke'', ''smoke''), (''ember'', ''smoke''),
     (''temporal'', ''temporal''), (''cycle'', ''temporal''), (''vlm'', ''vlm'')]"

record EvidencePolicyConfig =
  min_cycles :: int
  min_persistence_ms :: int
  min_independent_channels :: int
  reject_on_unclear :: bool

definition default_evidence_config :: EvidencePolicyConfig where
  "default_evidence_config = \<lparr>min_cycles = 1, min_persistence_ms = 2000,
     min_independent_channels = 2, reject_on_unclear = True\<rparr>"

definition EvidencePolicyConfig_post_init :: "EvidencePolicyConfig \<Rightarrow> EvidencePolicyConfig result" where
  "EvidencePolicyConfig_post_init c =
    (if min_cycles c < 1 \<or> min_persistence_ms c < 0 \<or> min_independent_channels c < 1
     then raise (ValueError ''evidence thresholds are invalid'') else ret c)"

section \<open>Canonical channels\<close>

text \<open>\<open>scores[name] = max(scores.get(name, 0.0), value)\<close>.\<close>

definition raise_score :: "string \<Rightarrow> score \<Rightarrow> (string \<times> score) list \<Rightarrow> (string \<times> score) list" where
  "raise_score name v sc =
     AList.update name (max (case map_of sc name of None \<Rightarrow> 0 | Some x \<Rightarrow> x) v) sc"

definition add_channel :: "string \<Rightarrow> (string \<times> score) list \<Rightarrow> (string \<times> score) list" where
  "add_channel channel sc = (case map_of CHANNEL_ALIASES channel of
     None \<Rightarrow> sc
   | Some canonical \<Rightarrow> raise_score canonical 1 sc)"

definition tobacco_label :: "string option \<Rightarrow> bool" where
  "tobacco_label l \<longleftrightarrow> l \<in> {Some ''cigarette'', Some ''vape'', Some ''heated_tobacco''}"

definition add_observation :: "DomainObservation \<Rightarrow> (string \<times> score) list \<Rightarrow> (string \<times> score) list" where
  "add_observation ob sc0 =
    (let sc1 = fold add_channel (positive_channels ob) sc0;
         sc2 = (if tobacco_label (object_label ob)
                then raise_score ''object'' (object_score ob) sc1 else sc1);
         sc3 = (if smoke_score ob > 0 then raise_score ''smoke'' (smoke_score ob) sc2 else sc2)
     in sc3)"

definition channel_scores :: "DomainObservation list \<Rightarrow> (string \<times> score) list" where
  "channel_scores obs = fold add_observation obs []"

definition signal_of :: "string \<times> score \<Rightarrow> EvidenceSignal" where
  "signal_of p = \<lparr>es_name = fst p, es_score = snd p, es_positive = snd p > 0\<rparr>"

definition canonical_channels :: "DomainObservation list \<Rightarrow> EvidenceSignal list" where
  "canonical_channels obs = map signal_of (sort_key fst (channel_scores obs))"

section \<open>Veto\<close>

fun veto_reason :: "DomainObservation list \<Rightarrow> ReasonCode option" where
  "veto_reason [] = None"
| "veto_reason (ob # obs) =
    (case find (\<lambda>v. map_of VETO_REASON v \<noteq> None) (py_sorted (vetoes ob)) of
       Some v \<Rightarrow> map_of VETO_REASON v
     | None \<Rightarrow>
         if contact_target ob = target_nose then Some NOSE_TOUCH
         else (case Option.bind (object_label ob) (map_of VETO_REASON) of
                 Some r \<Rightarrow> Some r
               | None \<Rightarrow> veto_reason obs))"

section \<open>evaluate\<close>

definition completed :: "DecisionOutcome \<Rightarrow> ReasonCode list \<Rightarrow> EvidenceSignal list \<Rightarrow> bool \<Rightarrow> nat \<Rightarrow>
  (string \<times> string) list \<Rightarrow> CascadeDecision" where
  "completed outcome reasons evidence eligible cycles revisions =
    \<lparr>cd_outcome = outcome, cd_reason_codes = reasons, cd_evidence_channels = evidence,
     cd_stage = COMPLETED, cd_audio_eligibility = eligible, cd_cycle_count = cycles,
     cd_model_revisions = revisions\<rparr>"

definition vlm_statuses :: "DomainObservation list \<Rightarrow> VlmStatus list" where
  "vlm_statuses items = [vlm_status v. Some v \<leftarrow> map vlm items]"

definition vlm_reason :: "VlmStatus list \<Rightarrow> ReasonCode" where
  "vlm_reason statuses =
    (if vlm_timeout \<in> set statuses then VLM_TIMEOUT
     else if vlm_malformed \<in> set statuses then VLM_MALFORMED else VLM_UNCLEAR)"

definition vlm_inconclusive :: "DomainObservation list \<Rightarrow> bool" where
  "vlm_inconclusive items \<longleftrightarrow>
     list_ex (\<lambda>st. st \<in> {vlm_timeout, vlm_malformed, vlm_unclear}) (vlm_statuses items)"

definition evidence_evaluate ::
  "EvidencePolicyConfig \<Rightarrow> DomainObservation list \<Rightarrow> nat \<Rightarrow> (string \<times> string) list \<Rightarrow> CascadeDecision"
where
  "evidence_evaluate cfg items cycle_count revisions =
    (let evidence = canonical_channels items;
         reject = (\<lambda>r. completed DecisionOutcome.REJECTED [r, ReasonCode.REJECTED] evidence False
                         cycle_count revisions)
     in case veto_reason items of
       Some veto \<Rightarrow> reject veto
     | None \<Rightarrow>
       if list_ex (\<lambda>item. \<not> quality_eligible item) items then reject QUALITY_REJECTED
       else if list_ex (\<lambda>item. \<not> pose_eligible item) items then reject POSE_REJECTED
       else if vlm_inconclusive items \<and> reject_on_unclear cfg then
         completed DecisionOutcome.UNCLEAR [vlm_reason (vlm_statuses items), ReasonCode.UNCLEAR]
           evidence False cycle_count revisions
       else if int cycle_count < min_cycles cfg \<or>
               max_default 0 (map persistence_ms items) < min_persistence_ms cfg
         then reject PERSISTENCE_INSUFFICIENT
       else if int (length (filter es_positive evidence)) < min_independent_channels cfg
         then reject INDEPENDENT_EVIDENCE_INSUFFICIENT
       else completed DecisionOutcome.VERIFIED
              [CYCLE_DETECTED, TWO_INDEPENDENT_CHANNELS, ReasonCode.VERIFIED]
              evidence True cycle_count revisions)"

section \<open>The score dictionary\<close>

lemma map_of_raise_score:
  "map_of (raise_score n v sc) =
     (map_of sc)(n \<mapsto> max (case map_of sc n of None \<Rightarrow> 0 | Some x \<Rightarrow> x) v)"
  by (simp add: raise_score_def)

lemma distinct_raise_score:
  "distinct (map fst sc) \<Longrightarrow> distinct (map fst (raise_score n v sc))"
  by (simp add: raise_score_def)

lemma distinct_add_channel:
  "distinct (map fst sc) \<Longrightarrow> distinct (map fst (add_channel ch sc))"
  by (simp add: add_channel_def distinct_raise_score split: option.split)

lemma distinct_fold_add_channel:
  "distinct (map fst sc) \<Longrightarrow> distinct (map fst (fold add_channel chs sc))"
  by (induction chs arbitrary: sc) (simp_all add: distinct_add_channel)

lemma distinct_fold_add_observation:
  "distinct (map fst sc) \<Longrightarrow> distinct (map fst (fold add_observation obs sc))"
  by (induction obs arbitrary: sc)
    (simp_all add: add_observation_def Let_def distinct_raise_score distinct_fold_add_channel)

lemma distinct_channel_scores: "distinct (map fst (channel_scores obs))"
  by (simp add: channel_scores_def distinct_fold_add_observation)

text \<open>Every value that the dictionary can take satisfies a predicate closed under \<open>max\<close>.\<close>

definition scores_all :: "(string \<Rightarrow> score \<Rightarrow> bool) \<Rightarrow> (string \<times> score) list \<Rightarrow> bool" where
  "scores_all P sc \<longleftrightarrow> (\<forall>n v. map_of sc n = Some v \<longrightarrow> P n v)"

definition canonical_names :: "string set" where
  "canonical_names = {''object'', ''smoke'', ''temporal'', ''vlm''}"

lemma alias_canonical: "map_of CHANNEL_ALIASES ch = Some n \<Longrightarrow> n \<in> canonical_names"
  by (auto simp: CHANNEL_ALIASES_def canonical_names_def split: if_splits)

lemma scores_raise:
  assumes "scores_all (\<lambda>n v. n \<in> canonical_names \<and> unit_score v) sc" and "n \<in> canonical_names"
    and "unit_score v"
  shows "scores_all (\<lambda>n v. n \<in> canonical_names \<and> unit_score v) (raise_score n v sc)"
  using assms
  by (auto simp: scores_all_def map_of_raise_score unit_score_def max_def split: option.splits)

lemma scores_add_channel:
  assumes "scores_all (\<lambda>n v. n \<in> canonical_names \<and> unit_score v) sc"
  shows "scores_all (\<lambda>n v. n \<in> canonical_names \<and> unit_score v) (add_channel ch sc)"
  using assms scores_raise[OF assms]
  by (auto simp: add_channel_def unit_score_def dest: alias_canonical split: option.split)

lemma scores_fold_add_channel:
  "scores_all (\<lambda>n v. n \<in> canonical_names \<and> unit_score v) sc \<Longrightarrow>
   scores_all (\<lambda>n v. n \<in> canonical_names \<and> unit_score v) (fold add_channel chs sc)"
  by (induction chs arbitrary: sc) (simp_all add: scores_add_channel)

lemma scores_add_observation:
  assumes "scores_all (\<lambda>n v. n \<in> canonical_names \<and> unit_score v) sc" and "valid_observation ob"
  shows "scores_all (\<lambda>n v. n \<in> canonical_names \<and> unit_score v) (add_observation ob sc)"
proof -
  have "''object'' \<in> canonical_names" "''smoke'' \<in> canonical_names"
    by (simp_all add: canonical_names_def)
  then show ?thesis
    using assms by (auto simp: add_observation_def Let_def valid_observation_def
        intro!: scores_raise scores_fold_add_channel)
qed

lemma scores_fold_add_observation:
  "\<forall>ob \<in> set obs. valid_observation ob \<Longrightarrow>
   scores_all (\<lambda>n v. n \<in> canonical_names \<and> unit_score v) sc \<Longrightarrow>
   scores_all (\<lambda>n v. n \<in> canonical_names \<and> unit_score v) (fold add_observation obs sc)"
  by (induction obs arbitrary: sc) (simp_all add: scores_add_observation)

lemma scores_channel_scores:
  "\<forall>ob \<in> set obs. valid_observation ob \<Longrightarrow>
   scores_all (\<lambda>n v. n \<in> canonical_names \<and> unit_score v) (channel_scores obs)"
  unfolding channel_scores_def
  by (rule scores_fold_add_observation) (simp_all add: scores_all_def)

section \<open>Positive channels\<close>

text \<open>One observation is evidence on a channel.\<close>

definition evidence_on :: "string \<Rightarrow> DomainObservation \<Rightarrow> bool" where
  "evidence_on n ob \<longleftrightarrow>
     (\<exists>ch \<in> set (positive_channels ob). map_of CHANNEL_ALIASES ch = Some n) \<or>
     n = ''object'' \<and> tobacco_label (object_label ob) \<and> object_score ob > 0 \<or>
     n = ''smoke'' \<and> smoke_score ob > 0"

definition positive_names :: "(string \<times> score) list \<Rightarrow> string set" where
  "positive_names sc = {n. \<exists>v. map_of sc n = Some v \<and> v > 0}"

lemma positive_names_raise:
  "positive_names (raise_score n v sc) = (if v > 0 then insert n (positive_names sc) else positive_names sc)"
  by (auto simp: positive_names_def map_of_raise_score less_max_iff_disj split: if_splits option.splits)

lemma positive_names_add_channel:
  "positive_names (add_channel ch sc) =
     positive_names sc \<union> {n. map_of CHANNEL_ALIASES ch = Some n}"
  by (auto simp: add_channel_def positive_names_raise split: option.split)

lemma positive_names_fold_add_channel:
  "positive_names (fold add_channel chs sc) =
     positive_names sc \<union> {n. \<exists>ch \<in> set chs. map_of CHANNEL_ALIASES ch = Some n}"
  by (induction chs arbitrary: sc) (auto simp: positive_names_add_channel)

lemma positive_names_add_observation:
  "positive_names (add_observation ob sc) = positive_names sc \<union> {n. evidence_on n ob}"
  by (auto simp: add_observation_def Let_def positive_names_raise positive_names_fold_add_channel
      evidence_on_def)

lemma positive_names_channel_scores:
  "positive_names (channel_scores obs) = {n. \<exists>ob \<in> set obs. evidence_on n ob}"
proof -
  have "positive_names (fold add_observation obs sc) =
      positive_names sc \<union> {n. \<exists>ob \<in> set obs. evidence_on n ob}" for sc
    by (induction obs arbitrary: sc) (auto simp: positive_names_add_observation)
  then show ?thesis by (simp add: channel_scores_def positive_names_def)
qed

lemma positive_names_subset: "{n. \<exists>ob \<in> set obs. evidence_on n ob} \<subseteq> canonical_names"
  by (auto simp: evidence_on_def dest: alias_canonical) (simp_all add: canonical_names_def)

lemma es_name_signal_of [simp]: "es_name (signal_of p) = fst p"
  by (simp add: signal_of_def)

lemma canonical_channels_names:
  "map es_name (canonical_channels obs) = sort (map fst (channel_scores obs))"
proof -
  have "sort (map fst (channel_scores obs)) = map fst (sort_key fst (channel_scores obs))"
    by (rule properties_for_sort) simp_all
  then show ?thesis by (simp add: canonical_channels_def o_def)
qed

lemma set_canonical_channels: "set (canonical_channels obs) = signal_of ` set (channel_scores obs)"
  by (simp add: canonical_channels_def)

lemma positive_signal_names:
  "es_name ` {s \<in> set (canonical_channels obs). es_positive s} =
     {n. \<exists>ob \<in> set obs. evidence_on n ob}"
proof -
  have "es_name ` {s \<in> set (canonical_channels obs). es_positive s} =
      positive_names (channel_scores obs)"
    using distinct_channel_scores[of obs]
    by (force simp: set_canonical_channels positive_names_def signal_of_def
        map_of_eq_Some_iff)
  then show ?thesis by (simp add: positive_names_channel_scores)
qed

text \<open>The channel gate counts distinct channels.\<close>

lemma length_positive_signals:
  "length (filter es_positive (canonical_channels obs)) =
     card {n. \<exists>ob \<in> set obs. evidence_on n ob}"
proof -
  have "distinct (map es_name (canonical_channels obs))"
    by (simp add: canonical_channels_names distinct_channel_scores)
  then have "distinct (map es_name (filter es_positive (canonical_channels obs)))"
    by (rule distinct_map_filter)
  then show ?thesis
    using distinct_card by (fastforce simp: positive_signal_names[symmetric] filter_set)
qed

section \<open>Which observations veto\<close>

definition vetoing :: "DomainObservation \<Rightarrow> bool" where
  "vetoing ob \<longleftrightarrow>
     (\<exists>v \<in> set (vetoes ob). map_of VETO_REASON v \<noteq> None) \<or>
     contact_target ob = target_nose \<or>
     (\<exists>l. object_label ob = Some l \<and> map_of VETO_REASON l \<noteq> None)"

lemma veto_reason_None_iff: "veto_reason obs = None \<longleftrightarrow> (\<forall>ob \<in> set obs. \<not> vetoing ob)"
proof (induction obs)
  case (Cons ob obs)
  show ?case
  proof (cases "find (\<lambda>v. map_of VETO_REASON v \<noteq> None) (py_sorted (vetoes ob))")
    case None
    then have "\<forall>v \<in> set (vetoes ob). map_of VETO_REASON v = None"
      by (simp add: find_None_iff)
    with None Cons.IH show ?thesis
      by (cases "object_label ob") (auto simp: vetoing_def split: option.splits)
  next
    case (Some v)
    then have "v \<in> set (vetoes ob)" and "map_of VETO_REASON v \<noteq> None"
      by (auto simp: find_Some_iff dest: nth_mem)
    with Some show ?thesis by (auto simp: vetoing_def)
  qed
qed simp

lemma veto_codes:
  "veto_reason obs = Some r \<Longrightarrow> r \<in> {NOSE_TOUCH, CHEWING, PHONE, DRINK, FOOD, PEN_OR_TOOTHPICK}"
proof (induction obs)
  case (Cons ob obs)
  have "map_of VETO_REASON v = Some q \<Longrightarrow>
      q \<in> {NOSE_TOUCH, CHEWING, PHONE, DRINK, FOOD, PEN_OR_TOOTHPICK}" for v q
    by (auto simp: VETO_REASON_def split: if_splits)
  with Cons show ?case
    by (auto simp: bind_eq_Some_conv split: option.splits if_splits)
qed simp

section \<open>Iteration order\<close>

text \<open>Two observations that differ only in the iteration order of their two sets.\<close>

definition same_sets :: "DomainObservation \<Rightarrow> DomainObservation \<Rightarrow> bool" where
  "same_sets a b \<longleftrightarrow>
     a\<lparr>positive_channels := [], vetoes := []\<rparr> = b\<lparr>positive_channels := [], vetoes := []\<rparr> \<and>
     set (positive_channels a) = set (positive_channels b) \<and> set (vetoes a) = set (vetoes b)"

lemma same_sets_fields:
  assumes "same_sets a b"
  shows "timestamp_ns a = timestamp_ns b" "quality_eligible a = quality_eligible b"
    "pose_eligible a = pose_eligible b" "contact_target a = contact_target b"
    "object_label a = object_label b" "object_score a = object_score b"
    "smoke_score a = smoke_score b" "persistence_ms a = persistence_ms b" "vlm a = vlm b"
    "set (positive_channels a) = set (positive_channels b)"
    "py_sorted (vetoes a) = py_sorted (vetoes b)"
  using assms by (cases a; cases b; auto simp: same_sets_def intro: py_sorted_cong)+

lemma map_of_fold_add_channel:
  "map_of (fold add_channel chs sc) n =
    (if \<exists>ch \<in> set chs. map_of CHANNEL_ALIASES ch = Some n
     then Some (max (case map_of sc n of None \<Rightarrow> 0 | Some x \<Rightarrow> x) 1) else map_of sc n)"
  by (induction chs arbitrary: sc)
    (auto simp: add_channel_def map_of_raise_score split: option.splits)

lemma map_of_add_observation_cong:
  assumes "same_sets a b" and "map_of sc = map_of sc'"
  shows "map_of (add_observation a sc) = map_of (add_observation b sc')"
proof -
  have "map_of (fold add_channel (positive_channels a) sc) =
      map_of (fold add_channel (positive_channels b) sc')"
    using assms by (auto simp: fun_eq_iff map_of_fold_add_channel same_sets_fields)
  then show ?thesis
    unfolding add_observation_def Let_def same_sets_fields[OF assms(1)]
    by (simp add: map_of_raise_score)
qed

lemma map_of_channel_scores_cong:
  assumes "list_all2 same_sets xs ys"
  shows "map_of (channel_scores xs) = map_of (channel_scores ys)"
proof -
  have "map_of sc = map_of sc' \<Longrightarrow>
    map_of (fold add_observation xs sc) = map_of (fold add_observation ys sc')" for sc sc'
    using assms
  proof (induction xs ys arbitrary: sc sc' rule: list_all2_induct)
    case (Cons x xs y ys)
    show ?case
      using Cons.hyps(1) Cons.prems by (simp add: Cons.IH map_of_add_observation_cong)
  qed simp
  then show ?thesis by (simp add: channel_scores_def)
qed

text \<open>The sorted items of a dictionary are determined by what it maps to what.\<close>

lemma sort_key_fst_cong:
  assumes "distinct (map fst al)" and "distinct (map fst bl)" and "map_of al = map_of bl"
  shows "sort_key fst al = sort_key fst bl"
proof (rule map_sorted_distinct_set_unique)
  have d: "distinct (map fst (sort_key fst xs))" if "distinct (map fst xs)" for xs :: "('a \<times> 'b) list"
    using that by (simp add: distinct_map)
  show "distinct (map fst (sort_key fst al))" "distinct (map fst (sort_key fst bl))"
    using assms d by blast+
  show "set (sort_key fst al) = set (sort_key fst bl)"
    using assms by (simp add: map_of_inject_set)
  then show "inj_on fst (set (sort_key fst al) \<union> set (sort_key fst bl))"
    using assms by (simp add: distinct_map)
qed simp_all

lemma canonical_channels_cong:
  "list_all2 same_sets xs ys \<Longrightarrow> canonical_channels xs = canonical_channels ys"
  unfolding canonical_channels_def
  by (metis sort_key_fst_cong distinct_channel_scores map_of_channel_scores_cong)

lemma veto_reason_cong: "list_all2 same_sets xs ys \<Longrightarrow> veto_reason xs = veto_reason ys"
  by (induction rule: list_all2_induct) (simp_all add: same_sets_fields cong: option.case_cong)

lemma vlm_statuses_cong: "list_all2 same_sets xs ys \<Longrightarrow> vlm_statuses xs = vlm_statuses ys"
  by (induction rule: list_all2_induct) (simp_all add: vlm_statuses_def same_sets_fields)

lemma eligibility_cong:
  assumes "list_all2 same_sets xs ys"
  shows "map quality_eligible xs = map quality_eligible ys"
    and "map pose_eligible xs = map pose_eligible ys"
    and "map persistence_ms xs = map persistence_ms ys"
  using assms by (induction rule: list_all2_induct) (simp_all add: same_sets_fields)

lemma list_ex_map_not: "list_ex (\<lambda>x. \<not> f x) xs \<longleftrightarrow> \<not> list_all id (map f xs)"
  by (auto simp: list_ex_iff list_all_iff)

lemma evidence_evaluate_cong:
  assumes "list_all2 same_sets xs ys"
  shows "evidence_evaluate cfg xs n revs = evidence_evaluate cfg ys n revs"
  unfolding evidence_evaluate_def vlm_inconclusive_def list_ex_map_not
    canonical_channels_cong[OF assms] veto_reason_cong[OF assms] vlm_statuses_cong[OF assms]
    eligibility_cong[OF assms] ..

section \<open>The outcome\<close>

text \<open>When nothing stops the chain of early returns.\<close>

definition window_clean :: "EvidencePolicyConfig \<Rightarrow> DomainObservation list \<Rightarrow> bool" where
  "window_clean cfg items \<longleftrightarrow>
     (\<forall>ob \<in> set items. \<not> vetoing ob \<and> quality_eligible ob \<and> pose_eligible ob) \<and>
     \<not> (vlm_inconclusive items \<and> reject_on_unclear cfg)"

lemma evidence_evaluate_verified:
  "cd_outcome (evidence_evaluate cfg items n revs) = DecisionOutcome.VERIFIED \<longleftrightarrow>
     window_clean cfg items \<and> min_cycles cfg \<le> int n \<and>
     min_persistence_ms cfg \<le> max_default 0 (map persistence_ms items) \<and>
     min_independent_channels cfg \<le> int (card {c. \<exists>ob \<in> set items. evidence_on c ob})"
proof (cases "veto_reason items")
  case None
  then show ?thesis
    using veto_reason_None_iff[of items]
    by (auto simp: evidence_evaluate_def Let_def completed_def window_clean_def list_ex_iff
        length_positive_signals)
next
  case (Some r)
  then have "\<not> window_clean cfg items"
    using veto_reason_None_iff[of items] by (auto simp: window_clean_def)
  with Some show ?thesis by (simp add: evidence_evaluate_def completed_def)
qed

lemma evidence_evaluate_eligibility:
  "cd_audio_eligibility (evidence_evaluate cfg items n revs) \<longleftrightarrow>
     cd_outcome (evidence_evaluate cfg items n revs) = DecisionOutcome.VERIFIED"
  by (simp add: evidence_evaluate_def Let_def completed_def split: option.split)

lemma evidence_evaluate_frame [simp]:
  "cd_evidence_channels (evidence_evaluate cfg items n revs) = canonical_channels items"
  "cd_stage (evidence_evaluate cfg items n revs) = COMPLETED"
  "cd_cycle_count (evidence_evaluate cfg items n revs) = n"
  "cd_model_revisions (evidence_evaluate cfg items n revs) = revs"
  by (simp_all add: evidence_evaluate_def Let_def completed_def split: option.split)


section \<open>Properties\<close>

text \<open>The verdict does not depend on the order in which Python happens to iterate over
  the frozen sets of positive channels and vetoes of the observations.\<close>

theorem evaluate_set_order_irrelevant:
  assumes "list_all2 same_sets xs ys"
  shows "evidence_evaluate cfg xs n revs = evidence_evaluate cfg ys n revs"
  using assms by (rule evidence_evaluate_cong)

theorem evaluate_set_order_irrelevant_witness:
  "let a = (observation_at 5)\<lparr>positive_channels := [''smoke'', ''vape''], vetoes := [''pen'', ''cup'']\<rparr>;
       b = (observation_at 5)\<lparr>positive_channels := [''vape'', ''smoke''], vetoes := [''cup'', ''pen'']\<rparr>
   in list_all2 same_sets [a] [b] \<and>
      evidence_evaluate default_evidence_config [a] 1 [] =
      evidence_evaluate default_evidence_config [b] 1 []"
proof -
  have "list_all2 same_sets
      [(observation_at 5)\<lparr>positive_channels := [''smoke'', ''vape''], vetoes := [''pen'', ''cup'']\<rparr>]
      [(observation_at 5)\<lparr>positive_channels := [''vape'', ''smoke''], vetoes := [''cup'', ''pen'']\<rparr>]"
    by (auto simp: same_sets_def observation_at_def)
  then show ?thesis
    using evaluate_set_order_irrelevant[where xs = "[_]" and ys = "[_]"] unfolding Let_def by blast
qed

definition known_channels_only :: "DomainObservation \<Rightarrow> DomainObservation" where
  "known_channels_only ob = ob\<lparr>positive_channels :=
     filter (\<lambda>ch. map_of CHANNEL_ALIASES ch \<noteq> None) (positive_channels ob)\<rparr>"

lemma fold_add_channel_known:
  "fold add_channel (filter (\<lambda>ch. map_of CHANNEL_ALIASES ch \<noteq> None) chs) sc = fold add_channel chs sc"
  by (induction chs arbitrary: sc) (auto simp: add_channel_def)

lemma add_observation_known [simp]: "add_observation (known_channels_only ob) = add_observation ob"
  by (rule ext) (simp add: add_observation_def known_channels_only_def Let_def
      fold_add_channel_known[unfolded not_None_eq])

lemma channel_scores_known: "channel_scores (map known_channels_only obs) = channel_scores obs"
  by (simp add: channel_scores_def fold_map o_def)

lemma veto_reason_known: "veto_reason (map known_channels_only obs) = veto_reason obs"
  by (induction obs) (simp_all add: known_channels_only_def cong: option.case_cong)

lemma known_channels_only_frame [simp]:
  "quality_eligible (known_channels_only ob) = quality_eligible ob"
  "pose_eligible (known_channels_only ob) = pose_eligible ob"
  "persistence_ms (known_channels_only ob) = persistence_ms ob"
  "vlm (known_channels_only ob) = vlm ob"
  by (simp_all add: known_channels_only_def)

text \<open>Inventing channel names cannot help: dropping from every observation the channel
  names outside the allowlist leaves the whole decision unchanged.\<close>

theorem unknown_channels_are_ignored:
  "evidence_evaluate cfg (map known_channels_only items) n revs = evidence_evaluate cfg items n revs"
  unfolding evidence_evaluate_def vlm_inconclusive_def vlm_statuses_def list_ex_map_not
    canonical_channels_def channel_scores_known veto_reason_known map_map o_def
    known_channels_only_frame ..

lemma to_contract_canonical:
  assumes "es_name s \<in> canonical_names" and "unit_score (es_score s)"
  shows "to_contract s =
    Inr \<lparr>ec_name = es_name s, ec_score = es_score s, ec_positive = es_positive s\<rparr>"
proof -
  have "check_text 1 64 (es_name s) = Inr (es_name s)"
    using assms(1)
    by (auto simp: canonical_names_def check_text_def str_strip_def py_space_def Let_def)
  then show ?thesis using assms(2) by (simp add: to_contract_def EvidenceChannel_new_def)
qed

text \<open>The evidence attached to a decision over constructed observations is a list of
  at most four distinct canonical channels in name order, each of which converts to the
  \<open>EvidenceChannel\<close> contract without a validation error and is flagged positive exactly when its
  score is above zero.\<close>

theorem evidence_meets_contract:
  fixes cfg :: EvidencePolicyConfig and n :: nat and revs :: "(string \<times> string) list"
  assumes "\<forall>ob \<in> set items. DomainObservation_post_init ob = Inr ob"
  defines "ev \<equiv> cd_evidence_channels (evidence_evaluate cfg items n revs)"
  shows "distinct (map es_name ev) \<and> sorted (map es_name ev) \<and> set (map es_name ev) \<subseteq> canonical_names \<and>
    (\<forall>s \<in> set ev. (es_positive s \<longleftrightarrow> 0 < es_score s) \<and>
      to_contract s = Inr \<lparr>ec_name = es_name s, ec_score = es_score s, ec_positive = es_positive s\<rparr>)"
proof -
  have "scores_all (\<lambda>n v. n \<in> canonical_names \<and> unit_score v) (channel_scores items)"
    using assms(1) by (intro scores_channel_scores) (simp add: post_init_valid)
  then have ok: "fst p \<in> canonical_names \<and> unit_score (snd p)" if "p \<in> set (channel_scores items)" for p
    using that distinct_channel_scores[of items]
    by (cases p) (auto simp: scores_all_def map_of_eq_Some_iff)
  show ?thesis
    unfolding ev_def evidence_evaluate_frame canonical_channels_names set_canonical_channels
    using ok to_contract_canonical[of "signal_of p" for p]
    by (auto simp: distinct_channel_scores) (auto simp: signal_of_def)
qed

theorem evidence_meets_contract_witness:
  "let ob = (observation_at 7)\<lparr>object_label := Some ''vape'', object_score := 3 / 4\<rparr>
   in (\<forall>x \<in> set [ob]. DomainObservation_post_init x = Inr x) \<and>
      (\<forall>s \<in> set (cd_evidence_channels (evidence_evaluate default_evidence_config [ob] 0 [])).
         es_positive s \<longleftrightarrow> 0 < es_score s)"
proof -
  let ?ob = "(observation_at 7)\<lparr>object_label := Some ''vape'', object_score := 3 / 4\<rparr>"
  have "\<forall>x \<in> set [?ob]. DomainObservation_post_init x = Inr x"
    by (simp add: post_init_valid valid_observation_def observation_at_def unit_score_def)
  with evidence_meets_contract[OF this, of default_evidence_config 0 "[]"] show ?thesis
    unfolding Let_def by blast
qed

end
