(* ===== verification/Engine.thy ===== *)
theory Engine
  imports Track Evidence "HOL-Library.Product_Lexorder"
begin

text \<open>
  The facade of \<open>src/tp_smoke_detect/domain/cascade/engine.py\<close>: one engine owns a track and an
  evidence policy; \<open>ingest\<close> feeds the track and re-evaluates the current window.  The theorems
  state what a decision of the cascade means in terms of the observations it was fed.
\<close>

section \<open>Model\<close>

record CascadePolicy =
  cp_gap_tolerance_ms :: int
  cp_cycle :: CycleDetectorConfig
  cp_evidence :: EvidencePolicyConfig

definition default_cascade_policy :: CascadePolicy where
  "default_cascade_policy = \<lparr>cp_gap_tolerance_ms = 2000, cp_cycle = default_cycle_config,
     cp_evidence = default_evidence_config\<rparr>"

record CascadeEngine =
  eng_policy :: CascadePolicy
  eng_track :: TrackState
  eng_last_ingest_reasons :: "ReasonCode list"

definition CascadeEngine_new :: "string \<Rightarrow> string \<Rightarrow> CascadePolicy \<Rightarrow> CascadeEngine result" where
  "CascadeEngine_new camera track policy =
    (case TrackState_new camera track (cp_gap_tolerance_ms policy) (cp_cycle policy) of
       Inl e \<Rightarrow> raise e
     | Inr s \<Rightarrow> ret \<lparr>eng_policy = policy, eng_track = s, eng_last_ingest_reasons = []\<rparr>)"

definition engine_evaluate :: "CascadeEngine \<Rightarrow> CascadeDecision" where
  "engine_evaluate e =
    (let obs = ts_observations (eng_track e)
     in evidence_evaluate (cp_evidence (eng_policy e)) obs (track_cycle_count (eng_track e))
          (py_sorted (concat (map model_revisions obs))))"

definition engine_ingest :: "DomainObservation \<Rightarrow> CascadeEngine \<Rightarrow> CascadeDecision \<times> CascadeEngine" where
  "engine_ingest ob e =
    (let (reasons, s) = track_ingest ob (eng_track e);
         e' = e\<lparr>eng_track := s, eng_last_ingest_reasons := reasons\<rparr>
     in (engine_evaluate e', e'))"

definition engine_run :: "DomainObservation list \<Rightarrow> CascadeEngine \<Rightarrow> CascadeEngine" where
  "engine_run obs e = fold (\<lambda>ob e. snd (engine_ingest ob e)) obs e"

section \<open>Running an engine\<close>

lemma engine_ingest_parts [simp]:
  "eng_track (snd (engine_ingest ob e)) = snd (track_ingest ob (eng_track e))"
  "eng_policy (snd (engine_ingest ob e)) = eng_policy e"
  "fst (engine_ingest ob e) = engine_evaluate (snd (engine_ingest ob e))"
  by (simp_all add: engine_ingest_def case_prod_beta Let_def)

lemma engine_run_track [simp]: "eng_track (engine_run obs e) = track_run obs (eng_track e)"
  by (induction obs arbitrary: e) (simp_all add: engine_run_def)

lemma engine_run_policy [simp]: "eng_policy (engine_run obs e) = eng_policy e"
  by (induction obs arbitrary: e) (simp_all add: engine_run_def)

lemma engine_evaluate_cong:
  "eng_track a = eng_track b \<Longrightarrow> eng_policy a = eng_policy b \<Longrightarrow>
   engine_evaluate a = engine_evaluate b"
  by (simp add: engine_evaluate_def)

lemma engine_new_track:
  assumes "CascadeEngine_new cam trk pol = Inr e"
  shows "eng_policy e = pol" and "window_inv (eng_track e)" and "log_inv (eng_track e)"
    and "ts_cycle_config (eng_track e) = cp_cycle pol"
    and "ts_gap_tolerance_ms (eng_track e) = cp_gap_tolerance_ms pol"
  using assms
  by (auto simp: CascadeEngine_new_def split: sum.splits dest: window_inv_new log_inv_new)
    (auto simp: TrackState_new_def split: if_splits)

text \<open>In a window nothing is a retry or late, so the detector acts on every observation.\<close>

lemma accepted_window:
  assumes "distinct (map fingerprint_of obs)" and "sorted (map timestamp_ns obs)"
    and "fingerprint_of ` set obs \<inter> S = {}" and "\<forall>ob \<in> set obs. \<not> late prev ob"
  shows "accepted S prev obs = obs"
  using assms by (induction S prev obs rule: accepted.induct) (auto simp: late_def not_less)

lemma window_cycle_count:
  assumes "window_inv s"
  shows "track_cycle_count s = length (pair_cycles (ts_cycle_config s)
    (pairs None (map (classify (ts_cycle_config s)) (ts_observations s))))"
proof -
  have "sorted (map timestamp_ns (ts_observations s))"
    using assms chained_adjacent_sorted by (auto simp: window_inv_def)
  then have "accepted {} None (ts_observations s) = ts_observations s"
    using assms by (intro accepted_window) (simp_all add: window_inv_def late_def)
  then show ?thesis
    using assms
    by (simp add: track_cycle_count_def det_count_def window_inv_def run_detector_reference)
qed

lemma window_source: "set (ts_observations (track_run obs s)) \<subseteq> set (ts_observations s) \<union> set obs"
proof (induction obs arbitrary: s)
  case (Cons ob obs)
  have "set (ts_observations (snd (track_ingest ob s))) \<subseteq> insert ob (set (ts_observations s))"
    by (auto simp: track_ingest_def Let_def case_prod_beta append_observation_def open_window_def
        split: if_splits)
  with Cons.IH[of "snd (track_ingest ob s)"] show ?case by auto
qed simp

section \<open>Properties\<close>

text \<open>Property C5.  A cascade engine, fed any sequence of observations from its construction,
  verifies exactly when the current aggregation window has no veto, no ineligible observation and
  no inconclusive verifier result that the policy rejects on, contains enough completed
  approach-retreat cycles (as counted by the reference machine over the window), shows enough
  persistence, and carries evidence on enough distinct channels; and it is eligible for audio
  exactly when it verifies.\<close>

theorem cascade_verified_iff:
  fixes obs :: "DomainObservation list"
  assumes "CascadeEngine_new cam trk pol = Inr e0"
  defines "e \<equiv> engine_run obs e0"
  defines "w \<equiv> ts_observations (eng_track e)"
  shows "(cd_outcome (engine_evaluate e) = DecisionOutcome.VERIFIED \<longleftrightarrow>
      (\<forall>ob \<in> set w. \<not> vetoing ob \<and> quality_eligible ob \<and> pose_eligible ob) \<and>
      \<not> (vlm_inconclusive w \<and> reject_on_unclear (cp_evidence pol)) \<and>
      min_cycles (cp_evidence pol) \<le>
        int (length (pair_cycles (cp_cycle pol) (pairs None (map (classify (cp_cycle pol)) w)))) \<and>
      min_persistence_ms (cp_evidence pol) \<le> max_default 0 (map persistence_ms w) \<and>
      min_independent_channels (cp_evidence pol) \<le>
        int (card {c. \<exists>ob \<in> set w. evidence_on c ob})) \<and>
    (cd_audio_eligibility (engine_evaluate e) \<longleftrightarrow>
       cd_outcome (engine_evaluate e) = DecisionOutcome.VERIFIED)"
proof -
  note new = engine_new_track[OF assms(1)]
  have "window_inv (eng_track e)"
    unfolding e_def using new by (simp add: window_inv_run)
  from window_cycle_count[OF this] show ?thesis
    unfolding engine_evaluate_def Let_def evidence_evaluate_eligibility
    by (simp add: evidence_evaluate_verified window_clean_def e_def w_def new)
qed

definition sample_approach :: DomainObservation where
  "sample_approach = (observation_at 0)\<lparr>hand_to_mouth := True, contact_target := target_mouth,
     mouth_dwell_ms := 300, object_label := Some ''cigarette'', object_score := 9 / 10,
     persistence_ms := 2500\<rparr>"

definition sample_retreat :: DomainObservation where
  "sample_retreat = (observation_at 1000000000)\<lparr>contact_target := target_mouth,
     hand_retreat := True, smoke_score := 1 / 2, persistence_ms := 2500\<rparr>"

definition sample_engine :: CascadeEngine where
  "sample_engine = projr (CascadeEngine_new ''cam'' ''trk'' default_cascade_policy)"

lemma sample_engine_new:
  "CascadeEngine_new ''cam'' ''trk'' default_cascade_policy = Inr sample_engine"
  by (simp add: sample_engine_def CascadeEngine_new_def TrackState_new_def
      default_cascade_policy_def)

lemma sample_verified:
  "cd_outcome (engine_evaluate (engine_run [sample_approach, sample_retreat] sample_engine)) =
     DecisionOutcome.VERIFIED"
  by code_simp

text \<open>Witness: two observations, an approach with a cigarette and a retreat with smoke one second
  later, verify under the default policy.\<close>

theorem cascade_verified_iff_witness:
  "CascadeEngine_new ''cam'' ''trk'' default_cascade_policy = Inr sample_engine \<and>
   1 \<le> length (pair_cycles default_cycle_config (pairs None (map (classify default_cycle_config)
     (ts_observations (eng_track (engine_run [sample_approach, sample_retreat] sample_engine))))))"
  using cascade_verified_iff[OF sample_engine_new, of "[sample_approach, sample_retreat]"]
    sample_verified sample_engine_new
  by (simp add: default_cascade_policy_def default_evidence_config_def)

text \<open>Re-delivering observations that a cascade engine already ingested, in any order
  and any number of times, changes neither its track state nor its decision.\<close>

theorem cascade_redelivery_idempotent:
  assumes "set again \<subseteq> set obs"
  shows "eng_track (engine_run again (engine_run obs e)) = eng_track (engine_run obs e) \<and>
    engine_evaluate (engine_run again (engine_run obs e)) = engine_evaluate (engine_run obs e)"
proof
  show "eng_track (engine_run again (engine_run obs e)) = eng_track (engine_run obs e)"
    using assms by (simp add: track_run_redelivery)
  then show "engine_evaluate (engine_run again (engine_run obs e)) =
      engine_evaluate (engine_run obs e)"
    by (rule engine_evaluate_cong) simp
qed

theorem cascade_redelivery_idempotent_witness:
  "set [sample_retreat, sample_retreat] \<subseteq> set [sample_approach, sample_retreat] \<and>
   cd_outcome (engine_evaluate (engine_run [sample_retreat, sample_retreat]
     (engine_run [sample_approach, sample_retreat] sample_engine))) = DecisionOutcome.VERIFIED"
  using cascade_redelivery_idempotent[of "[sample_retreat, sample_retreat]"
      "[sample_approach, sample_retreat]" sample_engine] sample_verified
  by simp

text \<open>Property C22.  The aggregation window of a track, fed any sequence of observations from its
  construction, is made of fed observations, each once, in timestamp order, never further apart
  than the gap tolerance; its cycle detector is the detector run over exactly this window (so no
  cycle joins observations across a gap), and first and last seen are the window's ends.\<close>

theorem track_window_invariant:
  assumes "TrackState_new cam trk gap cfg = Inr s0"
  shows "window_inv (track_run obs s0) \<and> set (ts_observations (track_run obs s0)) \<subseteq> set obs \<and>
    sorted (map timestamp_ns (ts_observations (track_run obs s0)))"
proof -
  have inv: "window_inv (track_run obs s0)"
    using assms by (simp add: window_inv_new window_inv_run)
  have "ts_observations s0 = []"
    using assms by (auto simp: TrackState_new_def split: if_splits)
  then have "set (ts_observations (track_run obs s0)) \<subseteq> set obs"
    using window_source[of obs s0] by simp
  moreover have "sorted (map timestamp_ns (ts_observations (track_run obs s0)))"
    using inv chained_adjacent_sorted by (auto simp: window_inv_def)
  ultimately show ?thesis using inv by blast
qed

definition sample_track :: TrackState where
  "sample_track = eng_track sample_engine"

lemma sample_track_new: "TrackState_new ''cam'' ''trk'' 2000 default_cycle_config = Inr sample_track"
  by (simp add: sample_track_def sample_engine_def CascadeEngine_new_def TrackState_new_def
      default_cascade_policy_def)

theorem track_window_invariant_witness:
  "TrackState_new ''cam'' ''trk'' 2000 default_cycle_config = Inr sample_track \<and>
   window_inv (track_run [sample_approach, sample_retreat] sample_track)"
  using track_window_invariant[OF sample_track_new, of "[sample_approach, sample_retreat]"]
    sample_track_new
  by blast

text \<open>The transition log of a track is a path of the stage machine: it starts in
  \<open>DETECTED\<close>, each entry starts in the stage the previous one ended in and is a legal move with the
  reason codes of that move, timestamps never decrease, and the last entry ends in the current
  stage; in particular a track is in \<open>REVIEW\<close> only through a recorded \<open>CYCLE_DETECTED\<close> move from
  \<open>TEMPORAL\<close>.\<close>

theorem track_log_is_stage_path:
  assumes "TrackState_new cam trk gap cfg = Inr s0"
  shows "log_path (ts_last_seen_ns (track_run obs s0)) (track_run obs s0) \<and>
    (ts_stage (track_run obs s0) = REVIEW \<longrightarrow>
      (\<exists>tr \<in> set (ts_transitions (track_run obs s0)).
        from_stage tr = TEMPORAL \<and> to_stage tr = REVIEW \<and> tr_reason_codes tr = [CYCLE_DETECTED]))"
proof (intro conjI impI)
  let ?s = "track_run obs s0"
  have "log_inv ?s"
    using assms by (simp add: log_inv_new log_inv_run)
  then show path: "log_path (ts_last_seen_ns ?s) ?s"
    by (simp add: log_inv_def)
  assume review: "ts_stage ?s = REVIEW"
  let ?tr = "last (ts_transitions ?s)"
  have ne: "ts_transitions ?s \<noteq> []"
    using path review by (auto simp: log_path_def split: if_splits)
  note end_of_log = log_path_last[OF path ne]
  have "from_stage ?tr = TEMPORAL \<and> tr_reason_codes ?tr = [CYCLE_DETECTED]"
    using end_of_log(3) by (auto simp: review elim: edge_to_review)
  with end_of_log(1,2) review
  show "\<exists>tr \<in> set (ts_transitions ?s). from_stage tr = TEMPORAL \<and> to_stage tr = REVIEW \<and>
      tr_reason_codes tr = [CYCLE_DETECTED]"
    by auto
qed

lemma sample_review: "ts_stage (track_run [sample_approach, sample_retreat] sample_track) = REVIEW"
  by code_simp

theorem track_log_is_stage_path_witness:
  "TrackState_new ''cam'' ''trk'' 2000 default_cycle_config = Inr sample_track \<and>
   (\<exists>tr \<in> set (ts_transitions (track_run [sample_approach, sample_retreat] sample_track)).
      tr_reason_codes tr = [CYCLE_DETECTED])"
  using track_log_is_stage_path[OF sample_track_new, of "[sample_approach, sample_retreat]"]
    sample_review sample_track_new
  by blast

end
