(* ===== verification/Json.thy ===== *)
theory Json
  imports Prelude
begin

text \<open>
  The JSON values and dictionaries the repository stores and returns, with the dictionary
  operations the sources use and the decoding helpers of
  \<open>src/tp_smoke_detect/adapters/persistence/sqlite.py\<close>.  A dictionary is an association list in
  insertion order.  \<open>_json\<close> and \<open>json.loads\<close> are inverse on these values, so a column that holds
  JSON text holds the value.

  A string in ISO 8601 form is kept apart from other strings as \<open>JTime\<close>, with the instant it
  denotes: \<open>datetime.fromisoformat\<close> reads it back and fails on every other string.  The code writes
  timestamps in UTC (\<open>_now\<close>, \<open>astimezone(UTC).isoformat()\<close>), where the order of the strings, which
  SQL uses, is the order of the instants.
\<close>

section \<open>Values\<close>

datatype json =
    JNull
  | JBool bool
  | JInt int
  | JFloat rat
  | JStr string
  | JTime datetime
  | JList "json list"
  | JObj "(string \<times> json) list"

type_synonym dict = "(string \<times> json) list"

text \<open>An optional string.\<close>

definition json_opt :: "string option \<Rightarrow> json" where
  "json_opt s = (case s of None \<Rightarrow> JNull | Some x \<Rightarrow> JStr x)"

text \<open>\<open>d.get(k)\<close>, \<open>d[k]\<close>, \<open>d[k] = v\<close>, \<open>d.setdefault(k, v)\<close> and \<open>d.update(e)\<close>.\<close>

definition dget :: "dict \<Rightarrow> string \<Rightarrow> json" where
  "dget d k = (case map_of d k of None \<Rightarrow> JNull | Some v \<Rightarrow> v)"

definition ditem :: "dict \<Rightarrow> string \<Rightarrow> json result" where
  "ditem d k = (case map_of d k of None \<Rightarrow> raise (KeyError k) | Some v \<Rightarrow> ret v)"

definition dset :: "dict \<Rightarrow> string \<Rightarrow> json \<Rightarrow> dict" where
  "dset d k v = AList.update k v d"

definition dsetdefault :: "dict \<Rightarrow> string \<Rightarrow> json \<Rightarrow> dict" where
  "dsetdefault d k v = (if map_of d k = None then d @ [(k, v)] else d)"

definition dupdate :: "dict \<Rightarrow> dict \<Rightarrow> dict" where
  "dupdate d e = fold (\<lambda>(k, v) d. dset d k v) e d"

text \<open>\<open>value.get(key, default)\<close>: an explicit null is a value.\<close>

definition dget_or :: "dict \<Rightarrow> string \<Rightarrow> json \<Rightarrow> json" where
  "dget_or d k v = (case map_of d k of None \<Rightarrow> v | Some x \<Rightarrow> x)"

text \<open>\<open>isinstance(x, str)\<close>.\<close>

definition is_str :: "json \<Rightarrow> bool" where
  "is_str v = (case v of JStr _ \<Rightarrow> True | JTime _ \<Rightarrow> True | _ \<Rightarrow> False)"

text \<open>A value read where the code expects a JSON object: \<open>json.loads(x) if x else {}\<close>.\<close>

fun as_dict :: "json \<Rightarrow> dict" where
  "as_dict (JObj d) = d"
| "as_dict _ = []"

text \<open>\<open>bool(x)\<close>.\<close>

fun truthy :: "json \<Rightarrow> bool" where
  "truthy JNull = False"
| "truthy (JBool b) = b"
| "truthy (JInt n) = (n \<noteq> 0)"
| "truthy (JFloat x) = (x \<noteq> 0)"
| "truthy (JStr s) = (s \<noteq> [])"
| "truthy (JTime t) = True"
| "truthy (JList xs) = (xs \<noteq> [])"
| "truthy (JObj d) = (d \<noteq> [])"

text \<open>\<open>datetime.fromisoformat(str(x))\<close>.\<close>

fun fromisoformat :: "json \<Rightarrow> datetime result" where
  "fromisoformat (JTime t) = ret t"
| "fromisoformat _ = raise (ValueError ''Invalid isoformat string'')"

text \<open>The string of a JSON string; the sources apply \<open>str\<close> only where one is stored.\<close>

fun text_of :: "json \<Rightarrow> string" where
  "text_of (JStr s) = s"
| "text_of _ = []"

abbreviation jtime :: "time_us \<Rightarrow> json" where
  "jtime t \<equiv> JTime (Aware t)"

section \<open>Dictionary laws\<close>

lemma map_of_dset [simp]: "map_of (dset d k v) = (map_of d)(k \<mapsto> v)"
  by (simp add: dset_def)

lemma map_of_dsetdefault:
  "map_of (dsetdefault d k v) = (case map_of d k of None \<Rightarrow> (map_of d)(k \<mapsto> v) | Some _ \<Rightarrow> map_of d)"
  by (auto simp: dsetdefault_def map_add_def fun_eq_iff split: option.splits)

lemma map_of_dsetdefault_other [simp]: "j \<noteq> k \<Longrightarrow> map_of (dsetdefault d k v) j = map_of d j"
  by (simp add: map_of_dsetdefault split: option.split)

lemma dget_dset [simp]: "dget (dset d k v) j = (if j = k then v else dget d j)"
  by (simp add: dget_def)

lemma ditem_dset [simp]: "ditem (dset d k v) j = (if j = k then ret v else ditem d j)"
  by (simp add: ditem_def)

lemma dget_dsetdefault_other [simp]: "j \<noteq> k \<Longrightarrow> dget (dsetdefault d k v) j = dget d j"
  by (simp add: dget_def)

lemma ditem_dsetdefault_other [simp]: "j \<noteq> k \<Longrightarrow> ditem (dsetdefault d k v) j = ditem d j"
  by (simp add: ditem_def)

lemma dsetdefault_present [simp]: "ditem d k = Inr x \<Longrightarrow> dsetdefault d k v = d"
  by (auto simp: dsetdefault_def ditem_def split: option.splits)

text \<open>After \<open>setdefault\<close> the key is there, with its own value when it had one.\<close>

lemma ditem_dsetdefault:
  "ditem (dsetdefault d k v) k = (case map_of d k of None \<Rightarrow> ret v | Some x \<Rightarrow> ret x)"
  by (simp add: ditem_def map_of_dsetdefault split: option.split)

lemma ditem_Inr_dget: "ditem d k = Inr v \<Longrightarrow> dget d k = v"
  by (simp add: ditem_def dget_def split: option.splits)

lemma dget_ditem: "dget d k \<noteq> JNull \<Longrightarrow> ditem d k = Inr (dget d k)"
  by (simp add: ditem_def dget_def split: option.splits)

lemma dupdate_Nil [simp]: "dupdate d [] = d"
  by (simp add: dupdate_def)

lemma dupdate_Cons [simp]: "dupdate d ((k, v) # e) = dupdate (dset d k v) e"
  by (simp add: dupdate_def)

text \<open>\<open>update\<close> overwrites the keys of its argument and keeps the others.\<close>

lemma map_of_dupdate: "distinct (map fst e) \<Longrightarrow> map_of (dupdate d e) = map_of d ++ map_of e"
proof (induction e arbitrary: d)
  case (Cons p e)
  then show ?case
    by (cases p) (auto simp: fun_eq_iff map_add_def map_of_eq_None_iff[THEN iffD2] split: option.splits)
qed simp

lemma dget_dupdate_other: "k \<notin> fst ` set e \<Longrightarrow> dget (dupdate d e) k = dget d k"
  by (induction e arbitrary: d) auto

section \<open>Decoding\<close>

definition BOOLEAN_KEYS :: "string list" where
  "BOOLEAN_KEYS = [''active'', ''audio_eligibility'', ''deleted'', ''enabled'']"

text \<open>\<open>_normalize_persisted(value, key=key)\<close>.\<close>

function normalize_persisted :: "string option \<Rightarrow> json \<Rightarrow> json" where
  "normalize_persisted key (JBool b) = JBool b"
| "normalize_persisted key (JInt n) =
     (case key of Some k \<Rightarrow> if k \<in> set BOOLEAN_KEYS then JBool (n \<noteq> 0) else JInt n | None \<Rightarrow> JInt n)"
| "normalize_persisted key (JObj d) = JObj (map (\<lambda>(k, v). (k, normalize_persisted (Some k) v)) d)"
| "normalize_persisted key (JList xs) = JList (map (normalize_persisted None) xs)"
| "normalize_persisted key JNull = JNull"
| "normalize_persisted key (JFloat x) = JFloat x"
| "normalize_persisted key (JStr s) = JStr s"
| "normalize_persisted key (JTime t) = JTime t"
  by pat_completeness auto

termination
proof (relation "measure (size \<circ> snd)", goal_cases)
  case (2 key d x k v)
  then have "size v < Suc (size_list (size_prod (\<lambda>_. 0) size) d)"
    by (induction d) auto
  then show ?case by simp
next
  case (3 key xs x)
  then have "size x < Suc (size_list size xs)"
    by (induction xs) auto
  then show ?case by simp
qed simp

definition normalize_dict :: "dict \<Rightarrow> dict" where
  "normalize_dict d = as_dict (normalize_persisted None (JObj d))"

text \<open>The boolean keys of the stored payload never leave the repository as SQLite integers.\<close>

lemma normalize_dict_lookup:
  "map_of (normalize_dict d) k = map_option (normalize_persisted (Some k)) (map_of d k)"
  by (simp add: normalize_dict_def map_of_map_restrict) (induction d; auto)

lemma dget_normalize_dict [simp]:
  "dget (normalize_dict d) k = normalize_persisted (Some k) (dget d k)"
  by (simp add: dget_def normalize_dict_lookup split: option.split)

lemma normalize_persisted_idem [simp]:
  "normalize_persisted k (normalize_persisted k v) = normalize_persisted k v"
proof (induction k v rule: normalize_persisted.induct)
  case (3 key d)
  then show ?case by (auto split: prod.splits)
qed (auto split: option.splits)

lemma normalize_boolean_key:
  assumes "k \<in> set BOOLEAN_KEYS" and "normalize_persisted (Some k) v = JInt n"
  shows False
  using assms by (cases v) auto

end
