(* ===== verification/Sqlite.thy ===== *)
theory Sqlite
  imports Json
begin

text \<open>
  The \<open>sqlite3\<close> connection that \<open>src/tp_smoke_detect/adapters/persistence/sqlite.py\<close> shares between
  its methods, in the module's default transaction mode: a \<open>SELECT\<close> opens no transaction, a data
  modification opens one implicitly and leaves it open when the statement fails (a failed statement
  changes nothing), \<open>BEGIN IMMEDIATE\<close> is refused inside a transaction, and \<open>commit\<close> and \<open>rollback\<close>
  outside one do nothing.  \<open>_synchronized\<close> runs every method under one lock, so a method is one
  function from the connection to a result and the connection after it.

  The state holds the committed database, the database as the connection sees it, and
  \<open>in_transaction\<close>.
\<close>

section \<open>Connections and commands\<close>

record 'd conn =
  cn_committed :: 'd
  cn_work :: 'd
  cn_in_transaction :: bool

type_synonym ('a, 'd) cmd = "'d conn \<Rightarrow> 'a result \<times> 'd conn"

definition cret :: "'a \<Rightarrow> ('a, 'd) cmd" where
  "cret x c = (ret x, c)"

definition clift :: "'a result \<Rightarrow> ('a, 'd) cmd" where
  "clift r c = (r, c)"

definition cbind :: "('a, 'd) cmd \<Rightarrow> ('a \<Rightarrow> ('b, 'd) cmd) \<Rightarrow> ('b, 'd) cmd" where
  "cbind m f c = (case m c of (Inl e, c') \<Rightarrow> (raise e, c') | (Inr x, c') \<Rightarrow> f x c')"

text \<open>A \<open>SELECT\<close>; a data modification, which yields a value such as the row count; \<open>BEGIN
  IMMEDIATE\<close>; \<open>commit\<close>; \<open>rollback\<close>; \<open>connection.in_transaction\<close>.\<close>

definition sql_read :: "('d \<Rightarrow> 'a) \<Rightarrow> ('a, 'd) cmd" where
  "sql_read q c = (ret (q (cn_work c)), c)"

definition sql_write :: "('d \<Rightarrow> ('a \<times> 'd) result) \<Rightarrow> ('a, 'd) cmd" where
  "sql_write s c = (case s (cn_work c) of
     Inl e \<Rightarrow> (raise e, c\<lparr>cn_in_transaction := True\<rparr>)
   | Inr (x, d) \<Rightarrow> (ret x, c\<lparr>cn_work := d, cn_in_transaction := True\<rparr>))"

definition begin_immediate :: "(unit, 'd) cmd" where
  "begin_immediate c =
    (if cn_in_transaction c
     then (raise (OperationalError ''cannot start a transaction within a transaction''), c)
     else (ret (), c\<lparr>cn_in_transaction := True\<rparr>))"

definition commit :: "(unit, 'd) cmd" where
  "commit c = (ret (), c\<lparr>cn_committed := cn_work c, cn_in_transaction := False\<rparr>)"

definition rollback :: "(unit, 'd) cmd" where
  "rollback c = (ret (), c\<lparr>cn_work := cn_committed c, cn_in_transaction := False\<rparr>)"

definition in_transaction :: "(bool, 'd) cmd" where
  "in_transaction c = (ret (cn_in_transaction c), c)"

text \<open>\<open>try: body except Exception: rollback; raise\<close> and \<open>with connection: body\<close>.\<close>

definition rollback_on_error :: "('a, 'd) cmd \<Rightarrow> ('a, 'd) cmd" where
  "rollback_on_error m c = (case m c of
     (Inl e, c') \<Rightarrow> (raise e, snd (rollback c'))
   | (Inr x, c') \<Rightarrow> (ret x, c'))"

definition with_connection :: "('a, 'd) cmd \<Rightarrow> ('a, 'd) cmd" where
  "with_connection m c = (case m c of
     (Inl e, c') \<Rightarrow> (raise e, snd (rollback c'))
   | (Inr x, c') \<Rightarrow> (ret x, snd (commit c')))"

section \<open>Idle and open connections\<close>

text \<open>Between two methods of a healthy repository the connection is idle on its database; inside a
  transaction it carries the database to fall back to.\<close>

definition idle :: "'d \<Rightarrow> 'd conn" where
  "idle d = \<lparr>cn_committed = d, cn_work = d, cn_in_transaction = False\<rparr>"

definition open_on :: "'d \<Rightarrow> 'd \<Rightarrow> 'd conn" where
  "open_on d0 d = \<lparr>cn_committed = d0, cn_work = d, cn_in_transaction = True\<rparr>"

lemma cn_idle [simp]:
  "cn_committed (idle d) = d" "cn_work (idle d) = d" "\<not> cn_in_transaction (idle d)"
  by (simp_all add: idle_def)

lemma cn_open_on [simp]:
  "cn_committed (open_on d0 d) = d0" "cn_work (open_on d0 d) = d" "cn_in_transaction (open_on d0 d)"
  by (simp_all add: open_on_def)

lemma idle_inject [simp]: "idle d = idle e \<longleftrightarrow> d = e"
  by (metis cn_idle(1))

lemma open_on_inject [simp]: "open_on d0 d = open_on e0 e \<longleftrightarrow> d0 = e0 \<and> d = e"
  by (metis cn_open_on(1,2))

lemma cret_apply [simp]: "cret x c = (Inr x, c)"
  by (simp add: cret_def)

lemma clift_apply [simp]: "clift r c = (r, c)"
  by (simp add: clift_def)

lemma begin_immediate_idle [simp]: "begin_immediate (idle d) = (Inr (), open_on d d)"
  by (simp add: begin_immediate_def idle_def open_on_def)

lemma begin_immediate_open [simp]:
  "begin_immediate (open_on d0 d) =
    (Inl (OperationalError ''cannot start a transaction within a transaction''), open_on d0 d)"
  by (simp add: begin_immediate_def open_on_def)

lemma commit_simps [simp]:
  "commit (open_on d0 d) = (Inr (), idle d)" "commit (idle d) = (Inr (), idle d)"
  by (simp_all add: commit_def idle_def open_on_def)

lemma rollback_simps [simp]:
  "rollback (open_on d0 d) = (Inr (), idle d0)" "rollback (idle d) = (Inr (), idle d)"
  by (simp_all add: rollback_def idle_def open_on_def)

lemma in_transaction_simps [simp]:
  "in_transaction (open_on d0 d) = (Inr True, open_on d0 d)"
  "in_transaction (idle d) = (Inr False, idle d)"
  by (simp_all add: in_transaction_def)

lemma sql_read_apply [simp]: "sql_read q c = (Inr (q (cn_work c)), c)"
  by (simp add: sql_read_def)

lemma sql_write_open [simp]:
  "sql_write s (open_on d0 d) = (case s d of
     Inl e \<Rightarrow> (Inl e, open_on d0 d) | Inr (x, d') \<Rightarrow> (Inr x, open_on d0 d'))"
  by (simp add: sql_write_def open_on_def split: sum.split prod.split)

lemma sql_write_idle [simp]:
  "sql_write s (idle d) = (case s d of
     Inl e \<Rightarrow> (Inl e, open_on d d) | Inr (x, d') \<Rightarrow> (Inr x, open_on d d'))"
  by (simp add: sql_write_def open_on_def idle_def split: sum.split prod.split)

lemma cbind_cret [simp]: "cbind (cret x) f = f x"
  by (simp add: cbind_def fun_eq_iff)

lemma cbind_clift: "cbind (clift r) f c = (case r of Inl e \<Rightarrow> (Inl e, c) | Inr x \<Rightarrow> f x c)"
  by (simp add: cbind_def split: sum.split)

lemma cbind_assoc: "cbind (cbind m f) g = cbind m (\<lambda>x. cbind (f x) g)"
  by (auto simp: cbind_def fun_eq_iff split: sum.splits prod.splits)

lemma cbind_apply_Inr: "m c = (Inr x, c') \<Longrightarrow> cbind m f c = f x c'"
  by (simp add: cbind_def)

lemma cbind_apply_Inl: "m c = (Inl e, c') \<Longrightarrow> cbind m f c = (Inl e, c')"
  by (simp add: cbind_def)

section \<open>Atomic commands\<close>

text \<open>A command is atomic when, started idle, it ends idle, and an error leaves the database as it
  was.\<close>

definition atomic :: "('a, 'd) cmd \<Rightarrow> bool" where
  "atomic m \<longleftrightarrow> (\<forall>d. \<exists>r d'. m (idle d) = (r, idle d') \<and> ((\<exists>e. r = Inl e) \<longrightarrow> d' = d))"

text \<open>Inside a transaction a body may read, write and raise; it may end the transaction only as its
  last act.  \<open>in_txn\<close> says that every error still has the transaction (or the untouched database)
  to roll back.\<close>

definition ends_idle :: "('a, 'd) cmd \<Rightarrow> 'd \<Rightarrow> 'd \<Rightarrow> bool" where
  "ends_idle m d0 d \<longleftrightarrow>
    (\<exists>x d'. m (open_on d0 d) = (Inr x, idle d')) \<or>
    (\<exists>e d'. m (open_on d0 d) = (Inl e, open_on d0 d')) \<or> (\<exists>e. m (open_on d0 d) = (Inl e, idle d0))"

lemma atomic_rollback_on_error:
  assumes "\<And>d. ends_idle m d d"
  shows "atomic (rollback_on_error (cbind begin_immediate (\<lambda>_. m)))"
  unfolding atomic_def
proof
  fix d
  show "\<exists>r d'. rollback_on_error (cbind begin_immediate (\<lambda>_. m)) (idle d) = (r, idle d') \<and>
      ((\<exists>e. r = Inl e) \<longrightarrow> d' = d)"
    using assms[of d] by (auto simp: ends_idle_def rollback_on_error_def cbind_def)
qed

lemma atomicD:
  assumes "atomic m"
  obtains r d' where "m (idle d) = (r, idle d')" and "\<And>e. r = Inl e \<Longrightarrow> d' = d"
  using assms unfolding atomic_def by blast

lemma atomic_cases:
  assumes "atomic m"
  obtains (error) e where "m (idle d) = (Inl e, idle d)"
  | (ok) x d' where "m (idle d) = (Inr x, idle d')"
  using assms unfolding atomic_def by (metis sum.exhaust)

end
