(* ===== verification/Schema.thy ===== *)
theory Schema
  imports Sqlite
begin

text \<open>
  The schema of \<open>SQLiteAuditRepository._migrate\<close>: one record per table row, a table as the list of
  its rows in insertion order, and the statements the methods execute on the tables, with the
  constraints the schema declares (primary keys, \<open>UNIQUE\<close>, \<open>NOT NULL\<close>, foreign keys, which the
  connection switches on).  A column is a JSON value, \<open>JNull\<close> being SQL's \<open>NULL\<close>; a column of JSON
  text holds the value it is the text of.  \<open>AUTOINCREMENT\<close> counters are part of the database.
\<close>

section \<open>Rows\<close>

record decision_row =
  dr_decision_id :: json
  dr_camera_id :: json
  dr_track_id :: json
  dr_outcome :: json
  dr_reason_codes :: json
  dr_evidence_channels :: json
  dr_model_revisions :: json
  dr_policy_revision :: json
  dr_latency_ms :: json
  dr_mode :: json
  dr_audio_eligibility :: json
  dr_audio_outcome :: json
  dr_payload :: json
  dr_created_at :: json

record review_row =
  rr_review_id :: json
  rr_decision_id :: json
  rr_label :: json
  rr_actor :: json
  rr_reason :: json
  rr_created_at :: json
  rr_payload :: json

record mode_row =
  mr_change_id :: json
  mr_mode :: json
  mr_reason :: json
  mr_actor :: json
  mr_created_at :: json
  mr_payload :: json

record camera_row =
  cr_camera_id :: json
  cr_revision :: json
  cr_payload :: json
  cr_updated_at :: json

record artifact_row =
  af_artifact_id :: json
  af_path :: json
  af_media_type :: json
  af_size_bytes :: json
  af_deleted :: bool
  af_created_at :: json
  af_payload :: json

record audit_row =
  au_audit_id :: nat
  au_artifact_id :: json
  au_media_class :: json
  au_action :: json
  au_status :: json
  au_error :: json
  au_created_at :: json

record evaluation_row =
  ev_evaluation_id :: json
  ev_decision_id :: json
  ev_status :: json
  ev_idempotency_key :: json
  ev_request_fingerprint :: json
  ev_claim_expires_at :: json
  ev_result :: json
  ev_payload :: json
  ev_created_at :: json
  ev_updated_at :: json

record mute_row =
  mu_mute_id :: json
  mu_scope :: json
  mu_scope_id :: json
  mu_expires_at :: json
  mu_actor :: json
  mu_reason :: json
  mu_created_at :: json
  mu_payload :: json

record receipt_row =
  ar_receipt_id :: json
  ar_decision_id :: json
  ar_camera_id :: json
  ar_zone_id :: json
  ar_outcome :: json
  ar_reason_code :: json
  ar_command_id :: json
  ar_playback :: json
  ar_created_at :: json
  ar_payload :: json

record attempt_row =
  aa_attempt_id :: nat
  aa_receipt_id :: json
  aa_attempt_no :: nat
  aa_decision_id :: json
  aa_outcome :: json
  aa_reason_code :: json
  aa_command_id :: json
  aa_playback :: json
  aa_created_at :: json
  aa_payload :: json

record model_row =
  mo_model_id :: json
  mo_payload :: json
  mo_created_at :: json

record db =
  db_decisions :: "decision_row list"
  db_reviews :: "review_row list"
  db_mode_changes :: "mode_row list"
  db_cameras :: "camera_row list"
  db_artifacts :: "artifact_row list"
  db_retention_audits :: "audit_row list"
  db_audit_seq :: nat
  db_evaluations :: "evaluation_row list"
  db_mutes :: "mute_row list"
  db_audio_receipts :: "receipt_row list"
  db_audio_receipt_attempts :: "attempt_row list"
  db_attempt_seq :: nat
  db_model_releases :: "model_row list"

definition empty_db :: db where
  "empty_db = \<lparr>db_decisions = [], db_reviews = [], db_mode_changes = [], db_cameras = [],
     db_artifacts = [], db_retention_audits = [], db_audit_seq = 0, db_evaluations = [],
     db_mutes = [], db_audio_receipts = [], db_audio_receipt_attempts = [], db_attempt_seq = 0,
     db_model_releases = []\<rparr>"

type_synonym 'a repo = "('a, db) cmd"

section \<open>Constraints\<close>

definition not_null :: "json list \<Rightarrow> bool" where
  "not_null cols \<longleftrightarrow> JNull \<notin> set cols"

abbreviation constraint_error :: "string \<Rightarrow> 'a result" where
  "constraint_error what \<equiv> raise (IntegrityError what)"

text \<open>The instant of a timestamp column, for \<open>ORDER BY\<close> and for the comparison operators.\<close>

fun col_time :: "json \<Rightarrow> time_us" where
  "col_time (JTime t) = astimezone_utc t"
| "col_time _ = 0"

text \<open>\<open>SELECT ... WHERE key = ?\<close> with \<open>fetchone\<close>: SQL equality never holds for \<open>NULL\<close>.\<close>

definition sql_eq :: "json \<Rightarrow> json \<Rightarrow> bool" where
  "sql_eq a b \<longleftrightarrow> a \<noteq> JNull \<and> a = b"

definition fetch_by :: "('r \<Rightarrow> json) \<Rightarrow> json \<Rightarrow> 'r list \<Rightarrow> 'r option" where
  "fetch_by key k rows = find (\<lambda>r. sql_eq (key r) k) rows"

text \<open>\<open>ORDER BY created_at\<close> and \<open>ORDER BY created_at DESC\<close>; the rows SQLite leaves unordered keep
  their insertion order.\<close>

definition order_by :: "('r \<Rightarrow> json) \<Rightarrow> 'r list \<Rightarrow> 'r list" where
  "order_by key rows = sort_key (\<lambda>r. col_time (key r)) rows"

definition order_by_desc :: "('r \<Rightarrow> json) \<Rightarrow> 'r list \<Rightarrow> 'r list" where
  "order_by_desc key rows = sort_key (\<lambda>r. - col_time (key r)) rows"

lemma set_order_by [simp]: "set (order_by key rows) = set rows"
  by (simp add: order_by_def)

lemma set_order_by_desc [simp]: "set (order_by_desc key rows) = set rows"
  by (simp add: order_by_desc_def)

text \<open>\<open>INSERT\<close> of a row under a primary key and \<open>NOT NULL\<close> columns.\<close>

definition insert_row :: "('r \<Rightarrow> json) \<Rightarrow> ('r \<Rightarrow> json list) \<Rightarrow> 'r \<Rightarrow> 'r list \<Rightarrow> 'r list result" where
  "insert_row key required r rows =
    (if \<not> not_null (required r) then constraint_error ''NOT NULL constraint failed''
     else if key r \<noteq> JNull \<and> key r \<in> set (map key rows) then constraint_error ''UNIQUE constraint failed''
     else ret (rows @ [r]))"

text \<open>\<open>UPDATE ... WHERE\<close>, with the row count.\<close>

definition update_rows :: "('r \<Rightarrow> bool) \<Rightarrow> ('r \<Rightarrow> 'r) \<Rightarrow> 'r list \<Rightarrow> 'r list" where
  "update_rows p f rows = map (\<lambda>r. if p r then f r else r) rows"

definition row_count :: "('r \<Rightarrow> bool) \<Rightarrow> 'r list \<Rightarrow> nat" where
  "row_count p rows = length (filter p rows)"

lemma insert_row_Inr:
  "insert_row key required r rows = Inr rows' \<longleftrightarrow>
    not_null (required r) \<and> (key r = JNull \<or> key r \<notin> set (map key rows)) \<and> rows' = rows @ [r]"
  by (auto simp: insert_row_def)

lemma insert_row_distinct:
  assumes "insert_row key required r rows = Inr rows'" and "distinct (map key rows)"
    and "key r \<noteq> JNull"
  shows "distinct (map key rows')"
  using assms by (auto simp: insert_row_Inr)

lemma map_update_rows_key:
  assumes "\<And>r. p r \<Longrightarrow> key (f r) = key r"
  shows "map key (update_rows p f rows) = map key rows"
  using assms by (simp add: update_rows_def)

lemma fetch_by_None:
  "fetch_by key k rows = None \<longleftrightarrow> k = JNull \<or> k \<notin> set (map key rows)"
  by (auto simp: fetch_by_def sql_eq_def find_None_iff)

lemma fetch_by_Some:
  assumes "fetch_by key k rows = Some r"
  shows "r \<in> set rows" "key r = k" "k \<noteq> JNull"
  using assms by (auto simp: fetch_by_def sql_eq_def find_Some_iff)

text \<open>Under a primary key a row is found by its own key.\<close>

lemma fetch_by_distinct:
  assumes "distinct (map key rows)" and "r \<in> set rows" and "key r \<noteq> JNull"
  shows "fetch_by key (key r) rows = Some r"
proof (cases "fetch_by key (key r) rows")
  case None
  then show ?thesis using assms by (auto simp: fetch_by_None)
next
  case (Some r')
  then show ?thesis
    using fetch_by_Some[OF Some] assms by (metis inj_on_eq_iff distinct_map)
qed

lemma fetch_by_append:
  "fetch_by key k (rows @ [r]) = (case fetch_by key k rows of
     Some x \<Rightarrow> Some x | None \<Rightarrow> if sql_eq (key r) k then Some r else None)"
  unfolding fetch_by_def by (induction rows) auto

text \<open>An update that keeps the key acts on what a lookup finds.\<close>

lemma fetch_by_update_rows:
  assumes "\<And>r. p r \<Longrightarrow> key (f r) = key r"
  shows "fetch_by key k (update_rows p f rows) =
    map_option (\<lambda>r. if p r then f r else r) (fetch_by key k rows)"
  using assms unfolding fetch_by_def update_rows_def by (induction rows) auto

end
