(* ===== verification/Audit_Store.thy ===== *)
theory Audit_Store
  imports Schema
begin

text \<open>
  Decisions, reviews, site mode, cameras and mutes of \<open>SQLiteAuditRepository\<close>
  (\<open>src/tp_smoke_detect/adapters/persistence/sqlite.py\<close>).  \<open>now\<close> is the value of \<open>_now()\<close> during the
  call.  A \<open>KeyError\<close> while the parameters are collected comes before the statement, so no
  transaction is open after it; a constraint failure comes from inside the statement and leaves
  the implicit transaction open, as in \<open>sqlite3\<close>.
\<close>

section \<open>Helpers\<close>

text \<open>\<open>item.get(key, default)\<close> and \<open>int(x)\<close> on the booleans and integers the callers store.\<close>

definition dget_default :: "dict \<Rightarrow> string \<Rightarrow> json \<Rightarrow> json" where
  "dget_default d k v = (case map_of d k of None \<Rightarrow> v | Some x \<Rightarrow> x)"

fun py_int :: "json \<Rightarrow> int result" where
  "py_int (JBool b) = ret (if b then 1 else 0)"
| "py_int (JInt n) = ret n"
| "py_int _ = raise (TypeError ''int() argument must be a number'')"

text \<open>\<open>_decode(row)\<close> of a row given as the dictionary of its columns.\<close>

definition json_columns :: "string list" where
  "json_columns = [''payload'', ''reason_codes'', ''evidence_channels'', ''model_revisions'', ''result'']"

definition decode :: "dict \<Rightarrow> dict" where
  "decode cols = normalize_dict (map (\<lambda>(k, v).
     if k \<in> set json_columns \<and> v \<noteq> JNull then (k, normalize_persisted None v) else (k, v)) cols)"

section \<open>Decisions\<close>

definition decision_row_of :: "dict \<Rightarrow> decision_row result" where
  "decision_row_of item =
    rbind (ditem item ''decision_id'') (\<lambda>decision.
    rbind (ditem item ''camera_id'') (\<lambda>camera.
    rbind (ditem item ''track_id'') (\<lambda>track.
    rbind (ditem item ''outcome'') (\<lambda>outcome.
    rbind (ditem item ''reason_codes'') (\<lambda>reasons.
    rbind (ditem item ''policy_revision'') (\<lambda>policy.
    rbind (ditem item ''latency_ms'') (\<lambda>latency.
    rbind (ditem item ''mode'') (\<lambda>mode.
    rbind (rbind (ditem item ''audio_eligibility'') py_int) (\<lambda>eligible.
    rbind (ditem item ''created_at'') (\<lambda>created.
      ret \<lparr>dr_decision_id = decision, dr_camera_id = camera, dr_track_id = track,
           dr_outcome = outcome, dr_reason_codes = reasons,
           dr_evidence_channels = dget_default item ''evidence_channels'' (JList []),
           dr_model_revisions = dget_default item ''model_revisions'' (JObj []),
           dr_policy_revision = policy, dr_latency_ms = latency, dr_mode = mode,
           dr_audio_eligibility = JInt eligible, dr_audio_outcome = dget item ''audio_outcome'',
           dr_payload = JObj item, dr_created_at = created\<rparr>))))))))))"

definition decision_required :: "decision_row \<Rightarrow> json list" where
  "decision_required r = [dr_camera_id r, dr_track_id r, dr_outcome r, dr_policy_revision r,
     dr_latency_ms r, dr_mode r, dr_created_at r]"

definition insert_decision :: "decision_row \<Rightarrow> db \<Rightarrow> (unit \<times> db) result" where
  "insert_decision r d =
    rbind (insert_row dr_decision_id decision_required r (db_decisions d)) (\<lambda>rows.
      ret ((), d\<lparr>db_decisions := rows\<rparr>))"

definition put_decision :: "time_us \<Rightarrow> dict \<Rightarrow> dict repo" where
  "put_decision now decision =
    (let item = dsetdefault decision ''created_at'' (jtime now) in
     cbind in_transaction (\<lambda>was_in_transaction.
     cbind (clift (decision_row_of item)) (\<lambda>row.
     cbind (sql_write (insert_decision row)) (\<lambda>_.
     cbind (if \<not> was_in_transaction then commit else cret ()) (\<lambda>_. cret item)))))"

definition decision_columns :: "decision_row \<Rightarrow> dict" where
  "decision_columns r =
    [(''decision_id'', dr_decision_id r), (''camera_id'', dr_camera_id r), (''track_id'', dr_track_id r),
     (''outcome'', dr_outcome r), (''reason_codes'', dr_reason_codes r),
     (''evidence_channels'', dr_evidence_channels r), (''model_revisions'', dr_model_revisions r),
     (''policy_revision'', dr_policy_revision r), (''latency_ms'', dr_latency_ms r), (''mode'', dr_mode r),
     (''audio_eligibility'', dr_audio_eligibility r), (''audio_outcome'', dr_audio_outcome r),
     (''payload'', dr_payload r), (''created_at'', dr_created_at r)]"

definition get_decision :: "json \<Rightarrow> dict option repo" where
  "get_decision decision_id = sql_read (\<lambda>d.
     map_option (decode \<circ> decision_columns) (fetch_by dr_decision_id decision_id (db_decisions d)))"

text \<open>\<open>EXISTS (SELECT 1 FROM json_each(reason_codes) WHERE value = ?)\<close>.\<close>

definition has_reason :: "json \<Rightarrow> decision_row \<Rightarrow> bool" where
  "has_reason reason r \<longleftrightarrow> (case dr_reason_codes r of
     JList xs \<Rightarrow> list_ex (\<lambda>v. sql_eq v reason) xs
   | JObj kvs \<Rightarrow> list_ex (\<lambda>(k, v). sql_eq v reason) kvs
   | v \<Rightarrow> sql_eq v reason)"

text \<open>A bound of the query is bound as its own \<open>isoformat\<close> text: \<open>tb_reading\<close> is its local reading and \<open>tb_offset\<close> its distance
  from UTC, \<open>None\<close> for a naive one.  SQL compares the texts: by the readings, then a naive text is a prefix of the stored one
  and every other zone sorts after \<open>+00:00\<close>.\<close>

record time_bound =
  tb_reading :: time_us
  tb_offset :: "int option"

definition text_before :: "time_us \<Rightarrow> time_bound \<Rightarrow> bool" where
  "text_before t b \<longleftrightarrow> t < tb_reading b \<or> (t = tb_reading b \<and> tb_offset b \<notin> {None, Some 0})"

lemma text_before_utc: "tb_offset b \<in> {None, Some 0} \<Longrightarrow> text_before t b \<longleftrightarrow> t < tb_reading b"
  by (auto simp: text_before_def)

text \<open>A bound from another zone is off by the distance: eight hours east, a decision made after the bound counts as before it.\<close>

lemma text_before_other_zone:
  "text_before 3600000000 \<lparr>tb_reading = 28800000000, tb_offset = Some 28800000000\<rparr>"
  by (simp add: text_before_def)

definition list_decisions ::
  "json \<Rightarrow> json \<Rightarrow> json \<Rightarrow> time_bound option \<Rightarrow> time_bound option \<Rightarrow> int \<Rightarrow> int \<Rightarrow> dict list repo" where
  "list_decisions camera_id outcome reason before after limit offset = sql_read (\<lambda>d.
     let rows = filter (\<lambda>r.
           (truthy camera_id \<longrightarrow> sql_eq (dr_camera_id r) camera_id) \<and>
           (truthy outcome \<longrightarrow> sql_eq (dr_outcome r) outcome) \<and>
           (truthy reason \<longrightarrow> has_reason reason r) \<and>
           (case before of None \<Rightarrow> True | Some b \<Rightarrow> text_before (col_time (dr_created_at r)) b) \<and>
           (case after of None \<Rightarrow> True | Some b \<Rightarrow> \<not> text_before (col_time (dr_created_at r)) b)) (db_decisions d);
         page = drop (nat offset) (order_by_desc dr_created_at rows)
     in map (decode \<circ> decision_columns) (if limit < 0 then page else take (nat limit) page))"

section \<open>Reviews and site mode\<close>

definition review_row_of :: "dict \<Rightarrow> review_row result" where
  "review_row_of item =
    rbind (ditem item ''review_id'') (\<lambda>review.
    rbind (ditem item ''decision_id'') (\<lambda>decision.
    rbind (ditem item ''label'') (\<lambda>label.
    rbind (ditem item ''actor'') (\<lambda>actor.
    rbind (ditem item ''created_at'') (\<lambda>created.
      ret \<lparr>rr_review_id = review, rr_decision_id = decision, rr_label = label, rr_actor = actor,
           rr_reason = dget item ''reason'', rr_created_at = created, rr_payload = JObj item\<rparr>)))))"

definition insert_review :: "review_row \<Rightarrow> db \<Rightarrow> (unit \<times> db) result" where
  "insert_review r d =
    rbind (insert_row rr_review_id (\<lambda>r. [rr_decision_id r, rr_label r, rr_actor r, rr_created_at r])
      r (db_reviews d)) (\<lambda>rows.
      if rr_decision_id r \<notin> set (map dr_decision_id (db_decisions d))
      then constraint_error ''FOREIGN KEY constraint failed''
      else ret ((), d\<lparr>db_reviews := rows\<rparr>))"

definition append_review :: "time_us \<Rightarrow> dict \<Rightarrow> dict repo" where
  "append_review now review =
    (let item = dsetdefault review ''created_at'' (jtime now) in
     cbind (clift (review_row_of item)) (\<lambda>row.
     cbind (sql_write (insert_review row)) (\<lambda>_.
     cbind commit (\<lambda>_. cret item))))"

definition mode_row_of :: "dict \<Rightarrow> mode_row result" where
  "mode_row_of item =
    rbind (ditem item ''change_id'') (\<lambda>change.
    rbind (ditem item ''mode'') (\<lambda>mode.
    rbind (ditem item ''reason'') (\<lambda>reason.
    rbind (ditem item ''actor'') (\<lambda>actor.
    rbind (ditem item ''created_at'') (\<lambda>created.
      ret \<lparr>mr_change_id = change, mr_mode = mode, mr_reason = reason, mr_actor = actor,
           mr_created_at = created, mr_payload = JObj item\<rparr>)))))"

definition insert_mode :: "mode_row \<Rightarrow> db \<Rightarrow> (unit \<times> db) result" where
  "insert_mode r d =
    rbind (insert_row mr_change_id (\<lambda>r. [mr_mode r, mr_reason r, mr_actor r, mr_created_at r])
      r (db_mode_changes d)) (\<lambda>rows. ret ((), d\<lparr>db_mode_changes := rows\<rparr>))"

definition append_mode_change :: "time_us \<Rightarrow> dict \<Rightarrow> dict repo" where
  "append_mode_change now change =
    (let item = dsetdefault change ''created_at'' (jtime now) in
     cbind (clift (mode_row_of item)) (\<lambda>row.
     cbind (sql_write (insert_mode row)) (\<lambda>_.
     cbind commit (\<lambda>_. cret item))))"

definition current_mode :: "dict option repo" where
  "current_mode = sql_read (\<lambda>d. case order_by_desc mr_created_at (db_mode_changes d) of
     [] \<Rightarrow> None | r # _ \<Rightarrow> Some (as_dict (mr_payload r)))"

section \<open>Cameras\<close>

definition camera_row_of :: "dict \<Rightarrow> camera_row result" where
  "camera_row_of item =
    rbind (ditem item ''camera_id'') (\<lambda>camera.
    rbind (ditem item ''revision'') (\<lambda>revision.
    rbind (ditem item ''updated_at'') (\<lambda>updated.
      ret \<lparr>cr_camera_id = camera, cr_revision = revision, cr_payload = JObj item,
           cr_updated_at = updated\<rparr>)))"

text \<open>\<open>INSERT ... ON CONFLICT(camera_id) DO UPDATE\<close>.\<close>

definition upsert_camera_row :: "camera_row \<Rightarrow> db \<Rightarrow> (unit \<times> db) result" where
  "upsert_camera_row r d =
    (if \<not> not_null [cr_revision r, cr_payload r, cr_updated_at r]
     then constraint_error ''NOT NULL constraint failed''
     else if cr_camera_id r \<noteq> JNull \<and> cr_camera_id r \<in> set (map cr_camera_id (db_cameras d))
     then ret ((), d\<lparr>db_cameras := update_rows (\<lambda>q. cr_camera_id q = cr_camera_id r)
       (\<lambda>q. q\<lparr>cr_revision := cr_revision r, cr_payload := cr_payload r, cr_updated_at := cr_updated_at r\<rparr>)
       (db_cameras d)\<rparr>)
     else ret ((), d\<lparr>db_cameras := db_cameras d @ [r]\<rparr>))"

definition upsert_camera :: "time_us \<Rightarrow> dict \<Rightarrow> dict repo" where
  "upsert_camera now camera =
    (let item = dsetdefault camera ''updated_at'' (jtime now) in
     cbind (clift (camera_row_of item)) (\<lambda>row.
     cbind (sql_write (upsert_camera_row row)) (\<lambda>_.
     cbind commit (\<lambda>_. cret item))))"

definition list_cameras :: "dict list repo" where
  "list_cameras = sql_read (\<lambda>d. map (\<lambda>r. as_dict (cr_payload r))
     (sort_key (\<lambda>r. text_of (cr_camera_id r)) (db_cameras d)))"

definition get_camera :: "json \<Rightarrow> dict option repo" where
  "get_camera camera_id = sql_read (\<lambda>d.
     map_option (\<lambda>r. normalize_dict (as_dict (cr_payload r)))
       (fetch_by cr_camera_id camera_id (db_cameras d)))"

section \<open>Mutes and model releases\<close>

definition mute_row_of :: "dict \<Rightarrow> mute_row result" where
  "mute_row_of item =
    rbind (ditem item ''mute_id'') (\<lambda>mute.
    rbind (ditem item ''scope'') (\<lambda>scope.
    rbind (ditem item ''actor'') (\<lambda>actor.
    rbind (ditem item ''reason'') (\<lambda>reason.
    rbind (ditem item ''created_at'') (\<lambda>created.
      ret \<lparr>mu_mute_id = mute, mu_scope = scope, mu_scope_id = dget item ''scope_id'',
           mu_expires_at = dget item ''expires_at'', mu_actor = actor, mu_reason = reason,
           mu_created_at = created, mu_payload = JObj item\<rparr>)))))"

definition insert_mute :: "mute_row \<Rightarrow> db \<Rightarrow> (unit \<times> db) result" where
  "insert_mute r d =
    rbind (insert_row mu_mute_id (\<lambda>r. [mu_scope r, mu_actor r, mu_reason r, mu_created_at r])
      r (db_mutes d)) (\<lambda>rows. ret ((), d\<lparr>db_mutes := rows\<rparr>))"

text \<open>The expiry a mute is stored with: an aware time, in UTC.\<close>

definition checked_expiry :: "dict \<Rightarrow> dict result" where
  "checked_expiry item =
    (if dget item ''expires_at'' = JNull then ret item
     else rbind (fromisoformat (dget item ''expires_at'')) (\<lambda>expiry. case expiry of
       Naive _ \<Rightarrow> raise (ValueError ''mute expires_at must include a timezone'')
     | Aware t \<Rightarrow> ret (dset item ''expires_at'' (jtime t))))"

definition put_mute :: "time_us \<Rightarrow> dict \<Rightarrow> dict repo" where
  "put_mute now mute =
    cbind (clift (checked_expiry (dsetdefault mute ''created_at'' (jtime now)))) (\<lambda>item.
    cbind (clift (mute_row_of item)) (\<lambda>row.
    cbind (sql_write (insert_mute row)) (\<lambda>_.
    cbind commit (\<lambda>_. cret item))))"

text \<open>A naive expiry of an old row is read as UTC.\<close>

definition read_mute :: "mute_row \<Rightarrow> dict result" where
  "read_mute r =
    (let item = normalize_dict (as_dict (mu_payload r)) in
     if dget item ''expires_at'' = JNull then ret item
     else rbind (fromisoformat (dget item ''expires_at'')) (\<lambda>expiry.
       ret (dset item ''expires_at'' (jtime (case expiry of Naive t \<Rightarrow> t | Aware t \<Rightarrow> t)))))"

definition list_mutes :: "dict list repo" where
  "list_mutes = cbind (sql_read (\<lambda>d. order_by_desc mu_created_at (db_mutes d))) (\<lambda>rows.
     clift (rmap read_mute rows))"

definition list_models :: "dict list repo" where
  "list_models = sql_read (\<lambda>d.
     map (\<lambda>r. as_dict (mo_payload r)) (order_by_desc mo_created_at (db_model_releases d)))"

end
