(* ===== verification/Evaluation_Store.thy ===== *)
theory Evaluation_Store
  imports Audit_Store
begin

text \<open>
  Idempotent evaluations of \<open>SQLiteAuditRepository\<close>: the claim of an idempotency key, its lease, the
  atomic completion of decision and evaluation, and the failure that makes a claim retryable.
\<close>

definition EVALUATION_LEASE_SECONDS :: int where
  "EVALUATION_LEASE_SECONDS = 300"

section \<open>Statements\<close>

definition evaluation_foreign_key :: "json \<Rightarrow> db \<Rightarrow> bool" where
  "evaluation_foreign_key decision d \<longleftrightarrow>
    decision = JNull \<or> decision \<in> set (map dr_decision_id (db_decisions d))"

text \<open>\<open>INSERT INTO evaluations ... ON CONFLICT(idempotency_key) DO NOTHING\<close>, with the row count.\<close>

definition insert_evaluation :: "evaluation_row \<Rightarrow> db \<Rightarrow> (nat \<times> db) result" where
  "insert_evaluation r d =
    (if \<not> not_null [ev_status r, ev_created_at r, ev_updated_at r]
     then constraint_error ''NOT NULL constraint failed''
     else if ev_evaluation_id r \<noteq> JNull \<and> ev_evaluation_id r \<in> set (map ev_evaluation_id (db_evaluations d))
     then constraint_error ''UNIQUE constraint failed''
     else if ev_idempotency_key r \<noteq> JNull \<and>
       ev_idempotency_key r \<in> set (map ev_idempotency_key (db_evaluations d))
     then ret (0, d)
     else if \<not> evaluation_foreign_key (ev_decision_id r) d
     then constraint_error ''FOREIGN KEY constraint failed''
     else ret (1, d\<lparr>db_evaluations := db_evaluations d @ [r]\<rparr>))"

definition update_evaluation :: "json \<Rightarrow> (evaluation_row \<Rightarrow> evaluation_row) \<Rightarrow> db \<Rightarrow> (unit \<times> db) result" where
  "update_evaluation eid f d =
    (let hit = filter (\<lambda>r. sql_eq (ev_evaluation_id r) eid) (db_evaluations d) in
     if \<not> list_all (\<lambda>r. not_null [ev_status (f r), ev_updated_at (f r)]) hit
     then constraint_error ''NOT NULL constraint failed''
     else if \<not> list_all (\<lambda>r. evaluation_foreign_key (ev_decision_id (f r)) d) hit
     then constraint_error ''FOREIGN KEY constraint failed''
     else ret ((), d\<lparr>db_evaluations :=
       update_rows (\<lambda>r. sql_eq (ev_evaluation_id r) eid) f (db_evaluations d)\<rparr>))"

definition delete_evaluations :: "(evaluation_row \<Rightarrow> bool) \<Rightarrow> db \<Rightarrow> (unit \<times> db) result" where
  "delete_evaluations p d = ret ((), d\<lparr>db_evaluations := filter (\<lambda>r. \<not> p r) (db_evaluations d)\<rparr>)"

section \<open>Operations\<close>

definition evaluation_payload :: "evaluation_row \<Rightarrow> dict" where
  "evaluation_payload r =
    dupdate (as_dict (normalize_persisted (Some ''payload'') (normalize_persisted None (ev_payload r))))
      [(''evaluation_id'', ev_evaluation_id r), (''status'', ev_status r),
       (''result'', if ev_result r = JNull then JNull
          else normalize_persisted (Some ''result'') (normalize_persisted None (ev_result r)))]"

definition get_evaluation :: "json \<Rightarrow> dict option repo" where
  "get_evaluation eid = sql_read (\<lambda>d.
     map_option evaluation_payload (fetch_by ev_evaluation_id eid (db_evaluations d)))"

definition get_evaluation_by_idempotency :: "json \<Rightarrow> dict option repo" where
  "get_evaluation_by_idempotency key =
    cbind (sql_read (\<lambda>d. fetch_by ev_idempotency_key key (db_evaluations d))) (\<lambda>row. case row of
      None \<Rightarrow> cret None | Some r \<Rightarrow> get_evaluation (ev_evaluation_id r))"

text \<open>The decision an evaluation is linked to: the item's own, or the one nested in its result.\<close>

definition linked_decision :: "dict \<Rightarrow> json" where
  "linked_decision item =
    (if dget item ''decision_id'' \<noteq> JNull then dget item ''decision_id''
     else dget (as_dict (dget (as_dict (dget item ''result'')) ''decision'')) ''decision_id'')"

text \<open>The two writes of \<open>put_evaluation\<close>: completing a row found by its id, and inserting one.\<close>

definition complete_evaluation :: "dict \<Rightarrow> evaluation_row \<Rightarrow> unit repo" where
  "complete_evaluation item existing =
    (if ev_idempotency_key existing = dget item ''idempotency_key'' then
       cbind (clift (ditem item ''status'')) (\<lambda>status.
       cbind (clift (ditem item ''updated_at'')) (\<lambda>updated.
       cbind (clift (ditem item ''evaluation_id'')) (\<lambda>eid.
       sql_write (update_evaluation eid (\<lambda>r. r\<lparr>
         ev_decision_id := dget item ''decision_id'', ev_status := status,
         ev_result := dget item ''result'', ev_payload := JObj item,
         ev_request_fingerprint := dget_default item ''request_fingerprint'' (ev_request_fingerprint existing),
         ev_claim_expires_at := dget_default item ''claim_expires_at'' (ev_claim_expires_at existing),
         ev_updated_at := updated\<rparr>)))))
     else cret ())"

definition insert_new_evaluation :: "dict \<Rightarrow> unit repo" where
  "insert_new_evaluation item =
    cbind (sql_read (\<lambda>d. fetch_by ev_idempotency_key (dget item ''idempotency_key'') (db_evaluations d))) (\<lambda>existing_key.
    if (case existing_key of None \<Rightarrow> False
        | Some r \<Rightarrow> dget item ''request_fingerprint'' \<noteq> ev_request_fingerprint r)
    then clift (raise IdempotencyConflictError)
    else
      cbind (clift (ditem item ''evaluation_id'')) (\<lambda>eid.
      cbind (clift (ditem item ''status'')) (\<lambda>status.
      cbind (clift (ditem item ''created_at'')) (\<lambda>created.
      cbind (clift (ditem item ''updated_at'')) (\<lambda>updated.
      cbind (sql_write (insert_evaluation
        \<lparr>ev_evaluation_id = eid, ev_decision_id = dget item ''decision_id'', ev_status = status,
         ev_idempotency_key = dget item ''idempotency_key'',
         ev_request_fingerprint = dget item ''request_fingerprint'',
         ev_claim_expires_at = dget item ''claim_expires_at'', ev_result = dget item ''result'',
         ev_payload = JObj item, ev_created_at = created, ev_updated_at = updated\<rparr>)) (\<lambda>_. cret ()))))))"

text \<open>The item \<open>put_evaluation\<close> stores, with its defaults and its link.\<close>

definition evaluation_item :: "time_us \<Rightarrow> dict \<Rightarrow> dict" where
  "evaluation_item now evaluation =
    (let item = dsetdefault evaluation ''created_at'' (jtime now);
         item = dsetdefault item ''updated_at'' (dget item ''created_at'')
     in dset item ''decision_id'' (linked_decision item))"

definition put_evaluation :: "time_us \<Rightarrow> dict \<Rightarrow> dict repo" where
  "put_evaluation now evaluation =
    (let item = evaluation_item now evaluation in
     cbind in_transaction (\<lambda>was_in_transaction.
     cbind (clift (ditem item ''evaluation_id'')) (\<lambda>eid.
     cbind (sql_read (\<lambda>d. fetch_by ev_evaluation_id eid (db_evaluations d))) (\<lambda>existing.
     cbind (case existing of
         Some r \<Rightarrow> complete_evaluation item r
       | None \<Rightarrow> insert_new_evaluation item) (\<lambda>_.
     cbind (sql_read (\<lambda>d. find (\<lambda>r. sql_eq (ev_evaluation_id r) eid \<or>
         sql_eq (ev_idempotency_key r) (dget item ''idempotency_key'')) (db_evaluations d))) (\<lambda>row.
     cbind (if \<not> was_in_transaction then commit else cret ()) (\<lambda>_.
     cbind (case row of
         Some r \<Rightarrow> if ev_evaluation_id r \<noteq> eid then get_evaluation (ev_evaluation_id r) else cret None
       | None \<Rightarrow> cret None) (\<lambda>winner. case winner of
         Some saved \<Rightarrow> cret saved
       | None \<Rightarrow> cbind (get_evaluation eid) (\<lambda>saved. cret (case saved of
           Some s \<Rightarrow> if s = [] then item else s | None \<Rightarrow> item))))))))))"

definition put_decision_and_evaluation :: "time_us \<Rightarrow> dict \<Rightarrow> dict \<Rightarrow> dict repo" where
  "put_decision_and_evaluation now decision evaluation =
    rollback_on_error (
      cbind begin_immediate (\<lambda>_.
      cbind (if dget evaluation ''idempotency_key'' \<noteq> JNull then
          cbind (clift (ditem evaluation ''evaluation_id'')) (\<lambda>eid.
          cbind (sql_read (\<lambda>d. fetch_by ev_evaluation_id eid (db_evaluations d))) (\<lambda>claim.
          if (case claim of None \<Rightarrow> True
              | Some r \<Rightarrow> ev_status r \<noteq> JStr ''running'' \<or>
                  ev_idempotency_key r \<noteq> dget evaluation ''idempotency_key'')
          then clift (raise EvaluationClaimLostError) else cret ()))
        else cret ()) (\<lambda>_.
      cbind (put_decision now decision) (\<lambda>_.
      cbind (put_evaluation now evaluation) (\<lambda>saved.
      cbind commit (\<lambda>_. cret saved))))))"

text \<open>The payload of a failed evaluation; \<open>error or "evaluation persistence failed"\<close>.\<close>

definition failed_payload :: "time_us \<Rightarrow> string option \<Rightarrow> dict \<Rightarrow> dict" where
  "failed_payload now error payload =
    dset (dset (dset payload ''status'' (JStr ''failed'')) ''updated_at'' (jtime now)) ''error''
      (JStr (case error of
         None \<Rightarrow> ''evaluation persistence failed''
       | Some e \<Rightarrow> if e = [] then ''evaluation persistence failed'' else e))"

definition failed_row :: "time_us \<Rightarrow> dict \<Rightarrow> evaluation_row \<Rightarrow> evaluation_row" where
  "failed_row now payload r = r\<lparr>ev_status := JStr ''failed'',
     ev_result := JObj [(''error'', JStr ''evaluation_failed''), (''retryable'', JBool True)],
     ev_payload := JObj payload, ev_updated_at := jtime now\<rparr>"

definition fail_evaluation :: "time_us \<Rightarrow> json \<Rightarrow> string option \<Rightarrow> unit repo" where
  "fail_evaluation now eid error =
    cbind (sql_read (\<lambda>d. fetch_by ev_evaluation_id eid (db_evaluations d))) (\<lambda>row. case row of
      None \<Rightarrow> cret ()
    | Some r \<Rightarrow>
        let payload = failed_payload now error (as_dict (ev_payload r))
        in cbind (sql_write (update_evaluation eid (failed_row now payload))) (\<lambda>_. commit))"

text \<open>A running claim is stale when its lease has expired, or, for a row without a lease, when its
  last update is a lease time ago.\<close>

definition stale_running :: "time_us \<Rightarrow> evaluation_row \<Rightarrow> bool result" where
  "stale_running now r =
    (if ev_status r \<noteq> JStr ''running'' then ret False
     else if truthy (ev_claim_expires_at r)
     then rbind (fromisoformat (ev_claim_expires_at r)) (\<lambda>t. ret (astimezone_utc t \<le> now))
     else rbind (fromisoformat (ev_updated_at r)) (\<lambda>t.
       ret (astimezone_utc t + EVALUATION_LEASE_SECONDS * us_per_second \<le> now)))"

definition claim_row :: "time_us \<Rightarrow> json \<Rightarrow> json \<Rightarrow> json \<Rightarrow> json \<Rightarrow> evaluation_row" where
  "claim_row now eid key camera fingerprint =
    (let lease = jtime (now + EVALUATION_LEASE_SECONDS * us_per_second) in
     \<lparr>ev_evaluation_id = eid, ev_decision_id = JNull, ev_status = JStr ''running'',
      ev_idempotency_key = key, ev_request_fingerprint = fingerprint, ev_claim_expires_at = lease,
      ev_result = JNull,
      ev_payload = JObj [(''evaluation_id'', eid), (''status'', JStr ''running''), (''result'', JNull),
        (''idempotency_key'', key), (''camera_id'', camera), (''request_fingerprint'', fingerprint),
        (''claim_expires_at'', lease), (''created_at'', jtime now), (''updated_at'', jtime now)],
      ev_created_at = jtime now, ev_updated_at = jtime now\<rparr>)"

text \<open>The release of a stale or failed predecessor: what is left of \<open>existing\<close> for the caller.\<close>

definition release_claim :: "time_us \<Rightarrow> json \<Rightarrow> json \<Rightarrow> evaluation_row \<Rightarrow> unit repo" where
  "release_claim later key fingerprint existing =
    (if fingerprint \<noteq> ev_request_fingerprint existing
     then clift (raise IdempotencyConflictError)
     else cbind (clift (stale_running later existing)) (\<lambda>stale.
       if stale then
         sql_write (delete_evaluations (\<lambda>r. sql_eq (ev_idempotency_key r) key \<and>
           sql_eq (ev_evaluation_id r) (ev_evaluation_id existing) \<and> ev_status r = JStr ''running''))
       else if ev_status existing = JStr ''failed'' then
         sql_write (delete_evaluations (\<lambda>r. sql_eq (ev_idempotency_key r) key \<and>
           sql_eq (ev_evaluation_id r) (ev_evaluation_id existing) \<and> ev_status r = JStr ''failed''))
       else cret ()))"

text \<open>\<open>now\<close> is the clock at the call, \<open>later\<close> the second reading inside the transaction.  The result
  is the row count of the insert.\<close>

definition claim_transaction :: "time_us \<Rightarrow> time_us \<Rightarrow> json \<Rightarrow> json \<Rightarrow> json \<Rightarrow> json \<Rightarrow> nat repo" where
  "claim_transaction now later eid key camera fingerprint =
    rollback_on_error (
      cbind begin_immediate (\<lambda>_.
      cbind (sql_read (\<lambda>d. fetch_by ev_idempotency_key key (db_evaluations d))) (\<lambda>existing.
      cbind (case existing of None \<Rightarrow> cret () | Some r \<Rightarrow> release_claim later key fingerprint r) (\<lambda>_.
      cbind (sql_write (insert_evaluation (claim_row now eid key camera fingerprint))) (\<lambda>n.
      cbind commit (\<lambda>_. cret n))))))"

definition claim_evaluation ::
  "time_us \<Rightarrow> time_us \<Rightarrow> json \<Rightarrow> json \<Rightarrow> json \<Rightarrow> json \<Rightarrow> dict option repo" where
  "claim_evaluation now later eid key camera fingerprint =
    cbind (claim_transaction now later eid key camera fingerprint) (\<lambda>n.
    if n = 1 then cret None else get_evaluation_by_idempotency key)"

end
