(* ===== verification/Receipts.thy ===== *)
theory Receipts
  imports Schema
begin

text \<open>
  The audio ledger of \<open>SQLiteAuditRepository\<close> (\<open>src/tp_smoke_detect/adapters/persistence/sqlite.py\<close>,
  lines 876 to 1330): reservation before the adapter is called, finalisation by the owner of the
  reservation token, reconciliation of an expired lease, the attempt history, and the queries.

  \<open>now\<close> stands for the value of \<open>datetime.now(UTC)\<close> during the call and \<open>token\<close> for the value of
  \<open>uuid4\<close>.  \<open>datetime.timestamp()\<close> of microsecond timestamps between 2004 and 2038 is exact enough for
  every comparison here: the grid of doubles in that range is finer than a microsecond and integer
  seconds lie on it, so rounding is monotone and injective; the model computes in microseconds.
\<close>

section \<open>Statements\<close>

definition receipt_required :: "receipt_row \<Rightarrow> json list" where
  "receipt_required r = [ar_decision_id r, ar_camera_id r, ar_zone_id r, ar_outcome r,
     ar_reason_code r, ar_created_at r, ar_payload r]"

definition insert_receipt :: "receipt_row \<Rightarrow> db \<Rightarrow> (unit \<times> db) result" where
  "insert_receipt r d =
    rbind (insert_row ar_receipt_id receipt_required r (db_audio_receipts d)) (\<lambda>rows.
      ret ((), d\<lparr>db_audio_receipts := rows\<rparr>))"

definition update_receipts ::
  "(receipt_row \<Rightarrow> bool) \<Rightarrow> (receipt_row \<Rightarrow> receipt_row) \<Rightarrow> db \<Rightarrow> (nat \<times> db) result" where
  "update_receipts p f d =
    (let rows = update_rows p f (db_audio_receipts d) in
     if list_all (\<lambda>r. not_null (receipt_required r)) (map f (filter p (db_audio_receipts d)))
     then ret (row_count p (db_audio_receipts d), d\<lparr>db_audio_receipts := rows\<rparr>)
     else constraint_error ''NOT NULL constraint failed'')"

text \<open>\<open>COALESCE(MAX(attempt_no), 0)\<close>.\<close>

definition max_attempt :: "json \<Rightarrow> db \<Rightarrow> nat" where
  "max_attempt rid d = fold max
     (map aa_attempt_no (filter (\<lambda>a. sql_eq (aa_receipt_id a) rid) (db_audio_receipt_attempts d))) 0"

definition insert_attempt ::
  "json \<Rightarrow> nat \<Rightarrow> receipt_row \<Rightarrow> db \<Rightarrow> (unit \<times> db) result" where
  "insert_attempt rid attempt_no r d =
    (if \<not> not_null [rid, ar_decision_id r, ar_outcome r, ar_reason_code r, ar_created_at r, ar_payload r]
     then constraint_error ''NOT NULL constraint failed''
     else if (rid, attempt_no) \<in> set (map (\<lambda>a. (aa_receipt_id a, aa_attempt_no a)) (db_audio_receipt_attempts d))
     then constraint_error ''UNIQUE constraint failed''
     else if rid \<notin> set (map ar_receipt_id (db_audio_receipts d))
     then constraint_error ''FOREIGN KEY constraint failed''
     else ret ((), d\<lparr>db_attempt_seq := Suc (db_attempt_seq d),
       db_audio_receipt_attempts := db_audio_receipt_attempts d @
         [\<lparr>aa_attempt_id = Suc (db_attempt_seq d), aa_receipt_id = rid, aa_attempt_no = attempt_no,
           aa_decision_id = ar_decision_id r, aa_outcome = ar_outcome r,
           aa_reason_code = ar_reason_code r, aa_command_id = ar_command_id r,
           aa_playback = ar_playback r, aa_created_at = ar_created_at r,
           aa_payload = ar_payload r\<rparr>]\<rparr>))"

text \<open>The column values of an item, in the order the code evaluates them.\<close>

definition receipt_row_of :: "json \<Rightarrow> dict \<Rightarrow> json \<Rightarrow> json \<Rightarrow> receipt_row result" where
  "receipt_row_of rid item playback payload =
    rbind (ditem item ''decision_id'') (\<lambda>decision.
    rbind (ditem item ''camera_id'') (\<lambda>camera.
    rbind (ditem item ''zone_id'') (\<lambda>zone.
    rbind (ditem item ''outcome'') (\<lambda>outcome.
    rbind (ditem item ''reason_code'') (\<lambda>reason.
    rbind (ditem item ''created_at'') (\<lambda>created.
      ret \<lparr>ar_receipt_id = rid, ar_decision_id = decision, ar_camera_id = camera,
           ar_zone_id = zone, ar_outcome = outcome, ar_reason_code = reason,
           ar_command_id = dget item ''command_id'', ar_playback = playback,
           ar_created_at = created, ar_payload = payload\<rparr>))))))"

section \<open>Playback status\<close>

definition playback_status :: "receipt_row \<Rightarrow> json" where
  "playback_status r = dget (as_dict (ar_playback r)) ''status''"

definition playback_token :: "receipt_row \<Rightarrow> json" where
  "playback_token r = dget (as_dict (ar_playback r)) ''reservation_token''"

text \<open>The statuses that count towards the caps and the cooldown, which are also the ones
  \<open>put_audio_receipt\<close> never overwrites.\<close>

definition counted_statuses :: "json list" where
  "counted_statuses = [JStr ''accepted'', JStr ''pending'', JStr ''failed'', JStr ''expired'',
     JStr ''uncertain'', JStr ''duplicate'']"

definition counted :: "receipt_row \<Rightarrow> bool" where
  "counted r \<longleftrightarrow> playback_status r \<in> set counted_statuses"

definition rejected :: "string \<Rightarrow> dict" where
  "rejected reason =
    [(''reservation_status'', JStr ''rejected''), (''reservation_reason'', JStr reason)]"

section \<open>Operations\<close>

definition get_audio_receipt :: "json \<Rightarrow> dict option repo" where
  "get_audio_receipt rid = sql_read (\<lambda>d.
     map_option (\<lambda>r. normalize_dict (as_dict (ar_payload r)))
       (fetch_by ar_receipt_id rid (db_audio_receipts d)))"

text \<open>\<open>self.get_audio_receipt(receipt_id) or item\<close>.\<close>

definition stored_or :: "json \<Rightarrow> dict \<Rightarrow> dict repo" where
  "stored_or rid item = cbind (get_audio_receipt rid) (\<lambda>found. cret (case found of
     Some d \<Rightarrow> if d = [] then item else d | None \<Rightarrow> item))"

text \<open>The limits a reservation is made under: \<open>cooldown_seconds\<close>, \<open>hourly_audio_cap\<close>,
  \<open>daily_audio_cap\<close> and \<open>reservation_ttl_seconds\<close>.\<close>

record limits =
  lim_cooldown :: int
  lim_hourly :: int
  lim_daily :: int
  lim_ttl :: int

text \<open>The first rejection of lines 959 to 973, on the times of the counted receipts of the zone.\<close>

definition limit_rejection :: "limits \<Rightarrow> time_us \<Rightarrow> time_us list \<Rightarrow> string option" where
  "limit_rejection l now accepted =
    (if lim_hourly l \<noteq> 0 \<and>
        lim_hourly l \<le> int (length (filter (\<lambda>t. now - 3600 * us_per_second \<le> t) accepted))
     then Some ''hourly_cap''
     else if lim_daily l \<noteq> 0 \<and>
        lim_daily l \<le> int (length (filter (\<lambda>t. utc_date t = utc_date now) accepted))
     then Some ''daily_cap''
     else if lim_cooldown l \<noteq> 0 \<and>
        list_ex (\<lambda>t. now - max (lim_cooldown l) 0 * us_per_second \<le> t) accepted
     then Some ''zone_cooldown''
     else None)"

text \<open>\<open>playback\<close> of a fresh reservation.\<close>

definition pending_playback :: "string \<Rightarrow> time_us \<Rightarrow> int \<Rightarrow> dict" where
  "pending_playback token created ttl =
    [(''status'', JStr ''pending''), (''reservation_token'', JStr token),
     (''reservation_expires_at'', jtime (created + max ttl 1 * us_per_second))]"

text \<open>Lines 974 to 1022: write the reservation.\<close>

definition write_reservation :: "json \<Rightarrow> dict \<Rightarrow> receipt_row option \<Rightarrow> dict repo" where
  "write_reservation rid item current =
    cbind (clift (rbind (ditem item ''playback'') (\<lambda>pb. receipt_row_of rid item pb (JObj item)))) (\<lambda>row.
    cbind (case current of
        None \<Rightarrow> cbind (sql_write (insert_receipt row)) (\<lambda>_. cret True)
      | Some _ \<Rightarrow> cbind (sql_write (update_receipts (\<lambda>r. sql_eq (ar_receipt_id r) rid) (\<lambda>_. row))) (\<lambda>_. cret False))
      (\<lambda>fresh.
    cbind (if fresh then sql_write (insert_attempt rid 1 row) else cret ()) (\<lambda>_.
    cbind commit (\<lambda>_. cret item))))"

text \<open>Lines 938 to 1022: the limits, on the receipts of the zone, and the write.\<close>

definition reserve_in_zone :: "json \<Rightarrow> dict \<Rightarrow> limits \<Rightarrow> time_us \<Rightarrow> receipt_row option \<Rightarrow> dict repo" where
  "reserve_in_zone rid item l created current =
    cbind (clift (ditem item ''zone_id'')) (\<lambda>zone.
    cbind (sql_read (\<lambda>d. filter (\<lambda>r. sql_eq (ar_zone_id r) zone) (db_audio_receipts d))) (\<lambda>rows.
    cbind (clift (rmap (\<lambda>r. fromisoformat (ar_created_at r)) (filter counted rows))) (\<lambda>accepted.
    case limit_rejection l created (map astimezone_utc accepted) of
      Some reason \<Rightarrow> cbind rollback (\<lambda>_. cret (rejected reason))
    | None \<Rightarrow> write_reservation rid item current)))"

text \<open>Lines 910 to 1022: the reservation transaction.\<close>

definition reserve_transaction :: "dict \<Rightarrow> limits \<Rightarrow> time_us \<Rightarrow> dict repo" where
  "reserve_transaction item l created =
    rollback_on_error (
      cbind begin_immediate (\<lambda>_.
      cbind (clift (ditem item ''receipt_id'')) (\<lambda>rid.
      cbind (sql_read (\<lambda>d. fetch_by ar_receipt_id rid (db_audio_receipts d))) (\<lambda>current.
      let status = (case current of None \<Rightarrow> JNull | Some r \<Rightarrow> playback_status r) in
      if status \<in> {JStr ''accepted'', JStr ''duplicate''} then
        cbind commit (\<lambda>_. cret (dset
          (normalize_dict (case current of None \<Rightarrow> [] | Some r \<Rightarrow> as_dict (ar_payload r)))
          ''reservation_status'' (JStr ''existing'')))
      else if status = JStr ''pending'' then
        cbind rollback (\<lambda>_. cret (rejected ''zone_cooldown''))
      else if status \<in> {JStr ''expired'', JStr ''uncertain''} then
        cbind rollback (\<lambda>_. cret (rejected ''reservation_expired''))
      else reserve_in_zone rid item l created current))))"

definition reserve_audio_receipt :: "time_us \<Rightarrow> string \<Rightarrow> dict \<Rightarrow> limits \<Rightarrow> dict repo" where
  "reserve_audio_receipt now token receipt l =
    (let item = dsetdefault receipt ''created_at'' (jtime now);
         item = dset (dset item ''outcome'' (JStr ''reserved'')) ''reason_code'' (JStr ''reserved'')
     in cbind (clift (rbind (ditem item ''created_at'') fromisoformat)) (\<lambda>created_at.
     let created = astimezone_utc created_at;
         item = dset item ''playback'' (JObj (pending_playback token created (lim_ttl l)))
     in reserve_transaction item l created))"

text \<open>Lines 1167 to 1214: the owner's terminal state, written over the pending or in-doubt row \<open>cur\<close>.
  \<open>item\<close> already carries the terminal playback.\<close>

definition write_terminal :: "json \<Rightarrow> dict \<Rightarrow> receipt_row \<Rightarrow> dict option repo" where
  "write_terminal rid item cur =
    cbind (sql_read (max_attempt rid)) (\<lambda>attempts.
    cbind (clift (receipt_row_of rid item (dget item ''playback'')
        (JObj (dupdate (as_dict (ar_payload cur)) item)))) (\<lambda>row.
    cbind (sql_write (update_receipts
       (\<lambda>r. sql_eq (ar_receipt_id r) rid \<and> sql_eq (ar_playback r) (ar_playback cur)) (\<lambda>_. row))) (\<lambda>n.
    if n \<noteq> 1 then cbind rollback (\<lambda>_. cret (Some (rejected ''reservation_owner_mismatch'')))
    else cbind (sql_write (insert_attempt rid (attempts + 1) row)) (\<lambda>_.
         cbind commit (\<lambda>_. cret None)))))"

text \<open>\<open>{**(item.get("playback") or {}), "reservation_token": reservation_token}\<close> as the item's playback.\<close>

definition terminal_item :: "time_us \<Rightarrow> string \<Rightarrow> dict \<Rightarrow> dict" where
  "terminal_item now token receipt =
    (let item = dsetdefault receipt ''created_at'' (jtime now) in
     dset item ''playback''
       (JObj (dset (as_dict (dget item ''playback'')) ''reservation_token'' (JStr token))))"

definition finalize_audio_receipt :: "time_us \<Rightarrow> json \<Rightarrow> string \<Rightarrow> dict \<Rightarrow> dict repo" where
  "finalize_audio_receipt now rid token receipt =
    (let item = terminal_item now token receipt in
     cbind (rollback_on_error (
       cbind begin_immediate (\<lambda>_.
       cbind (sql_read (\<lambda>d. fetch_by ar_receipt_id rid (db_audio_receipts d))) (\<lambda>current.
       case current of
         None \<Rightarrow> cbind rollback (\<lambda>_. cret (Some (rejected ''missing'')))
       | Some cur \<Rightarrow>
         if playback_status cur \<notin> {JStr ''pending'', JStr ''uncertain''} then
           cbind commit (\<lambda>_. cret (Some (dset (normalize_dict (as_dict (ar_payload cur)))
             ''reservation_status'' (JStr ''already_finalized''))))
         else if playback_token cur \<noteq> JStr token then
           cbind commit (\<lambda>_. cret (Some (rejected ''reservation_owner_mismatch'')))
         else write_terminal rid item cur))))
     (\<lambda>early. case early of Some result \<Rightarrow> cret result | None \<Rightarrow> stored_or rid item))"

text \<open>Lines 1074 to 1130: the in-doubt state of an expired lease \<open>cur\<close>.\<close>

definition uncertain_playback :: "dict \<Rightarrow> time_us \<Rightarrow> dict" where
  "uncertain_playback playback observed =
    dupdate playback [(''status'', JStr ''uncertain''), (''detail_code'', JStr ''reservation_expired''),
      (''reconciled_at'', jtime observed)]"

definition uncertain_payload :: "dict \<Rightarrow> dict \<Rightarrow> string option \<Rightarrow> string option \<Rightarrow> dict" where
  "uncertain_payload payload terminal actor reason =
    (let payload = dupdate payload [(''outcome'', JStr ''suppressed''),
           (''reason_code'', JStr ''reservation_expired''), (''playback'', JObj terminal)];
         payload = (case actor of None \<Rightarrow> payload | Some a \<Rightarrow> dset payload ''reconciled_by'' (JStr a))
     in case reason of None \<Rightarrow> payload | Some why \<Rightarrow> dset payload ''reconciliation_reason'' (JStr why))"

definition write_uncertain ::
  "json \<Rightarrow> receipt_row \<Rightarrow> dict \<Rightarrow> dict \<Rightarrow> time_us \<Rightarrow> (dict + dict) repo" where
  "write_uncertain rid cur terminal payload observed =
    cbind (sql_write (update_receipts
       (\<lambda>r. sql_eq (ar_receipt_id r) rid \<and> sql_eq (ar_playback r) (ar_playback cur))
       (\<lambda>r. r\<lparr>ar_outcome := JStr ''suppressed'', ar_reason_code := JStr ''reservation_expired'',
              ar_playback := JObj terminal, ar_payload := JObj payload\<rparr>))) (\<lambda>n.
    if n \<noteq> 1 then cbind rollback (\<lambda>_. cret (Inl (rejected ''reservation_owner_mismatch'')))
    else cbind (sql_read (max_attempt rid)) (\<lambda>attempts.
         cbind (clift (ditem payload ''decision_id'')) (\<lambda>decision.
         cbind (sql_write (insert_attempt rid (attempts + 1)
           (cur\<lparr>ar_decision_id := decision, ar_outcome := JStr ''suppressed'',
                ar_reason_code := JStr ''reservation_expired'',
                ar_command_id := dget payload ''command_id'', ar_playback := JObj terminal,
                ar_created_at := jtime observed, ar_payload := JObj payload\<rparr>))) (\<lambda>_.
         cbind commit (\<lambda>_. cret (Inr payload))))))"

text \<open>\<open>observed\<close> is the argument \<open>now\<close> of the call, or the current time when the caller gives none.\<close>

definition reconcile_expired_audio_receipt ::
  "json \<Rightarrow> time_us \<Rightarrow> string option \<Rightarrow> string option \<Rightarrow> dict repo" where
  "reconcile_expired_audio_receipt rid observed actor reason =
    cbind (rollback_on_error (
      cbind begin_immediate (\<lambda>_.
      cbind (sql_read (\<lambda>d. fetch_by ar_receipt_id rid (db_audio_receipts d))) (\<lambda>current.
      case current of
        None \<Rightarrow> cbind rollback (\<lambda>_. cret (Inl (rejected ''missing'')))
      | Some cur \<Rightarrow>
        if playback_status cur \<noteq> JStr ''pending'' then
          cbind commit (\<lambda>_. cret (Inl (dset (normalize_dict (as_dict (ar_payload cur)))
            ''reservation_status'' (JStr ''already_finalized''))))
        else
          let playback = as_dict (ar_playback cur); expiry_value = dget playback ''reservation_expires_at'' in
          if \<not> truthy expiry_value then
            cbind rollback (\<lambda>_. cret (Inl (rejected ''missing_expiry'')))
          else cbind (clift (fromisoformat expiry_value)) (\<lambda>expiry.
            if (case expiry of Naive _ \<Rightarrow> True | Aware t \<Rightarrow> observed < t) then
              cbind rollback (\<lambda>_. cret (Inl (rejected ''reservation_not_expired'')))
            else
              let terminal = uncertain_playback playback observed
              in write_uncertain rid cur terminal
                   (uncertain_payload (as_dict (ar_payload cur)) terminal actor reason) observed)))))
    (\<lambda>outcome. case outcome of Inl early \<Rightarrow> cret early | Inr payload \<Rightarrow> stored_or rid payload)"

text \<open>Lines 1266 to 1279: insert, or update unless the current row is preserved.\<close>

definition write_unless_counted :: "json \<Rightarrow> receipt_row \<Rightarrow> receipt_row option \<Rightarrow> unit repo" where
  "write_unless_counted rid row current = (case current of
     None \<Rightarrow> sql_write (insert_receipt row)
   | Some cur \<Rightarrow>
       if counted cur then cret ()
       else cbind (sql_write (update_receipts (\<lambda>r. sql_eq (ar_receipt_id r) rid) (\<lambda>_. row))) (\<lambda>_. cret ()))"

definition put_audio_receipt :: "time_us \<Rightarrow> dict \<Rightarrow> dict repo" where
  "put_audio_receipt now receipt =
    (let item = dsetdefault receipt ''created_at'' (jtime now) in
     cbind (with_connection (
       cbind (clift (ditem item ''receipt_id'')) (\<lambda>rid.
       cbind (sql_read (max_attempt rid)) (\<lambda>attempts.
       cbind (sql_read (\<lambda>d. fetch_by ar_receipt_id rid (db_audio_receipts d))) (\<lambda>current.
       cbind (clift (receipt_row_of rid item (dget item ''playback'') (JObj item))) (\<lambda>row.
       cbind (write_unless_counted rid row current) (\<lambda>_.
       cbind (sql_write (insert_attempt rid (attempts + 1) row)) (\<lambda>_. cret rid))))))))
     (\<lambda>rid. stored_or rid item))"

definition list_audio_receipts :: "json \<Rightarrow> json \<Rightarrow> dict list repo" where
  "list_audio_receipts camera_id zone_id = sql_read (\<lambda>d.
     map (\<lambda>r. as_dict (ar_payload r)) (order_by_desc ar_created_at
       (filter (\<lambda>r. (camera_id = JNull \<or> sql_eq (ar_camera_id r) camera_id) \<and>
                    (zone_id = JNull \<or> sql_eq (ar_zone_id r) zone_id)) (db_audio_receipts d))))"

text \<open>The join of reviews and decisions.\<close>

definition false_announcement_count :: "json \<Rightarrow> nat repo" where
  "false_announcement_count camera_id = sql_read (\<lambda>d. length (concat (map (\<lambda>r.
     filter (\<lambda>dec. sql_eq (dr_decision_id dec) (rr_decision_id r) \<and> sql_eq (dr_camera_id dec) camera_id)
       (db_decisions d)) (filter (\<lambda>r. rr_label r = JStr ''false_positive'') (db_reviews d)))))"

end
