(* ===== verification/Artifact_Store.thy ===== *)
theory Artifact_Store
  imports Evaluation_Store Receipts
begin

text \<open>
  Artifacts, retention audits and the deletion of expired metadata of \<open>SQLiteAuditRepository\<close>.
\<close>

section \<open>Artifacts\<close>

definition put_artifact :: "time_us \<Rightarrow> dict \<Rightarrow> dict repo" where
  "put_artifact now artifact =
    (let item = dsetdefault (dsetdefault artifact ''created_at'' (jtime now)) ''deleted'' (JBool False) in
     cbind (clift (
       rbind (ditem item ''artifact_id'') (\<lambda>aid.
       rbind (ditem item ''path'') (\<lambda>path.
       rbind (ditem item ''media_type'') (\<lambda>media.
       rbind (ditem item ''size_bytes'') (\<lambda>size.
       rbind (rbind (ditem item ''deleted'') py_int) (\<lambda>del.
       rbind (ditem item ''created_at'') (\<lambda>created.
         ret \<lparr>af_artifact_id = aid, af_path = path, af_media_type = media, af_size_bytes = size,
              af_deleted = (del \<noteq> 0), af_created_at = created, af_payload = JObj item\<rparr>)))))))) (\<lambda>row.
     cbind (sql_write (\<lambda>d. rbind (insert_row af_artifact_id
         (\<lambda>r. [af_path r, af_media_type r, af_size_bytes r, af_created_at r]) row (db_artifacts d)) (\<lambda>rows.
         ret ((), d\<lparr>db_artifacts := rows\<rparr>)))) (\<lambda>_.
     cbind commit (\<lambda>_. cret item))))"

definition get_artifact :: "json \<Rightarrow> dict option repo" where
  "get_artifact aid = sql_read (\<lambda>d.
     map_option (\<lambda>r. as_dict (af_payload r)) (fetch_by af_artifact_id aid (db_artifacts d)))"

definition artifact_media_class :: "dict \<Rightarrow> string" where
  "artifact_media_class item = (case dget item ''media_class'' of
     JStr s \<Rightarrow> if s \<in> {''raw_media'', ''event_clip'', ''metadata''} then s
       else if take 6 (text_of (dget item ''media_type'')) = ''video/'' then ''event_clip'' else ''raw_media''
   | _ \<Rightarrow> if take 6 (text_of (dget item ''media_type'')) = ''video/'' then ''event_clip'' else ''raw_media'')"

text \<open>One row of \<open>list_retention_candidates\<close>; \<open>cutoffs\<close> maps a media class to its cutoff.\<close>

definition retention_candidate :: "(string \<times> time_us) list \<Rightarrow> artifact_row \<Rightarrow> dict option" where
  "retention_candidate cutoffs r =
    (let item = dupdate (as_dict (af_payload r)) [(''artifact_id'', af_artifact_id r), (''path'', af_path r),
           (''created_at'', af_created_at r), (''deleted'', JBool (af_deleted r))];
         media_class = artifact_media_class item
     in case map_of cutoffs media_class of
          None \<Rightarrow> None
        | Some cutoff \<Rightarrow> (case fromisoformat (af_created_at r) of
            Inl _ \<Rightarrow> None
          | Inr t \<Rightarrow> if astimezone_utc t < cutoff then Some (dset item ''media_class'' (JStr media_class))
                     else None))"

definition list_retention_candidates :: "(string \<times> time_us) list \<Rightarrow> dict list repo" where
  "list_retention_candidates cutoffs = sql_read (\<lambda>d.
     List.map_filter (retention_candidate cutoffs)
       (order_by af_created_at (filter (\<lambda>r. \<not> af_deleted r) (db_artifacts d))))"

section \<open>Retention audits\<close>

definition audit_key :: "audit_row \<Rightarrow> json \<times> json \<times> json" where
  "audit_key a = (au_artifact_id a, au_action a, au_status a)"

definition insert_audit :: "bool \<Rightarrow> audit_row \<Rightarrow> db \<Rightarrow> (unit \<times> db) result" where
  "insert_audit or_ignore a d =
    (let a = a\<lparr>au_audit_id := Suc (db_audit_seq d)\<rparr> in
     if \<not> not_null [au_artifact_id a, au_media_class a, au_action a, au_status a, au_created_at a]
     then (if or_ignore then ret ((), d) else constraint_error ''NOT NULL constraint failed'')
     else if audit_key a \<in> set (map audit_key (db_retention_audits d))
     then (if or_ignore then ret ((), d) else constraint_error ''UNIQUE constraint failed'')
     else ret ((), d\<lparr>db_audit_seq := Suc (db_audit_seq d),
            db_retention_audits := db_retention_audits d @ [a]\<rparr>))"

definition finalize_artifact_deletion :: "json \<Rightarrow> json \<Rightarrow> time_us \<Rightarrow> bool repo" where
  "finalize_artifact_deletion aid media_class deleted_at =
    with_connection (
      cbind (sql_read (\<lambda>d. fetch_by af_artifact_id aid (db_artifacts d))) (\<lambda>row. case row of
        None \<Rightarrow> clift (raise (KeyError ''artifact not found''))
      | Some r \<Rightarrow>
          cbind (sql_write (\<lambda>d. ret ((), d\<lparr>db_artifacts := update_rows (\<lambda>q. sql_eq (af_artifact_id q) aid)
            (\<lambda>q. q\<lparr>af_deleted := True, af_payload := JObj (dset (as_dict (af_payload q)) ''deleted'' (JInt 1))\<rparr>)
            (db_artifacts d)\<rparr>))) (\<lambda>_.
          cbind (sql_write (insert_audit True
            \<lparr>au_audit_id = 0, au_artifact_id = aid, au_media_class = media_class,
             au_action = JStr ''delete'', au_status = JStr ''deleted'', au_error = JNull,
             au_created_at = jtime deleted_at\<rparr>)) (\<lambda>_.
          cret (\<not> af_deleted r)))))"

definition append_retention_audit :: "time_us \<Rightarrow> dict \<Rightarrow> dict repo" where
  "append_retention_audit now audit =
    (let item = dsetdefault (dsetdefault (dsetdefault audit ''action'' (JStr ''delete''))
           ''status'' (JStr ''failed'')) ''created_at'' (jtime now) in
     cbind (with_connection (
       cbind (clift (
         rbind (ditem item ''artifact_id'') (\<lambda>aid.
         rbind (ditem item ''media_class'') (\<lambda>media.
         rbind (ditem item ''action'') (\<lambda>action.
         rbind (ditem item ''status'') (\<lambda>status.
         rbind (ditem item ''created_at'') (\<lambda>created.
           ret \<lparr>au_audit_id = 0, au_artifact_id = aid, au_media_class = media, au_action = action,
                au_status = status, au_error = dget item ''error'', au_created_at = created\<rparr>))))))) (\<lambda>row.
       sql_write (insert_audit False row)))) (\<lambda>_. cret item))"

definition audit_columns :: "audit_row \<Rightarrow> dict" where
  "audit_columns a = [(''audit_id'', JInt (int (au_audit_id a))), (''artifact_id'', au_artifact_id a),
     (''media_class'', au_media_class a), (''action'', au_action a), (''status'', au_status a),
     (''error'', au_error a), (''created_at'', au_created_at a)]"

definition list_retention_audits :: "json \<Rightarrow> dict list repo" where
  "list_retention_audits aid = sql_read (\<lambda>d. map audit_columns (order_by au_created_at
     (filter (\<lambda>a. truthy aid \<longrightarrow> sql_eq (au_artifact_id a) aid) (db_retention_audits d))))"

section \<open>Metadata\<close>

text \<open>\<open>EXISTS (SELECT 1 FROM json_tree(result) WHERE key = 'decision_id' AND value IN ids)\<close>.\<close>

function json_tree_has :: "json list \<Rightarrow> json \<Rightarrow> bool" where
  "json_tree_has ids (JObj d) =
     list_ex (\<lambda>(k, v). (k = ''decision_id'' \<and> v \<noteq> JNull \<and> v \<in> set ids) \<or> json_tree_has ids v) d"
| "json_tree_has ids (JList xs) = list_ex (json_tree_has ids) xs"
| "json_tree_has ids JNull = False"
| "json_tree_has ids (JBool b) = False"
| "json_tree_has ids (JInt n) = False"
| "json_tree_has ids (JFloat x) = False"
| "json_tree_has ids (JStr s) = False"
| "json_tree_has ids (JTime t) = False"
  by pat_completeness auto

termination
proof (relation "measure (size \<circ> snd)", goal_cases)
  case (2 ids d x k v)
  then have "size v < Suc (size_list (size_prod (\<lambda>_. 0) size) d)"
    by (induction d) auto
  then show ?case by simp
next
  case (3 ids xs x)
  then have "size x < Suc (size_list size xs)"
    by (induction xs) auto
  then show ?case by simp
qed simp

text \<open>\<open>DELETE FROM decisions\<close>, with the foreign keys: reviews restrict, evaluations cascade.\<close>

definition delete_decisions :: "(decision_row \<Rightarrow> bool) \<Rightarrow> db \<Rightarrow> (unit \<times> db) result" where
  "delete_decisions p d =
    (let gone = map dr_decision_id (filter p (db_decisions d)) in
     if list_ex (\<lambda>r. rr_decision_id r \<in> set gone) (db_reviews d)
     then constraint_error ''FOREIGN KEY constraint failed''
     else ret ((), d\<lparr>db_decisions := filter (\<lambda>r. \<not> p r) (db_decisions d),
       db_evaluations := filter (\<lambda>r. ev_decision_id r = JNull \<or> ev_decision_id r \<notin> set gone) (db_evaluations d)\<rparr>))"

text \<open>The linked rows of the expired decisions, in the order of the statements.\<close>

definition purge_linked :: "json list \<Rightarrow> db \<Rightarrow> db" where
  "purge_linked ids d =
    (let receipts = map ar_receipt_id (filter (\<lambda>r. ar_decision_id r \<in> set ids) (db_audio_receipts d)) in
     d\<lparr>db_reviews := filter (\<lambda>r. rr_decision_id r \<notin> set ids) (db_reviews d),
       db_audio_receipt_attempts := filter (\<lambda>a. aa_receipt_id a \<notin> set receipts) (db_audio_receipt_attempts d),
       db_audio_receipts := filter (\<lambda>r. ar_decision_id r \<notin> set ids) (db_audio_receipts d),
       db_evaluations := filter (\<lambda>r. \<not> (ev_decision_id r \<in> set ids \<or> json_tree_has ids (ev_result r)))
         (db_evaluations d)\<rparr>)"

text \<open>The selected ids, as strings.\<close>

definition expired_ids :: "time_us \<Rightarrow> db \<Rightarrow> json list" where
  "expired_ids threshold d = map (\<lambda>r. if dr_decision_id r = JNull then JStr ''None'' else dr_decision_id r)
     (filter (\<lambda>r. col_time (dr_created_at r) < threshold) (db_decisions d))"

definition delete_expired_metadata :: "time_us \<Rightarrow> nat repo" where
  "delete_expired_metadata threshold =
    with_connection (
      cbind (sql_read (expired_ids threshold)) (\<lambda>ids.
      if ids = [] then cret 0
      else
        cbind (sql_write (\<lambda>d. ret ((), purge_linked ids d))) (\<lambda>_.
        cbind (sql_write (delete_decisions (\<lambda>r. col_time (dr_created_at r) < threshold))) (\<lambda>_.
        cret (length ids)))))"

section \<open>Expired metadata\<close>

text \<open>What a decision leaves in the other tables: an evaluation is linked by its column or by a
  \<open>decision_id\<close> anywhere in its stored result.\<close>

definition evaluation_linked :: "json list \<Rightarrow> evaluation_row \<Rightarrow> bool" where
  "evaluation_linked ids r \<longleftrightarrow> ev_decision_id r \<in> set ids \<or> json_tree_has ids (ev_result r)"

lemma json_tree_has_Nil [simp]: "\<not> json_tree_has [] v"
  by (induction "[] :: json list" v rule: json_tree_has.induct) (auto simp: list_ex_iff)

lemma purge_linked_Nil [simp]: "purge_linked [] d = d"
  by (simp add: purge_linked_def)

lemma purge_linked_fields [simp]:
  "db_decisions (purge_linked ids d) = db_decisions d"
  "db_artifacts (purge_linked ids d) = db_artifacts d"
  "db_reviews (purge_linked ids d) = filter (\<lambda>r. rr_decision_id r \<notin> set ids) (db_reviews d)"
  "db_audio_receipts (purge_linked ids d) = filter (\<lambda>r. ar_decision_id r \<notin> set ids) (db_audio_receipts d)"
  "db_evaluations (purge_linked ids d) = filter (\<lambda>r. \<not> evaluation_linked ids r) (db_evaluations d)"
  by (simp_all add: purge_linked_def Let_def evaluation_linked_def)

lemma expired_ids_keyed:
  assumes "\<forall>r \<in> set (db_decisions d). dr_decision_id r \<noteq> JNull"
  shows "expired_ids t d = map dr_decision_id (filter (\<lambda>r. col_time (dr_created_at r) < t) (db_decisions d))"
  using assms by (simp add: expired_ids_def)

lemma delete_expired_metadata_result:
  assumes keyed: "\<forall>r \<in> set (db_decisions d). dr_decision_id r \<noteq> JNull"
  shows "delete_expired_metadata t (idle d) = (Inr (length (expired_ids t d)),
    idle ((purge_linked (expired_ids t d) d)\<lparr>db_decisions := filter (\<lambda>r. \<not> col_time (dr_created_at r) < t) (db_decisions d)\<rparr>))"
proof (cases "expired_ids t d = []")
  case True
  then have "filter (\<lambda>r. \<not> col_time (dr_created_at r) < t) (db_decisions d) = db_decisions d"
    by (auto simp: expired_ids_def filter_empty_conv intro: filter_True)
  then show ?thesis using True
    by (simp add: delete_expired_metadata_def with_connection_def cbind_def)
next
  case False
  let ?ids = "expired_ids t d"
  have "delete_decisions (\<lambda>r. col_time (dr_created_at r) < t) (purge_linked ?ids d) =
      Inr ((), (purge_linked ?ids d)\<lparr>db_decisions := filter (\<lambda>r. \<not> col_time (dr_created_at r) < t) (db_decisions d)\<rparr>)"
  proof -
    have "filter (\<lambda>r. ev_decision_id r = JNull \<or> ev_decision_id r \<notin> set ?ids) (db_evaluations (purge_linked ?ids d)) =
        db_evaluations (purge_linked ?ids d)"
      by (rule filter_True) (auto simp: evaluation_linked_def)
    then show ?thesis
      by (simp add: delete_decisions_def Let_def expired_ids_keyed[OF keyed, symmetric] list_ex_iff)
  qed
  then show ?thesis using False
    by (simp add: delete_expired_metadata_def with_connection_def cbind_def)
qed


definition sample_old_decision :: dict where
  "sample_old_decision = [(''decision_id'', JStr ''d1''), (''camera_id'', JStr ''cam''), (''track_id'', JStr ''t''),
     (''outcome'', JStr ''verified''), (''reason_codes'', JList []), (''policy_revision'', JStr ''default''),
     (''latency_ms'', JFloat 1), (''mode'', JStr ''shadow''), (''audio_eligibility'', JBool False),
     (''created_at'', jtime 100)]"

definition sample_old_db :: db where
  "sample_old_db = cn_work (snd (cbind (put_decision 100 sample_old_decision)
     (\<lambda>_. append_review 200 [(''review_id'', JStr ''r1''), (''decision_id'', JStr ''d1''),
        (''label'', JStr ''false_positive''), (''actor'', JStr ''op'')]) (idle empty_db)))"


end
