(* ===== verification/Paths.thy ===== *)
theory Paths
  imports Prelude
begin

text \<open>
  Paths below a registered root: \<open>LocalArtifactStore\<close> of
  \<open>src/tp_smoke_detect/adapters/artifacts/local.py\<close>, \<open>_safe_artifact_path\<close> of \<open>api/app.py\<close> and
  \<open>FileArtifactDeleter\<close> of \<open>application/retention.py\<close>.  An absolute path is the list of its
  components.  The file system is a record: \<open>fl_real\<close> is what resolving dots and symbolic links
  gives for an absolute path, \<open>fl_absolute\<close> what expanding the home and the working directory gives
  for a path string.
\<close>

section \<open>Path strings\<close>

type_synonym path = "string list"

fun split_slash :: "string \<Rightarrow> string list" where
  "split_slash [] = [[]]"
| "split_slash (c # cs) = (if c = CHR ''/'' then [] # split_slash cs
     else (case split_slash cs of [] \<Rightarrow> [[c]] | l # ls \<Rightarrow> (c # l) # ls))"

text \<open>\<open>Path(s).parts\<close> without the root, \<open>is_absolute\<close>, \<open>root / s\<close> and \<open>as_posix\<close>.\<close>

definition path_parts :: "string \<Rightarrow> path" where
  "path_parts s = filter (\<lambda>p. p \<noteq> [] \<and> p \<noteq> ''.'') (split_slash s)"

definition is_absolute :: "string \<Rightarrow> bool" where
  "is_absolute s \<longleftrightarrow> take 1 s = ''/''"

definition join_path :: "path \<Rightarrow> string \<Rightarrow> path" where
  "join_path base s = (if is_absolute s then path_parts s else base @ path_parts s)"

fun join_slash :: "path \<Rightarrow> string" where
  "join_slash [] = []"
| "join_slash [p] = p"
| "join_slash (p # ps) = p @ CHR ''/'' # join_slash ps"

definition as_posix :: "path \<Rightarrow> string" where
  "as_posix p = (if p = [] then ''.'' else join_slash p)"

text \<open>\<open>p.relative_to(root)\<close>.\<close>

definition relative_to :: "path \<Rightarrow> path \<Rightarrow> path result" where
  "relative_to p base = (if take (length base) p = base then ret (drop (length base) p)
     else raise (ValueError ''is not in the subpath''))"

fun contains :: "string \<Rightarrow> string \<Rightarrow> bool" where
  "contains pat [] = (pat = [])"
| "contains pat (c # cs) = (take (length pat) (c # cs) = pat \<or> contains pat cs)"

text \<open>\<open>path.suffix\<close> of the last component, and \<open>str.lower\<close> on ASCII.\<close>

definition name_suffix :: "string \<Rightarrow> string" where
  "name_suffix name = (let ext = rev (takeWhile (\<lambda>c. c \<noteq> CHR ''.'') (rev name)) in
     if ext \<noteq> [] \<and> length ext + 1 < length name then CHR ''.'' # ext else [])"

definition path_suffix :: "path \<Rightarrow> string" where
  "path_suffix p = (if p = [] then [] else name_suffix (last p))"

section \<open>File system\<close>

record files =
  fl_real :: "path \<Rightarrow> path"
  fl_absolute :: "string \<Rightarrow> path"
  fl_files :: "(path \<times> string) list"
  fl_dirs :: "path list"
  fl_protected :: "path \<Rightarrow> bool"

definition is_file :: "files \<Rightarrow> path \<Rightarrow> bool" where
  "is_file fs p \<longleftrightarrow> map_of (fl_files fs) p \<noteq> None"

text \<open>\<open>path.resolve()\<close>; the operating system refuses a null character.\<close>

definition resolve :: "files \<Rightarrow> path \<Rightarrow> path result" where
  "resolve fs p = (if list_ex (\<lambda>c. CHR 0x00 \<in> set c) p then raise (ValueError ''embedded null byte'')
     else ret (fl_real fs p))"

text \<open>\<open>path.unlink()\<close>.\<close>

definition unlink :: "files \<Rightarrow> path \<Rightarrow> unit result \<times> files" where
  "unlink fs p =
    (if p \<in> set (fl_dirs fs) then (raise (AdapterError ''IsADirectoryError''), fs)
     else if fl_protected fs p then (raise (AdapterError ''PermissionError''), fs)
     else if \<not> is_file fs p then (raise (AdapterError ''FileNotFoundError''), fs)
     else (ret (), fs\<lparr>fl_files := filter (\<lambda>e. fst e \<noteq> p) (fl_files fs)\<rparr>))"

section \<open>LocalArtifactStore\<close>

record Artifact =
  at_artifact_id :: string
  at_path :: path
  at_size :: nat

definition SUPPORTED_IMAGE_SUFFIXES :: "string list" where
  "SUPPORTED_IMAGE_SUFFIXES = [''.bmp'', ''.jpeg'', ''.jpg'', ''.png'', ''.webp'']"

definition store_resolve :: "files \<Rightarrow> path \<Rightarrow> string \<Rightarrow> path result" where
  "store_resolve fs base artifact_id =
    (if artifact_id = [] \<or> CHR 0x00 \<in> set artifact_id
     then raise (AdapterError ''ArtifactOutsideRootError'')
     else rbind (resolve fs (join_path base artifact_id)) (\<lambda>candidate.
       case relative_to candidate base of
         Inl _ \<Rightarrow> raise (AdapterError ''ArtifactOutsideRootError'')
       | Inr _ \<Rightarrow> ret candidate))"

definition stat_size :: "files \<Rightarrow> path \<Rightarrow> nat" where
  "stat_size fs p = (case map_of (fl_files fs) p of None \<Rightarrow> 0 | Some content \<Rightarrow> length content)"

definition locate :: "files \<Rightarrow> path \<Rightarrow> string \<Rightarrow> bool \<Rightarrow> Artifact result" where
  "locate fs base artifact_id require_image =
    rbind (store_resolve fs base artifact_id) (\<lambda>p.
    if \<not> is_file fs p then raise (AdapterError ''ArtifactNotFoundError'')
    else if require_image \<and> map lower_char (path_suffix p) \<notin> set SUPPORTED_IMAGE_SUFFIXES
    then raise (AdapterError ''UnsupportedArtifactError'')
    else ret \<lparr>at_artifact_id = artifact_id, at_path = p, at_size = stat_size fs p\<rparr>)"

text \<open>\<open>read_bytes\<close>, and \<open>open\<close>, which reads the same file.\<close>

definition read_bytes :: "files \<Rightarrow> path \<Rightarrow> string \<Rightarrow> bool \<Rightarrow> string result" where
  "read_bytes fs base artifact_id require_image =
    rbind (locate fs base artifact_id require_image) (\<lambda>a. case map_of (fl_files fs) (at_path a) of
      None \<Rightarrow> raise (AdapterError ''FileNotFoundError'') | Some content \<Rightarrow> ret content)"

definition store_exists :: "files \<Rightarrow> path \<Rightarrow> string \<Rightarrow> bool result" where
  "store_exists fs base artifact_id = (case store_resolve fs base artifact_id of
     Inr p \<Rightarrow> ret (is_file fs p)
   | Inl e \<Rightarrow> if e = AdapterError ''ArtifactOutsideRootError'' then ret False else raise e)"

definition store_register :: "files \<Rightarrow> path \<Rightarrow> string \<Rightarrow> string option \<Rightarrow> Artifact result" where
  "store_register fs base p artifact_id =
    rbind (resolve fs (fl_absolute fs p)) (\<lambda>source.
    if \<not> is_file fs source \<and> source \<notin> set (fl_dirs fs) then raise (AdapterError ''FileNotFoundError'')
    else if \<not> is_file fs source then raise (AdapterError ''ArtifactNotFoundError'')
    else (case relative_to source base of
        Inl _ \<Rightarrow> raise (AdapterError ''ArtifactOutsideRootError'')
      | Inr rel \<Rightarrow>
          let relative = (case artifact_id of Some (c # cs) \<Rightarrow> c # cs | _ \<Rightarrow> as_posix rel)
          in rbind (store_resolve fs base relative) (\<lambda>target.
             if target \<noteq> source then raise (AdapterError ''ArtifactOutsideRootError'')
             else ret \<lparr>at_artifact_id = relative, at_path = target, at_size = stat_size fs target\<rparr>)))"

text \<open>\<open>mkdir(parents=True, exist_ok=True)\<close>, and the constructor of the store on a path given as text.\<close>

definition make_dirs :: "path \<Rightarrow> files \<Rightarrow> unit result \<times> files" where
  "make_dirs p fs =
    (let chain = map (\<lambda>n. take n p) [1..<Suc (length p)] in
     if is_file fs p then (raise (AdapterError ''FileExistsError''), fs)
     else if list_ex (is_file fs) chain then (raise (AdapterError ''NotADirectoryError''), fs)
     else (ret (), fs\<lparr>fl_dirs := fl_dirs fs @ filter (\<lambda>q. q \<notin> set (fl_dirs fs)) chain\<rparr>))"

definition local_store_new :: "string \<Rightarrow> bool \<Rightarrow> files \<Rightarrow> path result \<times> files" where
  "local_store_new name create fs =
    (let p = fl_real fs (fl_absolute fs name) in
     case (if create then (if CHR 0x00 \<in> set name then (raise (ValueError ''embedded null byte''), fs) else make_dirs p fs) else (ret (), fs)) of
       (Inl e, fs') \<Rightarrow> (raise e, fs')
     | (Inr _, fs') \<Rightarrow>
         if CHR 0x00 \<in> set name \<or> p \<notin> set (fl_dirs fs') then (raise (AdapterError ''ArtifactError''), fs') else (ret p, fs'))"

text \<open>The root of a store is an existing directory, files are never touched, and a store that was created can be opened again.\<close>

lemma local_store_new_root:
  assumes "local_store_new name create fs = (Inr p, fs')"
  shows "p \<in> set (fl_dirs fs')" and "fl_files fs' = fl_files fs" and "local_store_new name False fs' = (Inr p, fs')"
  using assms by (auto simp: local_store_new_def make_dirs_def Let_def split: if_splits)

section \<open>FileArtifactDeleter\<close>

definition file_delete :: "path \<Rightarrow> string \<Rightarrow> files \<Rightarrow> bool result \<times> files" where
  "file_delete base p fs = (case resolve fs (join_path base p) of
     Inl e \<Rightarrow> (raise e, fs)
   | Inr candidate \<Rightarrow> (case relative_to candidate base of
       Inl _ \<Rightarrow> (raise (ValueError ''artifact path escapes registered root''), fs)
     | Inr _ \<Rightarrow> (case unlink fs candidate of
         (Inr _, fs') \<Rightarrow> (ret True, fs')
       | (Inl e, fs') \<Rightarrow> if e = AdapterError ''FileNotFoundError'' then (ret False, fs') else (raise e, fs'))))"

section \<open>_safe_artifact_path\<close>

text \<open>\<open>root\<close> is the resolved artifact root.\<close>

definition safe_artifact_path :: "files \<Rightarrow> path \<Rightarrow> string \<Rightarrow> string result" where
  "safe_artifact_path fs base p =
    (if contains ''://'' p \<or> is_absolute p
     then raise (HTTPException 422 ''remote and absolute artifact paths are forbidden'')
     else rbind (resolve fs (join_path base p)) (\<lambda>resolved.
       case relative_to resolved base of
         Inl _ \<Rightarrow> raise (HTTPException 422 ''artifact path escapes registered root'')
       | Inr rel \<Rightarrow> ret (as_posix rel)))"

section \<open>Printing and parsing\<close>

definition clean_part :: "string \<Rightarrow> bool" where
  "clean_part c \<longleftrightarrow> c \<noteq> [] \<and> c \<noteq> ''.'' \<and> CHR ''/'' \<notin> set c \<and> CHR 0x00 \<notin> set c"

lemma split_slash_ne [simp]: "split_slash s \<noteq> []"
  by (induction s) (auto split: list.split)

lemma split_slash_part: "CHR ''/'' \<notin> set p \<Longrightarrow> split_slash p = [p]"
  by (induction p) auto

lemma split_slash_append:
  "CHR ''/'' \<notin> set p \<Longrightarrow> split_slash (p @ CHR ''/'' # s) = p # split_slash s"
  by (induction p) (auto split: list.split)

lemma split_join_slash:
  "ps \<noteq> [] \<Longrightarrow> list_all (\<lambda>p. CHR ''/'' \<notin> set p) ps \<Longrightarrow> split_slash (join_slash ps) = ps"
  by (induction ps rule: join_slash.induct) (simp_all add: split_slash_part split_slash_append)

lemma parts_as_posix: "list_all clean_part ps \<Longrightarrow> path_parts (as_posix ps) = ps"
proof (cases "ps = []")
  case False
  assume clean: "list_all clean_part ps"
  then have "split_slash (join_slash ps) = ps"
    by (intro split_join_slash False) (auto simp: list_all_iff clean_part_def)
  then show ?thesis
    using clean False by (auto simp: path_parts_def as_posix_def list_all_iff clean_part_def intro!: filter_True)
qed (simp add: path_parts_def as_posix_def)

lemma as_posix_relative: "list_all clean_part ps \<Longrightarrow> \<not> is_absolute (as_posix ps)"
proof (induction ps rule: join_slash.induct)
  case (2 p)
  then show ?case by (cases p) (auto simp: as_posix_def is_absolute_def clean_part_def)
next
  case (3 p q ps)
  then show ?case by (cases p) (auto simp: as_posix_def is_absolute_def clean_part_def)
qed (simp add: as_posix_def is_absolute_def)

lemma join_as_posix: "list_all clean_part ps \<Longrightarrow> join_path base (as_posix ps) = base @ ps"
  by (simp add: join_path_def as_posix_relative parts_as_posix)

lemma relative_to_Inr: "relative_to p base = Inr rel \<longleftrightarrow> p = base @ rel"
  by (auto simp: relative_to_def) (metis append_take_drop_id)

lemma resolve_Inr: "resolve fs p = Inr q \<longleftrightarrow> \<not> list_ex (\<lambda>c. CHR 0x00 \<in> set c) p \<and> q = fl_real fs p"
  by (auto simp: resolve_def)

section \<open>Confinement\<close>

lemma store_resolve_below:
  "store_resolve fs base i = Inr p \<Longrightarrow> \<exists>rel. p = base @ rel"
  by (auto simp: store_resolve_def rbind_Inr relative_to_def split: if_splits) (metis append_take_drop_id)

lemma file_delete_below:
  assumes "file_delete base p fs = (x, fs')" and "fl_files fs' \<noteq> fl_files fs"
  shows "\<exists>rel. resolve fs (join_path base p) = Inr (base @ rel) \<and> x = Inr True \<and>
    fl_files fs' = filter (\<lambda>e. fst e \<noteq> base @ rel) (fl_files fs)"
  using assms by (auto simp: file_delete_def unlink_def relative_to_Inr split: sum.splits if_splits)

lemma file_delete_frame:
  "file_delete base p fs = (x, fs') \<Longrightarrow> fl_real fs' = fl_real fs \<and> fl_dirs fs' = fl_dirs fs \<and>
    fl_protected fs' = fl_protected fs \<and> set (fl_files fs') \<subseteq> set (fl_files fs)"
  by (auto simp: file_delete_def unlink_def split: sum.splits if_splits)

text \<open>A delete that returns leaves no file at the path it resolved.\<close>

lemma file_delete_gone:
  assumes "file_delete base p fs = (Inr b, fs')"
  shows "\<exists>rel. fl_real fs (join_path base p) = base @ rel \<and> \<not> is_file fs' (base @ rel)"
proof -
  from assms obtain candidate where c: "resolve fs (join_path base p) = Inr candidate"
    by (auto simp: file_delete_def split: sum.splits)
  from assms c obtain rel where rel: "candidate = base @ rel"
    by (auto simp: file_delete_def relative_to_Inr split: sum.splits)
  have "\<not> is_file fs' candidate"
    using assms c rel by (auto simp: file_delete_def relative_to_def unlink_def is_file_def map_of_eq_None_iff
        split: sum.splits if_splits)
  then show ?thesis using c rel by (metis resolve_Inr)
qed

section \<open>Properties\<close>

text \<open>A file system without links, with one image below the root \<open>/data\<close> and a secret beside it.\<close>

definition sample_files :: files where
  "sample_files = \<lparr>fl_real = (\<lambda>p. rev (fold (\<lambda>c acc. if c = ''..'' then drop 1 acc else c # acc) p [])),
     fl_absolute = path_parts, fl_files = [([''data'', ''a'', ''f.png''], ''img''), ([''secret''], ''key'')],
     fl_dirs = [[''data''], [''data'', ''a'']], fl_protected = (\<lambda>_. False)\<rparr>"

text \<open>The local artifact store is confined to its root and its ids round-trip: whatever an
  artifact id contains (dots, separators, links), a located artifact is a file at the root or below
  it, and its bytes are that file's; and registering a file, under its own relative id or a given
  one, returns exactly the artifact that locating the returned id gives.\<close>

theorem local_store_confined_round_trip:
  "(case locate fs base i img of Inl _ \<Rightarrow> True
    | Inr a \<Rightarrow> (\<exists>rel. at_path a = base @ rel) \<and> is_file fs (at_path a) \<and>
        read_bytes fs base i img = Inr (the (map_of (fl_files fs) (at_path a)))) \<and>
   (case store_register fs base p given of Inl _ \<Rightarrow> True
    | Inr a \<Rightarrow> locate fs base (at_artifact_id a) False = Inr a \<and> resolve fs (fl_absolute fs p) = Inr (at_path a) \<and>
        store_exists fs base (at_artifact_id a) = Inr True)"
proof (intro conjI)
  show "case locate fs base i img of Inl _ \<Rightarrow> True
    | Inr a \<Rightarrow> (\<exists>rel. at_path a = base @ rel) \<and> is_file fs (at_path a) \<and>
        read_bytes fs base i img = Inr (the (map_of (fl_files fs) (at_path a)))"
  proof (cases "locate fs base i img")
    case (Inr a)
    then have "store_resolve fs base i = Inr (at_path a)" "is_file fs (at_path a)"
      by (auto simp: locate_def rbind_Inr split: if_splits)
    then show ?thesis
      using Inr store_resolve_below by (auto simp: read_bytes_def is_file_def)
  qed simp
  show "case store_register fs base p given of Inl _ \<Rightarrow> True
    | Inr a \<Rightarrow> locate fs base (at_artifact_id a) False = Inr a \<and> resolve fs (fl_absolute fs p) = Inr (at_path a) \<and>
        store_exists fs base (at_artifact_id a) = Inr True"
  proof (cases "store_register fs base p given")
    case (Inr a)
    then obtain source j where "resolve fs (fl_absolute fs p) = Inr source" "is_file fs source"
        "store_resolve fs base j = Inr source"
        "a = \<lparr>at_artifact_id = j, at_path = source, at_size = stat_size fs source\<rparr>"
      by (auto simp: store_register_def rbind_Inr Let_def split: if_splits sum.splits)
    then show ?thesis
      using Inr by (auto simp: locate_def store_exists_def)
  qed simp
qed

text \<open>Property C23.  A path accepted at the API boundary names one file for good: it resolves below the
  root, and the stored relative path, parsed again by the retention deleter against the same root,
  resolves to the same file; so the deleter neither rejects it nor removes another one.  Assumed of
  the operating system: resolving is idempotent and yields clean components, as
  \<open>os.path.realpath\<close> documents.\<close>

theorem registered_path_reaches_its_file:
  assumes "safe_artifact_path fs base p = Inr stored" and "resolve fs (join_path base p) = Inr target"
    and "fl_real fs target = target" and "list_all clean_part target"
  shows "resolve fs (join_path base stored) = Inr target \<and> (\<exists>rel. target = base @ rel) \<and>
    (\<forall>b fs'. file_delete base stored fs = (Inr b, fs') \<longrightarrow>
       b = is_file fs target \<and> \<not> is_file fs' target \<and>
       fl_files fs' = filter (\<lambda>e. fst e \<noteq> target) (fl_files fs))"
proof -
  obtain rel where rel: "target = base @ rel" "stored = as_posix rel"
    using assms(1,2) by (auto simp: safe_artifact_path_def relative_to_Inr split: if_splits sum.splits)
  have clean: "list_all clean_part rel" using assms(4) rel(1) by simp
  have nul: "\<not> list_ex (\<lambda>c. CHR 0x00 \<in> set c) target"
    using assms(4) by (auto simp: list_all_iff list_ex_iff clean_part_def)
  have again: "resolve fs (join_path base stored) = Inr target"
    using rel nul assms(3) by (simp add: join_as_posix[OF clean] resolve_def)
  have none: "filter (\<lambda>e. fst e \<noteq> target) (fl_files fs) = fl_files fs" if "\<not> is_file fs target"
    using that by (intro filter_True) (auto simp: is_file_def map_of_eq_None_iff)
  have "b = is_file fs target \<and> \<not> is_file fs' target \<and> fl_files fs' = filter (\<lambda>e. fst e \<noteq> target) (fl_files fs)"
    if "file_delete base stored fs = (Inr b, fs')" for b fs'
    using that again rel(1) none file_delete_gone[OF that] again[unfolded resolve_Inr]
    by (auto simp: file_delete_def relative_to_def unlink_def split: if_splits)
  then show ?thesis using again rel(1) by blast
qed

theorem registered_path_reaches_its_file_witness:
  "safe_artifact_path sample_files [''data''] ''a/../a/f.png'' = Inr ''a/f.png'' \<and>
   resolve sample_files (join_path [''data''] ''a/f.png'') = Inr [''data'', ''a'', ''f.png'']"
proof -
  have *: "safe_artifact_path sample_files [''data''] ''a/../a/f.png'' = Inr ''a/f.png''"
    "resolve sample_files (join_path [''data''] ''a/../a/f.png'') = Inr [''data'', ''a'', ''f.png'']"
    "fl_real sample_files [''data'', ''a'', ''f.png''] = [''data'', ''a'', ''f.png'']"
    "list_all clean_part [''data'', ''a'', ''f.png'']"
    by code_simp+
  show ?thesis using registered_path_reaches_its_file[OF *] *(1) by blast
qed

end
