(* ===== verification/Retention.thy ===== *)
theory Retention
  imports Artifact_Store Paths
begin

text \<open>
  The retention pass, \<open>src/tp_smoke_detect/application/retention.py\<close>: expired files are deleted
  first, then their rows are marked, then expired metadata goes.  The state is the repository's
  connection, the file system below the artifact root and the metric calls made.
\<close>

section \<open>Policy\<close>

record RetentionPolicy =
  rp_raw_media_seconds :: int
  rp_event_clip_seconds :: int
  rp_metadata_seconds :: int

definition default_retention_policy :: RetentionPolicy where
  "default_retention_policy = \<lparr>rp_raw_media_seconds = 7 * 24 * 60 * 60,
     rp_event_clip_seconds = 30 * 24 * 60 * 60, rp_metadata_seconds = 365 * 24 * 60 * 60\<rparr>"

definition MEDIA_CLASSES :: "string list" where
  "MEDIA_CLASSES = [''raw_media'', ''event_clip'', ''metadata'']"

definition periods :: "RetentionPolicy \<Rightarrow> (string \<times> int) list" where
  "periods pol = [(''raw_media'', rp_raw_media_seconds pol), (''event_clip'', rp_event_clip_seconds pol),
     (''metadata'', rp_metadata_seconds pol)]"

definition RetentionPolicy_post_init :: "RetentionPolicy \<Rightarrow> RetentionPolicy result" where
  "RetentionPolicy_post_init pol =
    (if list_ex (\<lambda>(_, v). v < 0) (periods pol) then raise (ValueError ''retention periods must be non-negative'')
     else ret pol)"

definition cutoff :: "RetentionPolicy \<Rightarrow> string \<Rightarrow> time_us \<Rightarrow> time_us result" where
  "cutoff pol media_class now = (case map_of (periods pol) media_class of
     None \<Rightarrow> raise (ValueError ''unsupported media class'')
   | Some seconds \<Rightarrow> ret (now - seconds * us_per_second))"

section \<open>The pass\<close>

record retention_world =
  rw_conn :: "db conn"
  rw_files :: files
  rw_metrics :: "(string \<times> string) list"

record RetentionRunResult =
  rr_scanned :: nat
  rr_deleted :: nat
  rr_already_missing :: nat
  rr_failed :: nat
  rr_metadata_deleted :: nat

definition emit :: "string \<Rightarrow> string \<Rightarrow> retention_world \<Rightarrow> retention_world" where
  "emit media_class status w = w\<lparr>rw_metrics := rw_metrics w @ [(media_class, status)]\<rparr>"

text \<open>\<open>type(exc).__name__\<close>.\<close>

fun exception_name :: "error \<Rightarrow> string" where
  "exception_name (ValueError _) = ''ValueError''"
| "exception_name (KeyError _) = ''KeyError''"
| "exception_name (TypeError _) = ''TypeError''"
| "exception_name (IntegrityError _) = ''IntegrityError''"
| "exception_name (OperationalError _) = ''OperationalError''"
| "exception_name IdempotencyConflictError = ''IdempotencyConflictError''"
| "exception_name EvaluationClaimLostError = ''EvaluationClaimLostError''"
| "exception_name (HTTPException _ _) = ''HTTPException''"
| "exception_name (AdapterError n) = n"

text \<open>The \<open>except\<close> branch: count, meter, and try to audit; an error of the audit is suppressed.\<close>

definition retain_failed ::
  "time_us \<Rightarrow> string \<Rightarrow> string \<Rightarrow> error \<Rightarrow> RetentionRunResult \<times> retention_world \<Rightarrow> RetentionRunResult \<times> retention_world" where
  "retain_failed now aid media_class e st = (case st of (k, w) \<Rightarrow>
     (k\<lparr>rr_failed := Suc (rr_failed k)\<rparr>,
      (let w1 = emit media_class ''failed'' w in
       w1\<lparr>rw_conn := snd (append_retention_audit now
         [(''artifact_id'', JStr aid), (''media_class'', JStr media_class), (''action'', JStr ''delete''),
          (''status'', JStr ''failed''), (''error'', JStr (exception_name e)), (''created_at'', jtime now)] (rw_conn w1))\<rparr>)))"

text \<open>The body of the loop.\<close>

definition retain_one ::
  "path \<Rightarrow> time_us \<Rightarrow> dict \<Rightarrow> RetentionRunResult \<times> retention_world \<Rightarrow> RetentionRunResult \<times> retention_world" where
  "retain_one base now artifact st = (case st of (k, w) \<Rightarrow>
    (let aid = text_of (dget artifact ''artifact_id'');
         media_class = text_of (dget_default artifact ''media_class'' (JStr ''event_clip''))
     in if media_class \<notin> set (take 2 MEDIA_CLASSES) then (k, w)
        else (case file_delete base (text_of (dget artifact ''path'')) (rw_files w) of
            (Inl e, fs) \<Rightarrow> retain_failed now aid media_class e (k, w\<lparr>rw_files := fs\<rparr>)
          | (Inr removed, fs) \<Rightarrow>
              (let k1 = (if removed then k else k\<lparr>rr_already_missing := Suc (rr_already_missing k)\<rparr>)
               in case finalize_artifact_deletion (JStr aid) (JStr media_class) now (rw_conn w) of
                    (Inl e, c) \<Rightarrow> retain_failed now aid media_class e (k1, w\<lparr>rw_files := fs, rw_conn := c\<rparr>)
                  | (Inr _, c) \<Rightarrow> (k1\<lparr>rr_deleted := Suc (rr_deleted k1)\<rparr>,
                      emit media_class ''deleted'' (w\<lparr>rw_files := fs, rw_conn := c\<rparr>))))))"

definition delete_metadata :: "time_us \<Rightarrow> retention_world \<Rightarrow> nat \<times> retention_world" where
  "delete_metadata threshold w = (case delete_expired_metadata threshold (rw_conn w) of
     (Inr n, c) \<Rightarrow> (n, emit ''metadata'' ''deleted'' (w\<lparr>rw_conn := c\<rparr>))
   | (Inl _, c) \<Rightarrow> (0, emit ''metadata'' ''failed'' (w\<lparr>rw_conn := c\<rparr>)))"

definition retention_run ::
  "RetentionPolicy \<Rightarrow> path \<Rightarrow> time_us \<Rightarrow> retention_world \<Rightarrow> RetentionRunResult result \<times> retention_world" where
  "retention_run pol base now w =
    (case rmap (\<lambda>name. rbind (cutoff pol name now) (\<lambda>t. ret (name, t))) MEDIA_CLASSES of
       Inl e \<Rightarrow> (raise e, w)
     | Inr cutoffs \<Rightarrow>
         (case list_retention_candidates cutoffs (rw_conn w) of
            (Inl e, c) \<Rightarrow> (raise e, w\<lparr>rw_conn := c\<rparr>)
          | (Inr candidates, c) \<Rightarrow>
              (let (k, w1) = fold (retain_one base now) candidates
                     (\<lparr>rr_scanned = length candidates, rr_deleted = 0, rr_already_missing = 0, rr_failed = 0,
                       rr_metadata_deleted = 0\<rparr>, w\<lparr>rw_conn := c\<rparr>);
                   (n, w2) = delete_metadata (case map_of cutoffs ''metadata'' of None \<Rightarrow> now | Some t \<Rightarrow> t) w1
               in (ret (k\<lparr>rr_metadata_deleted := n\<rparr>), w2))))"

section \<open>One artifact\<close>

definition mark_deleted :: "artifact_row \<Rightarrow> artifact_row" where
  "mark_deleted r = r\<lparr>af_deleted := True, af_payload := JObj (dset (as_dict (af_payload r)) ''deleted'' (JInt 1))\<rparr>"

definition marked :: "json set \<Rightarrow> artifact_row list \<Rightarrow> artifact_row list" where
  "marked ids rows = map (\<lambda>r. if af_artifact_id r \<in> ids then mark_deleted r else r) rows"

lemma marked_ids [simp]: "map af_artifact_id (marked ids rows) = map af_artifact_id rows"
  by (simp add: marked_def mark_deleted_def)

lemma marked_empty [simp]: "marked {} rows = rows"
  by (simp add: marked_def)

lemma mark_deleted_idem [simp]: "mark_deleted (mark_deleted r) = mark_deleted r"
  by (simp add: mark_deleted_def dset_def update_last)

lemma mark_deleted_id [simp]: "af_artifact_id (mark_deleted r) = af_artifact_id r"
  by (simp add: mark_deleted_def)

lemma marked_marked [simp]: "marked ids' (marked ids rows) = marked (ids \<union> ids') rows"
  by (auto simp: marked_def)

lemma marked_update:
  assumes "aid \<noteq> JNull"
  shows "update_rows (\<lambda>q. sql_eq (af_artifact_id q) aid)
      (\<lambda>q. q\<lparr>af_deleted := True, af_payload := JObj (dset (as_dict (af_payload q)) ''deleted'' (JInt 1))\<rparr>) rows =
    marked {aid} rows"
  using assms by (auto simp: update_rows_def marked_def mark_deleted_def sql_eq_def)

lemma insert_audit_ignore: "\<exists>d'. insert_audit True a d = Inr ((), d') \<and> db_artifacts d' = db_artifacts d \<and> db_decisions d' = db_decisions d"
  by (simp add: insert_audit_def Let_def)

lemma finalize_succeeds_idle:
  assumes "aid \<in> set (map af_artifact_id (db_artifacts d))" and "aid \<noteq> JNull"
  shows "\<exists>b d'. finalize_artifact_deletion aid media now (idle d) = (Inr b, idle d') \<and>
    db_artifacts d' = marked {aid} (db_artifacts d) \<and> db_decisions d' = db_decisions d"
proof -
  obtain r where r: "fetch_by af_artifact_id aid (db_artifacts d) = Some r"
    using assms by (cases "fetch_by af_artifact_id aid (db_artifacts d)") (auto simp: fetch_by_None)
  let ?d1 = "d\<lparr>db_artifacts := marked {aid} (db_artifacts d)\<rparr>"
  obtain d' where "insert_audit True \<lparr>au_audit_id = 0, au_artifact_id = aid, au_media_class = media,
             au_action = JStr ''delete'', au_status = JStr ''deleted'', au_error = JNull,
             au_created_at = jtime now\<rparr> ?d1 = Inr ((), d')"
      "db_artifacts d' = marked {aid} (db_artifacts d)" "db_decisions d' = db_decisions d"
    using insert_audit_ignore[of _ ?d1] by fastforce
  then show ?thesis
    using r by (simp add: finalize_artifact_deletion_def with_connection_def cbind_def marked_update[OF assms(2)])
qed

lemma append_audit_idle:
  "\<exists>d'. snd (append_retention_audit now audit (idle d)) = idle d' \<and> db_artifacts d' = db_artifacts d \<and>
    db_decisions d' = db_decisions d"
proof -
  have "insert_audit b a d = Inr (u, d') \<Longrightarrow> db_artifacts d' = db_artifacts d \<and> db_decisions d' = db_decisions d" for b a u d'
    by (auto simp: insert_audit_def Let_def split: if_splits)
  then show ?thesis
    by (auto simp: append_retention_audit_def Let_def with_connection_def cbind_def split: sum.split prod.split)
qed

text \<open>A candidate of a row, and whether the row is due: undeleted media older than its class allows.\<close>

definition cutoffs_of :: "RetentionPolicy \<Rightarrow> time_us \<Rightarrow> (string \<times> time_us) list" where
  "cutoffs_of pol now = map (\<lambda>(name, seconds). (name, now - seconds * us_per_second)) (periods pol)"

definition row_class :: "artifact_row \<Rightarrow> string" where
  "row_class r = artifact_media_class (as_dict (af_payload r))"

definition older_than :: "time_us \<Rightarrow> artifact_row \<Rightarrow> bool" where
  "older_than t r = (case fromisoformat (af_created_at r) of Inl _ \<Rightarrow> False | Inr c \<Rightarrow> astimezone_utc c < t)"

definition retention_due :: "RetentionPolicy \<Rightarrow> time_us \<Rightarrow> artifact_row \<Rightarrow> bool" where
  "retention_due pol now r \<longleftrightarrow>
    row_class r = ''raw_media'' \<and> older_than (now - rp_raw_media_seconds pol * us_per_second) r \<or>
    row_class r = ''event_clip'' \<and> older_than (now - rp_event_clip_seconds pol * us_per_second) r"

lemma row_class_update:
  "artifact_media_class (dupdate (as_dict (af_payload r)) [(''artifact_id'', a), (''path'', p), (''created_at'', c), (''deleted'', b)]) =
    row_class r"
  by (simp add: row_class_def artifact_media_class_def dget_dupdate_other del: dupdate_Cons)

lemma row_class_cases: "row_class r \<in> {''raw_media'', ''event_clip'', ''metadata''}"
  by (auto simp: row_class_def artifact_media_class_def split: json.splits)

lemma candidate_due:
  assumes "retention_candidate (cutoffs_of pol now) r = Some a"
  shows "dget a ''artifact_id'' = af_artifact_id r" "dget a ''path'' = af_path r"
    "dget_default a ''media_class'' v = JStr (row_class r)"
    "row_class r \<in> {''raw_media'', ''event_clip''} \<longleftrightarrow> retention_due pol now r"
proof -
  have a: "a = dset (dupdate (as_dict (af_payload r)) [(''artifact_id'', af_artifact_id r), (''path'', af_path r),
           (''created_at'', af_created_at r), (''deleted'', JBool (af_deleted r))]) ''media_class'' (JStr (row_class r))"
    using assms by (auto simp: retention_candidate_def row_class_update Let_def simp del: dupdate_Cons
        split: option.splits sum.splits if_splits)
  show "dget a ''artifact_id'' = af_artifact_id r" "dget a ''path'' = af_path r"
    "dget_default a ''media_class'' v = JStr (row_class r)"
    by (simp_all add: a dget_def dget_default_def)
  show "row_class r \<in> {''raw_media'', ''event_clip''} \<longleftrightarrow> retention_due pol now r"
    using assms row_class_cases[of r]
    by (auto simp: retention_candidate_def row_class_update Let_def cutoffs_of_def periods_def retention_due_def
        older_than_def simp del: dupdate_Cons split: option.splits sum.splits if_splits)
qed

lemma no_candidate_not_due:
  "retention_candidate (cutoffs_of pol now) r = None \<Longrightarrow> \<not> retention_due pol now r"
  by (auto simp: retention_candidate_def row_class_update Let_def cutoffs_of_def periods_def retention_due_def
      older_than_def simp del: dupdate_Cons split: option.splits sum.splits if_splits)

section \<open>The loop\<close>

definition target :: "path \<Rightarrow> files \<Rightarrow> artifact_row \<Rightarrow> path" where
  "target base fs r = fl_real fs (join_path base (text_of (af_path r)))"

text \<open>What a stretch of the loop has done: the rows \<open>ok\<close> are finalised, the rows \<open>bad\<close> failed.\<close>

definition loop_effect ::
  "path \<Rightarrow> artifact_row list \<Rightarrow> artifact_row list \<Rightarrow> RetentionRunResult \<times> retention_world \<Rightarrow>
   RetentionRunResult \<times> retention_world \<Rightarrow> bool" where
  "loop_effect base ok bad st st' \<longleftrightarrow> (\<exists>d d'. rw_conn (snd st) = idle d \<and> rw_conn (snd st') = idle d' \<and>
     db_artifacts d' = marked (af_artifact_id ` set ok) (db_artifacts d) \<and> db_decisions d' = db_decisions d \<and>
     rr_deleted (fst st') = rr_deleted (fst st) + length ok \<and> rr_failed (fst st') = rr_failed (fst st) + length bad \<and>
     fl_real (rw_files (snd st')) = fl_real (rw_files (snd st)) \<and>
     set (fl_files (rw_files (snd st'))) \<subseteq> set (fl_files (rw_files (snd st))) \<and>
     (\<forall>r \<in> set ok. (\<exists>rel. target base (rw_files (snd st)) r = base @ rel) \<and>
        \<not> is_file (rw_files (snd st')) (target base (rw_files (snd st)) r)) \<and>
     (\<forall>e \<in> set (fl_files (rw_files (snd st))). e \<in> set (fl_files (rw_files (snd st'))) \<or>
        (\<exists>r \<in> set ok. fst e = target base (rw_files (snd st)) r)))"

lemma is_file_mono: "set (fl_files fs') \<subseteq> set (fl_files fs) \<Longrightarrow> is_file fs' p \<Longrightarrow> is_file fs p"
  by (auto simp: is_file_def map_of_eq_None_iff image_iff)

lemma loop_effect_refl: "rw_conn (snd st) = idle d \<Longrightarrow> loop_effect base [] [] st st"
  by (simp add: loop_effect_def)

lemma loop_effect_trans:
  assumes "loop_effect base ok bad st st1" and "loop_effect base ok' bad' st1 st2"
  shows "loop_effect base (ok @ ok') (bad @ bad') st st2"
proof -
  have same: "target base (rw_files (snd st1)) r = target base (rw_files (snd st)) r" for r
    using assms(1) by (auto simp: loop_effect_def target_def)
  have mono: "set (fl_files (rw_files (snd st2))) \<subseteq> set (fl_files (rw_files (snd st1)))"
    using assms(2) by (auto simp: loop_effect_def)
  obtain d d1 d2 where d: "rw_conn (snd st) = idle d" "rw_conn (snd st1) = idle d1" "rw_conn (snd st2) = idle d2"
      "db_artifacts d1 = marked (af_artifact_id ` set ok) (db_artifacts d)" "db_decisions d1 = db_decisions d"
      "db_artifacts d2 = marked (af_artifact_id ` set ok') (db_artifacts d1)" "db_decisions d2 = db_decisions d1"
    using assms by (auto simp: loop_effect_def)
  have "db_artifacts d2 = marked (af_artifact_id ` set (ok @ ok')) (db_artifacts d)" "db_decisions d2 = db_decisions d"
    using d(4-7) by (simp_all add: image_Un)
  moreover have "\<not> is_file (rw_files (snd st2)) (target base (rw_files (snd st)) r)" if "r \<in> set ok" for r
    using that assms(1) is_file_mono[OF mono] by (auto simp: loop_effect_def)
  moreover have "(\<exists>rel. target base (rw_files (snd st)) r = base @ rel) \<and>
      \<not> is_file (rw_files (snd st2)) (target base (rw_files (snd st)) r)" if "r \<in> set ok'" for r
    using that assms(2) unfolding loop_effect_def same by auto
  moreover have "\<exists>rel. target base (rw_files (snd st)) r = base @ rel" if "r \<in> set ok" for r
    using that assms(1) by (auto simp: loop_effect_def)
  moreover have "e \<in> set (fl_files (rw_files (snd st2))) \<or> (\<exists>r \<in> set (ok @ ok'). fst e = target base (rw_files (snd st)) r)"
    if "e \<in> set (fl_files (rw_files (snd st)))" for e
  proof (cases "e \<in> set (fl_files (rw_files (snd st1)))")
    case True
    then show ?thesis using assms(2) unfolding loop_effect_def same by auto
  qed (use that assms(1) in \<open>auto simp: loop_effect_def\<close>)
  moreover have "rr_deleted (fst st2) = rr_deleted (fst st) + length (ok @ ok')"
    "rr_failed (fst st2) = rr_failed (fst st) + length (bad @ bad')"
    "fl_real (rw_files (snd st2)) = fl_real (rw_files (snd st))"
    "set (fl_files (rw_files (snd st2))) \<subseteq> set (fl_files (rw_files (snd st)))"
    using assms by (auto simp: loop_effect_def)
  ultimately show ?thesis
    using d(1,3) unfolding loop_effect_def by (intro exI[of _ d] exI[of _ d2]) auto
qed

lemma retain_failed_effect:
  assumes "rw_conn w = idle d"
  shows "loop_effect base [] [r] (k, w) (retain_failed now aid media e (k, w))"
  using append_audit_idle[of now "[(''artifact_id'', JStr aid), (''media_class'', JStr media), (''action'', JStr ''delete''),
      (''status'', JStr ''failed''), (''error'', JStr (exception_name e)), (''created_at'', jtime now)]" d] assms
  by (auto simp: retain_failed_def loop_effect_def emit_def Let_def)

text \<open>A row with a string key that is in the table, as its candidate goes through the loop body.\<close>

lemma retain_one_effect:
  assumes cand: "retention_candidate (cutoffs_of pol now) r = Some a" and conn: "rw_conn w = idle d"
    and key: "af_artifact_id r = JStr aid" and mem: "JStr aid \<in> set (map af_artifact_id (db_artifacts d))"
  shows "\<exists>ok bad. loop_effect base ok bad (k, w) (retain_one base now a (k, w)) \<and>
    mset ok + mset bad = mset (filter (retention_due pol now) [r])"
proof (cases "retention_due pol now r")
  case False
  then have "row_class r \<notin> set (take 2 MEDIA_CLASSES)"
    using candidate_due(4)[OF cand] by (simp add: MEDIA_CLASSES_def)
  then have "retain_one base now a (k, w) = (k, w)"
    by (simp add: retain_one_def candidate_due[OF cand] Let_def)
  then show ?thesis
    using False loop_effect_refl[of "(k, w)" d base] conn by (intro exI[of _ "[]"]) simp
next
  case True
  then have cls: "row_class r \<in> set (take 2 MEDIA_CLASSES)"
    using candidate_due(4)[OF cand] by (simp add: MEDIA_CLASSES_def)
  obtain x fs where del: "file_delete base (text_of (af_path r)) (rw_files w) = (x, fs)"
    by (cases "file_delete base (text_of (af_path r)) (rw_files w)")
  note frame = file_delete_frame[OF del]
  show ?thesis
  proof (cases x)
    case (Inl e)
    have "fs = rw_files w" using del Inl
      by (auto simp: file_delete_def unlink_def split: sum.splits if_splits)
    then have "retain_one base now a (k, w) = retain_failed now aid (row_class r) e (k, w)"
      using cls del Inl by (simp add: retain_one_def candidate_due[OF cand] Let_def key)
    then show ?thesis
      using True retain_failed_effect[OF conn, of base r k now aid "row_class r" e]
      by (intro exI[of _ "[]"] exI[of _ "[r]"]) simp
  next
    case (Inr removed)
    obtain rel where rel: "target base (rw_files w) r = base @ rel" "\<not> is_file fs (base @ rel)"
      using file_delete_gone[of base "text_of (af_path r)" "rw_files w" removed fs] del Inr by (auto simp: target_def)
    obtain b d' where fin: "finalize_artifact_deletion (JStr aid) (JStr (row_class r)) now (idle d) = (Inr b, idle d')"
        "db_artifacts d' = marked {JStr aid} (db_artifacts d)" "db_decisions d' = db_decisions d"
      using finalize_succeeds_idle[OF mem] by blast
    have left: "e \<in> set (fl_files fs) \<or> fst e = base @ rel" if "e \<in> set (fl_files (rw_files w))" for e
      using that file_delete_below[OF del] rel(1)
      by (cases "fl_files fs = fl_files (rw_files w)") (auto simp: target_def resolve_Inr)
    have "loop_effect base [r] [] (k, w) (retain_one base now a (k, w))"
      using cls del Inr conn fin frame rel left key
      by (auto simp: retain_one_def candidate_due[OF cand] Let_def loop_effect_def emit_def)
    then show ?thesis using True by (intro exI[of _ "[r]"] exI[of _ "[]"]) simp
  qed
qed

lemma fold_retain_effect:
  assumes "rw_conn (snd st) = idle d" and "\<forall>r \<in> set rs. \<exists>aid. af_artifact_id r = JStr aid \<and>
      JStr aid \<in> set (map af_artifact_id (db_artifacts d))"
  shows "\<exists>ok bad. loop_effect base ok bad st (fold (retain_one base now)
      (List.map_filter (retention_candidate (cutoffs_of pol now)) rs) st) \<and>
    mset ok + mset bad = mset (filter (retention_due pol now) rs)"
  using assms
proof (induction rs arbitrary: st d)
  case Nil
  then show ?case using loop_effect_refl by (intro exI[of _ "[]"]) (simp add: List.map_filter_simps)
next
  case (Cons r rs)
  show ?case
  proof (cases "retention_candidate (cutoffs_of pol now) r")
    case None
    then show ?thesis
      using Cons.IH[OF Cons.prems(1)] Cons.prems(2) no_candidate_not_due[OF None] by (simp add: List.map_filter_simps)
  next
    case (Some a)
    obtain aid where aid: "af_artifact_id r = JStr aid" "JStr aid \<in> set (map af_artifact_id (db_artifacts d))"
      using Cons.prems(2) by auto
    obtain k w where st: "st = (k, w)" by (cases st)
    have conn: "rw_conn w = idle d" using Cons.prems(1) st by simp
    obtain ok bad where one: "loop_effect base ok bad st (retain_one base now a st)"
        "mset ok + mset bad = mset (filter (retention_due pol now) [r])"
      using retain_one_effect[OF Some conn aid, of base k] st by auto
    obtain d1 where d1: "rw_conn (snd (retain_one base now a st)) = idle d1"
        "map af_artifact_id (db_artifacts d1) = map af_artifact_id (db_artifacts d)"
      using one(1) Cons.prems(1) by (auto simp: loop_effect_def)
    have "\<forall>r \<in> set rs. \<exists>aid. af_artifact_id r = JStr aid \<and> JStr aid \<in> set (map af_artifact_id (db_artifacts d1))"
      using Cons.prems(2) d1(2) by simp
    from Cons.IH[OF d1(1) this] obtain ok' bad' where
        rest: "loop_effect base ok' bad' (retain_one base now a st) (fold (retain_one base now)
          (List.map_filter (retention_candidate (cutoffs_of pol now)) rs) (retain_one base now a st))"
        "mset ok' + mset bad' = mset (filter (retention_due pol now) rs)"
      by blast
    have "mset (ok @ ok') + mset (bad @ bad') = mset (filter (retention_due pol now) [r]) + mset (filter (retention_due pol now) rs)"
      unfolding one(2)[symmetric] rest(2)[symmetric] by simp
    then show ?thesis
      using loop_effect_trans[OF one(1) rest(1)] Some
      by (intro exI[of _ "ok @ ok'"] exI[of _ "bad @ bad'"]) (simp add: List.map_filter_simps)
  qed
qed

section \<open>Properties\<close>

text \<open>Artifacts are stored under distinct string ids, decisions under ids.\<close>

definition media_ok :: "db \<Rightarrow> bool" where
  "media_ok d \<longleftrightarrow> distinct (map af_artifact_id (db_artifacts d)) \<and>
     (\<forall>r \<in> set (db_artifacts d). \<exists>aid. af_artifact_id r = JStr aid) \<and>
     (\<forall>r \<in> set (db_decisions d). dr_decision_id r \<noteq> JNull)"

lemma cutoffs_run:
  "rmap (\<lambda>name. rbind (cutoff pol name now) (\<lambda>t. ret (name, t))) MEDIA_CLASSES = Inr (cutoffs_of pol now)"
  by (simp add: MEDIA_CLASSES_def cutoff_def periods_def cutoffs_of_def)

lemma delete_metadata_media:
  assumes "rw_conn w = idle d" and "\<forall>r \<in> set (db_decisions d). dr_decision_id r \<noteq> JNull"
  shows "\<exists>n d'. fst (delete_metadata t w) = n \<and> rw_conn (snd (delete_metadata t w)) = idle d' \<and>
    rw_files (snd (delete_metadata t w)) = rw_files w \<and> db_artifacts d' = db_artifacts d \<and>
    db_decisions d' = filter (\<lambda>r. t \<le> col_time (dr_created_at r)) (db_decisions d)"
  using assms by (simp add: delete_metadata_def delete_expired_metadata_result emit_def not_less)

lemma filter_filter_mset: "filter_mset P (filter_mset Q M) = filter_mset (\<lambda>x. Q x \<and> P x) M"
  by (induction M) auto

lemma distinct_sub_mset:
  assumes "mset xs \<subseteq># mset ys" and "distinct ys"
  shows "distinct xs"
proof -
  have "count (mset xs) a \<le> count (mset ys) a" for a
    using assms(1) by (rule mset_subset_eq_count)
  then have le: "count (mset xs) a \<le> 1" for a
    using assms(2) by (metis distinct_count_atmost_1 le_trans zero_le_one le_refl)
  have "count (mset xs) a = (if a \<in> set xs then 1 else 0)" for a
  proof (cases "a \<in> set xs")
    case True
    then have "count (mset xs) a \<noteq> 0" by (simp add: count_mset_0_iff)
    then have "count (mset xs) a = 1" using le[of a] by linarith
    then show ?thesis using True by simp
  qed (simp add: count_mset_0_iff)
  then show ?thesis by (simp add: distinct_count_atmost_1)
qed

text \<open>The rows that a pass deletes and those that it fails on partition the due rows.\<close>

lemma media_partition:
  assumes "media_ok d"
    and split: "mset ok + mset bad = mset (filter (retention_due pol now) (order_by af_created_at (filter (\<lambda>r. \<not> af_deleted r) (db_artifacts d))))"
  shows "set ok \<subseteq> {r \<in> set (db_artifacts d). \<not> af_deleted r \<and> retention_due pol now r}"
    and "length ok + length bad = length (filter (\<lambda>r. \<not> af_deleted r \<and> retention_due pol now r) (db_artifacts d))"
    and "card (af_artifact_id ` set ok) = length ok"
    and "r \<in> set (db_artifacts d) \<Longrightarrow> af_artifact_id r \<in> af_artifact_id ` set ok \<Longrightarrow> r \<in> set ok"
proof -
  have dist: "distinct (map af_artifact_id (db_artifacts d))" using assms(1) by (simp add: media_ok_def)
  have due: "mset (filter (retention_due pol now) (order_by af_created_at (filter (\<lambda>r. \<not> af_deleted r) (db_artifacts d)))) =
      mset (filter (\<lambda>r. \<not> af_deleted r \<and> retention_due pol now r) (db_artifacts d))"
    by (simp add: order_by_def filter_filter_mset conj_commute)
  note parts = split[unfolded due]
  have "set_mset (mset ok) \<subseteq> set_mset (mset ok + mset bad)" by simp
  then show sub: "set ok \<subseteq> {r \<in> set (db_artifacts d). \<not> af_deleted r \<and> retention_due pol now r}"
    unfolding parts by simp
  show "length ok + length bad = length (filter (\<lambda>r. \<not> af_deleted r \<and> retention_due pol now r) (db_artifacts d))"
    using arg_cong[OF parts, of size] by (simp del: mset_filter)
  have "mset ok \<subseteq># mset (db_artifacts d)"
    using mset_subset_eq_add_left[of "mset ok" "mset bad"] unfolding parts
    by (metis mset_filter multiset_filter_subset subset_mset.trans)
  from image_mset_subseteq_mono[OF this, of af_artifact_id]
  have "distinct (map af_artifact_id ok)"
    using distinct_sub_mset[OF _ dist, of "map af_artifact_id ok"] by simp
  then show "card (af_artifact_id ` set ok) = length ok" by (metis distinct_card image_set length_map)
  show "r \<in> set (db_artifacts d) \<Longrightarrow> af_artifact_id r \<in> af_artifact_id ` set ok \<Longrightarrow> r \<in> set ok"
    using sub dist by (auto simp: distinct_map dest: inj_onD)
qed


text \<open>One expired clip and its file.\<close>

definition sample_media_world :: retention_world where
  "sample_media_world = \<lparr>rw_conn = snd (put_artifact 0 [(''artifact_id'', JStr ''a1''), (''path'', JStr ''a/f.png''),
       (''media_type'', JStr ''image/png''), (''size_bytes'', JInt 3), (''media_class'', JStr ''raw_media''),
       (''created_at'', jtime 0)] (idle empty_db)),
     rw_files = sample_files, rw_metrics = []\<rparr>"


end
