(* ===== verification/Floats.thy ===== *)
theory Floats
  imports Prelude "HOL-Library.Log_Nat"
begin

text \<open>
  Python's floats as the sources use them: IEEE 754 binary64 values without the sign of zero, with
  the rounding of the arithmetic operations written out on rational numbers (to nearest, ties to
  even).
\<close>

section \<open>Values\<close>

datatype pyfloat = Fin rat | PosInf | NegInf | NaN

fun isfinite :: "pyfloat \<Rightarrow> bool" where
  "isfinite (Fin x) = True"
| "isfinite _ = False"

text \<open>\<open>x >= 0\<close>, \<open>x <= 1\<close> and \<open>max(0, x)\<close>; every comparison with a NaN is false.\<close>

fun pf_ge0 :: "pyfloat \<Rightarrow> bool" where
  "pf_ge0 (Fin x) = (0 \<le> x)"
| "pf_ge0 PosInf = True"
| "pf_ge0 _ = False"

fun pf_le1 :: "pyfloat \<Rightarrow> bool" where
  "pf_le1 (Fin x) = (x \<le> 1)"
| "pf_le1 NegInf = True"
| "pf_le1 _ = False"

fun pf_max0 :: "pyfloat \<Rightarrow> pyfloat" where
  "pf_max0 (Fin x) = (if 0 < x then Fin x else Fin 0)"
| "pf_max0 PosInf = PosInf"
| "pf_max0 _ = Fin 0"

section \<open>Rounding\<close>

definition round_half_even :: "rat \<Rightarrow> int" where
  "round_half_even x = (let n = \<lfloor>x\<rfloor>; r = x - of_int n in
     if r < 1 / 2 then n else if 1 / 2 < r then n + 1 else if even n then n else n + 1)"

definition pow2 :: "int \<Rightarrow> rat" where
  "pow2 e = (if 0 \<le> e then 2 ^ nat e else 1 / 2 ^ nat (- e))"

text \<open>Powers are computed by shifting.\<close>

lemma pow2_code [code]:
  "pow2 e = (if 0 \<le> e then of_int (push_bit (nat e) 1) else 1 / of_int (push_bit (nat (- e)) 1))"
  by (simp add: pow2_def push_bit_eq_mult)

text \<open>The binary exponent of a nonzero rational.\<close>

definition exponent_of :: "rat \<Rightarrow> int" where
  "exponent_of x = (let q = quotient_of \<bar>x\<bar>; k = bitlen (fst q) - bitlen (snd q) in
     if pow2 k \<le> \<bar>x\<bar> then k else k - 1)"

text \<open>The grid spacing of binary64 at \<open>x\<close> is \<open>2 ^ (exponent - 52)\<close>, and never finer than the
  subnormals.\<close>

definition round64 :: "rat \<Rightarrow> pyfloat" where
  "round64 x = (if x = 0 then Fin 0 else
     let e = max (exponent_of x - 52) (- 1074);
         y = of_int (round_half_even (x / pow2 e)) * pow2 e
     in if pow2 1024 \<le> y then PosInf else if y \<le> - pow2 1024 then NegInf else Fin y)"

fun fadd :: "pyfloat \<Rightarrow> pyfloat \<Rightarrow> pyfloat" where
  "fadd (Fin x) (Fin y) = round64 (x + y)"
| "fadd NaN _ = NaN"
| "fadd _ NaN = NaN"
| "fadd PosInf NegInf = NaN"
| "fadd NegInf PosInf = NaN"
| "fadd PosInf _ = PosInf"
| "fadd _ PosInf = PosInf"
| "fadd NegInf _ = NegInf"
| "fadd _ NegInf = NegInf"

fun fmul :: "pyfloat \<Rightarrow> pyfloat \<Rightarrow> pyfloat" where
  "fmul (Fin x) (Fin y) = round64 (x * y)"
| "fmul NaN _ = NaN"
| "fmul _ NaN = NaN"
| "fmul (Fin x) PosInf = (if 0 < x then PosInf else if x < 0 then NegInf else NaN)"
| "fmul (Fin x) NegInf = (if 0 < x then NegInf else if x < 0 then PosInf else NaN)"
| "fmul PosInf (Fin y) = (if 0 < y then PosInf else if y < 0 then NegInf else NaN)"
| "fmul NegInf (Fin y) = (if 0 < y then NegInf else if y < 0 then PosInf else NaN)"
| "fmul PosInf PosInf = PosInf"
| "fmul NegInf NegInf = PosInf"
| "fmul PosInf NegInf = NegInf"
| "fmul NegInf PosInf = NegInf"

text \<open>\<open>x < y\<close>, and \<open>x >= n\<close> for an integer, which Python compares exactly.\<close>

fun flt :: "pyfloat \<Rightarrow> pyfloat \<Rightarrow> bool" where
  "flt (Fin x) (Fin y) = (x < y)"
| "flt (Fin x) PosInf = True"
| "flt NegInf (Fin y) = True"
| "flt NegInf PosInf = True"
| "flt _ _ = False"

fun pf_ge_int :: "pyfloat \<Rightarrow> int \<Rightarrow> bool" where
  "pf_ge_int (Fin x) n = (of_int n \<le> x)"
| "pf_ge_int PosInf n = True"
| "pf_ge_int _ n = False"

text \<open>\<open>float(n)\<close>, which raises when the value is out of range, and a rounded operation on numbers that
  stay in range.\<close>

definition int_to_float :: "int \<Rightarrow> pyfloat result" where
  "int_to_float n = (case round64 (of_int n) of Fin x \<Rightarrow> ret (Fin x) | _ \<Rightarrow> raise (AdapterError ''OverflowError''))"

definition fl :: "rat \<Rightarrow> rat" where
  "fl x = (case round64 x of Fin y \<Rightarrow> y | _ \<Rightarrow> x)"

section \<open>Exactness on integers\<close>

lemma round_half_even_int [simp]: "round_half_even (of_int n) = n"
  by (simp add: round_half_even_def)

lemma pow2_pos [simp]: "0 < pow2 e" "pow2 e \<noteq> 0"
  by (simp_all add: pow2_def)

lemma pow2_mono: "d \<le> e \<Longrightarrow> pow2 d \<le> pow2 e"
proof -
  assume de: "d \<le> e"
  consider "0 \<le> d" | "d < 0" "0 \<le> e" | "e < 0" by linarith
  then show ?thesis
  proof cases
    case 1
    then show ?thesis using de by (simp add: pow2_def power_increasing)
  next
    case 2
    then have "1 / 2 ^ nat (- d) \<le> (1 :: rat)" by (simp add: divide_le_eq)
    also have "(1 :: rat) \<le> 2 ^ nat e" by simp
    finally show ?thesis using 2 by (simp add: pow2_def)
  next
    case 3
    then show ?thesis using de by (simp add: pow2_def frac_le power_increasing)
  qed
qed

lemma exponent_of_int:
  assumes "n \<noteq> 0"
  shows "exponent_of (of_int n) = bitlen \<bar>n\<bar> - 1"
proof -
  have q: "quotient_of \<bar>of_int n\<bar> = (\<bar>n\<bar>, 1)"
    using quotient_of_int[of "\<bar>n\<bar>"] by (simp add: Rat.of_int_def)
  have b: "2 ^ nat (bitlen \<bar>n\<bar> - 1) \<le> \<bar>n\<bar>"
    using bitlen_bounds[of "\<bar>n\<bar>"] assms by simp
  have "of_int (2 ^ nat (bitlen \<bar>n\<bar> - 1)) \<le> (of_int \<bar>n\<bar> :: rat)"
    using b by (simp only: of_int_le_iff)
  then have "(2 :: rat) ^ nat (bitlen \<bar>n\<bar> - 1) \<le> \<bar>of_int n\<bar>" by simp
  moreover have "0 \<le> bitlen \<bar>n\<bar> - 1" using assms bitlen_nonneg[of "\<bar>n\<bar>"] bitlen_eq_zero_iff[of "\<bar>n\<bar>"] by linarith
  moreover have "bitlen 1 = 1" using bitlen_pow2[of 1 0] by (simp add: bitlen_alt_def floorlog_def)
  ultimately show ?thesis by (simp add: exponent_of_def q pow2_def Let_def)
qed

text \<open>Every integer of at most 53 bits is a float.\<close>

lemma round64_int:
  assumes "\<bar>n\<bar> \<le> 2 ^ 53"
  shows "round64 (of_int n) = Fin (of_int n)"
proof (cases "n = 0")
  case False
  let ?e = "max (exponent_of (of_int n) - 52) (- 1074)"
  have le: "bitlen \<bar>n\<bar> \<le> 54"
    using assms bitlen_le_iff_power[of "\<bar>n\<bar>" 54] by simp
  have "\<exists>m. of_int n = of_int m * pow2 ?e"
  proof (cases "bitlen \<bar>n\<bar> \<le> 53")
    case True
    then have "?e \<le> 0" using exponent_of_int[OF False] by simp
    then show ?thesis
      by (intro exI[of _ "n * 2 ^ nat (- ?e)"]) (auto simp: pow2_def)
  next
    case False
    then have "\<bar>n\<bar> = 2 ^ 53"
      using assms bitlen_le_iff_power[of "\<bar>n\<bar>" 53] by simp
    then have e: "bitlen \<bar>n\<bar> = 54" and n: "n = 2 ^ 53 \<or> n = - (2 ^ 53)"
      using le False by (simp, linarith)
    have "?e = 1" using exponent_of_int[OF \<open>n \<noteq> 0\<close>] e by simp
    then show ?thesis
      using n by (intro exI[of _ "n div 2"]) (auto simp: pow2_def)
  qed
  then obtain m where m: "of_int n = of_int m * pow2 ?e" by blast
  then have "of_int n / pow2 ?e = of_int m"
    by (simp add: divide_eq_eq)
  then have "of_int (round_half_even (of_int n / pow2 ?e)) * pow2 ?e = of_int n"
    using m by simp
  moreover have "\<bar>of_int n\<bar> < (pow2 1024 :: rat)"
  proof -
    have "of_int \<bar>n\<bar> \<le> (of_int (2 ^ 53) :: rat)"
      using assms by (simp only: of_int_le_iff)
    then have "\<bar>of_int n :: rat\<bar> \<le> 2 ^ 53" by simp
    also have "(2 :: rat) ^ 53 < pow2 1024"
      by (simp add: pow2_def power_strict_increasing)
    finally show ?thesis .
  qed
  ultimately show ?thesis using False by (auto simp: round64_def Let_def)
qed (simp add: round64_def)

lemma fadd_count: "n < 2 ^ 53 \<Longrightarrow> fadd (Fin (of_nat n)) (Fin 1) = Fin (of_nat (Suc n))"
  using round64_int[of "int (Suc n)"] by (simp add: add.commute)

section \<open>Monotonicity\<close>

lemma pow2_powi: "pow2 e = 2 powi e"
  by (simp add: pow2_def power_int_def inverse_eq_divide power_one_over)

lemma pow2_add: "pow2 (a + b) = pow2 a * pow2 b"
  by (simp add: pow2_powi power_int_add)

lemma pow2_strict_mono: "d < e \<Longrightarrow> pow2 d < pow2 e"
proof -
  assume "d < e"
  then have "pow2 (d + 1) \<le> pow2 e" by (intro pow2_mono) simp
  moreover have "pow2 (d + 1) = pow2 d * 2" by (simp add: pow2_add pow2_def[of 1])
  ultimately show ?thesis using pow2_pos(1)[of d] by linarith
qed

lemma pow2_nonneg [simp]: "0 \<le> pow2 e" "\<not> pow2 e \<le> 0"
  using pow2_pos(1)[of e] by linarith+

lemma exponent_of_bounds:
  assumes "0 < x"
  shows "pow2 (exponent_of x) \<le> x" and "x < pow2 (exponent_of x + 1)"
proof -
  obtain a b where q: "quotient_of x = (a, b)" by force
  have b: "0 < b" using quotient_of_denom_pos[OF q] .
  have x: "x = of_int a / of_int b" using quotient_of_div[OF q] .
  have a: "0 < a" using assms b by (simp add: x zero_less_divide_iff)
  let ?k = "bitlen a - bitlen b"
  have pb: "pow2 (bitlen n - 1) \<le> of_int n" "of_int n < pow2 (bitlen n)" if "0 < n" for n
  proof -
    have bl: "1 \<le> bitlen n" using that bitlen_eq_zero_iff[of n] bitlen_nonneg[of n] by linarith
    have "2 ^ nat (bitlen n - 1) \<le> n" "n < 2 ^ nat (bitlen n)" using bitlen_bounds[OF that] by simp_all
    then have "of_int (2 ^ nat (bitlen n - 1)) \<le> (of_int n :: rat)" "(of_int n :: rat) < of_int (2 ^ nat (bitlen n))"
      by (simp_all only: of_int_le_iff of_int_less_iff)
    then show "pow2 (bitlen n - 1) \<le> of_int n" "of_int n < pow2 (bitlen n)" using bl by (simp_all add: pow2_def)
  qed
  have "pow2 (?k - 1) * of_int b \<le> pow2 (?k - 1) * pow2 (bitlen b)" using pb(2)[OF b] by simp
  also have "\<dots> = pow2 (bitlen a - 1)" by (simp flip: pow2_add)
  also have "\<dots> \<le> of_int a" using pb(1)[OF a] .
  finally have lo: "pow2 (?k - 1) \<le> x" using b by (simp add: x pos_le_divide_eq)
  have "of_int a < pow2 (bitlen a)" using pb(2)[OF a] .
  also have "\<dots> = pow2 (?k + 1) * pow2 (bitlen b - 1)" by (simp flip: pow2_add)
  also have "\<dots> \<le> pow2 (?k + 1) * of_int b" using pb(1)[OF b] by simp
  finally have hi: "x < pow2 (?k + 1)" using b by (simp add: x pos_divide_less_eq)
  show "pow2 (exponent_of x) \<le> x" "x < pow2 (exponent_of x + 1)"
    using lo hi assms by (auto simp: exponent_of_def q Let_def)
qed

lemma exponent_of_mono: 
  assumes "0 < x" and "x \<le> y"
  shows "exponent_of x \<le> exponent_of y"
proof (rule ccontr)
  assume "\<not> exponent_of x \<le> exponent_of y"
  then have "exponent_of y + 1 \<le> exponent_of x" by linarith
  from pow2_mono[OF this] have "pow2 (exponent_of y + 1) \<le> pow2 (exponent_of x)" .
  with exponent_of_bounds(1)[OF assms(1)] exponent_of_bounds(2)[of y] assms show False by linarith
qed

lemma round_half_even_mono:
  assumes "x \<le> y"
  shows "round_half_even x \<le> round_half_even y"
proof -
  have "\<lfloor>x\<rfloor> \<le> \<lfloor>y\<rfloor>" using assms by (rule floor_mono)
  moreover have "\<lfloor>z\<rfloor> \<le> round_half_even z" "round_half_even z \<le> \<lfloor>z\<rfloor> + 1" for z
    by (simp_all add: round_half_even_def Let_def)
  ultimately show ?thesis
  proof (cases "\<lfloor>x\<rfloor> = \<lfloor>y\<rfloor>")
    case True
    then show ?thesis using assms by (auto simp: round_half_even_def Let_def)
  next
    case False
    with \<open>\<lfloor>x\<rfloor> \<le> \<lfloor>y\<rfloor>\<close> have "\<lfloor>x\<rfloor> + 1 \<le> \<lfloor>y\<rfloor>" by linarith
    then show ?thesis using \<open>\<And>z. \<lfloor>z\<rfloor> \<le> round_half_even z\<close>[of y] \<open>\<And>z. round_half_even z \<le> \<lfloor>z\<rfloor> + 1\<close>[of x] by linarith
  qed
qed

lemma round_half_even_minus: "round_half_even (- x) = - round_half_even x"
proof (cases "x \<in> \<int>")
  case True
  then obtain n where "x = of_int n" by (rule Ints_cases)
  then show ?thesis by (metis of_int_minus round_half_even_int)
next
  case False
  then have f: "\<lfloor>- x\<rfloor> = - \<lfloor>x\<rfloor> - 1"
    by (metis ceiling_altdef ceiling_def diff_minus_eq_add floor_of_int minus_diff_eq minus_minus Ints_of_int uminus_add_conv_diff)
  show ?thesis by (auto simp: round_half_even_def Let_def f)
qed

text \<open>The rounded value before the range check.\<close>

definition grid :: "rat \<Rightarrow> int" where
  "grid x = max (exponent_of x - 52) (- 1074)"

definition rnd :: "rat \<Rightarrow> rat" where
  "rnd x = (if x = 0 then 0 else of_int (round_half_even (x / pow2 (grid x))) * pow2 (grid x))"

lemma round64_rnd: "round64 x = (if pow2 1024 \<le> rnd x then PosInf else if rnd x \<le> - pow2 1024 then NegInf else Fin (rnd x))"
  by (simp add: round64_def rnd_def grid_def Let_def)

lemma exponent_of_minus [simp]: "exponent_of (- x) = exponent_of x"
  by (simp add: exponent_of_def)

lemma rnd_minus: "rnd (- x) = - rnd x"
  by (simp add: rnd_def grid_def round_half_even_minus)

text \<open>A multiple of the grid is a bound that rounding respects.\<close>

lemma pow2_multiple: "d \<le> e \<Longrightarrow> \<exists>n :: int. pow2 e = of_int n * pow2 d"
  using pow2_add[of "e - d" d] by (intro exI[of _ "2 ^ nat (e - d)"]) (simp add: pow2_def[of "e - d"])

lemma rnd_mono_pos:
  assumes "0 < x" and "x \<le> y"
  shows "rnd x \<le> rnd y"
proof (cases "grid x = grid y")
  case True
  have "x / pow2 (grid x) \<le> y / pow2 (grid y)" using assms True divide_right_mono[of x y "pow2 (grid y)"] by simp
  from round_half_even_mono[OF this] have "of_int (round_half_even (x / pow2 (grid x))) \<le> (of_int (round_half_even (y / pow2 (grid y))) :: rat)"
    by (simp only: of_int_le_iff)
  then show ?thesis using assms True by (simp add: rnd_def)
next
  case False
  let ?e = "exponent_of y"
  from False have lt: "exponent_of x < ?e" and g: "grid y = ?e - 52" and gx: "grid x \<le> ?e"
    using exponent_of_mono[OF assms] by (auto simp: grid_def)
  have P: "x \<le> pow2 ?e" "pow2 ?e \<le> y"
    using exponent_of_bounds(2)[OF assms(1)] pow2_mono[of "exponent_of x + 1" ?e] lt exponent_of_bounds(1)[of y] assms by linarith+
  obtain m :: int where m: "pow2 ?e = of_int m * pow2 (grid x)" using pow2_multiple[OF gx] by blast
  have "grid y \<le> ?e" using g by simp
  from pow2_multiple[OF this] obtain n :: int where n: "pow2 ?e = of_int n * pow2 (grid y)" by blast
  have "x / pow2 (grid x) \<le> of_int m" using P(1) m by (simp add: pos_divide_le_eq)
  from round_half_even_mono[OF this] have 1: "round_half_even (x / pow2 (grid x)) \<le> m" by simp
  have "of_int n \<le> y / pow2 (grid y)" using P(2) n by (simp add: pos_le_divide_eq)
  from round_half_even_mono[OF this] have 2: "n \<le> round_half_even (y / pow2 (grid y))" by simp
  have "rnd x \<le> of_int m * pow2 (grid x)" using assms 1 by (simp add: rnd_def)
  also have "\<dots> = of_int n * pow2 (grid y)" using m n by simp
  also have "\<dots> \<le> rnd y" using assms 2 by (simp add: rnd_def)
  finally show ?thesis .
qed

lemma rnd_nonneg: "0 \<le> x \<Longrightarrow> 0 \<le> rnd x"
  using round_half_even_mono[of 0 "x / pow2 (grid x)"] round_half_even_int[of 0]
  by (simp add: rnd_def divide_nonneg_nonneg mult_nonneg_nonneg)

lemma rnd_mono: 
  assumes "x \<le> y"
  shows "rnd x \<le> rnd y"
proof -
  consider "0 < x" | "x \<le> 0" "0 \<le> y" | "y < 0" by linarith
  then show ?thesis
  proof cases
    case 1
    then show ?thesis using rnd_mono_pos assms by blast
  next
    case 2
    then show ?thesis using rnd_nonneg[of y] rnd_nonneg[of "- x"] by (simp add: rnd_minus)
  next
    case 3
    then show ?thesis using rnd_mono_pos[of "- y" "- x"] assms by (simp add: rnd_minus)
  qed
qed

text \<open>Powers of two in range are exact, so values bounded by one round to a finite value.\<close>

lemma exponent_of_pow2: "exponent_of (pow2 e) = e"
proof -
  have "\<not> exponent_of (pow2 e) + 1 \<le> e"
    using exponent_of_bounds(2)[of "pow2 e"] pow2_mono[of "exponent_of (pow2 e) + 1" e] by auto
  moreover have "\<not> e < exponent_of (pow2 e)"
    using exponent_of_bounds(1)[of "pow2 e"] pow2_strict_mono[of e "exponent_of (pow2 e)"] by auto
  ultimately show ?thesis by linarith
qed

lemma rnd_pow2: 
  assumes "- 1074 \<le> e"
  shows "rnd (pow2 e) = pow2 e"
proof -
  have "grid (pow2 e) \<le> e" using assms by (simp add: grid_def exponent_of_pow2)
  from pow2_multiple[OF this] obtain n :: int where n: "pow2 e = of_int n * pow2 (grid (pow2 e))" by blast
  then have "pow2 e / pow2 (grid (pow2 e)) = of_int n" by (simp add: divide_eq_eq)
  then have "rnd (pow2 e) = of_int n * pow2 (grid (pow2 e))" by (simp add: rnd_def)
  with n show ?thesis by simp
qed

lemma rnd_le_pow2: "x \<le> pow2 e \<Longrightarrow> - 1074 \<le> e \<Longrightarrow> rnd x \<le> pow2 e"
  using rnd_mono[of x "pow2 e"] by (simp add: rnd_pow2)

lemma round64_bounded:
  assumes "\<bar>x\<bar> \<le> pow2 1023"
  shows "round64 x = Fin (rnd x)"
proof -
  have "x \<le> pow2 1023" "- x \<le> pow2 1023" using assms by linarith+
  from rnd_le_pow2[OF this(1)] rnd_le_pow2[OF this(2)] have "rnd x \<le> pow2 1023" "- rnd x \<le> pow2 1023"
    by (simp_all add: rnd_minus)
  moreover have "pow2 1023 < pow2 1024" by (rule pow2_strict_mono) simp
  ultimately show ?thesis by (auto simp: round64_rnd)
qed

lemma fl_bounded: "\<bar>x\<bar> \<le> pow2 1023 \<Longrightarrow> fl x = rnd x"
  by (simp add: fl_def round64_bounded)

lemma rnd_int: "\<bar>n\<bar> \<le> 2 ^ 53 \<Longrightarrow> rnd (of_int n) = of_int n"
  using round64_int[of n] by (simp add: round64_rnd split: if_splits)

lemma rnd_0 [simp]: "rnd 0 = 0"
  by (simp add: rnd_def)

lemma rnd_1 [simp]: "rnd 1 = 1"
  using rnd_int[of 1] by simp

lemma rnd_unit: "0 \<le> x \<Longrightarrow> x \<le> 1 \<Longrightarrow> 0 \<le> rnd x \<and> rnd x \<le> 1"
  using rnd_mono[of 0 x] rnd_mono[of x 1] by simp

lemma le_pow2_1023: "\<bar>x\<bar> \<le> 2 ^ 100 \<Longrightarrow> \<bar>x\<bar> \<le> pow2 1023"
  using pow2_mono[of 100 1023] by (simp add: pow2_def[of 100])

lemma fl_small: "\<bar>x\<bar> \<le> 2 ^ 100 \<Longrightarrow> fl x = rnd x"
  by (simp add: fl_bounded le_pow2_1023)

lemma exponent_of_abs_bounds:
  assumes "x \<noteq> 0"
  shows "pow2 (exponent_of x) \<le> \<bar>x\<bar>" and "\<bar>x\<bar> < pow2 (exponent_of x + 1)"
  using exponent_of_bounds[of "\<bar>x\<bar>"] assms exponent_of_minus[of x] by (auto simp: abs_if split: if_splits)

text \<open>The numbers with 53 bits on a grid are exactly the results of rounding.\<close>

lemma rnd_representable:
  assumes "\<bar>n\<bar> \<le> 2 ^ 53" and "- 1074 \<le> e"
  shows "rnd (of_int n * pow2 e) = of_int n * pow2 e"
proof -
  let ?x = "of_int n * pow2 e"
  have exact: "rnd ?x = ?x" if "grid ?x \<le> e"
  proof -
    from pow2_multiple[OF that] obtain m :: int where m: "pow2 e = of_int m * pow2 (grid ?x)" by blast
    then have "?x / pow2 (grid ?x) = of_int (n * m)" by (simp add: divide_eq_eq)
    then show ?thesis using m by (simp only: rnd_def round_half_even_int) simp
  qed
  consider "n = 0" | "\<bar>n\<bar> = 2 ^ 53" | "n \<noteq> 0" "\<bar>n\<bar> < 2 ^ 53" using assms(1) by linarith
  then show ?thesis
  proof cases
    case 2
    have "pow2 (53 + e) = 2 ^ 53 * pow2 e" by (simp only: pow2_add) (simp add: pow2_def[of 53])
    then have p: "rnd (2 ^ 53 * pow2 e) = 2 ^ 53 * pow2 e" using rnd_pow2[of "53 + e"] assms(2) by simp
    from 2 have "n = 2 ^ 53 \<or> n = - (2 ^ 53)" by linarith
    then show ?thesis using p rnd_minus[of "2 ^ 53 * pow2 e"] by auto
  next
    case 3
    have abs: "\<bar>?x\<bar> = of_int \<bar>n\<bar> * pow2 e" by (simp add: abs_mult)
    have "pow2 (exponent_of ?x) \<le> \<bar>?x\<bar>"
      using exponent_of_abs_bounds(1)[of ?x] 3 by simp
    also have "\<dots> < 2 ^ 53 * pow2 e"
    proof -
      have "(of_int \<bar>n\<bar> :: rat) < of_int (2 ^ 53)" using 3 by (simp only: of_int_less_iff)
      then show ?thesis unfolding abs by simp
    qed
    also have "\<dots> = pow2 (53 + e)" by (simp only: pow2_add) (simp add: pow2_def[of 53])
    finally have "\<not> 53 + e \<le> exponent_of ?x" using pow2_mono[of "53 + e" "exponent_of ?x"] by linarith
    then show ?thesis using assms(2) exact by (simp add: grid_def)
  qed (simp add: rnd_def)
qed

lemma rnd_form: "\<exists>n e. rnd x = of_int n * pow2 e \<and> \<bar>n\<bar> \<le> 2 ^ 53 \<and> - 1074 \<le> e"
proof (cases "x = 0")
  case False
  have "\<bar>x\<bar> < pow2 (exponent_of x + 1)"
    using exponent_of_abs_bounds(2)[OF False] .
  also have "\<dots> \<le> pow2 (53 + grid x)" by (rule pow2_mono) (simp add: grid_def)
  also have "\<dots> = 2 ^ 53 * pow2 (grid x)" by (simp only: pow2_add) (simp add: pow2_def[of 53])
  finally have "x \<le> 2 ^ 53 * pow2 (grid x)" "- x \<le> 2 ^ 53 * pow2 (grid x)" by linarith+
  then have "x / pow2 (grid x) \<le> of_int (2 ^ 53)" "(- x) / pow2 (grid x) \<le> of_int (2 ^ 53)"
    by (simp_all only: pos_divide_le_eq[OF pow2_pos(1)] of_int_power of_int_numeral)
  from this[THEN round_half_even_mono] have "\<bar>round_half_even (x / pow2 (grid x))\<bar> \<le> 2 ^ 53"
    unfolding round_half_even_int minus_divide_left[symmetric] round_half_even_minus by linarith
  then show ?thesis using False by (intro exI[of _ "round_half_even (x / pow2 (grid x))"] exI[of _ "grid x"]) (simp add: rnd_def grid_def)
qed (auto intro: exI[of _ 0])

lemma rnd_idem [simp]: "rnd (rnd x) = rnd x"
  using rnd_form[of x] rnd_representable by metis

lemma rnd_double: "rnd (2 * rnd x) = 2 * rnd x"
proof -
  obtain n e where *: "rnd x = of_int n * pow2 e" "\<bar>n\<bar> \<le> 2 ^ 53" "- 1074 \<le> e" using rnd_form by blast
  have "2 * rnd x = of_int n * pow2 (e + 1)" by (simp add: *(1) pow2_add pow2_def[of 1])
  then show ?thesis using rnd_representable[of n "e + 1"] *(2,3) by simp
qed

text \<open>Rounded operations in range are monotone, and so is the value outside it.\<close>

lemma fl_cases: "fl x = (if pow2 1024 \<le> rnd x \<or> rnd x \<le> - pow2 1024 then x else rnd x)"
  by (simp add: fl_def round64_rnd)

lemma fl_mono:
  assumes "x \<le> y"
  shows "fl x \<le> fl y"
proof -
  have le: "rnd x \<le> rnd y" using assms by (rule rnd_mono)
  have "rnd x \<le> y" if "pow2 1024 \<le> rnd y" "\<not> pow2 1024 \<le> rnd x"
    using that rnd_mono[of y "rnd x"] by (intro leI notI) auto
  moreover have "x \<le> rnd y" if "rnd x \<le> - pow2 1024" "\<not> rnd y \<le> - pow2 1024"
    using that rnd_mono[of "rnd y" x] by (intro leI notI) auto
  ultimately show ?thesis using assms le by (auto simp: fl_cases)
qed

lemma fl_0 [simp]: "fl 0 = 0" and fl_1 [simp]: "fl 1 = 1"
  by (simp_all add: fl_small)

lemma fl_nonneg: "0 \<le> x \<Longrightarrow> 0 \<le> fl x"
  using fl_mono[of 0 x] by simp

lemma fl_unit: "0 \<le> x \<Longrightarrow> x \<le> 1 \<Longrightarrow> 0 \<le> fl x \<and> fl x \<le> 1"
  using fl_mono[of 0 x] fl_mono[of x 1] by simp

lemma fl_idem: "\<bar>x\<bar> \<le> 2 ^ 100 \<Longrightarrow> fl (fl x) = fl x"
  by (simp add: fl_small[of x] fl_cases)

end
