(* ===== verification/Inference.thy ===== *)
theory Inference
  imports Contracts Floats
begin

text \<open>
  The typed inference port, \<open>src/tp_smoke_detect/ports/inference.py\<close>, and the deterministic provider
  of \<open>adapters/inference/fake.py\<close>.  Numbers that come from a model may be infinite or not a number,
  so they are \<open>pyfloat\<close>.  Coercing a raw adapter object to the fields of a result type is
  pydantic's work and a parameter (\<open>coerce\<close>); the constraints on the fields are the source's.
\<close>

section \<open>Scores\<close>

text \<open>\<open>Field(ge=0, le=1)\<close> with \<open>_finite_score\<close>.\<close>

definition unit_float :: "pyfloat \<Rightarrow> bool" where
  "unit_float x \<longleftrightarrow> pf_ge0 x \<and> pf_le1 x \<and> isfinite x"

section \<open>Roles, statuses, results\<close>

datatype InferenceRole = ROLE_POSE | ROLE_OBJECT | ROLE_SMOKE | ROLE_TEMPORAL | ROLE_CHEWING_VETO | ROLE_VLM

datatype InferenceStatus = ST_OK | ST_TIMEOUT | ST_UNAVAILABLE | ST_MALFORMED | ST_INVALID
  | ST_REVISION_MISMATCH | ST_ERROR | ST_UNCLEAR

datatype ProviderState = CLOSED | OPEN | HALF_OPEN

text \<open>An optional score: left out, given as \<open>None\<close>, or given as a number.\<close>

datatype score_field = Unset | Null | Score pyfloat

datatype RoleResult =
    PoseInference "pyfloat option" "int option" pyfloat
  | ObjectInference string pyfloat
  | SmokeInference pyfloat pyfloat
  | TemporalInference bool "int option" int
  | ChewingVetoInference bool pyfloat
  | VLMInference string score_field string

definition ObjectLabel :: "string list" where
  "ObjectLabel = [''cigarette'', ''vape'', ''phone'', ''cup'', ''food'', ''pen_toothpick'', ''betel_quid'',
     ''background'', ''unknown'']"

definition VLMLabel :: "string list" where
  "VLMLabel = [''smoking'', ''not_smoking'', ''unclear'']"

text \<open>Which class a role's result has.\<close>

fun result_role :: "RoleResult \<Rightarrow> InferenceRole" where
  "result_role (PoseInference _ _ _) = ROLE_POSE"
| "result_role (ObjectInference _ _) = ROLE_OBJECT"
| "result_role (SmokeInference _ _) = ROLE_SMOKE"
| "result_role (TemporalInference _ _ _) = ROLE_TEMPORAL"
| "result_role (ChewingVetoInference _ _) = ROLE_CHEWING_VETO"
| "result_role (VLMInference _ _ _) = ROLE_VLM"

definition opt_all :: "('a \<Rightarrow> bool) \<Rightarrow> 'a option \<Rightarrow> bool" where
  "opt_all P x = (case x of None \<Rightarrow> True | Some v \<Rightarrow> P v)"

text \<open>The field constraints of the six result models.  \<open>_finite_score\<close> on an explicit \<open>None\<close> calls
  \<open>math.isfinite(None)\<close>, a \<open>TypeError\<close>.\<close>

fun validate_result :: "RoleResult \<Rightarrow> RoleResult result" where
  "validate_result (PoseInference distance dwell conf) =
    (if opt_all pf_ge0 distance \<and> opt_all (\<lambda>n. 0 \<le> n) dwell \<and> unit_float conf
     then ret (PoseInference distance dwell conf) else raise (ValueError ''PoseInference''))"
| "validate_result (ObjectInference l conf) =
    (if l \<in> set ObjectLabel \<and> unit_float conf
     then ret (ObjectInference l conf) else raise (ValueError ''ObjectInference''))"
| "validate_result (SmokeInference smoke ember) =
    (if unit_float smoke \<and> unit_float ember
     then ret (SmokeInference smoke ember) else raise (ValueError ''SmokeInference''))"
| "validate_result (TemporalInference retreat interval persistence) =
    (if opt_all (\<lambda>n. 0 \<le> n) interval \<and> 0 \<le> persistence
     then ret (TemporalInference retreat interval persistence) else raise (ValueError ''TemporalInference''))"
| "validate_result (ChewingVetoInference pos sc) =
    (if unit_float sc then ret (ChewingVetoInference pos sc) else raise (ValueError ''ChewingVetoInference''))"
| "validate_result (VLMInference l sc reason) =
    (if l \<notin> set VLMLabel then raise (ValueError ''VLMInference'')
     else (case sc of
         Null \<Rightarrow> raise (TypeError ''must be real number, not NoneType'')
       | Unset \<Rightarrow> rbind (check_text 1 64 reason) (\<lambda>r. ret (VLMInference l Unset r))
       | Score x \<Rightarrow> if unit_float x
           then rbind (check_text 1 64 reason) (\<lambda>r. ret (VLMInference l (Score x) r))
           else raise (ValueError ''VLMInference'')))"

text \<open>\<open>result_for_role\<close>: the role selects the class, pydantic coerces, the class validates.\<close>

definition result_for_role :: "(InferenceRole \<Rightarrow> 'raw \<Rightarrow> RoleResult option) \<Rightarrow> InferenceRole \<Rightarrow> 'raw \<Rightarrow> RoleResult result" where
  "result_for_role coerce role raw = (case coerce role raw of
     None \<Rightarrow> raise (ValueError ''ValidationError'')
   | Some r \<Rightarrow> validate_result r)"

section \<open>Requests and receipts\<close>

datatype feature = FStr string | FInt int | FFloat pyfloat | FBool bool | FNone

record InferenceRequest =
  rq_request_id :: uuid
  rq_role :: InferenceRole
  rq_track_id :: string
  rq_feature_revision :: string
  rq_features :: "(string \<times> feature) list"

definition InferenceRequest_new :: "InferenceRequest \<Rightarrow> InferenceRequest result" where
  "InferenceRequest_new q =
    rbind (check_text 1 128 (rq_track_id q)) (\<lambda>track.
    rbind (check_text 1 128 (rq_feature_revision q)) (\<lambda>rev.
    if list_ex (\<lambda>(_, v). case v of FFloat x \<Rightarrow> \<not> isfinite x | _ \<Rightarrow> False) (rq_features q)
    then raise (ValueError ''feature must be finite'')
    else ret (q\<lparr>rq_track_id := track, rq_feature_revision := rev\<rparr>)))"

record InferenceReceipt =
  ir_request_id :: uuid
  ir_role :: InferenceRole
  ir_provider :: string
  ir_model_revision :: string
  ir_status :: InferenceStatus
  ir_result :: "RoleResult option"
  ir_reason_codes :: "string list"
  ir_latency_ms :: pyfloat
  ir_completed_at :: time_us

text \<open>\<open>enforce_fail_closed_result\<close>.\<close>

definition enforce_fail_closed_result :: "InferenceReceipt \<Rightarrow> InferenceReceipt result" where
  "enforce_fail_closed_result r =
    (if ir_status r = ST_OK \<and> ir_result r = None
     then raise (ValueError ''successful receipts require a typed result'')
     else if ir_status r = ST_OK \<and> (case ir_result r of None \<Rightarrow> False | Some x \<Rightarrow> result_role x \<noteq> ir_role r)
     then raise (ValueError ''receipt result does not match its model role'')
     else if ir_status r \<noteq> ST_OK \<and> ir_result r \<noteq> None
     then raise (ValueError ''failed receipts cannot carry positive evidence'')
     else if ir_status r \<noteq> ST_OK \<and> ir_reason_codes r = []
     then raise (ValueError ''failed receipts require a reason code'')
     else ret r)"

text \<open>Construction of a receipt; \<open>result\<close> is a result object that its own class has validated.\<close>

definition InferenceReceipt_new :: "InferenceReceipt \<Rightarrow> InferenceReceipt result" where
  "InferenceReceipt_new r =
    rbind (check_text 1 128 (ir_provider r)) (\<lambda>provider.
    rbind (check_text 1 256 (ir_model_revision r)) (\<lambda>revision.
    if \<not> pf_ge0 (ir_latency_ms r) \<or> \<not> isfinite (ir_latency_ms r) then raise (ValueError ''latency_ms'')
    else enforce_fail_closed_result (r\<lparr>ir_provider := provider, ir_model_revision := revision,
      ir_reason_codes := map str_strip (ir_reason_codes r)\<rparr>)))"

definition failure_receipt ::
  "time_us \<Rightarrow> InferenceRequest \<Rightarrow> string \<Rightarrow> string \<Rightarrow> InferenceStatus \<Rightarrow> string \<Rightarrow> pyfloat \<Rightarrow> InferenceReceipt result" where
  "failure_receipt wall q provider revision status reason latency =
    InferenceReceipt_new \<lparr>ir_request_id = rq_request_id q, ir_role = rq_role q, ir_provider = provider,
      ir_model_revision = revision, ir_status = status, ir_result = None, ir_reason_codes = [reason],
      ir_latency_ms = pf_max0 latency, ir_completed_at = wall\<rparr>"

section \<open>The deterministic provider\<close>

record 'raw fake_provider =
  fp_role :: InferenceRole
  fp_revision :: string
  fp_result :: "'raw option"
  fp_raw_result :: "'raw option"
  fp_latency_ms :: rat

definition fake_provider_new :: "InferenceRole \<Rightarrow> string \<Rightarrow> 'raw option \<Rightarrow> 'raw option \<Rightarrow> rat \<Rightarrow> 'raw fake_provider result" where
  "fake_provider_new role revision res raw latency =
    (if res \<noteq> None \<and> raw \<noteq> None then raise (ValueError ''provide result or raw_result, not both'')
     else if latency < 0 then raise (ValueError ''simulated latency cannot be negative'')
     else ret \<lparr>fp_role = role, fp_revision = revision, fp_result = res, fp_raw_result = raw, fp_latency_ms = latency\<rparr>)"

text \<open>\<open>_default_result\<close>; \<open>digest0\<close> is the first byte of the SHA-256 digest.  The rounding to six
  digits is never a tie, since 255 divided by 5 is odd.\<close>

definition fixture_score :: "nat \<Rightarrow> rat" where
  "fixture_score digest0 = of_int (round ((of_nat digest0 / 255 * (4 / 10) + 1 / 2) * 1000000 :: rat)) / 1000000"

definition default_result :: "InferenceRole \<Rightarrow> nat \<Rightarrow> RoleResult" where
  "default_result role digest0 = (let sc = Fin (fixture_score digest0) in case role of
     ROLE_POSE \<Rightarrow> PoseInference (Some (Fin (4 / 100))) (Some 500) sc
   | ROLE_OBJECT \<Rightarrow> ObjectInference ''background'' sc
   | ROLE_SMOKE \<Rightarrow> SmokeInference sc sc
   | ROLE_TEMPORAL \<Rightarrow> TemporalInference True (Some 1200) 2000
   | ROLE_CHEWING_VETO \<Rightarrow> ChewingVetoInference False (Fin (1 / 10))
   | ROLE_VLM \<Rightarrow> VLMInference ''unclear'' (Score sc) ''fake_fixture'')"

definition fake_infer ::
  "(InferenceRole \<Rightarrow> 'raw \<Rightarrow> RoleResult option) \<Rightarrow> time_us \<Rightarrow> nat \<Rightarrow> 'raw fake_provider \<Rightarrow>
   InferenceRequest \<Rightarrow> int option \<Rightarrow> InferenceReceipt result" where
  "fake_infer coerce wall digest0 p q timeout_ms =
    (if rq_role q \<noteq> fp_role p
     then failure_receipt wall q ''fake'' (fp_revision p) ST_INVALID ''provider_role_mismatch'' (Fin 0)
     else if (case timeout_ms of None \<Rightarrow> False | Some t \<Rightarrow> of_int t < fp_latency_ms p)
     then failure_receipt wall q ''fake'' (fp_revision p) ST_TIMEOUT ''provider_timeout''
       (Fin (case timeout_ms of None \<Rightarrow> 0 | Some t \<Rightarrow> of_int t))
     else
       let raw = (case fp_raw_result p of Some x \<Rightarrow> Some x | None \<Rightarrow> fp_result p);
           validated = (case raw of
               Some x \<Rightarrow> result_for_role coerce (fp_role p) x
             | None \<Rightarrow> validate_result (default_result (fp_role p) digest0))
       in case validated of
            Inl _ \<Rightarrow> failure_receipt wall q ''fake'' (fp_revision p) ST_MALFORMED ''provider_result_malformed''
              (Fin (fp_latency_ms p))
          | Inr res \<Rightarrow> InferenceReceipt_new \<lparr>ir_request_id = rq_request_id q, ir_role = rq_role q,
              ir_provider = ''fake'', ir_model_revision = fp_revision p, ir_status = ST_OK, ir_result = Some res,
              ir_reason_codes = [], ir_latency_ms = Fin (fp_latency_ms p), ir_completed_at = 0\<rparr>)"

section \<open>Receipts are fail-closed\<close>

text \<open>What a constructed receipt guarantees.\<close>

definition receipt_ok :: "InferenceReceipt \<Rightarrow> bool" where
  "receipt_ok r \<longleftrightarrow> 1 \<le> length (ir_provider r) \<and> length (ir_provider r) \<le> 128 \<and> str_strip (ir_provider r) = ir_provider r \<and>
     1 \<le> length (ir_model_revision r) \<and> length (ir_model_revision r) \<le> 256 \<and>
     str_strip (ir_model_revision r) = ir_model_revision r \<and>
     pf_ge0 (ir_latency_ms r) \<and> isfinite (ir_latency_ms r) \<and>
     (ir_status r = ST_OK \<longleftrightarrow> ir_result r \<noteq> None) \<and>
     (\<forall>x. ir_result r = Some x \<longrightarrow> result_role x = ir_role r) \<and>
     (ir_status r = ST_OK \<or> ir_reason_codes r \<noteq> [])"

lemma receipt_ok_new: "InferenceReceipt_new r = Inr r' \<Longrightarrow> receipt_ok r'"
  by (auto simp: InferenceReceipt_new_def enforce_fail_closed_result_def receipt_ok_def rbind_Inr
      dest!: check_text_bounds split: if_splits option.splits)

lemma receipt_new_keeps:
  assumes "InferenceReceipt_new r = Inr r'"
  shows "ir_status r' = ir_status r" "ir_result r' = ir_result r" "ir_role r' = ir_role r"
    "ir_request_id r' = ir_request_id r"
  using assms by (auto simp: InferenceReceipt_new_def enforce_fail_closed_result_def rbind_Inr split: if_splits)

lemma pf_max0_ok [simp]: "pf_ge0 (pf_max0 x)"
  by (cases x) auto

lemma check_text_ok:
  "str_strip s = s \<Longrightarrow> lo \<le> length s \<Longrightarrow> length s \<le> hi \<Longrightarrow> check_text lo hi s = Inr s"
  by (simp add: check_text_def)

text \<open>A failure receipt for a named provider is always constructed.\<close>

lemma failure_receipt_ok:
  assumes "1 \<le> length (str_strip provider)" "length (str_strip provider) \<le> 128"
    and "1 \<le> length (str_strip revision)" "length (str_strip revision) \<le> 256"
    and "status \<noteq> ST_OK" and "isfinite (pf_max0 latency)"
  shows "\<exists>r. failure_receipt wall q provider revision status reason latency = Inr r \<and> receipt_ok r \<and>
    ir_status r = status \<and> ir_result r = None \<and> ir_request_id r = rq_request_id q \<and> ir_role r = rq_role q"
proof -
  have "\<exists>r. failure_receipt wall q provider revision status reason latency = Inr r"
    using assms by (auto simp: failure_receipt_def InferenceReceipt_new_def enforce_fail_closed_result_def check_text_def Let_def)
  then obtain r where r: "failure_receipt wall q provider revision status reason latency = Inr r" ..
  then show ?thesis
    using receipt_ok_new receipt_new_keeps[OF r[unfolded failure_receipt_def]] unfolding failure_receipt_def by auto
qed

end
