(* ===== verification/Router.thy ===== *)
theory Router
  imports Inference
begin

text \<open>
  Role routing and circuit isolation, \<open>src/tp_smoke_detect/application/model_router.py\<close>.  The
  providers are a parameter: \<open>call\<close> runs the provider of a role on a request with the router's
  timeout, may raise, and changes the state \<open>'s\<close> of the providers.  \<open>now\<close> is the monotonic clock,
  \<open>wall\<close> the \<open>datetime.now(UTC)\<close> a receipt is stamped with.
\<close>

section \<open>State\<close>

record circuit =
  ci_state :: ProviderState
  ci_failures :: nat
  ci_opened_at :: rat

definition circuit_new :: circuit where
  "circuit_new = \<lparr>ci_state = CLOSED, ci_failures = 0, ci_opened_at = 0\<rparr>"

text \<open>A provider as the router sees it: \<open>getattr(provider, "provider_name", "provider")\<close> and
  \<open>provider.revision\<close>.\<close>

record provider =
  pv_name :: "string option"
  pv_revision :: string

definition provider_name :: "provider \<Rightarrow> string" where
  "provider_name p = (case pv_name p of None \<Rightarrow> ''provider'' | Some n \<Rightarrow> n)"

record router =
  rt_providers :: "InferenceRole \<Rightarrow> provider option"
  rt_timeout_ms :: int
  rt_failure_threshold :: int
  rt_recovery_timeout_s :: rat
  rt_expected_revisions :: "InferenceRole \<Rightarrow> string option"
  rt_circuits :: "InferenceRole \<Rightarrow> circuit"

definition router_new ::
  "(InferenceRole \<Rightarrow> provider option) \<Rightarrow> int \<Rightarrow> int \<Rightarrow> rat \<Rightarrow> (InferenceRole \<Rightarrow> string option) \<Rightarrow> router result" where
  "router_new providers timeout_ms threshold recovery expected =
    (if timeout_ms < 1 then raise (ValueError ''timeout_ms must be positive'')
     else if threshold < 1 then raise (ValueError ''failure_threshold must be positive'')
     else if recovery \<le> 0 then raise (ValueError ''recovery_timeout_s must be positive'')
     else ret \<lparr>rt_providers = providers, rt_timeout_ms = timeout_ms, rt_failure_threshold = threshold,
       rt_recovery_timeout_s = recovery, rt_expected_revisions = expected, rt_circuits = (\<lambda>_. circuit_new)\<rparr>)"

definition readiness :: "router \<Rightarrow> InferenceRole \<Rightarrow> bool option" where
  "readiness rt role = (case rt_providers rt role of None \<Rightarrow> None
     | Some _ \<Rightarrow> Some (ci_state (rt_circuits rt role) \<noteq> OPEN))"

definition route :: "router \<Rightarrow> InferenceRole \<Rightarrow> provider option" where
  "route rt role = rt_providers rt role"

section \<open>infer\<close>

definition record_status :: "router \<Rightarrow> InferenceStatus \<Rightarrow> rat \<Rightarrow> circuit \<Rightarrow> circuit" where
  "record_status rt status now c =
    (if status = ST_OK then c\<lparr>ci_state := CLOSED, ci_failures := 0\<rparr>
     else if status = ST_UNCLEAR then c
     else let c' = c\<lparr>ci_failures := Suc (ci_failures c)\<rparr> in
       if rt_failure_threshold rt \<le> int (ci_failures c') then c'\<lparr>ci_state := OPEN, ci_opened_at := now\<rparr> else c')"

definition set_circuit :: "InferenceRole \<Rightarrow> circuit \<Rightarrow> router \<Rightarrow> router" where
  "set_circuit role c rt = rt\<lparr>rt_circuits := (rt_circuits rt)(role := c)\<rparr>"

text \<open>An open circuit within its recovery time.\<close>

definition blocked :: "router \<Rightarrow> InferenceRole \<Rightarrow> rat \<Rightarrow> bool" where
  "blocked rt role now \<longleftrightarrow> ci_state (rt_circuits rt role) = OPEN \<and>
     now - ci_opened_at (rt_circuits rt role) < rt_recovery_timeout_s rt"

text \<open>The \<open>try\<close> around the provider, and the check of a pinned revision.\<close>

definition contained :: "time_us \<Rightarrow> InferenceRequest \<Rightarrow> provider \<Rightarrow> InferenceReceipt result \<Rightarrow> InferenceReceipt result" where
  "contained wall q p x = (case x of
     Inr r \<Rightarrow> ret r
   | Inl _ \<Rightarrow> failure_receipt wall q (provider_name p) (pv_revision p) ST_ERROR ''provider_exception'' (Fin 0))"

definition pinned :: "router \<Rightarrow> time_us \<Rightarrow> InferenceRequest \<Rightarrow> InferenceReceipt \<Rightarrow> InferenceReceipt result" where
  "pinned rt wall q r = (case rt_expected_revisions rt (rq_role q) of
     None \<Rightarrow> ret r
   | Some expected \<Rightarrow>
       if ir_status r = ST_OK \<and> ir_model_revision r \<noteq> expected
       then failure_receipt wall q (ir_provider r) (ir_model_revision r) ST_REVISION_MISMATCH
         ''router_revision_mismatch'' (ir_latency_ms r)
       else ret r)"

definition router_infer ::
  "(InferenceRole \<Rightarrow> InferenceRequest \<Rightarrow> int \<Rightarrow> 's \<Rightarrow> InferenceReceipt result \<times> 's) \<Rightarrow> rat \<Rightarrow> time_us \<Rightarrow>
   InferenceRequest \<Rightarrow> router \<times> 's \<Rightarrow> InferenceReceipt result \<times> router \<times> 's" where
  "router_infer call now wall q st = (case st of (rt, s) \<Rightarrow>
    (case rt_providers rt (rq_role q) of
       None \<Rightarrow> (failure_receipt wall q ''router'' ''unavailable'' ST_UNAVAILABLE ''role_provider_not_configured'' (Fin 0), rt, s)
     | Some p \<Rightarrow>
         if blocked rt (rq_role q) now
         then (failure_receipt wall q (provider_name p) (pv_revision p) ST_UNAVAILABLE ''provider_circuit_open'' (Fin 0), rt, s)
         else
           let c = rt_circuits rt (rq_role q);
               c1 = (if ci_state c = OPEN then c\<lparr>ci_state := HALF_OPEN\<rparr> else c);
               rt1 = set_circuit (rq_role q) c1 rt;
               (x, s1) = call (rq_role q) q (rt_timeout_ms rt) s
           in case rbind (contained wall q p x) (pinned rt wall q) of
                Inl e \<Rightarrow> (raise e, rt1, s1)
              | Inr r \<Rightarrow> (ret r, set_circuit (rq_role q) (record_status rt (ir_status r) now c1) rt1, s1)))"

section \<open>One request\<close>

text \<open>Providers whose name and revision fit the receipt's fields, and whose receipts are constructed
  receipts.\<close>

definition provider_ok :: "provider \<Rightarrow> bool" where
  "provider_ok p \<longleftrightarrow> 1 \<le> length (str_strip (provider_name p)) \<and> length (str_strip (provider_name p)) \<le> 128 \<and>
     1 \<le> length (str_strip (pv_revision p)) \<and> length (str_strip (pv_revision p)) \<le> 256"

definition router_ok :: "router \<Rightarrow> bool" where
  "router_ok rt \<longleftrightarrow> 1 \<le> rt_failure_threshold rt \<and> (\<forall>role p. rt_providers rt role = Some p \<longrightarrow> provider_ok p)"

definition calls_ok :: "(InferenceRole \<Rightarrow> InferenceRequest \<Rightarrow> int \<Rightarrow> 's \<Rightarrow> InferenceReceipt result \<times> 's) \<Rightarrow> bool" where
  "calls_ok call \<longleftrightarrow> (\<forall>role q t s r. fst (call role q t s) = Inr r \<longrightarrow> receipt_ok r)"

lemma receipt_ok_strip:
  "receipt_ok r \<Longrightarrow> 1 \<le> length (str_strip (ir_provider r)) \<and> length (str_strip (ir_provider r)) \<le> 128 \<and>
    1 \<le> length (str_strip (ir_model_revision r)) \<and> length (str_strip (ir_model_revision r)) \<le> 256"
  by (simp add: receipt_ok_def)

lemma isfinite_max0: "isfinite x \<Longrightarrow> isfinite (pf_max0 x)"
  by (cases x) auto

lemma contained_ok:
  assumes "provider_ok p" and "\<And>r. x = Inr r \<Longrightarrow> receipt_ok r"
  shows "\<exists>r. contained wall q p x = Inr r \<and> receipt_ok r"
proof (cases x)
  case (Inl e)
  obtain r where "failure_receipt wall q (provider_name p) (pv_revision p) ST_ERROR ''provider_exception'' (Fin 0) = Inr r"
      "receipt_ok r"
    using failure_receipt_ok[of "provider_name p" "pv_revision p" ST_ERROR "Fin 0" wall q "''provider_exception''"] assms(1)
    by (auto simp: provider_ok_def)
  then show ?thesis using Inl by (simp add: contained_def)
qed (use assms(2) in \<open>simp add: contained_def\<close>)

text \<open>A pinned receipt that carries a result has the pinned revision.\<close>

lemma pinned_ok:
  assumes "receipt_ok r"
  shows "\<exists>r'. pinned rt wall q r = Inr r' \<and> receipt_ok r' \<and>
    (ir_status r' = ST_OK \<longrightarrow> (\<forall>rev. rt_expected_revisions rt (rq_role q) = Some rev \<longrightarrow> ir_model_revision r' = rev))"
proof (cases "\<exists>rev. rt_expected_revisions rt (rq_role q) = Some rev \<and> ir_status r = ST_OK \<and> ir_model_revision r \<noteq> rev")
  case True
  have fin: "isfinite (pf_max0 (ir_latency_ms r))"
    using assms by (intro isfinite_max0) (simp add: receipt_ok_def)
  have ne: "ST_REVISION_MISMATCH \<noteq> ST_OK" by simp
  note s = receipt_ok_strip[OF assms]
  obtain r' where "failure_receipt wall q (ir_provider r) (ir_model_revision r) ST_REVISION_MISMATCH
        ''router_revision_mismatch'' (ir_latency_ms r) = Inr r'" "receipt_ok r'" "ir_status r' = ST_REVISION_MISMATCH"
    using failure_receipt_ok[OF s[THEN conjunct1] s[THEN conjunct2, THEN conjunct1]
        s[THEN conjunct2, THEN conjunct2, THEN conjunct1] s[THEN conjunct2, THEN conjunct2, THEN conjunct2] ne fin]
    by blast
  then show ?thesis using True by (auto simp: pinned_def)
qed (use assms in \<open>auto simp: pinned_def split: option.splits\<close>)

lemma router_infer_cases:
  assumes rt: "router_ok rt" and calls: "calls_ok call"
  obtains (refused) r where "router_infer call now wall q (rt, s) = (Inr r, rt, s)" "receipt_ok r"
      "ir_status r = ST_UNAVAILABLE" "rt_providers rt (rq_role q) = None \<or> blocked rt (rq_role q) now"
  | (called) p r x s1 where "rt_providers rt (rq_role q) = Some p" "\<not> blocked rt (rq_role q) now"
      "call (rq_role q) q (rt_timeout_ms rt) s = (x, s1)" "receipt_ok r"
      "ir_status r = ST_OK \<longrightarrow> (\<forall>rev. rt_expected_revisions rt (rq_role q) = Some rev \<longrightarrow> ir_model_revision r = rev)"
      "router_infer call now wall q (rt, s) = (Inr r, set_circuit (rq_role q)
        (record_status rt (ir_status r) now (let c = rt_circuits rt (rq_role q) in
          if ci_state c = OPEN then c\<lparr>ci_state := HALF_OPEN\<rparr> else c)) rt, s1)"
proof (cases "rt_providers rt (rq_role q)")
  case None
  obtain r where "failure_receipt wall q ''router'' ''unavailable'' ST_UNAVAILABLE ''role_provider_not_configured'' (Fin 0) = Inr r"
      "receipt_ok r" "ir_status r = ST_UNAVAILABLE"
    using failure_receipt_ok[of "''router''" "''unavailable''" ST_UNAVAILABLE "Fin 0" wall q "''role_provider_not_configured''"]
    by (auto simp: str_strip_def py_space_def)
  then show ?thesis using None by (intro refused) (simp_all add: router_infer_def)
next
  case (Some p)
  have p: "provider_ok p" using rt Some by (auto simp: router_ok_def)
  show ?thesis
  proof (cases "blocked rt (rq_role q) now")
    case True
    obtain r where "failure_receipt wall q (provider_name p) (pv_revision p) ST_UNAVAILABLE ''provider_circuit_open'' (Fin 0) = Inr r"
        "receipt_ok r" "ir_status r = ST_UNAVAILABLE"
      using failure_receipt_ok[of "provider_name p" "pv_revision p" ST_UNAVAILABLE "Fin 0" wall q "''provider_circuit_open''"] p
      by (auto simp: provider_ok_def)
    then show ?thesis using Some True by (intro refused) (simp_all add: router_infer_def)
  next
    case False
    obtain x s1 where x: "call (rq_role q) q (rt_timeout_ms rt) s = (x, s1)" by (cases "call (rq_role q) q (rt_timeout_ms rt) s")
    have "x = Inr r \<Longrightarrow> receipt_ok r" for r
      using calls x unfolding calls_ok_def by (metis fst_conv)
    from contained_ok[OF p this] obtain r0 where r0: "contained wall q p x = Inr r0" "receipt_ok r0" by blast
    from pinned_ok[OF r0(2), of rt wall q] obtain r where r: "pinned rt wall q r0 = Inr r" "receipt_ok r"
        "ir_status r = ST_OK \<longrightarrow> (\<forall>rev. rt_expected_revisions rt (rq_role q) = Some rev \<longrightarrow> ir_model_revision r = rev)"
      by blast
    show ?thesis
      by (rule called[OF Some False x r(2,3)])
        (use Some False x r0(1) r(1) in \<open>simp add: router_infer_def Let_def set_circuit_def\<close>)
  qed
qed

section \<open>Sequences of requests\<close>

text \<open>The history of a router: which role was called, when, and with what recorded status.\<close>

type_synonym call_log = "(InferenceRole \<times> rat \<times> InferenceStatus) list"

definition served_status :: "InferenceReceipt result \<Rightarrow> InferenceStatus" where
  "served_status x = (case x of Inl _ \<Rightarrow> ST_ERROR | Inr r \<Rightarrow> ir_status r)"

definition router_step ::
  "(InferenceRole \<Rightarrow> InferenceRequest \<Rightarrow> int \<Rightarrow> 's \<Rightarrow> InferenceReceipt result \<times> 's) \<Rightarrow> rat \<times> time_us \<times> InferenceRequest \<Rightarrow>
   router \<times> 's \<times> call_log \<Rightarrow> router \<times> 's \<times> call_log" where
  "router_step call e st = (case e of (now, wall, q) \<Rightarrow> case st of (rt, s, entries) \<Rightarrow>
     (case router_infer call now wall q (rt, s) of (x, rt', s') \<Rightarrow>
       (rt', s', if rt_providers rt (rq_role q) \<noteq> None \<and> \<not> blocked rt (rq_role q) now
                 then entries @ [(rq_role q, now, served_status x)] else entries)))"

definition router_run ::
  "(InferenceRole \<Rightarrow> InferenceRequest \<Rightarrow> int \<Rightarrow> 's \<Rightarrow> InferenceReceipt result \<times> 's) \<Rightarrow>
   (rat \<times> time_us \<times> InferenceRequest) list \<Rightarrow> router \<times> 's \<Rightarrow> router \<times> 's \<times> call_log" where
  "router_run call es st = fold (router_step call) es (fst st, snd st, [])"

text \<open>What the circuit of a role should be, from the calls of that role alone.\<close>

definition failing :: "InferenceStatus \<Rightarrow> bool" where
  "failing st \<longleftrightarrow> st \<noteq> ST_OK \<and> st \<noteq> ST_UNCLEAR"

definition role_calls :: "InferenceRole \<Rightarrow> call_log \<Rightarrow> (rat \<times> InferenceStatus) list" where
  "role_calls role entries = map snd (filter (\<lambda>e. fst e = role) entries)"

definition failures_since_ok :: "(rat \<times> InferenceStatus) list \<Rightarrow> nat" where
  "failures_since_ok calls = length (filter (\<lambda>e. failing (snd e)) (takeWhile (\<lambda>e. snd e \<noteq> ST_OK) (rev calls)))"

definition tripped :: "int \<Rightarrow> (rat \<times> InferenceStatus) list \<Rightarrow> bool" where
  "tripped threshold calls \<longleftrightarrow> calls \<noteq> [] \<and> failing (snd (last calls)) \<and> threshold \<le> int (failures_since_ok calls)"

lemma failures_since_ok_simps [simp]:
  "failures_since_ok [] = 0"
  "failures_since_ok (calls @ [(t, st)]) = (if st = ST_OK then 0
     else if failing st then Suc (failures_since_ok calls) else failures_since_ok calls)"
  by (simp_all add: failures_since_ok_def)

lemma role_calls_simps [simp]:
  "role_calls role [] = []"
  "role_calls role (entries @ [(r, t, st)]) = role_calls role entries @ (if r = role then [(t, st)] else [])"
  by (simp_all add: role_calls_def)

text \<open>The circuit mirrors the history of its role.\<close>

definition circuit_inv :: "router \<Rightarrow> call_log \<Rightarrow> InferenceRole \<Rightarrow> bool" where
  "circuit_inv rt entries role \<longleftrightarrow> (let c = rt_circuits rt role; calls = role_calls role entries in
     ci_failures c = failures_since_ok calls \<and>
     (ci_state c = CLOSED \<longleftrightarrow> int (ci_failures c) < rt_failure_threshold rt) \<and>
     (ci_state c = OPEN \<longleftrightarrow> tripped (rt_failure_threshold rt) calls) \<and>
     (ci_state c = OPEN \<longrightarrow> ci_opened_at c = fst (last calls)))"

text \<open>After a call that tripped the circuit the next call of the role is a recovery time later.\<close>

definition rested :: "int \<Rightarrow> rat \<Rightarrow> (rat \<times> InferenceStatus) list \<Rightarrow> bool" where
  "rested threshold recovery calls \<longleftrightarrow> (\<forall>xs a b ys. calls = xs @ [a, b] @ ys \<longrightarrow>
     tripped threshold (xs @ [a]) \<longrightarrow> recovery \<le> fst b - fst a)"

lemma rested_Nil [simp]: "rested threshold recovery []"
  by (simp add: rested_def)

lemma rested_snoc:
  assumes "rested threshold recovery calls"
    and "tripped threshold calls \<Longrightarrow> recovery \<le> fst b - fst (last calls)"
  shows "rested threshold recovery (calls @ [b])"
  unfolding rested_def
proof (intro allI impI)
  fix xs a b' ys
  assume split: "calls @ [b] = xs @ [a, b'] @ ys" and trip: "tripped threshold (xs @ [a])"
  show "recovery \<le> fst b' - fst a"
  proof (cases ys rule: rev_cases)
    case Nil
    then have "calls = xs @ [a]" "b' = b" using split by simp_all
    then show ?thesis using assms(2) trip by simp
  next
    case (snoc zs z)
    then have "calls = xs @ [a, b'] @ zs" using split by simp
    then show ?thesis using assms(1) trip unfolding rested_def by blast
  qed
qed

lemma record_inv:
  assumes inv: "circuit_inv rt entries role" and thr: "1 \<le> rt_failure_threshold rt"
  shows "circuit_inv (set_circuit role (record_status rt st now (let c = rt_circuits rt role in
      if ci_state c = OPEN then c\<lparr>ci_state := HALF_OPEN\<rparr> else c)) rt) (entries @ [(role, now, st)]) role"
proof -
  let ?c = "rt_circuits rt role"
  have closed: "ci_state ?c = CLOSED \<longleftrightarrow> int (ci_failures ?c) < rt_failure_threshold rt"
    and count: "ci_failures ?c = failures_since_ok (role_calls role entries)"
    using inv by (simp_all add: circuit_inv_def Let_def)
  consider "st = ST_OK" | "st = ST_UNCLEAR" | "failing st" "st \<noteq> ST_OK" "st \<noteq> ST_UNCLEAR"
    by (auto simp: failing_def)
  then show ?thesis
  proof cases
    case 1
    then show ?thesis using thr
      by (simp add: circuit_inv_def set_circuit_def record_status_def tripped_def failing_def Let_def)
  next
    case 2
    then show ?thesis using closed count
      by (auto simp: circuit_inv_def set_circuit_def record_status_def tripped_def failing_def Let_def)
  next
    case 3
    then show ?thesis using closed count
      by (auto simp: circuit_inv_def set_circuit_def record_status_def tripped_def Let_def)
  qed
qed

lemma circuit_inv_other:
  "circuit_inv rt entries role \<Longrightarrow> role \<noteq> r \<Longrightarrow>
   circuit_inv (set_circuit r c rt) (entries @ [(r, now, st)]) role"
  by (simp add: circuit_inv_def set_circuit_def Let_def)

text \<open>The invariant of a run.\<close>

definition run_ok :: "router \<times> 's \<times> call_log \<Rightarrow> bool" where
  "run_ok st \<longleftrightarrow> (case st of (rt, _, entries) \<Rightarrow> router_ok rt \<and> (\<forall>role. circuit_inv rt entries role \<and>
     rested (rt_failure_threshold rt) (rt_recovery_timeout_s rt) (role_calls role entries)))"

lemma router_ok_set_circuit [simp]: "router_ok (set_circuit role c rt) = router_ok rt"
  by (simp add: router_ok_def set_circuit_def)

lemma set_circuit_fields [simp]:
  "rt_failure_threshold (set_circuit role c rt) = rt_failure_threshold rt"
  "rt_recovery_timeout_s (set_circuit role c rt) = rt_recovery_timeout_s rt"
  "rt_providers (set_circuit role c rt) = rt_providers rt"
  "rt_expected_revisions (set_circuit role c rt) = rt_expected_revisions rt"
  by (simp_all add: set_circuit_def)

lemma run_ok_step:
  assumes ok: "run_ok (rt, s, entries)" and calls: "calls_ok call"
  shows "run_ok (router_step call (now, wall, q) (rt, s, entries))"
proof -
  have rt: "router_ok rt" and inv: "\<And>role. circuit_inv rt entries role"
    and rest: "\<And>role. rested (rt_failure_threshold rt) (rt_recovery_timeout_s rt) (role_calls role entries)"
    using ok by (simp_all add: run_ok_def)
  from rt calls show ?thesis
  proof (cases rule: router_infer_cases[where now = now and wall = wall and q = q and s = s])
    case (refused r)
    then show ?thesis using ok by (auto simp: router_step_def)
  next
    case (called p r x s1)
    let ?c = "record_status rt (ir_status r) now (let c = rt_circuits rt (rq_role q) in
        if ci_state c = OPEN then c\<lparr>ci_state := HALF_OPEN\<rparr> else c)"
    let ?entries = "entries @ [(rq_role q, now, ir_status r)]"
    have step: "router_step call (now, wall, q) (rt, s, entries) = (set_circuit (rq_role q) ?c rt, s1, ?entries)"
      using called(1,2,6) by (simp add: router_step_def served_status_def)
    have thr: "1 \<le> rt_failure_threshold rt" using rt by (simp add: router_ok_def)
    have "circuit_inv (set_circuit (rq_role q) ?c rt) ?entries role" for role
      using record_inv[OF inv thr, of "rq_role q" "ir_status r" now] circuit_inv_other[OF inv, of role "rq_role q"]
      by (cases "role = rq_role q") auto
    moreover have "rt_recovery_timeout_s rt \<le> now - fst (last (role_calls (rq_role q) entries))"
      if "tripped (rt_failure_threshold rt) (role_calls (rq_role q) entries)"
      using that inv[of "rq_role q"] called(2) by (auto simp: circuit_inv_def blocked_def Let_def)
    then have "rested (rt_failure_threshold rt) (rt_recovery_timeout_s rt) (role_calls role ?entries)" for role
      using rest[of role] rested_snoc[OF rest[of "rq_role q"], of "(now, ir_status r)"]
      by (cases "role = rq_role q") auto
    ultimately show ?thesis unfolding step using rt by (simp add: run_ok_def)
  qed
qed

lemma run_ok_run:
  assumes "router_ok rt" and "rt_circuits rt = (\<lambda>_. circuit_new)" and "calls_ok call"
  shows "run_ok (router_run call es (rt, s))"
proof -
  have "run_ok (rt, s, [])"
    using assms(1,2) by (auto simp: run_ok_def circuit_inv_def circuit_new_def tripped_def router_ok_def)
  then have "run_ok (fold (router_step call) es (rt, s, []))"
  proof (induction es arbitrary: rt s rule: rev_induct)
    case (snoc e es)
    obtain rt' s' l where one: "fold (router_step call) es (rt, s, []) = (rt', s', l)" by (metis prod_cases3)
    have "run_ok (rt', s', l)" using snoc.IH[OF snoc.prems] one by simp
    then show ?case using run_ok_step[OF _ assms(3)] one by (cases e) simp
  qed simp
  then show ?thesis by (simp add: router_run_def)
qed

lemma router_step_config:
  assumes "calls_ok call" and "router_ok rt" and "router_step call e (rt, s, l) = (rt', s', l')"
  shows "rt_failure_threshold rt' = rt_failure_threshold rt \<and> rt_recovery_timeout_s rt' = rt_recovery_timeout_s rt \<and>
    rt_providers rt' = rt_providers rt"
proof -
  obtain now wall q where e: "e = (now, wall, q)" by (metis prod_cases3)
  from assms(2,1) show ?thesis
    by (cases rule: router_infer_cases[where now = now and wall = wall and q = q and s = s])
      (use assms(3) e in \<open>auto simp: router_step_def\<close>)
qed

lemma router_run_config:
  assumes "router_ok rt" and "rt_circuits rt = (\<lambda>_. circuit_new)" and "calls_ok call"
    and "router_run call es (rt, s) = (rt', s', l')"
  shows "rt_failure_threshold rt' = rt_failure_threshold rt \<and> rt_recovery_timeout_s rt' = rt_recovery_timeout_s rt \<and>
    rt_providers rt' = rt_providers rt"
  using assms(4)
proof (induction es arbitrary: rt' s' l' rule: rev_induct)
  case (snoc e es)
  obtain rt1 s1 l1 where one: "router_run call es (rt, s) = (rt1, s1, l1)" by (metis prod_cases3)
  then have "router_step call e (rt1, s1, l1) = (rt', s', l')"
    using snoc.prems by (simp add: router_run_def)
  moreover have "router_ok rt1"
    using run_ok_run[OF assms(1-3), of es s] one by (simp add: run_ok_def)
  ultimately show ?case using router_step_config[OF assms(3)] snoc.IH[OF one] by metis
qed (simp add: router_run_def)

section \<open>Properties\<close>

text \<open>A router over the deterministic provider, for evaluation: the object role times out, the pose
  role answers.\<close>

definition sample_provider :: provider where
  "sample_provider = \<lparr>pv_name = Some ''fake'', pv_revision = ''fake-v1''\<rparr>"

definition sample_call :: "InferenceRole \<Rightarrow> InferenceRequest \<Rightarrow> int \<Rightarrow> unit \<Rightarrow> InferenceReceipt result \<times> unit" where
  "sample_call role q timeout s = (fake_infer (\<lambda>_ _. None) 0 0
     \<lparr>fp_role = role, fp_revision = ''fake-v1'', fp_result = None, fp_raw_result = (None :: unit option),
      fp_latency_ms = (if role = ROLE_OBJECT then 900 else 5)\<rparr> q (Some timeout), s)"

definition sample_router :: router where
  "sample_router = \<lparr>rt_providers = (\<lambda>_. Some sample_provider), rt_timeout_ms = 500, rt_failure_threshold = 2,
     rt_recovery_timeout_s = 30, rt_expected_revisions = (\<lambda>_. Some ''fake-v1''), rt_circuits = (\<lambda>_. circuit_new)\<rparr>"

definition sample_inference :: "InferenceRole \<Rightarrow> InferenceRequest" where
  "sample_inference role = \<lparr>rq_request_id = ''r1'', rq_role = role, rq_track_id = ''t'', rq_feature_revision = ''f'',
     rq_features = []\<rparr>"

definition sample_requests :: "(rat \<times> time_us \<times> InferenceRequest) list" where
  "sample_requests = [(0, 0, sample_inference ROLE_OBJECT), (1, 0, sample_inference ROLE_OBJECT),
     (2, 0, sample_inference ROLE_OBJECT), (3, 0, sample_inference ROLE_POSE), (40, 0, sample_inference ROLE_OBJECT)]"

lemma sample_router_new: "router_new (\<lambda>_. Some sample_provider) 500 2 30 (\<lambda>_. Some ''fake-v1'') = Inr sample_router"
  by (simp add: router_new_def sample_router_def)

lemma fake_calls_ok: "calls_ok sample_call"
proof -
  have "fake_infer coerce wall d p q t = Inr r \<Longrightarrow> receipt_ok r"
    for coerce :: "InferenceRole \<Rightarrow> 'raw \<Rightarrow> RoleResult option" and wall d p q t r
    by (auto simp: fake_infer_def failure_receipt_def Let_def intro: receipt_ok_new split: if_splits sum.splits)
  then show ?thesis by (auto simp: calls_ok_def sample_call_def)
qed

lemma sample_provider_ok: "provider_ok sample_provider"
  by code_simp

text \<open>Property C17.  The router contains every provider failure: with any providers, whether they answer,
  raise or return stale results, a request gets a constructed receipt, never an exception; a receipt
  that carries a result has status \<open>ok\<close>, a result of the class of its role and, where the role is
  pinned, the pinned model revision; and the circuits of the other roles are as before.\<close>

theorem router_contains_failures:
  assumes "router_ok rt" and "calls_ok call"
  shows "\<exists>r rt' s'. router_infer call now wall q (rt, s) = (Inr r, rt', s') \<and> receipt_ok r \<and>
    (ir_result r = None \<or> ir_status r = ST_OK \<and> rt_expected_revisions rt (rq_role q) \<in> {None, Some (ir_model_revision r)}) \<and>
    (ir_status r = ST_OK \<or> ir_reason_codes r \<noteq> []) \<and>
    rt_circuits rt' = (rt_circuits rt)(rq_role q := rt_circuits rt' (rq_role q))"
  using assms
proof (cases rule: router_infer_cases[where now = now and wall = wall and q = q and s = s])
  case (refused r)
  then show ?thesis by (auto simp: receipt_ok_def)
next
  case (called p r x s1)
  then show ?thesis
    by (cases "rt_expected_revisions rt (rq_role q)") (auto simp: receipt_ok_def set_circuit_def)
qed

theorem router_contains_failures_witness:
  "\<exists>r rt' s'. router_infer sample_call 0 0 (sample_inference ROLE_OBJECT) (sample_router, ()) = (Inr r, rt', s') \<and>
    receipt_ok r \<and> ir_result r = None"
proof -
  have ok: "router_ok sample_router"
    using sample_provider_ok by (simp add: router_ok_def sample_router_def)
  have timeout: "(case fst (router_infer sample_call 0 0 (sample_inference ROLE_OBJECT) (sample_router, ())) of
      Inr r \<Rightarrow> ir_result r = None | Inl _ \<Rightarrow> False)"
    by code_simp
  from router_contains_failures[OF ok fake_calls_ok, of 0 0 "sample_inference ROLE_OBJECT" "()"] obtain r rt' s' where
      "router_infer sample_call 0 0 (sample_inference ROLE_OBJECT) (sample_router, ()) = (Inr r, rt', s')" "receipt_ok r"
    by blast
  then show ?thesis using timeout by auto
qed

text \<open>Property C16.  The circuit breaker, over any sequence of requests and clock readings: the circuit of
  a role is a function of the calls of that role alone.  It counts the failures since the last
  success (unclear answers count neither way), it is closed exactly while they are below the
  threshold, it is open exactly when the last call failed at or above it, and the role is reported
  ready exactly when it is not open.  After a call that trips the circuit the provider is left
  alone for the recovery time: the next call of the role comes no earlier.\<close>

theorem circuit_breaker_refines_history:
  assumes "router_new providers timeout_ms threshold recovery expected = Inr rt"
    and "\<forall>role p. providers role = Some p \<longrightarrow> provider_ok p" and "calls_ok call"
    and "router_run call es (rt, s) = (rt', s', entries)"
  shows "ci_failures (rt_circuits rt' role) = failures_since_ok (role_calls role entries) \<and>
    (ci_state (rt_circuits rt' role) = CLOSED \<longleftrightarrow> int (failures_since_ok (role_calls role entries)) < threshold) \<and>
    (ci_state (rt_circuits rt' role) = OPEN \<longleftrightarrow> tripped threshold (role_calls role entries)) \<and>
    (readiness rt' role = (case providers role of None \<Rightarrow> None
       | Some _ \<Rightarrow> Some (\<not> tripped threshold (role_calls role entries)))) \<and>
    rested threshold recovery (role_calls role entries)"
proof -
  have new: "rt_circuits rt = (\<lambda>_. circuit_new)" "rt_failure_threshold rt = threshold"
      "rt_recovery_timeout_s rt = recovery" "rt_providers rt = providers"
    using assms(1) by (auto simp: router_new_def split: if_splits)
  have ok: "router_ok rt" using assms(1,2) by (auto simp: router_new_def router_ok_def split: if_splits)
  have "run_ok (rt', s', entries)" using run_ok_run[OF ok new(1) assms(3), of es s] assms(4) by simp
  then have inv: "circuit_inv rt' entries role"
      "rested (rt_failure_threshold rt') (rt_recovery_timeout_s rt') (role_calls role entries)"
    by (auto simp: run_ok_def)
  have same: "rt_failure_threshold rt' = threshold" "rt_recovery_timeout_s rt' = recovery" "rt_providers rt' = providers"
    using router_run_config[OF ok new(1) assms(3,4)] new by auto
  show ?thesis
    using inv unfolding circuit_inv_def Let_def same readiness_def
    by (auto split: option.split)
qed

theorem circuit_breaker_refines_history_witness:
  "role_calls ROLE_OBJECT (snd (snd (router_run sample_call sample_requests (sample_router, ())))) =
     [(0, ST_TIMEOUT), (1, ST_TIMEOUT), (40, ST_TIMEOUT)] \<and>
   rested 2 30 (role_calls ROLE_OBJECT (snd (snd (router_run sample_call sample_requests (sample_router, ())))))"
proof
  show "role_calls ROLE_OBJECT (snd (snd (router_run sample_call sample_requests (sample_router, ())))) =
     [(0, ST_TIMEOUT), (1, ST_TIMEOUT), (40, ST_TIMEOUT)]"
    by code_simp
  obtain rt' s' l where run: "router_run sample_call sample_requests (sample_router, ()) = (rt', s', l)"
    by (metis prod_cases3)
  show "rested 2 30 (role_calls ROLE_OBJECT (snd (snd (router_run sample_call sample_requests (sample_router, ())))))"
    using circuit_breaker_refines_history[OF sample_router_new _ fake_calls_ok run, of ROLE_OBJECT] sample_provider_ok run
    by simp
qed

end
