(* ===== verification/Float_Json.thy ===== *)
theory Float_Json
  imports Json Floats "HOL-Library.Product_Lexorder"
begin

text \<open>
  Floats as members of JSON documents, as the report and identity builders write them, and the digest
  that such a document carries of itself.
\<close>

text \<open>The tokens that JSON writes for values that are not finite stand for themselves.\<close>

definition json_float :: "pyfloat option \<Rightarrow> json" where
  "json_float x = (case x of None \<Rightarrow> JNull | Some (Fin v) \<Rightarrow> JFloat v | Some PosInf \<Rightarrow> JStr ''Infinity''
     | Some NegInf \<Rightarrow> JStr ''-Infinity'' | Some NaN \<Rightarrow> JStr ''NaN'')"

definition json_rat :: "rat option \<Rightarrow> json" where
  "json_rat x = (case x of None \<Rightarrow> JNull | Some v \<Rightarrow> JFloat v)"

text \<open>\<open>x <= y\<close> and \<open>x / n\<close> for a positive count.\<close>

fun fle :: "pyfloat \<Rightarrow> pyfloat \<Rightarrow> bool" where
  "fle (Fin x) (Fin y) = (x \<le> y)"
| "fle NaN _ = False"
| "fle _ NaN = False"
| "fle NegInf _ = True"
| "fle _ PosInf = True"
| "fle _ _ = False"

fun fdivn :: "pyfloat \<Rightarrow> nat \<Rightarrow> pyfloat" where
  "fdivn (Fin x) n = round64 (x / of_nat n)"
| "fdivn PosInf n = PosInf"
| "fdivn NegInf n = NegInf"
| "fdivn NaN n = NaN"

text \<open>\<open>m / n\<close> for counts: the correctly rounded quotient.\<close>

definition ratio :: "nat \<Rightarrow> nat \<Rightarrow> rat" where
  "ratio m n = fl (of_nat m / of_nat n)"

lemma ratio_unit:
  assumes "m \<le> n"
  shows "0 \<le> ratio m n" and "ratio m n \<le> 1"
proof -
  have "0 \<le> (of_nat m / of_nat n :: rat)" "of_nat m / of_nat n \<le> (1 :: rat)"
    using assms by (auto simp: divide_le_eq)
  from this rnd_unit[OF this] show "0 \<le> ratio m n" "ratio m n \<le> 1" by (simp_all add: ratio_def fl_small)
qed

end
