(* ===== verification/Py_Convert.thy ===== *)
theory Py_Convert
  imports Float_Json
begin

text \<open>
  The conversions \<open>str(x)\<close>, \<open>float(x)\<close> and \<open>int(x)\<close> of values that come from JSON.  How Python prints a value that is not a
  string, and reads numbers and JSON from text, is the record \<open>parsers\<close>.
\<close>

record parsers =
  pa_str :: "json \<Rightarrow> string"
  pa_int :: "string \<Rightarrow> int result"
  pa_float :: "string \<Rightarrow> pyfloat result"
  pa_loads :: "string \<Rightarrow> json result"

section \<open>Conversions\<close>

text \<open>\<open>str(x)\<close>, \<open>float(x)\<close> and \<open>int(x)\<close>.\<close>

definition py_str :: "parsers \<Rightarrow> json \<Rightarrow> string" where
  "py_str pa v = (case v of JStr s \<Rightarrow> s | _ \<Rightarrow> pa_str pa v)"

definition py_float :: "parsers \<Rightarrow> json \<Rightarrow> pyfloat result" where
  "py_float pa v = (case v of
     JInt n \<Rightarrow> int_to_float n
   | JFloat x \<Rightarrow> ret (Fin x)
   | JBool b \<Rightarrow> ret (Fin (if b then 1 else 0))
   | JStr s \<Rightarrow> pa_float pa s
   | JTime _ \<Rightarrow> raise (ValueError ''could not convert string to float'')
   | _ \<Rightarrow> raise (TypeError ''float''))"

definition trunc_rat :: "rat \<Rightarrow> int" where
  "trunc_rat x = (if x < 0 then - \<lfloor>- x\<rfloor> else \<lfloor>x\<rfloor>)"

definition int_of_float :: "pyfloat \<Rightarrow> int result" where
  "int_of_float x = (case x of
     Fin v \<Rightarrow> ret (trunc_rat v)
   | NaN \<Rightarrow> raise (ValueError ''cannot convert float NaN to integer'')
   | _ \<Rightarrow> raise (AdapterError ''OverflowError''))"

definition py_int :: "parsers \<Rightarrow> json \<Rightarrow> int result" where
  "py_int pa v = (case v of
     JInt n \<Rightarrow> ret n
   | JFloat x \<Rightarrow> ret (trunc_rat x)
   | JBool b \<Rightarrow> ret (if b then 1 else 0)
   | JStr s \<Rightarrow> pa_int pa s
   | JTime _ \<Rightarrow> raise (ValueError ''invalid literal for int()'')
   | _ \<Rightarrow> raise (TypeError ''int''))"

end
