(* ===== verification/Adapters.thy ===== *)
theory Adapters
  imports Router Py_Convert Float_Json
begin

text \<open>
  The runtime inference adapters: \<open>OnnxInferenceProvider\<close> of \<open>src/tp_smoke_detect/adapters/inference/onnx.py\<close> and
  \<open>OpenAICompatibleProvider\<close> of \<open>openai_compatible.py\<close>, with the interface the router relies on.  The runner, the transport
  and their state are parameters; so are the clock readings and pydantic's coercion of a raw result.
\<close>

section \<open>Errors\<close>

definition timeout_error :: error where "timeout_error = AdapterError ''TimeoutError''"
definition memory_error :: error where "memory_error = AdapterError ''MemoryError''"

text \<open>\<open>except (TypeError, ValueError, ValidationError)\<close>.\<close>

fun malformed_error :: "error \<Rightarrow> bool" where
  "malformed_error (ValueError _) = True"
| "malformed_error (TypeError _) = True"
| "malformed_error IdempotencyConflictError = True"
| "malformed_error _ = False"

section \<open>The ONNX boundary\<close>

text \<open>A runner: the parameter names that \<open>inspect.signature\<close> reports (none when it fails), whether it takes \<open>**kwargs\<close>, and
  the call with one keyword or none.\<close>

datatype keyword = NoKeyword | Deadline pyfloat | TimeoutMs int

type_synonym ('raw, 's) runner = "InferenceRequest \<Rightarrow> keyword \<Rightarrow> 's \<Rightarrow> 'raw result \<times> 's"

record ('raw, 's) onnx =
  ox_role :: InferenceRole
  ox_revision :: string
  ox_runner :: "(string list \<times> bool \<times> ('raw, 's) runner) option"

text \<open>The readings of \<open>time.monotonic()\<close> in a call: at the start, for the deadline, after the runner and at the end.\<close>

record clock =
  ck_started :: rat
  ck_deadline :: rat
  ck_returned :: rat
  ck_finished :: rat

definition elapsed_ms :: "clock \<Rightarrow> pyfloat" where
  "elapsed_ms c = fmul (fadd (Fin (ck_finished c)) (Fin (- ck_started c))) (Fin 1000)"

text \<open>\<open>time.monotonic() + timeout_ms / 1000\<close>.\<close>

definition deadline_of :: "clock \<Rightarrow> int \<Rightarrow> pyfloat result" where
  "deadline_of c t = (case round64 (of_int t / 1000) of
     Fin x \<Rightarrow> ret (fadd (Fin (ck_deadline c)) (Fin x)) | _ \<Rightarrow> raise (AdapterError ''OverflowError''))"

text \<open>What surrounds a call: coercion, wall clock, monotonic clock, timeout.\<close>

record 'raw call_env =
  en_coerce :: "InferenceRole \<Rightarrow> 'raw \<Rightarrow> RoleResult option"
  en_wall :: time_us
  en_clock :: clock
  en_timeout_ms :: "int option"

abbreviation onnx_name :: string where
  "onnx_name \<equiv> ''onnxruntime''"

abbreviation onnx_failure ::
  "'raw call_env \<Rightarrow> ('raw, 's) onnx \<Rightarrow> InferenceRequest \<Rightarrow> InferenceStatus \<Rightarrow> string \<Rightarrow> pyfloat \<Rightarrow> InferenceReceipt result" where
  "onnx_failure env p q \<equiv> failure_receipt (en_wall env) q onnx_name (ox_revision p)"

text \<open>The body of the \<open>try\<close>: an early receipt or a result.\<close>

definition typed :: "'raw call_env \<Rightarrow> InferenceRole \<Rightarrow> 'raw result \<Rightarrow> (InferenceReceipt + RoleResult) result" where
  "typed env role x = rbind x (\<lambda>raw. rbind (result_for_role (en_coerce env) role raw) (\<lambda>r. ret (Inr r)))"

definition onnx_attempt ::
  "'raw call_env \<Rightarrow> ('raw, 's) onnx \<Rightarrow> string list \<Rightarrow> bool \<Rightarrow> ('raw, 's) runner \<Rightarrow> InferenceRequest \<Rightarrow> 's \<Rightarrow>
   (InferenceReceipt + RoleResult) result \<times> 's" where
  "onnx_attempt env p params kwargs call q s = (case en_timeout_ms env of
     None \<Rightarrow> (case call q NoKeyword s of (x, s') \<Rightarrow> (typed env (ox_role p) x, s'))
   | Some t \<Rightarrow> (case deadline_of (en_clock env) t of
       Inl e \<Rightarrow> (raise e, s)
     | Inr d \<Rightarrow>
         (let timed = (\<lambda>(x, s'). (rbind x (\<lambda>raw. if flt d (Fin (ck_returned (en_clock env))) then raise timeout_error
                else typed env (ox_role p) (ret raw)), s')) in
          if ''deadline'' \<in> set params \<or> kwargs then timed (call q (Deadline d) s)
          else if ''timeout_ms'' \<in> set params then timed (call q (TimeoutMs t) s)
          else (rbind (onnx_failure env p q ST_TIMEOUT ''onnx_runner_not_cooperative'' (Fin 0)) (\<lambda>r. ret (Inl r)), s))))"

definition onnx_except :: "'raw call_env \<Rightarrow> ('raw, 's) onnx \<Rightarrow> InferenceRequest \<Rightarrow> error \<Rightarrow> InferenceReceipt result" where
  "onnx_except env p q e =
    (if e = timeout_error then onnx_failure env p q ST_TIMEOUT ''onnx_inference_timeout'' (elapsed_ms (en_clock env))
     else if e = memory_error then onnx_failure env p q ST_ERROR ''onnx_out_of_memory'' (Fin 0)
     else if malformed_error e then onnx_failure env p q ST_MALFORMED ''onnx_result_malformed'' (Fin 0)
     else onnx_failure env p q ST_ERROR ''onnx_provider_error'' (Fin 0))"

definition success_receipt ::
  "time_us \<Rightarrow> InferenceRequest \<Rightarrow> string \<Rightarrow> string \<Rightarrow> RoleResult \<Rightarrow> pyfloat \<Rightarrow> InferenceReceipt result" where
  "success_receipt wall q provider revision r latency =
    InferenceReceipt_new \<lparr>ir_request_id = rq_request_id q, ir_role = rq_role q, ir_provider = provider,
      ir_model_revision = revision, ir_status = ST_OK, ir_result = Some r, ir_reason_codes = [], ir_latency_ms = latency,
      ir_completed_at = wall\<rparr>"

definition onnx_infer ::
  "'raw call_env \<Rightarrow> ('raw, 's) onnx \<Rightarrow> InferenceRequest \<Rightarrow> 's \<Rightarrow> InferenceReceipt result \<times> 's" where
  "onnx_infer env p q s =
    (if rq_role q \<noteq> ox_role p then (onnx_failure env p q ST_INVALID ''provider_role_mismatch'' (Fin 0), s)
     else case ox_runner p of
       None \<Rightarrow> (onnx_failure env p q ST_UNAVAILABLE ''onnx_runtime_not_installed'' (Fin 0), s)
     | Some (params, kwargs, call) \<Rightarrow> (case onnx_attempt env p params kwargs call q s of
         (Inl e, s') \<Rightarrow> (onnx_except env p q e, s')
       | (Inr (Inl receipt), s') \<Rightarrow> (ret receipt, s')
       | (Inr (Inr r), s') \<Rightarrow>
           (success_receipt (en_wall env) q onnx_name (ox_revision p) r (elapsed_ms (en_clock env)), s')))"

section \<open>The compatible endpoint\<close>

fun role_value :: "InferenceRole \<Rightarrow> string" where
  "role_value ROLE_POSE = ''pose''"
| "role_value ROLE_OBJECT = ''object''"
| "role_value ROLE_SMOKE = ''smoke''"
| "role_value ROLE_TEMPORAL = ''temporal''"
| "role_value ROLE_CHEWING_VETO = ''chewing_veto''"
| "role_value ROLE_VLM = ''vlm''"

fun feature_json :: "feature \<Rightarrow> json" where
  "feature_json (FStr s) = JStr s"
| "feature_json (FInt n) = JInt n"
| "feature_json (FFloat x) = json_float (Some x)"
| "feature_json (FBool b) = JBool b"
| "feature_json FNone = JNull"

type_synonym 's transport = "dict \<Rightarrow> int option \<Rightarrow> 's \<Rightarrow> json result \<times> 's"

record 's compatible =
  cm_role :: InferenceRole
  cm_revision :: string
  cm_transport :: "'s transport option"

abbreviation compatible_name :: string where
  "compatible_name \<equiv> ''openai-compatible''"

abbreviation compatible_failure ::
  "json call_env \<Rightarrow> InferenceRequest \<Rightarrow> string \<Rightarrow> InferenceStatus \<Rightarrow> string \<Rightarrow> pyfloat \<Rightarrow> InferenceReceipt result" where
  "compatible_failure env q revision \<equiv> failure_receipt (en_wall env) q compatible_name revision"

definition compatible_payload :: "'s compatible \<Rightarrow> InferenceRequest \<Rightarrow> dict" where
  "compatible_payload p q =
    [(''model'', JStr (cm_revision p)), (''role'', JStr (role_value (cm_role p))), (''request_id'', JStr (rq_request_id q)),
     (''track_id'', JStr (rq_track_id q)), (''feature_revision'', JStr (rq_feature_revision q)),
     (''features'', JObj (map (\<lambda>(k, v). (k, feature_json v)) (rq_features q)))]"

text \<open>The body of the \<open>try\<close> after the transport has answered; the mismatch receipt is built inside it.\<close>

definition compatible_answer ::
  "parsers \<Rightarrow> json call_env \<Rightarrow> 's compatible \<Rightarrow> InferenceRequest \<Rightarrow> json \<Rightarrow> (InferenceReceipt + RoleResult) result" where
  "compatible_answer pa env p q response = (case response of
     JObj d \<Rightarrow>
       (let revision = dget_or d ''model_revision'' (JStr (cm_revision p)) in
        if \<not> is_str revision \<or> py_str pa revision \<noteq> cm_revision p
        then rbind (compatible_failure env q (py_str pa revision) ST_REVISION_MISMATCH ''provider_revision_mismatch'' (Fin 0))
          (\<lambda>r. ret (Inl r))
        else typed env (cm_role p) (ret (dget_or d ''result'' response)))
   | _ \<Rightarrow> raise (TypeError ''response must be an object''))"

definition compatible_except :: "json call_env \<Rightarrow> 's compatible \<Rightarrow> InferenceRequest \<Rightarrow> error \<Rightarrow> InferenceReceipt result" where
  "compatible_except env p q e =
    (if e = timeout_error
     then rbind (int_to_float (case en_timeout_ms env of None \<Rightarrow> 0 | Some t \<Rightarrow> t))
       (compatible_failure env q (cm_revision p) ST_TIMEOUT ''compatible_provider_timeout'')
     else if malformed_error e then compatible_failure env q (cm_revision p) ST_MALFORMED ''compatible_result_malformed'' (Fin 0)
     else compatible_failure env q (cm_revision p) ST_ERROR ''compatible_provider_error'' (Fin 0))"

definition compatible_infer ::
  "parsers \<Rightarrow> json call_env \<Rightarrow> 's compatible \<Rightarrow> InferenceRequest \<Rightarrow> 's \<Rightarrow> InferenceReceipt result \<times> 's" where
  "compatible_infer pa env p q s =
    (if rq_role q \<noteq> cm_role p
     then (compatible_failure env q (cm_revision p) ST_INVALID ''provider_role_mismatch'' (Fin 0), s)
     else case cm_transport p of
       None \<Rightarrow> (compatible_failure env q (cm_revision p) ST_UNAVAILABLE ''compatible_transport_not_configured'' (Fin 0), s)
     | Some send \<Rightarrow> (case send (compatible_payload p q) (en_timeout_ms env) s of (x, s') \<Rightarrow>
         (case rbind x (compatible_answer pa env p q) of
            Inl e \<Rightarrow> compatible_except env p q e
          | Inr (Inl receipt) \<Rightarrow> ret receipt
          | Inr (Inr r) \<Rightarrow> success_receipt (en_wall env) q compatible_name (cm_revision p) r (Fin 0), s')))"

section \<open>The interface of a provider\<close>

text \<open>What the router relies on: a usable provider answers every request with a receipt for it, under its own name, and
  evidence comes from its own role and revision only.\<close>

definition names :: "string \<Rightarrow> nat \<Rightarrow> bool" where
  "names s hi \<longleftrightarrow> str_strip s = s \<and> 1 \<le> length s \<and> length s \<le> hi"

definition answers :: "string \<Rightarrow> InferenceRequest \<Rightarrow> InferenceReceipt \<Rightarrow> bool" where
  "answers name q r \<longleftrightarrow> receipt_ok r \<and> ir_request_id r = rq_request_id q \<and> ir_role r = rq_role q \<and> ir_provider r = name"

definition evidence_of :: "InferenceRole \<Rightarrow> string \<Rightarrow> InferenceRequest \<Rightarrow> InferenceReceipt \<Rightarrow> bool" where
  "evidence_of role revision q r \<longleftrightarrow> (ir_result r \<noteq> None \<longrightarrow> rq_role q = role \<and> ir_model_revision r = revision)"

locale inference_provider =
  fixes usable :: "'e \<Rightarrow> 'p \<Rightarrow> bool"
    and infer :: "'e \<Rightarrow> 'p \<Rightarrow> InferenceRequest \<Rightarrow> 's \<Rightarrow> InferenceReceipt result \<times> 's"
    and name :: string
    and role :: "'p \<Rightarrow> InferenceRole"
    and revision :: "'p \<Rightarrow> string"
  assumes answered: "usable e p \<Longrightarrow> \<exists>r. fst (infer e p q s) = Inr r \<and> answers name q r"
    and own_evidence: "usable e p \<Longrightarrow> fst (infer e p q s) = Inr r \<Longrightarrow> evidence_of (role p) (revision p) q r"
begin

text \<open>Behind a router with a closed circuit and no other pin, the receipt of the provider is the receipt of the router.\<close>

lemma pinned_own:
  assumes "usable e p" and "fst (infer e p q s) = Inr r" and "rt_expected_revisions rt (rq_role q) \<in> {None, Some (revision p)}"
  shows "pinned rt wall q r = Inr r"
  using own_evidence[OF assms(1,2)] assms(3) answered[OF assms(1), of q s] assms(2)
  by (auto simp: pinned_def evidence_of_def answers_def receipt_ok_def)

lemma relayed:
  assumes "usable e p" and "rt_providers rt (rq_role q) = Some \<lparr>pv_name = Some name, pv_revision = revision p\<rparr>" and "\<not> blocked rt (rq_role q) now"
    and "rt_expected_revisions rt (rq_role q) \<in> {None, Some (revision p)}"
  shows "fst (router_infer (\<lambda>_ q _ s. infer e p q s) now wall q (rt, s)) = fst (infer e p q s)"
proof -
  obtain r where r: "fst (infer e p q s) = Inr r" using answered[OF assms(1)] by blast
  then obtain s' where "infer e p q s = (Inr r, s')" by (cases "infer e p q s") auto
  then show ?thesis
    using assms(2,3) pinned_own[OF assms(1) r assms(4), of wall] r
    by (simp add: router_infer_def Let_def contained_def)
qed

text \<open>Evidence that leaves the router came from the configured role and revision.\<close>

lemma routed_evidence:
  assumes "usable e p" and "rt_providers rt (rq_role q) = Some \<lparr>pv_name = Some name, pv_revision = revision p\<rparr>" and "\<not> blocked rt (rq_role q) now"
    and "rt_expected_revisions rt (rq_role q) \<in> {None, Some (revision p)}"
  shows "\<exists>r. fst (router_infer (\<lambda>_ q _ s. infer e p q s) now wall q (rt, s)) = Inr r \<and> answers name q r \<and>
    evidence_of (role p) (revision p) q r"
  using relayed[OF assms] answered[OF assms(1)] own_evidence[OF assms(1)] by metis

end

section \<open>The adapters are providers\<close>

text \<open>Pydantic returns an instance of the class it is asked for.\<close>

definition coerces :: "(InferenceRole \<Rightarrow> 'raw \<Rightarrow> RoleResult option) \<Rightarrow> bool" where
  "coerces c \<longleftrightarrow> (\<forall>role raw r. c role raw = Some r \<longrightarrow> result_role r = role)"

lemma validate_result_role: "validate_result r = Inr r' \<Longrightarrow> result_role r' = result_role r"
  by (cases r rule: validate_result.cases) (auto simp: rbind_Inr split: if_splits score_field.splits)

lemma typed_role:
  assumes "coerces (en_coerce env)" "typed env role x = Inr y"
  shows "\<exists>r. y = Inr r \<and> result_role r = role"
  using assms by (auto simp: typed_def result_for_role_def coerces_def rbind_Inr dest!: validate_result_role split: option.splits)

lemma failure_receipt_named:
  assumes "names name 128" "names revision 256" "status \<noteq> ST_OK" "isfinite (pf_max0 latency)"
  shows "\<exists>r. failure_receipt wall q name revision status reason latency = Inr r \<and> answers name q r \<and> ir_status r = status \<and>
    ir_reason_codes r = [str_strip reason] \<and> ir_model_revision r = revision \<and> ir_result r = None"
  using assms failure_receipt_ok[of name revision status latency wall q reason]
  by (auto simp: failure_receipt_def InferenceReceipt_new_def enforce_fail_closed_result_def check_text_def Let_def names_def
      answers_def)

lemma success_receipt_named:
  assumes "names name 128" "names revision 256" "result_role x = rq_role q" "isfinite latency" "pf_ge0 latency"
  shows "\<exists>r. success_receipt wall q name revision x latency = Inr r \<and> answers name q r \<and> ir_status r = ST_OK \<and>
    ir_result r = Some x \<and> ir_model_revision r = revision"
proof -
  have "\<exists>r. success_receipt wall q name revision x latency = Inr r \<and> ir_request_id r = rq_request_id q \<and> ir_role r = rq_role q \<and>
      ir_provider r = name \<and> ir_status r = ST_OK \<and> ir_result r = Some x \<and> ir_model_revision r = revision"
    using assms by (auto simp: success_receipt_def InferenceReceipt_new_def enforce_fail_closed_result_def check_text_def Let_def names_def)
  then show ?thesis by (auto simp: answers_def success_receipt_def dest: receipt_ok_new)
qed

lemma names_adapters: "names onnx_name 128" "names compatible_name 128"
  by code_simp+

text \<open>A clock that does not go back, within the integers a float holds.\<close>

definition clock_ok :: "clock \<Rightarrow> bool" where
  "clock_ok c \<longleftrightarrow> 0 \<le> ck_started c \<and> ck_started c \<le> ck_finished c \<and> ck_finished c \<le> 2 ^ 53"

lemma elapsed_finite:
  assumes "clock_ok c"
  shows "\<exists>x. elapsed_ms c = Fin x \<and> 0 \<le> x"
proof -
  let ?d = "ck_finished c - ck_started c"
  have d: "0 \<le> ?d" "?d \<le> 2 ^ 53" using assms by (auto simp: clock_ok_def)
  have r: "0 \<le> rnd ?d" "rnd ?d \<le> 2 ^ 53"
    using d(1) rnd_mono[OF d(2)] rnd_int[of "2 ^ 53"] by (simp_all add: rnd_nonneg)
  have "round64 ?d = Fin (rnd ?d)" "round64 (rnd ?d * 1000) = Fin (rnd (rnd ?d * 1000))"
    using d r by (auto intro!: round64_bounded le_pow2_1023)
  then show ?thesis using r by (simp add: elapsed_ms_def rnd_nonneg)
qed

definition usable_onnx :: "'raw call_env \<Rightarrow> ('raw, 's) onnx \<Rightarrow> bool" where
  "usable_onnx env p \<longleftrightarrow> names (ox_revision p) 256 \<and> coerces (en_coerce env) \<and> clock_ok (en_clock env)"

text \<open>The specification of a call: how the runner is called, and the result it delivers in time, if any.\<close>

definition onnx_keyword :: "'raw call_env \<Rightarrow> string list \<Rightarrow> bool \<Rightarrow> keyword option" where
  "onnx_keyword env params kwargs = (case en_timeout_ms env of
     None \<Rightarrow> Some NoKeyword
   | Some t \<Rightarrow> (case deadline_of (en_clock env) t of
       Inl _ \<Rightarrow> None
     | Inr d \<Rightarrow> if ''deadline'' \<in> set params \<or> kwargs then Some (Deadline d)
         else if ''timeout_ms'' \<in> set params then Some (TimeoutMs t) else None))"

definition past_deadline :: "'raw call_env \<Rightarrow> bool" where
  "past_deadline env = (case en_timeout_ms env of None \<Rightarrow> False
     | Some t \<Rightarrow> (case deadline_of (en_clock env) t of Inl _ \<Rightarrow> False | Inr d \<Rightarrow> flt d (Fin (ck_returned (en_clock env)))))"

definition delivered :: "'raw call_env \<Rightarrow> ('raw, 's) onnx \<Rightarrow> InferenceRequest \<Rightarrow> 's \<Rightarrow> RoleResult option" where
  "delivered env p q s = (if rq_role q \<noteq> ox_role p then None else case ox_runner p of
     None \<Rightarrow> None
   | Some (params, kwargs, call) \<Rightarrow> (case onnx_keyword env params kwargs of
       None \<Rightarrow> None
     | Some k \<Rightarrow> (case rbind (fst (call q k s)) (result_for_role (en_coerce env) (ox_role p)) of
         Inl _ \<Rightarrow> None | Inr r \<Rightarrow> if past_deadline env then None else Some r)))"

lemma onnx_attempt_call:
  "onnx_keyword env params kwargs = Some k \<Longrightarrow> onnx_attempt env p params kwargs call q s =
    (rbind (fst (call q k s)) (\<lambda>raw. if past_deadline env then raise timeout_error else typed env (ox_role p) (ret raw)), snd (call q k s))"
  by (auto simp: onnx_attempt_def onnx_keyword_def past_deadline_def typed_def Let_def split: option.splits sum.splits prod.split if_splits)

lemma onnx_attempt_refused:
  "onnx_keyword env params kwargs = None \<Longrightarrow> snd (onnx_attempt env p params kwargs call q s) = s \<and>
    (fst (onnx_attempt env p params kwargs call q s) = rbind (onnx_failure env p q ST_TIMEOUT ''onnx_runner_not_cooperative'' (Fin 0)) (\<lambda>r. ret (Inl r)) \<or>
     isl (fst (onnx_attempt env p params kwargs call q s)))"
  by (auto simp: onnx_attempt_def onnx_keyword_def Let_def split: option.splits sum.splits if_splits)

lemma onnx_except_named:
  assumes "usable_onnx env p"
  shows "\<exists>r. onnx_except env p q e = Inr r \<and> answers onnx_name q r \<and> ir_result r = None"
proof -
  obtain x where x: "elapsed_ms (en_clock env) = Fin x" using elapsed_finite assms by (auto simp: usable_onnx_def)
  have fail: "\<exists>r. onnx_failure env p q st reason (Fin y) = Inr r \<and> answers onnx_name q r \<and> ir_result r = None"
    if "st \<noteq> ST_OK" for st reason y
    using failure_receipt_named[OF names_adapters(1), of "ox_revision p" st "Fin y" "en_wall env" q reason] that assms
      isfinite_max0[of "Fin y"]
    by (auto simp: usable_onnx_def simp del: pf_max0.simps)
  show ?thesis unfolding onnx_except_def x by (auto intro!: fail)
qed

lemma onnx_infer_delivers:
  assumes "usable_onnx env p"
  shows "\<exists>r. fst (onnx_infer env p q s) = Inr r \<and> answers onnx_name q r \<and> ir_result r = delivered env p q s \<and>
    (ir_result r \<noteq> None \<longrightarrow> ir_model_revision r = ox_revision p)"
proof -
  note named = failure_receipt_named[OF names_adapters(1), of "ox_revision p" _ "Fin 0"]
  have rev: "names (ox_revision p) 256" "coerces (en_coerce env)" using assms by (auto simp: usable_onnx_def)
  obtain y where y: "elapsed_ms (en_clock env) = Fin y" "0 \<le> y"
    using elapsed_finite assms by (auto simp: usable_onnx_def)
  consider (mismatch) "rq_role q \<noteq> ox_role p" | (missing) "rq_role q = ox_role p" "ox_runner p = None"
    | (refused) params kwargs call where "rq_role q = ox_role p" "ox_runner p = Some (params, kwargs, call)"
        "onnx_keyword env params kwargs = None"
    | (called) params kwargs call k where "rq_role q = ox_role p" "ox_runner p = Some (params, kwargs, call)"
        "onnx_keyword env params kwargs = Some k"
    by (cases "ox_runner p") (auto, metis option.exhaust)
  then show ?thesis
  proof cases
    case mismatch
    then show ?thesis using named[of ST_INVALID "en_wall env" q] rev by (auto simp: onnx_infer_def delivered_def)
  next
    case missing
    then show ?thesis using named[of ST_UNAVAILABLE "en_wall env" q] rev by (auto simp: onnx_infer_def delivered_def)
  next
    case refused
    obtain r where "onnx_failure env p q ST_TIMEOUT ''onnx_runner_not_cooperative'' (Fin 0) = Inr r" "answers onnx_name q r"
      "ir_result r = None"
      using named[of ST_TIMEOUT "en_wall env" q "''onnx_runner_not_cooperative''"] rev by auto
    then show ?thesis
      using refused onnx_attempt_refused[OF refused(3), of p call q s]
        onnx_except_named[OF assms, of q "projl (fst (onnx_attempt env p params kwargs call q s))"]
      by (cases "onnx_attempt env p params kwargs call q s")
        (auto simp: onnx_infer_def delivered_def isl_def split: sum.split)
  next
    case called
    show ?thesis
    proof (cases "fst (onnx_attempt env p params kwargs call q s)")
      case (Inl e)
      then show ?thesis
        using called onnx_except_named[OF assms, of q e]
        by (cases "onnx_attempt env p params kwargs call q s")
          (auto simp: onnx_infer_def delivered_def onnx_attempt_call[OF called(3)] typed_def rbind_def split: sum.splits if_splits)
    next
      case (Inr z)
      obtain raw where raw: "fst (call q k s) = Inr raw" "\<not> past_deadline env" "typed env (ox_role p) (ret raw) = Inr z"
        using Inr by (auto simp: onnx_attempt_call[OF called(3)] rbind_Inr split: if_splits)
      obtain x where x: "z = Inr x" "result_role x = rq_role q" using typed_role[OF rev(2) raw(3)] called(1) by auto
      have "delivered env p q s = Some x"
        using called raw x by (auto simp: delivered_def typed_def rbind_Inr)
      then show ?thesis
        using called Inr x success_receipt_named[OF names_adapters(1) rev(1) x(2), of "Fin y" "en_wall env"] y
        by (cases "onnx_attempt env p params kwargs call q s") (auto simp: onnx_infer_def)
    qed
  qed
qed

definition usable_compatible :: "json call_env \<Rightarrow> 's compatible \<Rightarrow> bool" where
  "usable_compatible env p \<longleftrightarrow> names (cm_revision p) 256 \<and> coerces (en_coerce env) \<and>
     (case en_timeout_ms env of None \<Rightarrow> True | Some t \<Rightarrow> \<bar>t\<bar> \<le> 2 ^ 53)"

text \<open>The result that an endpoint delivers under the configured revision, if any.\<close>

definition compatible_delivered ::
  "parsers \<Rightarrow> json call_env \<Rightarrow> 's compatible \<Rightarrow> InferenceRequest \<Rightarrow> 's \<Rightarrow> RoleResult option" where
  "compatible_delivered pa env p q s = (if rq_role q \<noteq> cm_role p then None else case cm_transport p of
     None \<Rightarrow> None
   | Some send \<Rightarrow> (case fst (send (compatible_payload p q) (en_timeout_ms env) s) of
       Inr (JObj d) \<Rightarrow>
         (let revision = dget_or d ''model_revision'' (JStr (cm_revision p)) in
          if is_str revision \<and> py_str pa revision = cm_revision p
          then (case result_for_role (en_coerce env) (cm_role p) (dget_or d ''result'' (JObj d)) of Inl _ \<Rightarrow> None | Inr r \<Rightarrow> Some r)
          else None)
     | _ \<Rightarrow> None))"

lemma failure_receipt_answers:
  assumes "failure_receipt wall q name revision status reason latency = Inr r" and "names name 128" and "status \<noteq> ST_OK"
  shows "answers name q r \<and> ir_result r = None"
proof -
  note new = assms(1)[unfolded failure_receipt_def]
  have "ir_provider r = name"
    using new assms(2) by (auto simp: InferenceReceipt_new_def enforce_fail_closed_result_def rbind_Inr names_def check_text_def Let_def split: if_splits)
  then show ?thesis using receipt_ok_new[OF new] receipt_new_keeps[OF new] by (simp add: answers_def)
qed

lemma compatible_except_named:
  assumes "usable_compatible env p"
  shows "\<exists>r. compatible_except env p q e = Inr r \<and> answers compatible_name q r \<and> ir_result r = None"
proof -
  define t where "t = (case en_timeout_ms env of None \<Rightarrow> 0 | Some t \<Rightarrow> t)"
  have "\<bar>t\<bar> \<le> 2 ^ 53" using assms by (auto simp: t_def usable_compatible_def split: option.splits)
  then have float: "int_to_float t = Inr (Fin (of_int t))" by (simp add: int_to_float_def round64_int)
  have fail: "\<exists>r. compatible_failure env q (cm_revision p) st reason (Fin y) = Inr r \<and> answers compatible_name q r \<and> ir_result r = None"
    if "st \<noteq> ST_OK" for st reason y
    using failure_receipt_named[OF names_adapters(2), of "cm_revision p" st "Fin y" "en_wall env" q reason] that assms
      isfinite_max0[of "Fin y"]
    by (auto simp: usable_compatible_def simp del: pf_max0.simps)
  show ?thesis unfolding compatible_except_def t_def[symmetric] float by (auto intro!: fail)
qed

text \<open>What an answer of the endpoint becomes.\<close>

lemma compatible_answer_cases:
  assumes "coerces (en_coerce env)"
  shows "(\<exists>e. rbind x (compatible_answer pa env p q) = Inl e) \<or>
    (\<exists>r. rbind x (compatible_answer pa env p q) = Inr (Inl r) \<and> answers compatible_name q r \<and> ir_result r = None) \<or>
    (\<exists>r. rbind x (compatible_answer pa env p q) = Inr (Inr r) \<and> result_role r = cm_role p)"
proof (cases "rbind x (compatible_answer pa env p q)")
  case (Inr z)
  then obtain v where v: "compatible_answer pa env p q v = Inr z" by (auto simp: rbind_Inr)
  then obtain d where answer: "compatible_answer pa env p q (JObj d) = Inr z"
    by (cases v) (simp_all add: compatible_answer_def)
  let ?revision = "dget_or d ''model_revision'' (JStr (cm_revision p))"
  show ?thesis
  proof (cases "\<not> is_str ?revision \<or> py_str pa ?revision \<noteq> cm_revision p")
    case True
    then obtain r where "z = Inl r"
      "compatible_failure env q (py_str pa ?revision) ST_REVISION_MISMATCH ''provider_revision_mismatch'' (Fin 0) = Inr r"
      using answer by (auto simp: compatible_answer_def rbind_Inr)
    then show ?thesis using Inr failure_receipt_answers[OF _ names_adapters(2)] by auto
  next
    case False
    then show ?thesis using Inr answer typed_role[OF assms] by (auto simp: compatible_answer_def)
  qed
qed auto

lemma compatible_answer_delivers:
  "rq_role q = cm_role p \<Longrightarrow> cm_transport p = Some send \<Longrightarrow> compatible_delivered pa env p q s =
    (case rbind (fst (send (compatible_payload p q) (en_timeout_ms env) s)) (compatible_answer pa env p q) of
       Inr (Inr r) \<Rightarrow> Some r | _ \<Rightarrow> None)"
  by (auto simp: compatible_delivered_def compatible_answer_def typed_def rbind_def Let_def split: sum.splits json.splits)

lemma compatible_infer_delivers:
  assumes "usable_compatible env p"
  shows "\<exists>r. fst (compatible_infer pa env p q s) = Inr r \<and> answers compatible_name q r \<and>
    ir_result r = compatible_delivered pa env p q s \<and> (ir_result r \<noteq> None \<longrightarrow> ir_model_revision r = cm_revision p)"
proof -
  note named = failure_receipt_named[OF names_adapters(2), of "cm_revision p" _ "Fin 0"]
  have rev: "names (cm_revision p) 256" "coerces (en_coerce env)" using assms by (auto simp: usable_compatible_def)
  show ?thesis
  proof (cases "rq_role q = cm_role p \<and> cm_transport p \<noteq> None")
    case False
    then show ?thesis
      using named[of ST_INVALID "en_wall env" q] named[of ST_UNAVAILABLE "en_wall env" q] rev
      by (auto simp: compatible_infer_def compatible_delivered_def)
  next
    case True
    then obtain send where send: "cm_transport p = Some send" and role: "rq_role q = cm_role p" by auto
    obtain x s' where x: "send (compatible_payload p q) (en_timeout_ms env) s = (x, s')" by (cases "send (compatible_payload p q) (en_timeout_ms env) s")
    note del = compatible_answer_delivers[OF role send, of pa env s, unfolded x, simplified]
    have ok: "\<exists>y. success_receipt (en_wall env) q compatible_name (cm_revision p) r (Fin 0) = Inr y \<and> answers compatible_name q y \<and>
        ir_result y = Some r \<and> ir_model_revision y = cm_revision p" if "result_role r = cm_role p" for r
      using success_receipt_named[OF names_adapters(2) rev(1), of r q "Fin 0" "en_wall env"] that role by auto
    show ?thesis
      using compatible_answer_cases[OF rev(2), of x pa p q] compatible_except_named[OF assms, of q] ok
      by (auto simp: compatible_infer_def role send x del) (metis option.distinct(1))+
  qed
qed

section \<open>Instances\<close>

interpretation ox: inference_provider usable_onnx onnx_infer onnx_name ox_role ox_revision
proof unfold_locales
  fix e p q s and r
  assume u: "usable_onnx e p"
  show "\<exists>r. fst (onnx_infer e p q s) = Inr r \<and> answers onnx_name q r"
    using onnx_infer_delivers[OF u, of q s] by blast
  assume "fst (onnx_infer e p q s) = Inr r"
  then show "evidence_of (ox_role p) (ox_revision p) q r"
    using onnx_infer_delivers[OF u, of q s] by (auto simp: evidence_of_def delivered_def split: if_splits)
qed

interpretation cm: inference_provider usable_compatible "compatible_infer pa" compatible_name cm_role cm_revision for pa
proof unfold_locales
  fix e p q s and r
  assume u: "usable_compatible e p"
  show "\<exists>r. fst (compatible_infer pa e p q s) = Inr r \<and> answers compatible_name q r"
    using compatible_infer_delivers[OF u, of pa q s] by blast
  assume "fst (compatible_infer pa e p q s) = Inr r"
  then show "evidence_of (cm_role p) (cm_revision p) q r"
    using compatible_infer_delivers[OF u, of pa q s] by (auto simp: evidence_of_def compatible_delivered_def split: if_splits)
qed

text \<open>The deterministic provider, with the first byte of its digest.\<close>

definition fake_call ::
  "'raw call_env \<times> nat \<Rightarrow> 'raw fake_provider \<Rightarrow> InferenceRequest \<Rightarrow> 's \<Rightarrow> InferenceReceipt result \<times> 's" where
  "fake_call e p q s = (fake_infer (en_coerce (fst e)) (en_wall (fst e)) (snd e) p q (en_timeout_ms (fst e)), s)"

definition usable_fake :: "'raw call_env \<times> nat \<Rightarrow> 'raw fake_provider \<Rightarrow> bool" where
  "usable_fake e p \<longleftrightarrow> names (fp_revision p) 256 \<and> coerces (en_coerce (fst e)) \<and> 0 \<le> fp_latency_ms p"

lemma fake_answers:
  assumes "usable_fake e p"
  shows "\<exists>r. fst (fake_call e p q s) = Inr r \<and> answers ''fake'' q r \<and>
    (ir_result r \<noteq> None \<longrightarrow> rq_role q = fp_role p \<and> ir_model_revision r = fp_revision p)"
proof -
  let ?c = "en_coerce (fst e)"
  have n: "names ''fake'' 128" by code_simp
  have u: "names (fp_revision p) 256" "coerces ?c" "0 \<le> fp_latency_ms p" using assms by (auto simp: usable_fake_def)
  have fail: "\<exists>r. failure_receipt wall q ''fake'' (fp_revision p) st reason (Fin y) = Inr r \<and> answers ''fake'' q r \<and> ir_result r = None"
    if "st \<noteq> ST_OK" for st reason y wall
    using failure_receipt_named[OF n u(1) that, of "Fin y" wall q reason] isfinite_max0[of "Fin y"]
    by (auto simp del: pf_max0.simps)
  have good: "\<exists>r. success_receipt 0 q ''fake'' (fp_revision p) x (Fin (fp_latency_ms p)) = Inr r \<and> answers ''fake'' q r \<and>
      ir_model_revision r = fp_revision p" if "result_role x = rq_role q" for x
    using success_receipt_named[OF n u(1) that, of "Fin (fp_latency_ms p)" 0] u(3) by auto
  define validated where "validated = (case (case fp_raw_result p of Some x \<Rightarrow> Some x | None \<Rightarrow> fp_result p) of
      Some x \<Rightarrow> result_for_role ?c (fp_role p) x | None \<Rightarrow> validate_result (default_result (fp_role p) (snd e)))"
  have role: "result_role x = fp_role p" if "validated = Inr x" for x
  proof -
    have "result_role (default_result r d) = r" for r d by (cases r) (simp_all add: default_result_def Let_def)
    then show ?thesis
      using that u(2) by (auto simp: validated_def result_for_role_def coerces_def split: option.splits dest!: validate_result_role)
  qed
  show ?thesis
  proof (cases "rq_role q = fp_role p \<and> \<not> (case en_timeout_ms (fst e) of None \<Rightarrow> False | Some t \<Rightarrow> of_int t < fp_latency_ms p)")
    case False
    show ?thesis
      using False fail[of ST_INVALID "en_wall (fst e)" "''provider_role_mismatch''" 0]
        fail[of ST_TIMEOUT "en_wall (fst e)" "''provider_timeout''" "of_int (the (en_timeout_ms (fst e)))"]
      by (auto simp: fake_call_def fake_infer_def split: option.splits)
  next
    case True
    then have run: "fst (fake_call e p q s) = (case validated of
        Inl _ \<Rightarrow> failure_receipt (en_wall (fst e)) q ''fake'' (fp_revision p) ST_MALFORMED ''provider_result_malformed'' (Fin (fp_latency_ms p))
      | Inr x \<Rightarrow> success_receipt 0 q ''fake'' (fp_revision p) x (Fin (fp_latency_ms p)))"
      by (auto simp: fake_call_def fake_infer_def validated_def success_receipt_def Let_def cong: sum.case_cong)
    show ?thesis
      using fail[of ST_MALFORMED "en_wall (fst e)" "''provider_result_malformed''" "fp_latency_ms p"] good role True
      by (cases validated) (auto simp: run)
  qed
qed

interpretation fk: inference_provider usable_fake fake_call "''fake''" fp_role fp_revision
proof unfold_locales
  fix e p q s and r
  assume u: "usable_fake e p"
  show "\<exists>r. fst (fake_call e p q s) = Inr r \<and> answers ''fake'' q r"
    using fake_answers[OF u, of q s] by blast
  assume "fst (fake_call e p q s) = Inr r"
  then show "evidence_of (fp_role p) (fp_revision p) q r"
    using fake_answers[OF u, of q s] by (auto simp: evidence_of_def)
qed

section \<open>Properties\<close>

lemma receipt_ok_status: "receipt_ok r \<Longrightarrow> ir_status r = ST_OK \<longleftrightarrow> ir_result r \<noteq> None"
  by (simp add: receipt_ok_def)

text \<open>Property C18.  The ONNX boundary answers every request with a well-formed receipt for it, whatever the runner returns or
  raises: it carries exactly the result that the runner of the right role delivered, validated, before the deadline, and no
  result otherwise; and a runner that does not take part in the deadline is never called under one.\<close>

theorem onnx_answers_every_request:
  assumes "names (ox_revision p) 256" and "coerces (en_coerce env)" and "clock_ok (en_clock env)"
  shows "\<exists>r. fst (onnx_infer env p q s) = Inr r \<and> receipt_ok r \<and> ir_request_id r = rq_request_id q \<and> ir_role r = rq_role q \<and>
    ir_result r = delivered env p q s \<and> (ir_status r = ST_OK \<longleftrightarrow> delivered env p q s \<noteq> None) \<and>
    (case ox_runner p of None \<Rightarrow> snd (onnx_infer env p q s) = s
     | Some (params, kwargs, call) \<Rightarrow> onnx_keyword env params kwargs = None \<longrightarrow> snd (onnx_infer env p q s) = s)"
proof -
  have u: "usable_onnx env p" using assms by (simp add: usable_onnx_def)
  have "snd (onnx_infer env p q s) = s"
    if "ox_runner p = Some (params, kwargs, call)" "onnx_keyword env params kwargs = None" for params kwargs call
    using that onnx_attempt_refused[OF that(2), of p call q s]
    by (auto simp: onnx_infer_def split: prod.split sum.split)
  moreover have "snd (onnx_infer env p q s) = s" if "ox_runner p = None" using that by (simp add: onnx_infer_def)
  ultimately show ?thesis
    using onnx_infer_delivers[OF u, of q s] receipt_ok_status by (fastforce simp: answers_def split: option.split)
qed

definition sample_coerce :: "InferenceRole \<Rightarrow> RoleResult \<Rightarrow> RoleResult option" where
  "sample_coerce role r = (if result_role r = role then Some r else None)"

definition sample_onnx :: "(RoleResult, nat) onnx" where
  "sample_onnx = \<lparr>ox_role = ROLE_TEMPORAL, ox_revision = ''r1'',
     ox_runner = Some ([''request'', ''deadline''], False, \<lambda>q k n. (Inr (TemporalInference True None 5), Suc n))\<rparr>"

definition sample_call_env :: "rat \<Rightarrow> RoleResult call_env" where
  "sample_call_env returned = \<lparr>en_coerce = sample_coerce, en_wall = 0,
     en_clock = \<lparr>ck_started = 0, ck_deadline = 0, ck_returned = returned, ck_finished = returned\<rparr>, en_timeout_ms = Some 1000\<rparr>"

definition sample_question :: InferenceRequest where
  "sample_question = \<lparr>rq_request_id = ''q'', rq_role = ROLE_TEMPORAL, rq_track_id = ''t'', rq_feature_revision = ''f'', rq_features = []\<rparr>"

theorem onnx_answers_every_request_witness:
  "(\<exists>r. fst (onnx_infer (sample_call_env 1) sample_onnx sample_question 0) = Inr r \<and> ir_result r = Some (TemporalInference True None 5)) \<and>
   (\<exists>r. fst (onnx_infer (sample_call_env 2) sample_onnx sample_question 0) = Inr r \<and> ir_result r = None)"
proof -
  have n: "names (ox_revision sample_onnx) 256" by code_simp
  have c: "coerces (en_coerce (sample_call_env t))" for t by (simp add: coerces_def sample_call_env_def sample_coerce_def)
  have k: "clock_ok (en_clock (sample_call_env 1))" "clock_ok (en_clock (sample_call_env 2))"
    by (simp_all add: clock_ok_def sample_call_env_def)
  have d: "delivered (sample_call_env 1) sample_onnx sample_question 0 = Some (TemporalInference True None 5)"
    "delivered (sample_call_env 2) sample_onnx sample_question 0 = None" by code_simp+
  show ?thesis
    using onnx_answers_every_request[OF n c k(1), of sample_question 0] onnx_answers_every_request[OF n c k(2), of sample_question 0] d
    by auto
qed

text \<open>Property C19.  Behind the router, with the circuit of the role closed and no foreign pin, the receipt of an ONNX or compatible
  provider is the answer to the request, and evidence in it was delivered by the provider of that role under its own revision: no
  exception, timeout, malformed result or answer of another revision becomes evidence.\<close>

theorem routed_evidence_is_delivered:
  assumes "\<not> blocked rt (rq_role q) now"
    and "usable_onnx env p" and "usable_compatible cenv cp"
  shows "(rt_providers rt (rq_role q) = Some \<lparr>pv_name = Some ''onnxruntime'', pv_revision = ox_revision p\<rparr> \<longrightarrow>
      rt_expected_revisions rt (rq_role q) \<in> {None, Some (ox_revision p)} \<longrightarrow>
      (\<exists>r. fst (router_infer (\<lambda>_ q _ s. onnx_infer env p q s) now wall q (rt, s)) = Inr r \<and> receipt_ok r \<and>
        ir_request_id r = rq_request_id q \<and> ir_result r = delivered env p q s \<and>
        (ir_result r \<noteq> None \<longrightarrow> rq_role q = ox_role p \<and> ir_model_revision r = ox_revision p))) \<and>
    (rt_providers rt (rq_role q) = Some \<lparr>pv_name = Some ''openai-compatible'', pv_revision = cm_revision cp\<rparr> \<longrightarrow>
      rt_expected_revisions rt (rq_role q) \<in> {None, Some (cm_revision cp)} \<longrightarrow>
      (\<exists>r. fst (router_infer (\<lambda>_ q _ s. compatible_infer pa cenv cp q s) now wall q (rt, s)) = Inr r \<and> receipt_ok r \<and>
        ir_request_id r = rq_request_id q \<and> ir_result r = compatible_delivered pa cenv cp q s \<and>
        (ir_result r \<noteq> None \<longrightarrow> rq_role q = cm_role cp \<and> ir_model_revision r = cm_revision cp)))"
  using ox.relayed[OF assms(2) _ assms(1)] onnx_infer_delivers[OF assms(2), of q s] ox.own_evidence[OF assms(2), of q s]
    cm.relayed[OF assms(3) _ assms(1)] compatible_infer_delivers[OF assms(3), of pa q s] cm.own_evidence[OF assms(3), of pa q s]
  by (auto simp: answers_def evidence_of_def)

definition sample_endpoint :: "nat compatible" where
  "sample_endpoint = \<lparr>cm_role = ROLE_VLM, cm_revision = ''v1'', cm_transport = Some (\<lambda>payload t n.
     (Inr (JObj [(''model_revision'', JStr ''v1''), (''result'', JStr ''smoking'')]), Suc n))\<rparr>"

definition sample_endpoint_env :: "json call_env" where
  "sample_endpoint_env = \<lparr>en_coerce = (\<lambda>role v. if role = ROLE_VLM \<and> v = JStr ''smoking'' then Some (VLMInference ''smoking'' Unset ''seen'') else None),
     en_wall = 0, en_clock = \<lparr>ck_started = 0, ck_deadline = 0, ck_returned = 0, ck_finished = 0\<rparr>, en_timeout_ms = Some 1000\<rparr>"

definition sample_parsing :: parsers where
  "sample_parsing = \<lparr>pa_str = (\<lambda>_. ''?''), pa_int = (\<lambda>_. raise (ValueError ''int'')), pa_float = (\<lambda>_. raise (ValueError ''float'')),
     pa_loads = (\<lambda>_. raise (ValueError ''json''))\<rparr>"

definition sample_gateway :: router where
  "sample_gateway = \<lparr>rt_providers = (\<lambda>role. if role = ROLE_VLM then Some \<lparr>pv_name = Some ''openai-compatible'', pv_revision = ''v1''\<rparr>
       else Some \<lparr>pv_name = Some ''onnxruntime'', pv_revision = ''r1''\<rparr>), rt_timeout_ms = 1000, rt_failure_threshold = 3,
     rt_recovery_timeout_s = 30, rt_expected_revisions = (\<lambda>_. None), rt_circuits = (\<lambda>_. circuit_new)\<rparr>"

theorem routed_evidence_is_delivered_witness:
  "(\<exists>r. fst (router_infer (\<lambda>_ q _ s. onnx_infer (sample_call_env 1) sample_onnx q s) 0 0 sample_question (sample_gateway, 0)) = Inr r \<and>
      ir_result r = Some (TemporalInference True None 5)) \<and>
   (\<exists>r. fst (router_infer (\<lambda>_ q _ s. compatible_infer sample_parsing sample_endpoint_env sample_endpoint q s) 0 0
        (sample_question\<lparr>rq_role := ROLE_VLM\<rparr>) (sample_gateway, 0)) = Inr r \<and>
      ir_result r = Some (VLMInference ''smoking'' Unset ''seen''))"
proof -
  have ox: "usable_onnx (sample_call_env 1) sample_onnx"
    by (simp add: usable_onnx_def coerces_def clock_ok_def sample_call_env_def sample_coerce_def sample_onnx_def) code_simp
  have cm: "usable_compatible sample_endpoint_env sample_endpoint"
    by (simp add: usable_compatible_def coerces_def sample_endpoint_env_def sample_endpoint_def) code_simp
  have d: "delivered (sample_call_env 1) sample_onnx sample_question 0 = Some (TemporalInference True None 5)"
    "compatible_delivered sample_parsing sample_endpoint_env sample_endpoint (sample_question\<lparr>rq_role := ROLE_VLM\<rparr>) 0 =
      Some (VLMInference ''smoking'' Unset ''seen'')" by code_simp+
  have b: "\<not> blocked sample_gateway role 0" for role by (simp add: blocked_def sample_gateway_def circuit_new_def)
  have p: "rt_providers sample_gateway (rq_role sample_question) = Some \<lparr>pv_name = Some ''onnxruntime'', pv_revision = ox_revision sample_onnx\<rparr>"
    "rt_providers sample_gateway (rq_role (sample_question\<lparr>rq_role := ROLE_VLM\<rparr>)) =
      Some \<lparr>pv_name = Some ''openai-compatible'', pv_revision = cm_revision sample_endpoint\<rparr>"
    "rt_expected_revisions sample_gateway role = None" for role
    by (simp_all add: sample_gateway_def sample_question_def sample_onnx_def sample_endpoint_def)
  show ?thesis
    using routed_evidence_is_delivered[OF b ox cm, where q = sample_question and s = 0 and wall = 0, THEN conjunct1] p(1,3) d(1)
      routed_evidence_is_delivered[OF b ox cm, where q = "sample_question\<lparr>rq_role := ROLE_VLM\<rparr>" and pa = sample_parsing and s = 0
        and wall = 0, THEN conjunct2] p(2) d(2)
    by auto
qed

end
