(* ===== verification/Audio_Policy.thy ===== *)
theory Audio_Policy
  imports Observations
begin

text \<open>
  The fail-closed announcement policy, \<open>src/tp_smoke_detect/domain/policy/audio.py\<close>.  The three
  shapes of decision the code accepts are a datatype.  \<open>uuid4\<close>, \<open>uuid5\<close> and the parser of
  \<open>uuid.UUID\<close> are parameters (fields of \<open>audio_env\<close>): \<open>uuid4_seq k\<close> is what the \<open>k\<close>-th call of
  \<open>uuid4\<close> during one evaluation returns.
\<close>

section \<open>Data\<close>

datatype AudioReasonCode =
    MANUAL_MUTE | CAMERA_SUSPENDED | AUDIO_MUTED | MODE_DISABLED | DECISION_INELIGIBLE
  | ZONE_COOLDOWN | HOURLY_CAP | DAILY_CAP | QUIET_HOURS | WOULD_ANNOUNCE | ANNOUNCED
  | ADAPTER_REJECTED | ADAPTER_ERROR | UNKNOWN_MESSAGE | EXPIRED | RESERVATION_EXPIRED

fun audio_reason_value :: "AudioReasonCode \<Rightarrow> string" where
  "audio_reason_value MANUAL_MUTE = ''manual_mute''"
| "audio_reason_value CAMERA_SUSPENDED = ''camera_suspended''"
| "audio_reason_value AUDIO_MUTED = ''audio_muted''"
| "audio_reason_value MODE_DISABLED = ''mode_disabled''"
| "audio_reason_value DECISION_INELIGIBLE = ''decision_ineligible''"
| "audio_reason_value ZONE_COOLDOWN = ''zone_cooldown''"
| "audio_reason_value HOURLY_CAP = ''hourly_cap''"
| "audio_reason_value DAILY_CAP = ''daily_cap''"
| "audio_reason_value QUIET_HOURS = ''quiet_hours''"
| "audio_reason_value WOULD_ANNOUNCE = ''would_announce''"
| "audio_reason_value ANNOUNCED = ''announced''"
| "audio_reason_value ADAPTER_REJECTED = ''adapter_rejected''"
| "audio_reason_value ADAPTER_ERROR = ''adapter_error''"
| "audio_reason_value UNKNOWN_MESSAGE = ''unknown_message''"
| "audio_reason_value EXPIRED = ''expired''"
| "audio_reason_value RESERVATION_EXPIRED = ''reservation_expired''"

definition audio_reason_codes :: "AudioReasonCode list" where
  "audio_reason_codes =
    [MANUAL_MUTE, CAMERA_SUSPENDED, AUDIO_MUTED, MODE_DISABLED, DECISION_INELIGIBLE, ZONE_COOLDOWN,
     HOURLY_CAP, DAILY_CAP, QUIET_HOURS, WOULD_ANNOUNCE, ANNOUNCED, ADAPTER_REJECTED,
     ADAPTER_ERROR, UNKNOWN_MESSAGE, EXPIRED, RESERVATION_EXPIRED]"

text \<open>\<open>AudioReasonCode(s)\<close>.\<close>

definition AudioReasonCode_of :: "string \<Rightarrow> AudioReasonCode result" where
  "AudioReasonCode_of s = (case find (\<lambda>r. audio_reason_value r = s) audio_reason_codes of
     Some r \<Rightarrow> ret r | None \<Rightarrow> raise (ValueError s))"

definition DEFAULT_MESSAGE_CATALOG :: "(string \<times> string) list" where
  "DEFAULT_MESSAGE_CATALOG =
    [(''smoke-reminder-neutral-01'', ''catalogue://smoke-reminder-neutral-01'')]"

record AudioPolicyConfig =
  ap_mode :: RunMode
  ap_audio_muted :: bool
  ap_cooldown_seconds :: int
  ap_hourly_audio_cap :: int
  ap_daily_audio_cap :: int
  ap_quiet_hours :: "(int \<times> int) option"
  ap_policy_revision :: string
  ap_message_id :: string
  ap_volume_profile :: string
  ap_command_ttl_seconds :: int
  ap_catalog :: "(string \<times> string) list"

definition default_audio_config :: AudioPolicyConfig where
  "default_audio_config =
    \<lparr>ap_mode = SIMULATION, ap_audio_muted = True, ap_cooldown_seconds = 60,
     ap_hourly_audio_cap = 10, ap_daily_audio_cap = 100, ap_quiet_hours = None,
     ap_policy_revision = ''default'', ap_message_id = ''smoke-reminder-neutral-01'',
     ap_volume_profile = ''default'', ap_command_ttl_seconds = 30,
     ap_catalog = DEFAULT_MESSAGE_CATALOG\<rparr>"

definition AudioPolicyConfig_post_init :: "AudioPolicyConfig \<Rightarrow> AudioPolicyConfig result" where
  "AudioPolicyConfig_post_init c =
    (if ap_cooldown_seconds c < 0 \<or> ap_hourly_audio_cap c < 0 \<or> ap_daily_audio_cap c < 0
     then raise (ValueError ''audio limits must be non-negative'')
     else if ap_command_ttl_seconds c \<le> 0
     then raise (ValueError ''command_ttl_seconds must be positive'')
     else if ap_policy_revision c = [] \<or> ap_message_id c = [] \<or> ap_volume_profile c = []
     then raise (ValueError ''audio policy identifiers must not be empty'')
     else if map_of (ap_catalog c) (ap_message_id c) = None
     then raise (ValueError ''message_id must be present in the fixed audio catalog'')
     else ret c)"

record AudioPolicyContext =
  ctx_now :: datetime
  ctx_camera_id :: string
  ctx_zone_id :: string
  ctx_announced_at :: "time_us list"
  ctx_hourly_count :: int
  ctx_daily_count :: int
  ctx_site_muted :: bool
  ctx_zone_muted :: bool
  ctx_camera_muted :: bool
  ctx_camera_suspended :: bool

definition AudioPolicyContext_post_init :: "AudioPolicyContext \<Rightarrow> AudioPolicyContext result" where
  "AudioPolicyContext_post_init c = (case ctx_now c of
     Naive _ \<Rightarrow> raise (ValueError ''audio policy timestamps must be timezone-aware'')
   | Aware _ \<Rightarrow>
       if ctx_hourly_count c < 0 \<or> ctx_daily_count c < 0
       then raise (ValueError ''audio counts must be non-negative'') else ret c)"

record AudioPolicyResult =
  apr_allowed :: bool
  apr_reason_code :: AudioReasonCode
  apr_outcome :: string
  apr_command :: "AudioCommand option"

record decision_mapping =
  dm_outcome :: "string option"
  dm_audio_eligibility :: "bool option"
  dm_decision_id :: "string option"

datatype audio_decision =
    CompletedDecision DecisionCompleted
  | CascadeVerdict CascadeDecision
  | MappingDecision decision_mapping

record audio_env =
  uuid4_seq :: "nat \<Rightarrow> uuid"
  uuid5_url :: "string \<Rightarrow> uuid"
  uuid_parse :: "string \<Rightarrow> uuid option"

section \<open>Operations\<close>

fun decision_is_eligible :: "audio_decision \<Rightarrow> bool" where
  "decision_is_eligible (CascadeVerdict d) =
     (cd_outcome d = DecisionOutcome.VERIFIED \<and> cd_audio_eligibility d)"
| "decision_is_eligible (CompletedDecision d) =
     (dc_outcome d = DecisionOutcome.VERIFIED \<and> dc_audio_eligibility d)"
| "decision_is_eligible (MappingDecision d) =
     (dm_audio_eligibility d = Some True \<and> dm_outcome d = Some (outcome_value DecisionOutcome.VERIFIED))"

text \<open>\<open>_decision_id\<close>; \<open>k\<close> numbers the call of \<open>uuid4\<close> it makes for a bare cascade verdict.\<close>

fun decision_id :: "audio_env \<Rightarrow> nat \<Rightarrow> audio_decision \<Rightarrow> uuid result" where
  "decision_id env k (CascadeVerdict d) = ret (uuid4_seq env k)"
| "decision_id env k (CompletedDecision d) = ret (dc_decision_id d)"
| "decision_id env k (MappingDecision d) = (case dm_decision_id d of
     None \<Rightarrow> raise (ValueError ''audio decisions require decision_id'')
   | Some v \<Rightarrow> (case uuid_parse env v of
       None \<Rightarrow> raise (ValueError ''badly formed hexadecimal UUID string'')
     | Some u \<Rightarrow> ret u))"

definition zone_on_cooldown :: "AudioPolicyConfig \<Rightarrow> AudioPolicyContext \<Rightarrow> bool" where
  "zone_on_cooldown cfg ctx =
    (if ap_cooldown_seconds cfg = 0 then False
     else let cutoff = astimezone_utc (ctx_now ctx) - ap_cooldown_seconds cfg * us_per_second
          in list_ex (\<lambda>item. cutoff \<le> item) (ctx_announced_at ctx))"

definition in_quiet_hours :: "AudioPolicyConfig \<Rightarrow> int \<Rightarrow> bool" where
  "in_quiet_hours cfg current = (case ap_quiet_hours cfg of
     None \<Rightarrow> False
   | Some (start, stop) \<Rightarrow>
       if start = stop then True
       else if start < stop then start \<le> current \<and> current < stop
       else start \<le> current \<or> current < stop)"

definition suppressed :: "AudioReasonCode \<Rightarrow> AudioPolicyResult" where
  "suppressed r = \<lparr>apr_allowed = False, apr_reason_code = r, apr_outcome = ''suppressed'',
     apr_command = None\<rparr>"

text \<open>\<open>uuid5(NAMESPACE_URL, f"tp-smoke-detect/audio/{decision_id}")\<close>.\<close>

definition audio_command_id :: "audio_env \<Rightarrow> uuid \<Rightarrow> uuid" where
  "audio_command_id env d = uuid5_url env (''tp-smoke-detect/audio/'' @ d)"

text \<open>Lines 180 to 193: the catalogue command.  The calls of \<open>uuid4\<close> are numbered in evaluation
  order.\<close>

definition build_command ::
  "audio_env \<Rightarrow> AudioPolicyConfig \<Rightarrow> audio_decision \<Rightarrow> AudioPolicyContext \<Rightarrow> time_us \<Rightarrow> AudioCommand result"
where
  "build_command env cfg decision ctx now =
    (let (event_k, corr_k, dec_k) = (case decision of CascadeVerdict _ \<Rightarrow> (1, 2, 3) | _ \<Rightarrow> (0, 0, 0))
     in case (decision_id env 0 decision, decision_id env corr_k decision,
              decision_id env dec_k decision) of
       (Inr d0, Inr d1, Inr d2) \<Rightarrow>
         AudioCommand_new
           \<lparr>ac_event_id = uuid4_seq env event_k,
            ac_correlation_id = d1,
            ac_producer = ''tp-smoke-detect.audio-policy'',
            ac_occurred_at = now,
            ac_command_id = audio_command_id env d0,
            ac_decision_id = d2,
            ac_zone_id = ctx_zone_id ctx,
            ac_message_id = ap_message_id cfg,
            ac_volume_profile = ap_volume_profile cfg,
            ac_expires_at = now + ap_command_ttl_seconds cfg * us_per_second,
            ac_policy_revision = ap_policy_revision cfg\<rparr>
     | (Inl e, _, _) \<Rightarrow> raise e
     | (_, Inl e, _) \<Rightarrow> raise e
     | (_, _, Inl e) \<Rightarrow> raise e)"

definition audio_evaluate ::
  "audio_env \<Rightarrow> AudioPolicyConfig \<Rightarrow> audio_decision \<Rightarrow> AudioPolicyContext \<Rightarrow> AudioPolicyResult result"
where
  "audio_evaluate env cfg decision ctx =
    (if ctx_site_muted ctx \<or> ctx_zone_muted ctx \<or> ctx_camera_muted ctx
       then ret (suppressed MANUAL_MUTE)
     else if ctx_camera_suspended ctx then ret (suppressed CAMERA_SUSPENDED)
     else if ap_audio_muted cfg then ret (suppressed AUDIO_MUTED)
     else if \<not> decision_is_eligible decision then ret (suppressed DECISION_INELIGIBLE)
     else if ap_mode cfg = SHADOW then
       ret \<lparr>apr_allowed = False, apr_reason_code = WOULD_ANNOUNCE,
            apr_outcome = ''would_announce'', apr_command = None\<rparr>
     else if ap_mode cfg \<noteq> AUTOMATIC then ret (suppressed MODE_DISABLED)
     else
       (let now = astimezone_utc (ctx_now ctx) in
        if in_quiet_hours cfg (utc_time_of_day now) then ret (suppressed QUIET_HOURS)
        else if ap_hourly_audio_cap cfg \<le> ctx_hourly_count ctx then ret (suppressed HOURLY_CAP)
        else if ap_daily_audio_cap cfg \<le> ctx_daily_count ctx then ret (suppressed DAILY_CAP)
        else if zone_on_cooldown cfg ctx then ret (suppressed ZONE_COOLDOWN)
        else (case build_command env cfg decision ctx now of
                Inl e \<Rightarrow> raise e
              | Inr command \<Rightarrow>
                  ret \<lparr>apr_allowed = True, apr_reason_code = ANNOUNCED,
                       apr_outcome = ''announce_requested'', apr_command = Some command\<rparr>)))"

section \<open>Gates\<close>

text \<open>All the conditions an announcement passes.\<close>

definition gates_open :: "AudioPolicyConfig \<Rightarrow> audio_decision \<Rightarrow> AudioPolicyContext \<Rightarrow> bool" where
  "gates_open cfg decision ctx \<longleftrightarrow>
     \<not> ctx_site_muted ctx \<and> \<not> ctx_zone_muted ctx \<and> \<not> ctx_camera_muted ctx \<and>
     \<not> ctx_camera_suspended ctx \<and> \<not> ap_audio_muted cfg \<and>
     decision_is_eligible decision \<and> ap_mode cfg = AUTOMATIC \<and>
     \<not> in_quiet_hours cfg (utc_time_of_day (astimezone_utc (ctx_now ctx))) \<and>
     ctx_hourly_count ctx < ap_hourly_audio_cap cfg \<and>
     ctx_daily_count ctx < ap_daily_audio_cap cfg \<and>
     \<not> zone_on_cooldown cfg ctx"

lemma audio_evaluate_open:
  assumes "gates_open cfg d ctx"
  shows "audio_evaluate env cfg d ctx = (case build_command env cfg d ctx (astimezone_utc (ctx_now ctx)) of
     Inl e \<Rightarrow> raise e
   | Inr c \<Rightarrow> ret \<lparr>apr_allowed = True, apr_reason_code = ANNOUNCED,
        apr_outcome = ''announce_requested'', apr_command = Some c\<rparr>)"
  using assms by (simp add: audio_evaluate_def gates_open_def Let_def)

lemma audio_evaluate_shut:
  assumes "\<not> gates_open cfg d ctx"
  shows "\<exists>r. audio_evaluate env cfg d ctx = Inr r \<and> \<not> apr_allowed r \<and> apr_command r = None \<and>
    apr_reason_code r \<noteq> ANNOUNCED \<and>
    (apr_outcome r = ''suppressed'' \<or> apr_outcome r = ''would_announce'' \<and> ap_mode cfg = SHADOW)"
  using assms by (auto simp: audio_evaluate_def gates_open_def Let_def suppressed_def)

lemma build_command_new:
  assumes "build_command env cfg d ctx now = Inr c"
  shows "\<exists>c0 k j. AudioCommand_new c0 = Inr c \<and> ac_occurred_at c0 = now \<and>
    ac_expires_at c0 = now + ap_command_ttl_seconds cfg * us_per_second \<and>
    ac_zone_id c0 = ctx_zone_id ctx \<and> ac_message_id c0 = ap_message_id cfg \<and>
    (\<exists>d0. decision_id env 0 d = Inr d0 \<and>
      ac_command_id c0 = audio_command_id env d0) \<and>
    decision_id env k d = Inr (ac_correlation_id c0) \<and> decision_id env j d = Inr (ac_decision_id c0)"
proof -
  obtain e k j where ekj: "(case d of CascadeVerdict _ \<Rightarrow> (1, 2, 3) | _ \<Rightarrow> (0, 0, 0)) = (e :: nat, k :: nat, j :: nat)"
    by (metis prod_cases3)
  obtain d0 d1 d2 where ids: "decision_id env 0 d = Inr d0" "decision_id env k d = Inr d1"
      "decision_id env j d = Inr d2"
    using assms unfolding build_command_def ekj
    by (cases "decision_id env 0 d"; cases "decision_id env k d"; cases "decision_id env j d") simp_all
  have new: "AudioCommand_new \<lparr>ac_event_id = uuid4_seq env e, ac_correlation_id = d1,
      ac_producer = ''tp-smoke-detect.audio-policy'', ac_occurred_at = now,
      ac_command_id = audio_command_id env d0, ac_decision_id = d2,
      ac_zone_id = ctx_zone_id ctx, ac_message_id = ap_message_id cfg,
      ac_volume_profile = ap_volume_profile cfg,
      ac_expires_at = now + ap_command_ttl_seconds cfg * us_per_second,
      ac_policy_revision = ap_policy_revision cfg\<rparr> = Inr c"
    using assms unfolding build_command_def ekj by (simp add: ids)
  show ?thesis
    by (rule exI, rule exI[of _ k], rule exI[of _ j], rule conjI[OF new]) (simp add: ids)
qed

lemma build_command_fields:
  assumes "build_command env cfg d ctx now = Inr c"
  shows "ac_occurred_at c = now \<and> ac_expires_at c = now + ap_command_ttl_seconds cfg * us_per_second \<and>
    ac_zone_id c = str_strip (ctx_zone_id ctx) \<and> ac_message_id c = str_strip (ap_message_id cfg) \<and>
    (\<exists>d0. decision_id env 0 d = Inr d0 \<and>
      ac_command_id c = audio_command_id env d0) \<and>
    (\<exists>k j. decision_id env k d = Inr (ac_correlation_id c) \<and> decision_id env j d = Inr (ac_decision_id c))"
  using build_command_new[OF assms] AudioCommand_new_keeps by metis

lemma decision_id_stable:
  "(\<And>v. d \<noteq> CascadeVerdict v) \<Longrightarrow> decision_id env k d = decision_id env j d"
  by (cases d) auto

lemma audio_evaluate_command:
  assumes "audio_evaluate env cfg d ctx = Inr r" and "apr_command r = Some c"
  shows "gates_open cfg d ctx" and "build_command env cfg d ctx (astimezone_utc (ctx_now ctx)) = Inr c"
    and "r = \<lparr>apr_allowed = True, apr_reason_code = ANNOUNCED, apr_outcome = ''announce_requested'',
               apr_command = Some c\<rparr>"
proof -
  show g: "gates_open cfg d ctx"
    using assms audio_evaluate_shut[of cfg d ctx env] by fastforce
  show "build_command env cfg d ctx (astimezone_utc (ctx_now ctx)) = Inr c"
    and "r = \<lparr>apr_allowed = True, apr_reason_code = ANNOUNCED, apr_outcome = ''announce_requested'',
               apr_command = Some c\<rparr>"
    using assms by (auto simp: audio_evaluate_open[OF g] split: sum.splits)
qed

section \<open>Properties\<close>


text \<open>A command is bounded: under a validated configuration it expires strictly after
  it was issued, by the configured time to live; it names the routed zone and the configured
  catalogue message; and for a stored decision its command id is a function of the decision id
  alone, so a retry at another time issues the same command id.\<close>

theorem audio_command_bounded:
  assumes "AudioPolicyConfig_post_init cfg = Inr cfg"
    and "audio_evaluate env cfg d ctx = Inr r" and "apr_command r = Some c"
  shows "ac_occurred_at c < ac_expires_at c \<and>
    ac_expires_at c = astimezone_utc (ctx_now ctx) + ap_command_ttl_seconds cfg * us_per_second \<and>
    ac_zone_id c = str_strip (ctx_zone_id ctx) \<and> ac_message_id c = str_strip (ap_message_id cfg) \<and>
    ((\<exists>v. d = CascadeVerdict v) \<or>
      ac_command_id c = audio_command_id env (ac_decision_id c) \<and>
      ac_correlation_id c = ac_decision_id c)"
proof -
  note b = audio_evaluate_command(2)[OF assms(2,3)]
  note fields = build_command_fields[OF b]
  have "0 < ap_command_ttl_seconds cfg"
    using assms(1) by (auto simp: AudioPolicyConfig_post_init_def split: if_splits)
  moreover have "(\<exists>v. d = CascadeVerdict v) \<or>
      ac_command_id c = audio_command_id env (ac_decision_id c) \<and>
      ac_correlation_id c = ac_decision_id c"
    using fields decision_id_stable[of d env] by (metis sum.inject(2))
  ultimately show ?thesis using fields by simp
qed

text \<open>A deployed configuration and one routed decision, as inputs for the evaluation of the policy.\<close>

definition sample_audio_env :: audio_env where
  "sample_audio_env = \<lparr>uuid4_seq = (\<lambda>_. ''event''), uuid5_url = (\<lambda>s. s), uuid_parse = Some\<rparr>"

definition sample_audio_config :: AudioPolicyConfig where
  "sample_audio_config = default_audio_config\<lparr>ap_mode := AUTOMATIC, ap_audio_muted := False\<rparr>"

definition sample_audio_decision :: audio_decision where
  "sample_audio_decision = MappingDecision \<lparr>dm_outcome = Some ''verified'', dm_audio_eligibility = Some True,
     dm_decision_id = Some ''d1''\<rparr>"

definition sample_context :: AudioPolicyContext where
  "sample_context = \<lparr>ctx_now = Aware 100, ctx_camera_id = ''cam'', ctx_zone_id = ''hall'',
     ctx_announced_at = [], ctx_hourly_count = 0, ctx_daily_count = 0, ctx_site_muted = False,
     ctx_zone_muted = False, ctx_camera_muted = False, ctx_camera_suspended = False\<rparr>"

definition sample_command :: AudioCommand where
  "sample_command = \<lparr>ac_event_id = ''event'', ac_correlation_id = ''d1'',
     ac_producer = ''tp-smoke-detect.audio-policy'', ac_occurred_at = 100,
     ac_command_id = ''tp-smoke-detect/audio/d1'', ac_decision_id = ''d1'', ac_zone_id = ''hall'',
     ac_message_id = ''smoke-reminder-neutral-01'', ac_volume_profile = ''default'',
     ac_expires_at = 30000100, ac_policy_revision = ''default''\<rparr>"

lemma sample_command_built:
  "audio_evaluate sample_audio_env sample_audio_config sample_audio_decision sample_context =
    Inr \<lparr>apr_allowed = True, apr_reason_code = ANNOUNCED, apr_outcome = ''announce_requested'',
         apr_command = Some sample_command\<rparr>"
  by code_simp

theorem audio_command_bounded_witness:
  "ac_occurred_at sample_command < ac_expires_at sample_command \<and>
   ac_command_id sample_command =
     audio_command_id sample_audio_env (ac_decision_id sample_command)"
proof -
  have cfg: "AudioPolicyConfig_post_init sample_audio_config = Inr sample_audio_config"
    by code_simp
  show ?thesis
    using audio_command_bounded[OF cfg sample_command_built, of sample_command]
    by (simp add: sample_audio_decision_def)
qed

text \<open>Quiet hours are the half-open cyclic interval from start to end on the UTC clock,
  windows that run across midnight included, and the whole day when start and end coincide: for
  times of day in microseconds the test holds iff the distance from the start to the current time
  around the clock is less than the distance from the start to the end.\<close>

theorem quiet_hours_cyclic:
  assumes "ap_quiet_hours cfg = Some (start, stop)"
    and "0 \<le> start" "start < us_per_day" "0 \<le> stop" "stop < us_per_day"
    and "0 \<le> t" "t < us_per_day"
  shows "in_quiet_hours cfg t \<longleftrightarrow>
    start = stop \<or> (t - start) mod us_per_day < (stop - start) mod us_per_day"
proof -
  have wrap: "(x - start) mod us_per_day = (if start \<le> x then x - start else x - start + us_per_day)"
    if "0 \<le> x" "x < us_per_day" for x :: int
    using that assms(2,3) by (auto simp: mod_pos_pos_trivial) (smt (verit) mod_add_self2 mod_pos_pos_trivial)
  show ?thesis
    using assms by (auto simp: in_quiet_hours_def wrap)
qed

theorem quiet_hours_cyclic_witness:
  "in_quiet_hours (default_audio_config\<lparr>ap_quiet_hours := Some (79200000000, 21600000000)\<rparr>) 3600000000
    \<longleftrightarrow> (3600000000 - 79200000000) mod us_per_day < (21600000000 - 79200000000) mod us_per_day"
  using quiet_hours_cyclic[of "default_audio_config\<lparr>ap_quiet_hours := Some (79200000000, 21600000000)\<rparr>"
      79200000000 21600000000 3600000000] by simp

text \<open>The context \<open>ctx'\<close> restricts at least as much as \<open>ctx\<close>: the same request, with possibly more mutes
  and suspensions, higher counters and more announcements in its history.\<close>

definition restricts :: "AudioPolicyContext \<Rightarrow> AudioPolicyContext \<Rightarrow> bool" where
  "restricts ctx' ctx \<longleftrightarrow>
     ctx_now ctx' = ctx_now ctx \<and> ctx_zone_id ctx' = ctx_zone_id ctx \<and>
     (ctx_site_muted ctx' \<or> \<not> ctx_site_muted ctx) \<and> (ctx_zone_muted ctx' \<or> \<not> ctx_zone_muted ctx) \<and>
     (ctx_camera_muted ctx' \<or> \<not> ctx_camera_muted ctx) \<and>
     (ctx_camera_suspended ctx' \<or> \<not> ctx_camera_suspended ctx) \<and>
     ctx_hourly_count ctx \<le> ctx_hourly_count ctx' \<and> ctx_daily_count ctx \<le> ctx_daily_count ctx' \<and>
     set (ctx_announced_at ctx) \<subseteq> set (ctx_announced_at ctx')"

lemma gates_open_restricts:
  assumes "restricts ctx' ctx" and "gates_open cfg d ctx'"
  shows "gates_open cfg d ctx"
  using assms by (auto simp: restricts_def gates_open_def zone_on_cooldown_def list_ex_iff Let_def split: if_splits)

text \<open>Restrictions only ever silence: a request that is announced under some mutes,
  counters and history is announced, with the same command, under any subset of them; so no mute,
  suspension, counter or recorded announcement can turn a suppressed request into an announced one.\<close>

theorem audio_policy_antitone:
  assumes "restricts ctx' ctx" and "audio_evaluate env cfg d ctx' = Inr r" and "apr_command r = Some c"
  shows "audio_evaluate env cfg d ctx = Inr r"
proof -
  have g: "gates_open cfg d ctx'" by (rule audio_evaluate_command(1)[OF assms(2,3)])
  have "ctx_zone_id ctx = ctx_zone_id ctx'" using assms(1) by (simp add: restricts_def)
  then have "build_command env cfg d ctx now = build_command env cfg d ctx' now" for now
    unfolding build_command_def by (rule ssubst) (rule refl)
  then show ?thesis
    using assms(1,2) by (simp add: audio_evaluate_open[OF g] restricts_def
        audio_evaluate_open[OF gates_open_restricts[OF assms(1) g]])
qed

theorem audio_policy_antitone_witness:
  "audio_evaluate sample_audio_env sample_audio_config sample_audio_decision (sample_context\<lparr>ctx_hourly_count := 0\<rparr>) =
    Inr \<lparr>apr_allowed = True, apr_reason_code = ANNOUNCED, apr_outcome = ''announce_requested'',
         apr_command = Some sample_command\<rparr>"
  by (rule audio_policy_antitone[OF _ sample_command_built])
    (simp_all add: restricts_def sample_context_def)

end
