(* ===== verification/Playback.thy ===== *)
theory Playback
  imports Audio_Policy Json "HOL-Library.Word"
begin

text \<open>
  The boundary to the audio worker: the typed receipt of \<open>src/tp_smoke_detect/ports/audio.py\<close>, the
  contract of \<open>AudioController\<close> as a locale, the in-memory controller of
  \<open>src/tp_smoke_detect/adapters/audio/fake.py\<close> and the HTTP controller of
  \<open>src/tp_smoke_detect/adapters/audio/http.py\<close>.

  The network is a parameter of the HTTP controller: what \<open>socket.getaddrinfo\<close> answers and what the
  opened connection yields.  An address is its IPv4 or IPv6 number; text that
  \<open>ipaddress.ip_address\<close> cannot parse is \<open>None\<close>.
\<close>

section \<open>Receipts\<close>

datatype PlaybackStatus = PB_ACCEPTED | PB_DUPLICATE | PB_REJECTED | PB_EXPIRED | PB_FAILED

fun playback_value :: "PlaybackStatus \<Rightarrow> string" where
  "playback_value PB_ACCEPTED = ''accepted''"
| "playback_value PB_DUPLICATE = ''duplicate''"
| "playback_value PB_REJECTED = ''rejected''"
| "playback_value PB_EXPIRED = ''expired''"
| "playback_value PB_FAILED = ''failed''"

record AudioPlaybackReceipt =
  pr_command_id :: string
  pr_decision_id :: string
  pr_status :: PlaybackStatus
  pr_accepted_at :: datetime
  pr_detail_code :: "string option"

text \<open>\<open>model_dump(mode="json")\<close>.\<close>

definition receipt_dump :: "AudioPlaybackReceipt \<Rightarrow> dict" where
  "receipt_dump r = [(''command_id'', JStr (pr_command_id r)), (''decision_id'', JStr (pr_decision_id r)),
     (''status'', JStr (playback_value (pr_status r))), (''accepted_at'', JTime (pr_accepted_at r)),
     (''detail_code'', case pr_detail_code r of None \<Rightarrow> JNull | Some c \<Rightarrow> JStr c)]"

text \<open>The receipt an adapter builds for a command.\<close>

definition receipt_for :: "AudioCommand \<Rightarrow> PlaybackStatus \<Rightarrow> time_us \<Rightarrow> string option \<Rightarrow> AudioPlaybackReceipt" where
  "receipt_for c status t detail = \<lparr>pr_command_id = ac_command_id c, pr_decision_id = ac_decision_id c,
     pr_status = status, pr_accepted_at = Aware t, pr_detail_code = detail\<rparr>"

section \<open>The controller contract\<close>

text \<open>A controller consumes the clock reading of the call and its own state (\<open>clock\<close> is the time it
  goes by, which a test controller may pin).  It may raise.  What it returns names the command; it
  never accepts a command outside its catalogue or after its expiry.\<close>

locale audio_controller =
  fixes send :: "time_us \<Rightarrow> AudioCommand \<Rightarrow> 'c \<Rightarrow> AudioPlaybackReceipt result \<times> 'c"
    and catalog :: "'c \<Rightarrow> string set"
    and clock :: "'c \<Rightarrow> time_us \<Rightarrow> time_us"
    and inv :: "'c \<Rightarrow> bool"
  assumes inv_send: "inv s \<Longrightarrow> inv (snd (send now c s))"
    and receipt_names_command: "inv s \<Longrightarrow> send now c s = (Inr r, s') \<Longrightarrow> pr_command_id r = ac_command_id c"
    and accepted_in_catalog: "send now c s = (Inr r, s') \<Longrightarrow> pr_status r = PB_ACCEPTED \<Longrightarrow>
      ac_message_id c \<in> catalog s"
    and accepted_before_expiry: "send now c s = (Inr r, s') \<Longrightarrow> pr_status r = PB_ACCEPTED \<Longrightarrow>
      clock s now < ac_expires_at c"
    and frame: "catalog (snd (send now c s)) = catalog s" "clock (snd (send now c s)) = clock s"
begin

text \<open>A batch of commands with the clock readings of their calls.\<close>

fun send_all :: "(time_us \<times> AudioCommand) list \<Rightarrow> 'c \<Rightarrow> AudioPlaybackReceipt result list \<times> 'c" where
  "send_all [] s = ([], s)"
| "send_all ((now, c) # cs) s =
    (let (r, s') = send now c s; (rs, s'') = send_all cs s' in (r # rs, s''))"

text \<open>Every acceptance in a batch is for a live command of the catalogue, and names it.\<close>

lemma send_all_accepted:
  "inv s \<Longrightarrow> i < length cs \<Longrightarrow> fst (send_all cs s) ! i = Inr r \<Longrightarrow> pr_status r = PB_ACCEPTED \<Longrightarrow>
    ac_message_id (snd (cs ! i)) \<in> catalog s \<and> clock s (fst (cs ! i)) < ac_expires_at (snd (cs ! i)) \<and>
    pr_command_id r = ac_command_id (snd (cs ! i))"
proof (induction cs s arbitrary: i rule: send_all.induct)
  case (2 now c cs s)
  obtain x s' where x: "send now c s = (x, s')" by (cases "send now c s")
  have s': "catalog s' = catalog s" "clock s' = clock s" "inv s'"
    using frame[of now c s] inv_send[OF 2(2), of now c] by (simp_all add: x)
  show ?case
  proof (cases i)
    case 0
    then have "send now c s = (Inr r, s')" using 2(4) x by (simp add: Let_def case_prod_beta)
    then show ?thesis
      using 0 2(2,5) accepted_in_catalog accepted_before_expiry receipt_names_command by simp
  next
    case (Suc j)
    then show ?thesis using 2(1)[OF x[symmetric] refl s'(3), of j] 2(3-5) x s' by (simp add: Let_def case_prod_beta)
  qed
qed simp

end

section \<open>FakeAudioController\<close>

record fake_controller =
  fc_catalog :: "string list"
  fc_now :: "time_us option"
  fc_commands :: "AudioCommand list"
  fc_receipts :: "(uuid \<times> AudioPlaybackReceipt) list"

text \<open>\<open>catalog or frozenset(DEFAULT_MESSAGE_CATALOG)\<close>.\<close>

definition fake_new :: "string list option \<Rightarrow> time_us option \<Rightarrow> fake_controller" where
  "fake_new cat now = \<lparr>fc_catalog = (case cat of Some (x # xs) \<Rightarrow> x # xs | _ \<Rightarrow> map fst DEFAULT_MESSAGE_CATALOG),
     fc_now = now, fc_commands = [], fc_receipts = []\<rparr>"

definition fake_send :: "time_us \<Rightarrow> AudioCommand \<Rightarrow> fake_controller \<Rightarrow> AudioPlaybackReceipt result \<times> fake_controller" where
  "fake_send clock c s =
    (let now = (case fc_now s of Some t \<Rightarrow> t | None \<Rightarrow> clock) in
     if ac_message_id c \<notin> set (fc_catalog s) then (ret (receipt_for c PB_REJECTED now (Some ''unknown_message'')), s)
     else if ac_expires_at c \<le> now then (ret (receipt_for c PB_EXPIRED now (Some ''expired'')), s)
     else case map_of (fc_receipts s) (ac_command_id c) of
       Some existing \<Rightarrow> (ret (existing\<lparr>pr_status := PB_DUPLICATE\<rparr>), s)
     | None \<Rightarrow>
         (let receipt = receipt_for c PB_ACCEPTED now None
          in (ret receipt, s\<lparr>fc_receipts := AList.update (ac_command_id c) receipt (fc_receipts s),
                             fc_commands := fc_commands s @ [c]\<rparr>)))"

definition fake_run :: "(time_us \<times> AudioCommand) list \<Rightarrow> fake_controller \<Rightarrow> fake_controller" where
  "fake_run cs s = fold (\<lambda>(now, c) s. snd (fake_send now c s)) cs s"

text \<open>The receipts are those of the accepted commands, one per command id.\<close>

definition fake_inv :: "fake_controller \<Rightarrow> bool" where
  "fake_inv s \<longleftrightarrow> distinct (map ac_command_id (fc_commands s)) \<and>
    map fst (fc_receipts s) = map ac_command_id (fc_commands s) \<and>
    (\<forall>c \<in> set (fc_commands s). ac_message_id c \<in> set (fc_catalog s)) \<and>
    (\<forall>(k, r) \<in> set (fc_receipts s). pr_command_id r = k)"

lemma update_new_key: "k \<notin> set (map fst al) \<Longrightarrow> AList.update k v al = al @ [(k, v)]"
  by (induction al) auto

lemma fake_inv_send: "fake_inv s \<Longrightarrow> fake_inv (snd (fake_send now c s))"
proof -
  assume inv: "fake_inv s"
  have new: "ac_command_id c \<notin> set (map fst (fc_receipts s))" if "map_of (fc_receipts s) (ac_command_id c) = None"
    using that by (simp add: map_of_eq_None_iff)
  show ?thesis
    using inv new
    by (auto simp: fake_send_def Let_def fake_inv_def update_new_key receipt_for_def simp flip: set_map
        split: option.splits)
qed

lemma fake_catalog_send [simp]: "fc_catalog (snd (fake_send now c s)) = fc_catalog s"
  by (simp add: fake_send_def Let_def split: option.split)

lemma fake_now_send [simp]: "fc_now (snd (fake_send now c s)) = fc_now s"
  by (simp add: fake_send_def Let_def split: option.split)

lemma fake_inv_run: "fake_inv s \<Longrightarrow> fake_inv (fake_run cs s)"
  unfolding fake_run_def by (induction cs arbitrary: s) (auto simp: fake_inv_send)

lemma fake_commands_source: "set (fc_commands (fake_run cs s)) \<subseteq> set (fc_commands s) \<union> snd ` set cs"
proof (induction cs arbitrary: s)
  case (Cons p cs)
  obtain now c where p: "p = (now, c)" by (cases p)
  have "set (fc_commands (snd (fake_send now c s))) \<subseteq> set (fc_commands s) \<union> {c}"
    by (auto simp: fake_send_def Let_def split: option.splits if_splits)
  then show ?case
    using Cons[of "snd (fake_send now c s)"] by (auto simp: fake_run_def p)
qed (simp add: fake_run_def)

text \<open>The in-memory controller plays each command id at most once, whatever the
  sequence of commands and clock readings: its log of played commands has distinct command ids,
  holds only commands it was sent, and only messages of its catalogue.\<close>

theorem fake_plays_once:
  "distinct (map ac_command_id (fc_commands (fake_run cs (fake_new cat now)))) \<and>
   set (fc_commands (fake_run cs (fake_new cat now))) \<subseteq> snd ` set cs \<and>
   fake_inv (fake_run cs (fake_new cat now))"
proof -
  have inv: "fake_inv (fake_run cs (fake_new cat now))"
    by (rule fake_inv_run) (simp add: fake_inv_def fake_new_def)
  moreover have "set (fc_commands (fake_run cs (fake_new cat now))) \<subseteq> snd ` set cs"
    using fake_commands_source[of cs "fake_new cat now"] by (simp add: fake_new_def)
  ultimately show ?thesis by (simp add: fake_inv_def)
qed

lemma fake_receipt_names_command:
  "fake_inv s \<Longrightarrow> fake_send now c s = (Inr r, s') \<Longrightarrow> pr_command_id r = ac_command_id c"
  by (auto simp: fake_send_def Let_def fake_inv_def receipt_for_def dest!: map_of_SomeD
      split: option.splits if_splits)

interpretation fake: audio_controller fake_send "\<lambda>s. set (fc_catalog s)"
  "\<lambda>s t. case fc_now s of Some u \<Rightarrow> u | None \<Rightarrow> t" fake_inv
proof (unfold_locales, goal_cases)
  case (1 s now c)
  then show ?case by (rule fake_inv_send)
next
  case (2 s now c r s')
  then show ?case by (rule fake_receipt_names_command)
qed (auto simp: fake_inv_send fake_send_def Let_def receipt_for_def split: option.splits if_splits)

section \<open>HttpAudioController\<close>

subsection \<open>Addresses\<close>

datatype address = IPv4 "32 word" | IPv6 "128 word"

datatype network = Net4 "32 word" nat | Net6 "128 word" nat

text \<open>\<open>address in network\<close>: the same version and the same prefix.\<close>

fun in_network :: "address \<Rightarrow> network \<Rightarrow> bool" where
  "in_network (IPv4 a) (Net4 base p) = (drop_bit (32 - p) a = drop_bit (32 - p) base)"
| "in_network (IPv6 a) (Net6 base p) = (drop_bit (128 - p) a = drop_bit (128 - p) base)"
| "in_network _ _ = False"

text \<open>127.0.0.0/8, 10.0.0.0/8, 172.16.0.0/12, 192.168.0.0/16, ::1/128 and fc00::/7.\<close>

definition APPROVED_LOCAL_NETWORKS :: "network list" where
  "APPROVED_LOCAL_NETWORKS =
    [Net4 0x7F000000 8, Net4 0x0A000000 8, Net4 0xAC100000 12, Net4 0xC0A80000 16,
     Net6 1 128, Net6 0xFC000000000000000000000000000000 7]"

definition approved :: "address \<Rightarrow> bool" where
  "approved a \<longleftrightarrow> list_ex (in_network a) APPROVED_LOCAL_NETWORKS"

text \<open>What the standard library and the network answer.  \<open>net_exchange\<close> is the request opened to one
  pinned address, read and validated as a receipt; \<open>Escaped\<close> is an exception that no clause of \<open>send\<close> catches.\<close>

datatype http_reply = Reply AudioPlaybackReceipt | TimedOut | Broken | Escaped error

record http_net =
  net_ip_address :: "string \<Rightarrow> address option"
  net_getaddrinfo :: "string \<Rightarrow> nat \<Rightarrow> string list result"
  net_exchange :: "string \<Rightarrow> AudioCommand \<Rightarrow> http_reply"

definition safe_address :: "http_net \<Rightarrow> string \<Rightarrow> bool result" where
  "safe_address net value = (case net_ip_address net value of
     None \<Rightarrow> raise (ValueError ''does not appear to be an IPv4 or IPv6 address'')
   | Some a \<Rightarrow> ret (approved a))"

definition is_local_host :: "http_net \<Rightarrow> string \<Rightarrow> bool" where
  "is_local_host net host = (case safe_address net host of
     Inr ok \<Rightarrow> ok
   | Inl _ \<Rightarrow> (case rbind (net_getaddrinfo net host 0) (rmap (safe_address net)) of
       Inl _ \<Rightarrow> False
     | Inr oks \<Rightarrow> list_all id oks))"

text \<open>\<open>_DNS_HOST\<close>: dot-separated labels of 1 to 63 letters, digits and hyphens, no hyphen at an end.\<close>

definition dns_char :: "char \<Rightarrow> bool" where
  "dns_char c \<longleftrightarrow> c \<in> set ''abcdefghijklmnopqrstuvwxyz0123456789''"

definition dns_label :: "string \<Rightarrow> bool" where
  "dns_label l \<longleftrightarrow> l \<noteq> [] \<and> length l \<le> 63 \<and> dns_char (hd l) \<and> dns_char (last l) \<and>
     list_all (\<lambda>c. dns_char c \<or> c = CHR ''-'') l"

fun split_dots :: "string \<Rightarrow> string list" where
  "split_dots [] = [[]]"
| "split_dots (c # cs) = (if c = CHR ''.'' then [] # split_dots cs
     else (case split_dots cs of [] \<Rightarrow> [[c]] | l # ls \<Rightarrow> (c # l) # ls))"

definition dns_host :: "string \<Rightarrow> bool" where
  "dns_host h \<longleftrightarrow> list_all dns_label (split_dots h)"

definition ascii_lower :: "char \<Rightarrow> char" where
  "ascii_lower c = (if 65 \<le> (of_char c :: nat) \<and> (of_char c :: nat) \<le> 90 then char_of (of_char c + 32 :: nat) else c)"

definition rstrip_dots :: "string \<Rightarrow> string" where
  "rstrip_dots h = rev (dropWhile (\<lambda>c. c = CHR ''.'') (rev h))"

definition normalize_host :: "http_net \<Rightarrow> string \<Rightarrow> string result" where
  "normalize_host net host =
    (let normalized = map ascii_lower (rstrip_dots host) in
     if normalized = [] then raise (ValueError ''audio endpoint host is required'')
     else if net_ip_address net normalized = None \<and> (253 < length normalized \<or> \<not> dns_host normalized)
     then raise (ValueError ''audio endpoint host is not DNS-safe'')
     else ret normalized)"

text \<open>\<open>_resolve_safe_addresses\<close>: all records safe, each address once, at least one.\<close>

fun collect_safe :: "http_net \<Rightarrow> string list \<Rightarrow> string list \<Rightarrow> string list result" where
  "collect_safe net [] addresses = ret addresses"
| "collect_safe net (raw # rest) addresses =
    (if safe_address net raw \<noteq> Inr True
     then raise (ValueError ''audio endpoint resolved to a public or unsafe address'')
     else collect_safe net rest (if raw \<in> set addresses then addresses else addresses @ [raw]))"

definition resolve_safe_addresses :: "http_net \<Rightarrow> string \<Rightarrow> nat \<Rightarrow> string list result" where
  "resolve_safe_addresses net host port = (case net_getaddrinfo net host port of
     Inl _ \<Rightarrow> raise (ValueError ''audio endpoint host cannot be resolved'')
   | Inr records \<Rightarrow> rbind (collect_safe net records []) (\<lambda>addresses.
       if addresses = [] then raise (ValueError ''audio endpoint has no stream address'') else ret addresses))"

subsection \<open>Construction\<close>

text \<open>The fields of \<open>urlparse(endpoint)\<close> the adapter reads.\<close>

record parsed_url =
  url_scheme :: string
  url_netloc :: string
  url_username :: "string option"
  url_password :: "string option"
  url_query :: string
  url_fragment :: string
  url_hostname :: "string option"
  url_port :: "nat option"

record http_controller =
  hc_url :: parsed_url
  hc_catalog :: "string list"
  hc_allowed_hosts :: "string list"

definition http_new ::
  "http_net \<Rightarrow> parsed_url \<Rightarrow> rat \<Rightarrow> string list option \<Rightarrow> string list \<Rightarrow> http_controller result" where
  "http_new net url timeout cat allowed =
    (if url_scheme url \<notin> {''http'', ''https''} \<or> url_netloc url = [] \<or> url_username url \<noteq> None \<or>
        url_password url \<noteq> None \<or> url_query url \<noteq> [] \<or> url_fragment url \<noteq> []
     then raise (ValueError ''audio endpoint must be an HTTP(S) URL'')
     else
       rbind (normalize_host net (case url_hostname url of None \<Rightarrow> [] | Some h \<Rightarrow> h)) (\<lambda>host.
       rbind (rmap (normalize_host net) allowed) (\<lambda>configured.
       if \<not> is_local_host net host \<and> host \<notin> set configured
       then raise (ValueError ''audio endpoint host is not in the internal allowlist'')
       else if (case net_ip_address net host of None \<Rightarrow> False | Some a \<Rightarrow> \<not> approved a)
       then raise (ValueError ''audio endpoint host is not internal'')
       else if timeout \<le> 0 then raise (ValueError ''timeout_seconds must be positive'')
       else ret \<lparr>hc_url = url,
         hc_catalog = (case cat of Some (x # xs) \<Rightarrow> x # xs | _ \<Rightarrow> map fst DEFAULT_MESSAGE_CATALOG),
         hc_allowed_hosts = configured\<rparr>)))"

subsection \<open>send\<close>

definition url_default_port :: "parsed_url \<Rightarrow> nat" where
  "url_default_port url = (case url_port url of
     Some p \<Rightarrow> if p = 0 then (if url_scheme url = ''https'' then 443 else 80) else p
   | None \<Rightarrow> if url_scheme url = ''https'' then 443 else 80)"

text \<open>Lines 250 to 277: the checks of the worker's receipt.\<close>

definition check_receipt :: "time_us \<Rightarrow> AudioCommand \<Rightarrow> AudioPlaybackReceipt \<Rightarrow> AudioPlaybackReceipt" where
  "check_receipt now c r =
    (if pr_command_id r \<noteq> ac_command_id c \<or> pr_decision_id r \<noteq> ac_decision_id c
     then receipt_for c PB_FAILED now (Some ''adapter_error'')
     else case pr_accepted_at r of
       Naive _ \<Rightarrow> receipt_for c PB_FAILED now (Some ''invalid_receipt_time'')
     | Aware t \<Rightarrow> if ac_expires_at c \<le> t then receipt_for c PB_EXPIRED t (Some ''late_receipt'') else r)"

text \<open>What becomes of an answer, with the \<open>except\<close> clauses.\<close>

definition after_exchange :: "time_us \<Rightarrow> AudioCommand \<Rightarrow> http_reply \<Rightarrow> AudioPlaybackReceipt result" where
  "after_exchange now c reply = (case reply of
     TimedOut \<Rightarrow> ret (receipt_for c PB_FAILED now (Some ''timeout''))
   | Broken \<Rightarrow> ret (receipt_for c PB_FAILED now (Some ''adapter_error''))
   | Escaped e \<Rightarrow> raise e
   | Reply r \<Rightarrow> ret (check_receipt now c r))"

definition http_send ::
  "http_net \<Rightarrow> time_us \<Rightarrow> AudioCommand \<Rightarrow> http_controller \<Rightarrow> AudioPlaybackReceipt result \<times> http_controller" where
  "http_send net now c s =
    (if ac_message_id c \<notin> set (hc_catalog s) then ret (receipt_for c PB_REJECTED now (Some ''unknown_message''))
     else if ac_expires_at c \<le> now then ret (receipt_for c PB_EXPIRED now (Some ''expired''))
     else case resolve_safe_addresses net (case url_hostname (hc_url s) of None \<Rightarrow> [] | Some h \<Rightarrow> h)
            (url_default_port (hc_url s)) of
       Inl _ \<Rightarrow> ret (receipt_for c PB_FAILED now (Some ''adapter_error''))
     | Inr addresses \<Rightarrow> after_exchange now c (net_exchange net (hd addresses) c), s)"

lemma check_receipt_names_command: "pr_command_id (check_receipt now c r) = ac_command_id c"
  by (simp add: check_receipt_def receipt_for_def split: datetime.split)

lemma http_receipt_names_command:
  "http_send net now c s = (Inr r, s') \<Longrightarrow> pr_command_id r = ac_command_id c"
  by (auto simp: http_send_def after_exchange_def check_receipt_names_command receipt_for_def
      split: sum.splits http_reply.splits if_splits)

interpretation http: audio_controller "http_send net" "\<lambda>s. set (hc_catalog s)" "\<lambda>s t. t" "\<lambda>_. True" for net
proof (unfold_locales, goal_cases)
  case (2 s now c r s')
  then show ?case by (simp add: http_receipt_names_command)
qed (auto simp: http_send_def receipt_for_def split: if_splits)

subsection \<open>Egress\<close>

lemma collect_safe_all:
  assumes "collect_safe net raws acc = Inr addresses" and "\<forall>a \<in> set acc. safe_address net a = Inr True"
  shows "\<forall>a \<in> set addresses. safe_address net a = Inr True"
  using assms
proof (induction raws arbitrary: acc)
  case (Cons raw raws)
  let ?acc = "if raw \<in> set acc then acc else acc @ [raw]"
  have ok: "safe_address net raw = Inr True" and rest: "collect_safe net raws ?acc = Inr addresses"
    using Cons.prems(1) by (simp_all split: if_splits)
  show ?case
    by (rule Cons.IH[OF rest]) (use ok Cons.prems(2) in auto)
qed simp

lemma resolve_safe_all:
  assumes "resolve_safe_addresses net host port = Inr addresses"
  shows "addresses \<noteq> [] \<and> (\<forall>a \<in> set addresses. safe_address net a = Inr True)"
proof -
  obtain records where "collect_safe net records [] = Inr addresses" "addresses \<noteq> []"
    using assms by (auto simp: resolve_safe_addresses_def rbind_Inr split: sum.splits if_splits)
  then show ?thesis using collect_safe_all[of net records "[]" addresses] by simp
qed

lemma resolve_cong:
  assumes "net_ip_address n1 = net_ip_address n2" and "net_getaddrinfo n1 = net_getaddrinfo n2"
  shows "resolve_safe_addresses n1 = resolve_safe_addresses n2"
proof -
  have "safe_address n1 = safe_address n2"
    using assms(1) by (simp add: safe_address_def fun_eq_iff)
  then have "collect_safe n1 raws acc = collect_safe n2 raws acc" for raws acc
    by (induction raws arbitrary: acc) simp_all
  then have "collect_safe n1 = collect_safe n2" by (intro ext)
  then show ?thesis using assms(2) by (intro ext) (simp add: resolve_safe_addresses_def split: sum.split)
qed

text \<open>The approved IPv4 networks by their leading bits: the first octet, the first twelve bits, the
  first two octets.\<close>

lemma approved_ipv4:
  "approved (IPv4 a) \<longleftrightarrow> unat a div 2 ^ 24 = 127 \<or> unat a div 2 ^ 24 = 10 \<or>
    unat a div 2 ^ 20 = 172 * 16 + 1 \<or> unat a div 2 ^ 16 = 192 * 256 + 168"
proof -
  have "drop_bit n a = w \<longleftrightarrow> unat a div 2 ^ n = unat w" for n and w :: "32 word"
    by (metis drop_bit_eq_div unat_drop_bit_eq unsigned_word_eqI)
  then show ?thesis
    by (simp add: approved_def APPROVED_LOCAL_NETWORKS_def)
qed

text \<open>Egress control: the HTTP controller talks only to an approved internal address.
  Whatever the resolver returns, the pinned destination of a request is an address of the resolved
  list that lies in an approved network, and what any other address would answer cannot influence the
  receipt; a resolution with a single public or unparsable address yields a failed receipt
  without contacting anything.\<close>

theorem http_egress_internal_only:
  "(\<forall>host port addresses. resolve_safe_addresses net host port = Inr addresses \<longrightarrow>
      (\<exists>a. net_ip_address net (hd addresses) = Some a \<and> approved a)) \<and>
   (\<forall>other. (\<forall>x. (\<exists>a. net_ip_address net x = Some a \<and> approved a) \<longrightarrow> other x = net_exchange net x) \<longrightarrow>
      http_send (net\<lparr>net_exchange := other\<rparr>) now c s = http_send net now c s)"
proof (intro conjI allI impI)
  fix host port addresses
  assume "resolve_safe_addresses net host port = Inr addresses"
  from resolve_safe_all[OF this] show "\<exists>a. net_ip_address net (hd addresses) = Some a \<and> approved a"
    by (cases addresses) (auto simp: safe_address_def split: option.splits)
next
  fix other
  assume same: "\<forall>x. (\<exists>a. net_ip_address net x = Some a \<and> approved a) \<longrightarrow> other x = net_exchange net x"
  have "other (hd addresses) = net_exchange net (hd addresses)"
    if "resolve_safe_addresses net host port = Inr addresses" for host port addresses
    using resolve_safe_all[OF that] same by (cases addresses) (auto simp: safe_address_def split: option.splits)
  then show "http_send (net\<lparr>net_exchange := other\<rparr>) now c s = http_send net now c s"
    using resolve_cong[of "net\<lparr>net_exchange := other\<rparr>" net]
    by (auto simp: http_send_def split: sum.split)
qed

text \<open>Witness: a resolver that answers one private address.\<close>

definition sample_net :: http_net where
  "sample_net = \<lparr>net_ip_address = (\<lambda>s. if s = ''10.0.0.7'' then Some (IPv4 0x0A000007) else None),
     net_getaddrinfo = (\<lambda>_ _. Inr [''10.0.0.7'']), net_exchange = (\<lambda>_ _. TimedOut)\<rparr>"

theorem http_egress_internal_only_witness:
  "\<exists>a. net_ip_address sample_net (hd [''10.0.0.7'']) = Some a \<and> approved a"
proof -
  have "resolve_safe_addresses sample_net ''speaker'' 80 = Inr [''10.0.0.7'']"
    by code_simp
  then show ?thesis
    using http_egress_internal_only[of sample_net] by blast
qed

text \<open>Whatever the worker answers, a receipt the HTTP controller hands on names the
  command, and it reports \<open>accepted\<close> only for a catalogued message, sent before the command expired,
  with an acceptance time before the expiry too; it raises only what the exchange raises outside the \<open>except\<close> clauses.\<close>

theorem http_acceptance_is_live:
  "case fst (http_send net now c s) of
     Inl e \<Rightarrow> \<exists>address. net_exchange net address c = Escaped e
   | Inr r \<Rightarrow> pr_command_id r = ac_command_id c \<and> pr_decision_id r = ac_decision_id c \<and>
      (pr_status r = PB_ACCEPTED \<longrightarrow> ac_message_id c \<in> set (hc_catalog s) \<and> now < ac_expires_at c \<and>
        (\<exists>t. pr_accepted_at r = Aware t \<and> t < ac_expires_at c))"
  by (auto simp: http_send_def after_exchange_def check_receipt_def receipt_for_def
      split: sum.splits http_reply.splits datetime.splits)

end
