(* ===== verification/Egress.thy ===== *)
theory Egress
  imports Playback
begin

text \<open>
  The request of the HTTP controller on the wire, \<open>adapters/audio/http.py\<close>: the opener without proxies and redirects, whose
  connections go to the pinned address, and \<open>HttpAudioController.send\<close> over it with a trace of what reaches the network.  The
  parts of \<open>urllib.request\<close> on the path are the error mapping of \<open>do_open\<close>, the error processor and the redirect handler.
\<close>

section \<open>The opener\<close>

text \<open>What the sockets answer: \<open>create_connection\<close>, the TLS handshake for a server name, the transmission of the request, the response with
  its status, whether it has a \<open>Location\<close>, and its body; \<open>so_receipt\<close> decodes and validates a body.\<close>

record sockets =
  so_connect :: "string \<Rightarrow> nat \<Rightarrow> unit result"
  so_tls :: "string \<Rightarrow> unit result"
  so_transmit :: "AudioCommand \<Rightarrow> unit result"
  so_response :: "(nat \<times> bool \<times> string result) result"
  so_receipt :: "string \<Rightarrow> AudioPlaybackReceipt result"

datatype net_event = Connect string nat | Handshake string | Transmit AudioCommand

definition url_error :: error where "url_error = AdapterError ''URLError''"
definition http_error :: error where "http_error = AdapterError ''HTTPError''"
definition timed_out :: error where "timed_out = AdapterError ''TimeoutError''"

text \<open>The exceptions that are an \<open>OSError\<close>, and those that the last clause of \<open>send\<close> catches.\<close>

definition os_like :: "error \<Rightarrow> bool" where
  "os_like e \<longleftrightarrow> e \<in> AdapterError ` {''OSError'', ''TimeoutError'', ''URLError'', ''HTTPError'', ''ConnectionError'', ''SSLError''}"

fun send_caught :: "error \<Rightarrow> bool" where
  "send_caught (ValueError _) = True"
| "send_caught (TypeError _) = True"
| "send_caught e = os_like e"

text \<open>The port of the connection: a port 0 in the URL stays 0 here, while the resolver is asked for the default port.\<close>

definition connection_port :: "parsed_url \<Rightarrow> nat" where
  "connection_port url = (case url_port url of Some p \<Rightarrow> p | None \<Rightarrow> if url_scheme url = ''https'' then 443 else 80)"

definition server_name :: "parsed_url \<Rightarrow> string" where
  "server_name url = (case url_hostname url of None \<Rightarrow> [] | Some h \<Rightarrow> h)"

text \<open>\<open>connect\<close> of the pinned connections; no tunnel is set without a proxy.\<close>

definition pinned_connect :: "sockets \<Rightarrow> string \<Rightarrow> parsed_url \<Rightarrow> unit result \<times> net_event list" where
  "pinned_connect so address url = (case so_connect so address (connection_port url) of
     Inl e \<Rightarrow> (raise e, [Connect address (connection_port url)])
   | Inr _ \<Rightarrow>
       if url_scheme url = ''https''
       then (so_tls so (server_name url), [Connect address (connection_port url), Handshake (server_name url)])
       else (ret (), [Connect address (connection_port url)]))"

text \<open>\<open>do_open\<close>: an \<open>OSError\<close> while connecting or sending becomes a \<open>URLError\<close>, one while the response is read does not.\<close>

definition wrapped :: "unit result \<Rightarrow> unit result" where
  "wrapped r = (case r of Inl e \<Rightarrow> raise (if os_like e then url_error else e) | Inr _ \<Rightarrow> ret ())"

definition do_open :: "sockets \<Rightarrow> string \<Rightarrow> parsed_url \<Rightarrow> AudioCommand \<Rightarrow> (nat \<times> bool \<times> string result) result \<times> net_event list" where
  "do_open so address url c = (case pinned_connect so address url of
     (Inl e, events) \<Rightarrow> (rbind (wrapped (raise e)) (\<lambda>_. so_response so), events)
   | (Inr _, events) \<Rightarrow> (rbind (wrapped (so_transmit so c)) (\<lambda>_. so_response so), events @ [Transmit c]))"

text \<open>The error processor and \<open>_NoRedirect\<close>.\<close>

definition redirect_codes :: "nat list" where
  "redirect_codes = [301, 302, 303, 307, 308]"

definition checked_status :: "nat \<times> bool \<times> string result \<Rightarrow> string result" where
  "checked_status = (\<lambda>(status, location, body).
    if 200 \<le> status \<and> status < 300 then body
    else if status \<in> set redirect_codes \<and> location then raise url_error else raise http_error)"

definition urlopen :: "sockets \<Rightarrow> string option \<Rightarrow> parsed_url \<Rightarrow> AudioCommand \<Rightarrow> string result \<times> net_event list" where
  "urlopen so pinned url c = (case pinned of
     None \<Rightarrow> (raise (ValueError ''audio request is missing a pinned destination''), [])
   | Some address \<Rightarrow> (case do_open so address url c of (r, events) \<Rightarrow> (rbind r checked_status, events)))"

section \<open>Sending\<close>

definition reply_of :: "sockets \<Rightarrow> string result \<Rightarrow> http_reply" where
  "reply_of so r = (case rbind r (so_receipt so) of
     Inr receipt \<Rightarrow> Reply receipt
   | Inl e \<Rightarrow> if e = timed_out then TimedOut else if send_caught e then Broken else Escaped e)"

definition http_send_traced ::
  "http_net \<Rightarrow> sockets \<Rightarrow> time_us \<Rightarrow> AudioCommand \<Rightarrow> http_controller \<Rightarrow> AudioPlaybackReceipt result \<times> net_event list" where
  "http_send_traced net so now c s =
    (if ac_message_id c \<notin> set (hc_catalog s) then (ret (receipt_for c PB_REJECTED now (Some ''unknown_message'')), [])
     else if ac_expires_at c \<le> now then (ret (receipt_for c PB_EXPIRED now (Some ''expired'')), [])
     else case resolve_safe_addresses net (case url_hostname (hc_url s) of None \<Rightarrow> [] | Some h \<Rightarrow> h)
            (url_default_port (hc_url s)) of
       Inl _ \<Rightarrow> (ret (receipt_for c PB_FAILED now (Some ''adapter_error'')), [])
     | Inr addresses \<Rightarrow> (case urlopen so (Some (hd addresses)) (hc_url s) c of
         (r, events) \<Rightarrow> (after_exchange now c (reply_of so r), events)))"

text \<open>The trace only adds to the controller of \<open>Playback\<close>, whose exchange it spells out.\<close>

lemma http_send_traced_result:
  "fst (http_send_traced net so now c s) =
    fst (http_send (net\<lparr>net_exchange := \<lambda>a c. reply_of so (fst (urlopen so (Some a) (hc_url s) c))\<rparr>) now c s)"
  using resolve_cong[of "net\<lparr>net_exchange := \<lambda>a c. reply_of so (fst (urlopen so (Some a) (hc_url s) c))\<rparr>" net]
  by (auto simp: http_send_traced_def http_send_def split: sum.split prod.split)

section \<open>What reaches the network\<close>

text \<open>The traces of one request: connect, shake hands if the endpoint is HTTPS, transmit.\<close>

definition one_request :: "sockets \<Rightarrow> parsed_url \<Rightarrow> AudioCommand \<Rightarrow> string \<Rightarrow> net_event list \<Rightarrow> bool" where
  "one_request so url c address events \<longleftrightarrow> (\<exists>rest. events = Connect address (connection_port url) # rest \<and>
     (if url_scheme url = ''https''
      then rest \<in> {[], [Handshake (server_name url)]} \<or>
        (rest = [Handshake (server_name url), Transmit c] \<and> so_tls so (server_name url) = Inr ())
      else rest \<in> {[], [Transmit c]}))"

lemma urlopen_events: "one_request so url c address (snd (urlopen so (Some address) url c))"
  by (auto simp: urlopen_def do_open_def pinned_connect_def one_request_def split: sum.split prod.split)

lemma refused_status:
  assumes "so_response so = Inr (status, location, body)" and "\<not> (200 \<le> status \<and> status < 300)"
  shows "fst (urlopen so (Some address) url c) \<noteq> Inr b"
  using assms by (auto simp: urlopen_def do_open_def rbind_Inr checked_status_def split: prod.splits sum.splits if_splits)

lemma refused_receipt:
  assumes "\<And>b. x \<noteq> Inr b" and "after_exchange now c (reply_of so x) = Inr receipt"
  shows "pr_status receipt \<noteq> PB_ACCEPTED"
  using assms by (cases x) (auto simp: after_exchange_def reply_of_def receipt_for_def split: if_splits)

lemma collect_safe_sources:
  "collect_safe net raws acc = Inr addresses \<Longrightarrow> (\<forall>x \<in> set raws. safe_address net x = Inr True) \<and> set addresses = set acc \<union> set raws"
proof (induction raws arbitrary: acc)
  case (Cons raw raws)
  have "safe_address net raw = Inr True" "collect_safe net raws (if raw \<in> set acc then acc else acc @ [raw]) = Inr addresses"
    using Cons.prems by (simp_all split: if_splits)
  then show ?case using Cons.IH[of "if raw \<in> set acc then acc else acc @ [raw]"] by (auto split: if_splits)
qed simp

lemma resolved_internal:
  assumes "resolve_safe_addresses net host port = Inr addresses"
  shows "\<exists>records. net_getaddrinfo net host port = Inr records \<and> hd addresses \<in> set records \<and>
    (\<forall>x \<in> set records. \<exists>a. net_ip_address net x = Some a \<and> approved a)"
proof -
  obtain records where r: "net_getaddrinfo net host port = Inr records" "collect_safe net records [] = Inr addresses" "addresses \<noteq> []"
    using assms by (auto simp: resolve_safe_addresses_def rbind_Inr split: sum.splits if_splits)
  moreover have "\<exists>a. net_ip_address net x = Some a \<and> approved a" if "safe_address net x = Inr True" for x
    using that by (auto simp: safe_address_def split: option.splits)
  ultimately show ?thesis using collect_safe_sources[OF r(2)] hd_in_set[OF r(3)] by auto
qed

text \<open>Property C21.  Egress control: sending a command makes no network access, or one request, and that only for a catalogued message that has not
  expired: one connection to an address that the resolver returned in this very call, at the port of the endpoint, after every
  returned address was found to lie in an approved internal network; the command is transmitted once at most, under TLS if the
  endpoint is HTTPS.  A redirect or an error status is not followed and never becomes an acceptance.\<close>

theorem send_reaches_internal_addresses_only:
  assumes "http_send_traced net so now c s = (r, events)"
  shows "(events = [] \<or>
      (\<exists>address records. one_request so (hc_url s) c address events \<and> ac_message_id c \<in> set (hc_catalog s) \<and> now < ac_expires_at c \<and>
        net_getaddrinfo net (server_name (hc_url s)) (url_default_port (hc_url s)) = Inr records \<and> address \<in> set records \<and>
        (\<forall>x \<in> set records. \<exists>a. net_ip_address net x = Some a \<and> approved a))) \<and>
    (\<forall>status location body receipt. so_response so = Inr (status, location, body) \<longrightarrow> \<not> (200 \<le> status \<and> status < 300) \<longrightarrow>
       r = Inr receipt \<longrightarrow> pr_status receipt \<noteq> PB_ACCEPTED)"
proof (cases "ac_message_id c \<in> set (hc_catalog s) \<and> now < ac_expires_at c \<and>
    isl (resolve_safe_addresses net (server_name (hc_url s)) (url_default_port (hc_url s))) = False")
  case True
  then obtain addresses where a: "resolve_safe_addresses net (server_name (hc_url s)) (url_default_port (hc_url s)) = Inr addresses"
    by (cases "resolve_safe_addresses net (server_name (hc_url s)) (url_default_port (hc_url s))") auto
  obtain x where u: "urlopen so (Some (hd addresses)) (hc_url s) c = (x, events)" and r: "r = after_exchange now c (reply_of so x)"
    using assms True a by (auto simp: http_send_traced_def server_name_def split: prod.splits)
  have "\<not> (200 \<le> status \<and> status < 300) \<Longrightarrow> x \<noteq> Inr b" if "so_response so = Inr (status, location, body)" for status location body b
    using refused_status[OF that, of "hd addresses" "hc_url s" c b] u by simp
  then show ?thesis
    using urlopen_events[of so "hc_url s" c "hd addresses"] resolved_internal[OF a] True refused_receipt[of x now c so] by (auto simp: u r)
next
  case False
  then show ?thesis
    using assms by (auto simp: http_send_traced_def server_name_def receipt_for_def split: if_splits sum.splits prod.splits)
qed

definition sample_url :: parsed_url where
  "sample_url = \<lparr>url_scheme = ''https'', url_netloc = ''speaker'', url_username = None, url_password = None, url_query = [],
     url_fragment = [], url_hostname = Some ''speaker'', url_port = None\<rparr>"

definition sample_sockets :: "nat \<Rightarrow> sockets" where
  "sample_sockets status = \<lparr>so_connect = (\<lambda>_ _. ret ()), so_tls = (\<lambda>_. ret ()), so_transmit = (\<lambda>_. ret ()),
     so_response = ret (status, True, ret ''{}''), so_receipt = (\<lambda>_. ret (receipt_for sample_command PB_ACCEPTED 0 None))\<rparr>"

theorem send_reaches_internal_addresses_only_witness:
  "\<exists>r address. http_send_traced sample_net (sample_sockets 302) 0 sample_command
      \<lparr>hc_url = sample_url, hc_catalog = [ac_message_id sample_command], hc_allowed_hosts = []\<rparr> = (Inr r, [Connect address 443, Handshake ''speaker'', Transmit sample_command]) \<and>
    (\<exists>a. net_ip_address sample_net address = Some a \<and> approved a) \<and> pr_status r \<noteq> PB_ACCEPTED"
proof -
  let ?x = "http_send_traced sample_net (sample_sockets 302) 0 sample_command
      \<lparr>hc_url = sample_url, hc_catalog = [ac_message_id sample_command], hc_allowed_hosts = []\<rparr>"
  have e: "snd ?x = [Connect ''10.0.0.7'' 443, Handshake ''speaker'', Transmit sample_command]" "\<not> isl (fst ?x)" by code_simp+
  then obtain r where x: "?x = (Inr r, [Connect ''10.0.0.7'' 443, Handshake ''speaker'', Transmit sample_command])"
    by (cases ?x; cases "fst ?x") auto
  from send_reaches_internal_addresses_only[OF x] x show ?thesis by (fastforce simp: sample_sockets_def one_request_def)
qed

text \<open>A connection that times out is reported as an adapter error, not as a timeout: \<open>do_open\<close> has already wrapped it.\<close>

lemma connect_timeout_is_adapter_error:
  assumes "resolve_safe_addresses net (server_name (hc_url s)) (url_default_port (hc_url s)) = Inr addresses"
    and "ac_message_id c \<in> set (hc_catalog s)" and "now < ac_expires_at c"
    and "\<And>address port. so_connect so address port = Inl timed_out"
  shows "fst (http_send_traced net so now c s) = Inr (receipt_for c PB_FAILED now (Some ''adapter_error''))"
  using assms
  by (simp add: http_send_traced_def server_name_def urlopen_def do_open_def pinned_connect_def wrapped_def reply_of_def after_exchange_def
      os_like_def timed_out_def url_error_def)

end
