(* ===== verification/Ledger.thy ===== *)
theory Ledger
  imports Receipts
begin

text \<open>
  Correctness of the audio ledger.  The operations of theory Receipts, started on an idle connection, are
  characterised by their effect on the receipt table; from these follow the ledger's promises.
\<close>

section \<open>Upserting a receipt\<close>

definition upsert_receipt :: "receipt_row \<Rightarrow> receipt_row list \<Rightarrow> receipt_row list" where
  "upsert_receipt row rows =
    (if ar_receipt_id row \<in> set (map ar_receipt_id rows)
     then update_rows (\<lambda>r. sql_eq (ar_receipt_id r) (ar_receipt_id row)) (\<lambda>_. row) rows
     else rows @ [row])"

definition ids_ok :: "receipt_row list \<Rightarrow> bool" where
  "ids_ok rows \<longleftrightarrow> distinct (map ar_receipt_id rows) \<and> JNull \<notin> set (map ar_receipt_id rows)"

lemma ids_upsert:
  "map ar_receipt_id (upsert_receipt row rows) =
    (if ar_receipt_id row \<in> set (map ar_receipt_id rows) then map ar_receipt_id rows
     else map ar_receipt_id rows @ [ar_receipt_id row])"
  using map_update_rows_key[of "\<lambda>r. sql_eq (ar_receipt_id r) (ar_receipt_id row)" ar_receipt_id "\<lambda>_. row"]
  by (simp add: upsert_receipt_def sql_eq_def)

lemma ids_ok_upsert [simp]:
  "ids_ok rows \<Longrightarrow> ar_receipt_id row \<noteq> JNull \<Longrightarrow> ids_ok (upsert_receipt row rows)"
  unfolding ids_ok_def ids_upsert by auto

lemma fetch_upsert:
  assumes "ids_ok rows" and "ar_receipt_id row \<noteq> JNull"
  shows "fetch_by ar_receipt_id k (upsert_receipt row rows) =
    (if k = ar_receipt_id row then Some row else fetch_by ar_receipt_id k rows)"
proof (cases "ar_receipt_id row \<in> set (map ar_receipt_id rows)")
  case True
  have *: "fetch_by ar_receipt_id k (upsert_receipt row rows) =
      map_option (\<lambda>r. if sql_eq (ar_receipt_id r) (ar_receipt_id row) then row else r)
        (fetch_by ar_receipt_id k rows)"
    unfolding upsert_receipt_def if_P[OF True] by (rule fetch_by_update_rows) (simp add: sql_eq_def)
  have "fetch_by ar_receipt_id (ar_receipt_id row) rows \<noteq> None"
    using True assms(2) by (simp add: fetch_by_None)
  then show ?thesis
    unfolding * using assms(2)
    by (cases "fetch_by ar_receipt_id k rows") (auto simp: sql_eq_def dest: fetch_by_Some)
next
  case False
  then have "fetch_by ar_receipt_id (ar_receipt_id row) rows = None"
    by (simp add: fetch_by_None)
  then show ?thesis
    using False assms by (auto simp: upsert_receipt_def fetch_by_append sql_eq_def split: option.splits)
qed

text \<open>Counting after an upsert: the row's predecessor is gone and the row is there.\<close>

lemma length_filter_upsert:
  assumes "ids_ok rows" and "ar_receipt_id row \<noteq> JNull"
  shows "length (filter P (upsert_receipt row rows)) =
    length (filter P (filter (\<lambda>r. ar_receipt_id r \<noteq> ar_receipt_id row) rows)) + (if P row then 1 else 0)"
proof (cases "ar_receipt_id row \<in> set (map ar_receipt_id rows)")
  case False
  then have "filter (\<lambda>r. ar_receipt_id r \<noteq> ar_receipt_id row) rows = rows"
    by (intro filter_True) (metis imageI list.set_map)
  then show ?thesis using False by (simp add: upsert_receipt_def)
next
  case True
  then have u: "upsert_receipt row rows =
      map (\<lambda>r. if ar_receipt_id r = ar_receipt_id row then row else r) rows"
    using assms(2) by (auto simp: upsert_receipt_def update_rows_def sql_eq_def)
  obtain xs r ys where rows: "rows = xs @ r # ys" and r: "ar_receipt_id r = ar_receipt_id row"
    using True by (metis (no_types, lifting) imageE list.set_map split_list)
  have "\<forall>q \<in> set (xs @ ys). ar_receipt_id q \<noteq> ar_receipt_id row"
    using assms(1) unfolding rows ids_ok_def by (auto simp: r) (metis imageI)+
  then have "map (\<lambda>q. if ar_receipt_id q = ar_receipt_id row then row else q) xs = xs"
    "map (\<lambda>q. if ar_receipt_id q = ar_receipt_id row then row else q) ys = ys"
    "filter (\<lambda>r. ar_receipt_id r \<noteq> ar_receipt_id row) xs = xs"
    "filter (\<lambda>r. ar_receipt_id r \<noteq> ar_receipt_id row) ys = ys"
    by (auto intro!: map_idI filter_True)
  then show ?thesis unfolding u unfolding rows using r by simp
qed

section \<open>What a reservation does\<close>

lemma rmap_fromisoformat:
  "rmap (\<lambda>r. fromisoformat (f r)) xs = Inr ys \<Longrightarrow> map astimezone_utc ys = map (\<lambda>r. col_time (f r)) xs"
proof (induction xs arbitrary: ys)
  case (Cons x xs)
  then show ?case by (cases "f x") (auto simp: rbind_Inr)
qed simp

definition zone_times :: "json \<Rightarrow> receipt_row list \<Rightarrow> time_us list" where
  "zone_times zone rows =
    map (\<lambda>r. col_time (ar_created_at r)) (filter counted (filter (\<lambda>r. sql_eq (ar_zone_id r) zone) rows))"

lemma insert_receipt_Inr:
  "insert_receipt row d = Inr (u, d') \<longleftrightarrow> not_null (receipt_required row) \<and>
    (ar_receipt_id row = JNull \<or> ar_receipt_id row \<notin> set (map ar_receipt_id (db_audio_receipts d))) \<and>
    d' = d\<lparr>db_audio_receipts := db_audio_receipts d @ [row]\<rparr>"
  by (auto simp: insert_receipt_def rbind_Inr insert_row_Inr)

lemma update_receipts_Inr:
  "update_receipts p f d = Inr (n, d') \<longleftrightarrow>
    (\<forall>r \<in> set (db_audio_receipts d). p r \<longrightarrow> not_null (receipt_required (f r))) \<and>
    n = row_count p (db_audio_receipts d) \<and>
    d' = d\<lparr>db_audio_receipts := update_rows p f (db_audio_receipts d)\<rparr>"
  by (auto simp: update_receipts_def Let_def list_all_iff)

lemma insert_attempt_Inr:
  assumes "insert_attempt rid n row d = Inr (u, d')"
  shows "rid \<noteq> JNull" "rid \<in> set (map ar_receipt_id (db_audio_receipts d))"
    "(rid, n) \<notin> set (map (\<lambda>a. (aa_receipt_id a, aa_attempt_no a)) (db_audio_receipt_attempts d))"
    "db_audio_receipts d' = db_audio_receipts d"
    "\<exists>a. db_audio_receipt_attempts d' = db_audio_receipt_attempts d @ [a] \<and> aa_receipt_id a = rid \<and>
       aa_attempt_no a = n \<and> aa_playback a = ar_playback row \<and> aa_payload a = ar_payload row"
  using assms by (auto simp: insert_attempt_def not_null_def split: if_splits)

lemma receipt_row_of_Inr:
  assumes "receipt_row_of rid item pb payload = Inr row"
  shows "ar_receipt_id row = rid" "ar_playback row = pb" "ar_payload row = payload"
    "ditem item ''zone_id'' = Inr (ar_zone_id row)" "ditem item ''created_at'' = Inr (ar_created_at row)"
    "ditem item ''decision_id'' = Inr (ar_decision_id row)" "ditem item ''camera_id'' = Inr (ar_camera_id row)"
    "ditem item ''outcome'' = Inr (ar_outcome row)" "ditem item ''reason_code'' = Inr (ar_reason_code row)"
    "ar_command_id row = dget item ''command_id''"
  using assms by (auto simp: receipt_row_of_def rbind_Inr)

lemma write_reservation_result:
  assumes ok: "ids_ok (db_audio_receipts d)"
    and cur: "current = fetch_by ar_receipt_id rid (db_audio_receipts d)"
  shows "(\<exists>e d'. write_reservation rid item current (open_on d0 d) = (Inl e, open_on d0 d')) \<or>
    (\<exists>row d'. write_reservation rid item current (open_on d0 d) = (Inr item, idle d') \<and>
      rid \<noteq> JNull \<and>
      receipt_row_of rid item (dget item ''playback'') (JObj item) = Inr row \<and>
      not_null (receipt_required row) \<and>
      db_audio_receipts d' = upsert_receipt row (db_audio_receipts d))"
proof (cases "rbind (ditem item ''playback'') (\<lambda>pb. receipt_row_of rid item pb (JObj item))")
  case (Inl e)
  then show ?thesis by (simp add: write_reservation_def cbind_clift)
next
  case (Inr row)
  then have row: "receipt_row_of rid item (dget item ''playback'') (JObj item) = Inr row"
    by (auto simp: rbind_Inr dest: ditem_Inr_dget)
  note id = receipt_row_of_Inr(1)[OF row]
  show ?thesis
  proof (cases current)
    case None
    then have new: "rid = JNull \<or> rid \<notin> set (map ar_receipt_id (db_audio_receipts d))"
      using cur by (simp add: fetch_by_None)
    show ?thesis
    proof (cases "insert_receipt row d")
      case (Inr p)
      obtain u d1 where p: "p = (u, d1)" by (cases p)
      note ins = Inr[unfolded p insert_receipt_Inr]
      show ?thesis
      proof (cases "insert_attempt rid 1 row d1")
        case (Inr q)
        obtain u' d2 where q: "q = (u', d2)" by (cases q)
        note att = insert_attempt_Inr[OF Inr[unfolded q]]
        have "db_audio_receipts d2 = upsert_receipt row (db_audio_receipts d)"
          using att(1,4) ins new id by (auto simp: upsert_receipt_def)
        then show ?thesis
          using None row \<open>rbind _ _ = _\<close> \<open>insert_receipt row d = _\<close> Inr att(1) p q ins
          by (simp add: write_reservation_def cbind_def)
      qed (use None \<open>rbind _ _ = _\<close> \<open>insert_receipt row d = _\<close> p in \<open>simp add: write_reservation_def cbind_def\<close>)
    qed (use None \<open>rbind _ _ = _\<close> in \<open>simp add: write_reservation_def cbind_def\<close>)
  next
    case (Some r)
    then have mem: "rid \<noteq> JNull" "rid \<in> set (map ar_receipt_id (db_audio_receipts d))"
      using cur fetch_by_Some[of ar_receipt_id rid "db_audio_receipts d" r] by auto
    show ?thesis
    proof (cases "update_receipts (\<lambda>r. sql_eq (ar_receipt_id r) rid) (\<lambda>_. row) d")
      case (Inr p)
      obtain n d1 where p: "p = (n, d1)" by (cases p)
      note upd = Inr[unfolded p update_receipts_Inr]
      have "db_audio_receipts d1 = upsert_receipt row (db_audio_receipts d)"
        using upd mem id by (simp add: upsert_receipt_def)
      moreover have "not_null (receipt_required row)"
        using upd mem by (auto simp: sql_eq_def)
      ultimately show ?thesis
        using Some row \<open>rbind _ _ = _\<close> Inr mem(1) p by (simp add: write_reservation_def cbind_def)
    qed (use Some \<open>rbind _ _ = _\<close> in \<open>simp add: write_reservation_def cbind_def\<close>)
  qed
qed

text \<open>The item a reservation stores.\<close>

definition reserved_item :: "time_us \<Rightarrow> string \<Rightarrow> dict \<Rightarrow> limits \<Rightarrow> time_us \<Rightarrow> dict" where
  "reserved_item now token receipt l created =
    dset (dset (dset (dsetdefault receipt ''created_at'' (jtime now)) ''outcome'' (JStr ''reserved''))
      ''reason_code'' (JStr ''reserved'')) ''playback'' (JObj (pending_playback token created (lim_ttl l)))"

definition blocking_statuses :: "json list" where
  "blocking_statuses = [JStr ''accepted'', JStr ''duplicate'', JStr ''pending'', JStr ''expired'', JStr ''uncertain'']"

text \<open>A granted reservation, from the database before it to the one after it: the receipt was not
  settled, held or in doubt, the zone's limits admit it, and the receipt's row is now the pending
  lease under the token.\<close>

definition granted ::
  "time_us \<Rightarrow> string \<Rightarrow> dict \<Rightarrow> limits \<Rightarrow> time_us \<Rightarrow> receipt_row \<Rightarrow> db \<Rightarrow> db \<Rightarrow> bool" where
  "granted now token receipt l created row d d' \<longleftrightarrow>
    receipt_row_of (ar_receipt_id row) (reserved_item now token receipt l created)
      (JObj (pending_playback token created (lim_ttl l)))
      (JObj (reserved_item now token receipt l created)) = Inr row \<and>
    ditem receipt ''receipt_id'' = Inr (ar_receipt_id row) \<and> ar_receipt_id row \<noteq> JNull \<and>
    col_time (ar_created_at row) = created \<and>
    (\<forall>cur. fetch_by ar_receipt_id (ar_receipt_id row) (db_audio_receipts d) = Some cur \<longrightarrow>
      playback_status cur \<notin> set blocking_statuses) \<and>
    limit_rejection l created (zone_times (ar_zone_id row) (db_audio_receipts d)) = None \<and>
    not_null (receipt_required row) \<and>
    db_audio_receipts d' = upsert_receipt row (db_audio_receipts d)"

lemma reserve_in_zone_result:
  assumes ok: "ids_ok (db_audio_receipts d)"
    and cur: "current = fetch_by ar_receipt_id rid (db_audio_receipts d)"
  shows "(\<exists>e d'. reserve_in_zone rid item l created current (open_on d d) = (Inl e, open_on d d')) \<or>
    (\<exists>reason \<in> {''hourly_cap'', ''daily_cap'', ''zone_cooldown''}.
      reserve_in_zone rid item l created current (open_on d d) = (Inr (rejected reason), idle d)) \<or>
    (\<exists>row d'. reserve_in_zone rid item l created current (open_on d d) = (Inr item, idle d') \<and>
      rid \<noteq> JNull \<and>
      receipt_row_of rid item (dget item ''playback'') (JObj item) = Inr row \<and>
      limit_rejection l created (zone_times (ar_zone_id row) (db_audio_receipts d)) = None \<and>
      not_null (receipt_required row) \<and>
      db_audio_receipts d' = upsert_receipt row (db_audio_receipts d))"
proof (cases "ditem item ''zone_id''")
  case (Inl e)
  then show ?thesis by (simp add: reserve_in_zone_def cbind_def)
next
  case (Inr zone)
  note zone = Inr
  let ?rows = "filter counted (filter (\<lambda>r. sql_eq (ar_zone_id r) zone) (db_audio_receipts d))"
  show ?thesis
  proof (cases "rmap (\<lambda>r. fromisoformat (ar_created_at r)) ?rows")
    case (Inl e)
    then show ?thesis using zone by (simp add: reserve_in_zone_def cbind_def)
  next
    case (Inr times)
    note times = Inr
    have zt: "map astimezone_utc times = zone_times zone (db_audio_receipts d)"
      unfolding zone_times_def by (rule rmap_fromisoformat[OF times])
    have step: "reserve_in_zone rid item l created current (open_on d d) =
        (case limit_rejection l created (zone_times zone (db_audio_receipts d)) of
           Some reason \<Rightarrow> cbind rollback (\<lambda>_. cret (rejected reason))
         | None \<Rightarrow> write_reservation rid item current) (open_on d d)"
      by (simp add: reserve_in_zone_def cbind_clift cbind_def[of "sql_read _"] zone times zt
          del: filter_filter)
    show ?thesis
    proof (cases "limit_rejection l created (zone_times zone (db_audio_receipts d))")
      case (Some reason)
      then have "reason \<in> {''hourly_cap'', ''daily_cap'', ''zone_cooldown''}"
        by (auto simp: limit_rejection_def split: if_splits)
      moreover have "reserve_in_zone rid item l created current (open_on d d) =
          (Inr (rejected reason), idle d)"
        using Some by (simp add: step cbind_def)
      ultimately show ?thesis by blast
    next
      case None
      have "ar_zone_id row = zone"
        if "receipt_row_of rid item (dget item ''playback'') (JObj item) = Inr row" for row
        using receipt_row_of_Inr(4)[OF that] zone by simp
      then show ?thesis
        using write_reservation_result[OF ok cur, of item d] None by (simp add: step) metis
    qed
  qed
qed

lemma reserve_transaction_idle:
  assumes "ditem item ''receipt_id'' = Inr rid"
    and "current = fetch_by ar_receipt_id rid (db_audio_receipts d)"
    and "status = (case current of None \<Rightarrow> JNull | Some r \<Rightarrow> playback_status r)"
  shows "reserve_transaction item l created (idle d) =
    (if status \<in> {JStr ''accepted'', JStr ''duplicate''}
     then (Inr (dset (normalize_dict (case current of None \<Rightarrow> [] | Some r \<Rightarrow> as_dict (ar_payload r)))
       ''reservation_status'' (JStr ''existing'')), idle d)
     else if status = JStr ''pending'' then (Inr (rejected ''zone_cooldown''), idle d)
     else if status \<in> {JStr ''expired'', JStr ''uncertain''} then (Inr (rejected ''reservation_expired''), idle d)
     else rollback_on_error (reserve_in_zone rid item l created current) (open_on d d))"
  using assms by (simp add: reserve_transaction_def rollback_on_error_def cbind_def Let_def)

lemma reserved_item_keeps:
  "k \<notin> {''created_at'', ''outcome'', ''reason_code'', ''playback''} \<Longrightarrow>
    ditem (reserved_item now token receipt l created) k = ditem receipt k"
  "dget (reserved_item now token receipt l created) ''playback'' =
    JObj (pending_playback token created (lim_ttl l))"
  by (simp_all add: reserved_item_def)

lemma reserve_transaction_cases:
  assumes ok: "ids_ok (db_audio_receipts d)"
    and item: "item = reserved_item now token receipt l created"
    and created: "\<forall>t. ditem item ''created_at'' = Inr t \<longrightarrow> col_time t = created"
  shows "(\<exists>e. reserve_transaction item l created (idle d) = (Inl e, idle d)) \<or>
    (\<exists>rid cur x. reserve_transaction item l created (idle d) = (Inr x, idle d) \<and>
      dget x ''reservation_status'' = JStr ''existing'' \<and> ditem receipt ''receipt_id'' = Inr rid \<and>
      fetch_by ar_receipt_id rid (db_audio_receipts d) = Some cur \<and>
      playback_status cur \<in> {JStr ''accepted'', JStr ''duplicate''}) \<or>
    (\<exists>reason \<in> {''zone_cooldown'', ''reservation_expired'', ''hourly_cap'', ''daily_cap''}.
      reserve_transaction item l created (idle d) = (Inr (rejected reason), idle d)) \<or>
    (\<exists>row d'. reserve_transaction item l created (idle d) = (Inr item, idle d') \<and>
      granted now token receipt l created row d d')" (is "?E \<or> ?X \<or> ?J \<or> ?G")
proof (cases "ditem receipt ''receipt_id''")
  case (Inl e)
  then have "ditem item ''receipt_id'' = Inl e" by (simp add: item reserved_item_keeps)
  then have ?E by (simp add: reserve_transaction_def rollback_on_error_def cbind_def)
  then show ?thesis ..
next
  case (Inr rid)
  then have rid: "ditem item ''receipt_id'' = Inr rid" by (simp add: item reserved_item_keeps)
  define current where "current = fetch_by ar_receipt_id rid (db_audio_receipts d)"
  define status where "status = (case current of None \<Rightarrow> JNull | Some r \<Rightarrow> playback_status r)"
  note run = reserve_transaction_idle[OF rid current_def status_def, of l created]
  consider (settled) "status \<in> {JStr ''accepted'', JStr ''duplicate''}"
    | (pending) "status = JStr ''pending''"
    | (doubt) "status \<in> {JStr ''expired'', JStr ''uncertain''}"
    | (free) "status \<notin> set blocking_statuses"
    by (auto simp: blocking_statuses_def)
  then show ?thesis
  proof cases
    case settled
    then obtain cur where cur: "current = Some cur" "playback_status cur = status"
      by (auto simp: status_def split: option.splits)
    have ?X
      by (intro exI[of _ rid] exI[of _ cur] exI[of _ "dset (normalize_dict (as_dict (ar_payload cur)))
             ''reservation_status'' (JStr ''existing'')"])
        (use settled cur Inr run in \<open>simp add: current_def[symmetric]\<close>)
    then show ?thesis by blast
  next
    case pending
    then have ?J using run by simp
    then show ?thesis by blast
  next
    case doubt
    then have ?J using run by auto
    then show ?thesis by blast
  next
    case free
    then have step: "reserve_transaction item l created (idle d) =
        rollback_on_error (reserve_in_zone rid item l created current) (open_on d d)"
      using run by (auto simp: blocking_statuses_def)
    have pb: "dget item ''playback'' = JObj (pending_playback token created (lim_ttl l))"
      by (simp add: item reserved_item_keeps)
    have fresh: "playback_status cur \<notin> set blocking_statuses" if "current = Some cur" for cur
      using free that by (simp add: status_def)
    from reserve_in_zone_result[OF ok current_def, of item l created]
    show ?thesis
    proof (elim disjE exE bexE conjE, goal_cases)
      case (1 e d')
      then have ?E by (simp add: step rollback_on_error_def)
      then show ?case ..
    next
      case (2 reason)
      then have ?J by (auto simp: step rollback_on_error_def)
      then show ?case by blast
    next
      case (3 row d')
      note row = receipt_row_of_Inr[OF 3(3)]
      have "granted now token receipt l created row d d'"
        using 3 row Inr fresh created[rule_format, OF row(5)] pb
        by (simp add: granted_def item current_def)
      moreover have "reserve_transaction item l created (idle d) = (Inr item, idle d')"
        using 3 by (simp add: step rollback_on_error_def)
      ultimately show ?case by blast
    qed
  qed
qed

text \<open>The four outcomes of \<open>reserve_audio_receipt\<close>.\<close>

lemma reserve_audio_receipt_cases:
  assumes ok: "ids_ok (db_audio_receipts d)"
  obtains (error) e where "reserve_audio_receipt now token receipt l (idle d) = (Inl e, idle d)"
  | (existing) rid cur x where "reserve_audio_receipt now token receipt l (idle d) = (Inr x, idle d)"
      "dget x ''reservation_status'' = JStr ''existing''"
      "ditem receipt ''receipt_id'' = Inr rid"
      "fetch_by ar_receipt_id rid (db_audio_receipts d) = Some cur"
      "playback_status cur \<in> {JStr ''accepted'', JStr ''duplicate''}"
  | (rejected) reason where
      "reserve_audio_receipt now token receipt l (idle d) = (Inr (rejected reason), idle d)"
      "reason \<in> {''zone_cooldown'', ''reservation_expired'', ''hourly_cap'', ''daily_cap''}"
  | (reserved) created row d' where
      "reserve_audio_receipt now token receipt l (idle d) =
        (Inr (reserved_item now token receipt l created), idle d')"
      "granted now token receipt l created row d d'"
proof -
  let ?base = "dsetdefault receipt ''created_at'' (jtime now)"
  show ?thesis
  proof (cases "rbind (ditem ?base ''created_at'') fromisoformat")
    case (Inl e)
    then show ?thesis by (intro error) (simp add: reserve_audio_receipt_def Let_def cbind_clift)
  next
    case (Inr ct)
    then have run: "reserve_audio_receipt now token receipt l (idle d) =
        reserve_transaction (reserved_item now token receipt l (astimezone_utc ct)) l (astimezone_utc ct) (idle d)"
      by (simp add: reserve_audio_receipt_def Let_def cbind_clift reserved_item_def)
    have time: "\<forall>t. ditem (reserved_item now token receipt l (astimezone_utc ct)) ''created_at'' = Inr t \<longrightarrow>
        col_time t = astimezone_utc ct"
      using Inr by (auto simp: reserved_item_def rbind_Inr elim: fromisoformat.elims)
    from reserve_transaction_cases[OF ok, of _ now token receipt l "astimezone_utc ct", OF refl time]
    show ?thesis
      unfolding run[symmetric]
      by (elim disjE exE bexE conjE)
        (rule error, assumption, rule existing, assumption+, rule rejected, assumption+,
         rule reserved, assumption+)
  qed
qed

section \<open>What the other operations do\<close>

text \<open>Under the primary key the compare-and-swap update replaces exactly the row it was read from.\<close>

lemma cas_matches:
  assumes ok: "ids_ok rows" and cur: "fetch_by ar_receipt_id rid rows = Some cur"
    and pb: "ar_playback cur \<noteq> JNull" and r: "r \<in> set rows"
  shows "sql_eq (ar_receipt_id r) rid \<and> sql_eq (ar_playback r) (ar_playback cur) \<longleftrightarrow> r = cur"
    and "sql_eq (ar_receipt_id r) rid \<longleftrightarrow> r = cur"
proof -
  note c = fetch_by_Some[OF cur]
  have "r = cur" if "ar_receipt_id r = rid"
    using that c r ok by (metis distinct_map ids_ok_def inj_onD)
  then show "sql_eq (ar_receipt_id r) rid \<longleftrightarrow> r = cur"
    using c by (auto simp: sql_eq_def)
  then show "sql_eq (ar_receipt_id r) rid \<and> sql_eq (ar_playback r) (ar_playback cur) \<longleftrightarrow> r = cur"
    using pb by (auto simp: sql_eq_def)
qed

lemma cas_row_count:
  assumes ok: "ids_ok rows" and cur: "fetch_by ar_receipt_id rid rows = Some cur"
    and pb: "ar_playback cur \<noteq> JNull"
  shows "row_count (\<lambda>r. sql_eq (ar_receipt_id r) rid \<and> sql_eq (ar_playback r) (ar_playback cur)) rows = 1"
proof -
  have "row_count (\<lambda>r. sql_eq (ar_receipt_id r) rid \<and> sql_eq (ar_playback r) (ar_playback cur)) rows =
      length (filter (\<lambda>r. r = cur) rows)"
    unfolding row_count_def
    by (rule arg_cong[where f = length], rule filter_cong[OF refl], rule cas_matches(1)[OF assms])
  also have "filter (\<lambda>r. r = cur) rows = [cur]"
    using ok fetch_by_Some(1)[OF cur] unfolding ids_ok_def distinct_map
    by (induction rows) (auto simp: filter_empty_conv)
  also have "length [cur] = 1" by simp
  finally show ?thesis .
qed

lemma cas_update_rows:
  assumes ok: "ids_ok rows" and cur: "fetch_by ar_receipt_id rid rows = Some cur"
    and pb: "ar_playback cur \<noteq> JNull" and row: "ar_receipt_id (f cur) = rid"
  shows "update_rows (\<lambda>r. sql_eq (ar_receipt_id r) rid \<and> sql_eq (ar_playback r) (ar_playback cur)) f rows =
    upsert_receipt (f cur) rows"
proof -
  have "rid \<in> set (map ar_receipt_id rows)"
    using fetch_by_Some[OF cur] by auto
  then show ?thesis
    unfolding upsert_receipt_def row update_rows_def
    using cas_matches[OF ok cur pb] by (auto cong: map_cong)
qed

lemma playback_status_not_null: "playback_status r = JStr s \<Longrightarrow> ar_playback r \<noteq> JNull"
  by (auto simp: playback_status_def dget_def)

lemma stored_or_idle: "\<exists>x. stored_or rid item (idle d) = (Inr x, idle d)"
  by (simp add: stored_or_def get_audio_receipt_def cbind_def)

text \<open>The owner's finalisation, from the row \<open>cur\<close> it read to the row it writes.\<close>

definition finalized :: "time_us \<Rightarrow> json \<Rightarrow> string \<Rightarrow> dict \<Rightarrow> receipt_row \<Rightarrow> receipt_row \<Rightarrow> db \<Rightarrow> db \<Rightarrow> bool" where
  "finalized now rid token receipt cur row d d' \<longleftrightarrow>
    fetch_by ar_receipt_id rid (db_audio_receipts d) = Some cur \<and>
    playback_status cur \<in> {JStr ''pending'', JStr ''uncertain''} \<and> playback_token cur = JStr token \<and>
    receipt_row_of rid (terminal_item now token receipt) (dget (terminal_item now token receipt) ''playback'')
      (JObj (dupdate (as_dict (ar_payload cur)) (terminal_item now token receipt))) = Inr row \<and>
    db_audio_receipts d' = upsert_receipt row (db_audio_receipts d)"

lemma write_terminal_result:
  assumes ok: "ids_ok (db_audio_receipts d)"
    and cur: "fetch_by ar_receipt_id rid (db_audio_receipts d) = Some cur"
    and pb: "ar_playback cur \<noteq> JNull"
  shows "(\<exists>e d'. write_terminal rid item cur (open_on d d) = (Inl e, open_on d d')) \<or>
    (\<exists>row d'. write_terminal rid item cur (open_on d d) = (Inr None, idle d') \<and>
      receipt_row_of rid item (dget item ''playback'') (JObj (dupdate (as_dict (ar_payload cur)) item)) = Inr row \<and>
      db_audio_receipts d' = upsert_receipt row (db_audio_receipts d))"
proof (cases "receipt_row_of rid item (dget item ''playback'') (JObj (dupdate (as_dict (ar_payload cur)) item))")
  case (Inl e)
  then show ?thesis by (simp add: write_terminal_def cbind_def)
next
  case (Inr row)
  note row = Inr
  let ?p = "\<lambda>r. sql_eq (ar_receipt_id r) rid \<and> sql_eq (ar_playback r) (ar_playback cur)"
  show ?thesis
  proof (cases "update_receipts ?p (\<lambda>_. row) d")
    case (Inl e)
    then show ?thesis using row by (simp add: write_terminal_def cbind_def)
  next
    case (Inr p)
    obtain n d1 where p: "p = (n, d1)" by (cases p)
    note upd = Inr[unfolded p update_receipts_Inr]
    have n: "n = 1" using upd cas_row_count[OF ok cur pb] by simp
    have d1: "db_audio_receipts d1 = upsert_receipt row (db_audio_receipts d)"
      using upd cas_update_rows[OF ok cur pb, of "\<lambda>_. row"] receipt_row_of_Inr(1)[OF row] by simp
    show ?thesis
    proof (cases "insert_attempt rid (max_attempt rid d + 1) row d1")
      case (Inl e)
      then show ?thesis using row Inr p n by (simp add: write_terminal_def cbind_def)
    next
      case (Inr q)
      obtain u d2 where q: "q = (u, d2)" by (cases q)
      show ?thesis
        using row Inr \<open>update_receipts _ _ d = _\<close> p q n d1 insert_attempt_Inr(4)[of rid _ row d1 u d2]
        by (simp add: write_terminal_def cbind_def)
    qed
  qed
qed

lemma finalize_audio_receipt_cases:
  assumes ok: "ids_ok (db_audio_receipts d)"
  obtains (error) e where "finalize_audio_receipt now rid token receipt (idle d) = (Inl e, idle d)"
  | (refused) x where "finalize_audio_receipt now rid token receipt (idle d) = (Inr x, idle d)"
      "\<And>cur. fetch_by ar_receipt_id rid (db_audio_receipts d) = Some cur \<Longrightarrow>
        playback_status cur \<notin> {JStr ''pending'', JStr ''uncertain''} \<or> playback_token cur \<noteq> JStr token"
  | (finalized) x cur row d' where "finalize_audio_receipt now rid token receipt (idle d) = (Inr x, idle d')"
      "finalized now rid token receipt cur row d d'"
proof (cases "fetch_by ar_receipt_id rid (db_audio_receipts d)")
  case None
  then show ?thesis
    by (intro refused[of "rejected ''missing''"])
      (simp_all add: finalize_audio_receipt_def Let_def cbind_def rollback_on_error_def)
next
  case (Some cur)
  note cur = Some
  let ?item = "terminal_item now token receipt"
  note unf = finalize_audio_receipt_def Let_def cbind_def rollback_on_error_def
  show ?thesis
  proof (cases "playback_status cur \<in> {JStr ''pending'', JStr ''uncertain''} \<and> playback_token cur = JStr token")
    case False
    then show ?thesis using cur
      by (cases "playback_status cur \<in> {JStr ''pending'', JStr ''uncertain''}")
        (rule refused; auto simp: unf)+
  next
    case True
    then have pb: "ar_playback cur \<noteq> JNull" by (auto dest: playback_status_not_null)
    from write_terminal_result[OF ok cur pb, of ?item] show ?thesis
    proof (elim disjE exE conjE)
      fix e d' assume "write_terminal rid ?item cur (open_on d d) = (Inl e, open_on d d')"
      then show ?thesis using True cur by (intro error[of e]) (auto simp: unf)
    next
      fix row d'
      assume w: "write_terminal rid ?item cur (open_on d d) = (Inr None, idle d')"
        and row: "receipt_row_of rid ?item (dget ?item ''playback'')
          (JObj (dupdate (as_dict (ar_payload cur)) ?item)) = Inr row"
        and d': "db_audio_receipts d' = upsert_receipt row (db_audio_receipts d)"
      obtain x where "stored_or rid ?item (idle d') = (Inr x, idle d')" using stored_or_idle by blast
      then have "finalize_audio_receipt now rid token receipt (idle d) = (Inr x, idle d')"
        using True cur w by (auto simp: unf)
      then show ?thesis
        by (rule finalized[of _ _ cur row]) (use True cur row d' in \<open>simp add: finalized_def\<close>)
    qed
  qed
qed

text \<open>Reconciliation of the expired lease \<open>cur\<close>.\<close>

definition reconciled :: "json \<Rightarrow> time_us \<Rightarrow> receipt_row \<Rightarrow> receipt_row \<Rightarrow> db \<Rightarrow> db \<Rightarrow> bool" where
  "reconciled rid observed cur row d d' \<longleftrightarrow>
    fetch_by ar_receipt_id rid (db_audio_receipts d) = Some cur \<and> playback_status cur = JStr ''pending'' \<and>
    (\<exists>t. dget (as_dict (ar_playback cur)) ''reservation_expires_at'' = JTime (Aware t) \<and> t \<le> observed) \<and>
    (\<exists>payload. row = cur\<lparr>ar_outcome := JStr ''suppressed'', ar_reason_code := JStr ''reservation_expired'',
       ar_playback := JObj (uncertain_playback (as_dict (ar_playback cur)) observed), ar_payload := JObj payload\<rparr>) \<and>
    db_audio_receipts d' = upsert_receipt row (db_audio_receipts d)"

lemma write_uncertain_result:
  assumes ok: "ids_ok (db_audio_receipts d)"
    and cur: "fetch_by ar_receipt_id rid (db_audio_receipts d) = Some cur"
    and pb: "ar_playback cur \<noteq> JNull"
    and f: "f = (\<lambda>r. r\<lparr>ar_outcome := JStr ''suppressed'', ar_reason_code := JStr ''reservation_expired'',
              ar_playback := JObj terminal, ar_payload := JObj payload\<rparr>)"
  shows "(\<exists>e d'. write_uncertain rid cur terminal payload observed (open_on d d) = (Inl e, open_on d d')) \<or>
    (\<exists>d'. write_uncertain rid cur terminal payload observed (open_on d d) = (Inr (Inr payload), idle d') \<and>
      db_audio_receipts d' = upsert_receipt (f cur) (db_audio_receipts d))"
proof -
  let ?p = "\<lambda>r. sql_eq (ar_receipt_id r) rid \<and> sql_eq (ar_playback r) (ar_playback cur)"
  note unf = write_uncertain_def cbind_def f[symmetric]
  show ?thesis
  proof (cases "update_receipts ?p f d")
    case (Inl e)
    then show ?thesis by (simp add: unf)
  next
    case (Inr p)
    obtain n d1 where p: "p = (n, d1)" by (cases p)
    note upd = Inr[unfolded p update_receipts_Inr]
    have n: "n = 1" using upd cas_row_count[OF ok cur pb] by simp
    have d1: "db_audio_receipts d1 = upsert_receipt (f cur) (db_audio_receipts d)"
      using upd cas_update_rows[OF ok cur pb, of f] fetch_by_Some(2)[OF cur] by (simp add: f)
    show ?thesis
    proof (cases "ditem payload ''decision_id''")
      case (Inl e)
      then show ?thesis using Inr p n by (simp add: unf)
    next
      case (Inr decision)
      note dec = Inr
      let ?row = "cur\<lparr>ar_decision_id := decision, ar_outcome := JStr ''suppressed'',
                ar_reason_code := JStr ''reservation_expired'',
                ar_command_id := dget payload ''command_id'', ar_playback := JObj terminal,
                ar_created_at := jtime observed, ar_payload := JObj payload\<rparr>"
      show ?thesis
      proof (cases "insert_attempt rid (max_attempt rid d1 + 1) ?row d1")
        case (Inl e)
        then show ?thesis using dec \<open>update_receipts _ _ d = _\<close> p n by (simp add: unf)
      next
        case (Inr q)
        obtain u d2 where q: "q = (u, d2)" by (cases q)
        then show ?thesis
          using dec \<open>update_receipts _ _ d = _\<close> p n Inr d1 insert_attempt_Inr(4)[OF Inr[unfolded q]]
          by (simp add: unf)
      qed
    qed
  qed
qed

lemma reconcile_cases:
  assumes ok: "ids_ok (db_audio_receipts d)"
  obtains (error) e where "reconcile_expired_audio_receipt rid observed actor reason (idle d) = (Inl e, idle d)"
  | (unchanged) x where "reconcile_expired_audio_receipt rid observed actor reason (idle d) = (Inr x, idle d)"
  | (reconciled) x cur row d' where
      "reconcile_expired_audio_receipt rid observed actor reason (idle d) = (Inr x, idle d')"
      "reconciled rid observed cur row d d'"
proof (cases "fetch_by ar_receipt_id rid (db_audio_receipts d)")
  case None
  then show ?thesis
    by (intro unchanged)
      (simp add: reconcile_expired_audio_receipt_def Let_def cbind_def rollback_on_error_def)
next
  case (Some cur)
  note cur = Some
  note unf = reconcile_expired_audio_receipt_def Let_def cbind_def rollback_on_error_def
  let ?pb = "as_dict (ar_playback cur)"
  let ?exp = "dget ?pb ''reservation_expires_at''"
  consider (other) "playback_status cur \<noteq> JStr ''pending''"
    | (none) "playback_status cur = JStr ''pending''" "\<not> truthy ?exp"
    | (bad) e where "playback_status cur = JStr ''pending''" "truthy ?exp" "fromisoformat ?exp = Inl e"
    | (early) t where "playback_status cur = JStr ''pending''" "?exp = JTime t"
        "case t of Naive _ \<Rightarrow> True | Aware t \<Rightarrow> observed < t"
    | (late) t where "playback_status cur = JStr ''pending''" "?exp = JTime (Aware t)" "t \<le> observed"
  proof (cases "playback_status cur = JStr ''pending'' \<and> truthy ?exp")
    case True
    show thesis
    proof (cases ?exp)
      case (JTime t)
      then show thesis using True that(4)[of t] that(5) by (cases t) force+
    qed (use True that(3) in auto)
  qed (use that(1,2) in auto)
  then show ?thesis
  proof cases
    case late
    then have pb: "ar_playback cur \<noteq> JNull" by (auto dest: playback_status_not_null)
    let ?t = "uncertain_playback ?pb observed"
    let ?payload = "uncertain_payload (as_dict (ar_payload cur)) ?t actor reason"
    from write_uncertain_result[OF ok cur pb refl, of ?t ?payload observed] show ?thesis
    proof (elim disjE exE conjE)
      fix e d' assume "write_uncertain rid cur ?t ?payload observed (open_on d d) = (Inl e, open_on d d')"
      then show ?thesis using late cur by (intro error[of e]) (simp add: unf)
    next
      fix d'
      assume w: "write_uncertain rid cur ?t ?payload observed (open_on d d) = (Inr (Inr ?payload), idle d')"
        and d': "db_audio_receipts d' = upsert_receipt (cur\<lparr>ar_outcome := JStr ''suppressed'',
          ar_reason_code := JStr ''reservation_expired'', ar_playback := JObj ?t,
          ar_payload := JObj ?payload\<rparr>) (db_audio_receipts d)"
      obtain x where "stored_or rid ?payload (idle d') = (Inr x, idle d')" using stored_or_idle by blast
      then have "reconcile_expired_audio_receipt rid observed actor reason (idle d) = (Inr x, idle d')"
        using late cur w by (simp add: unf)
      then show ?thesis
        by (rule reconciled) (use late cur d' in \<open>auto simp: reconciled_def\<close>)
    qed
  next
    case early
    then show ?thesis using cur by (intro unchanged) (cases t; simp add: unf)
  next
    case (bad e)
    then show ?thesis using cur by (intro error[of e]) (simp add: unf)
  qed (use cur in \<open>intro unchanged, simp add: unf\<close>)+
qed

text \<open>An unconditional write of \<open>put_audio_receipt\<close>, which never replaces a counted row.\<close>

definition put_written :: "time_us \<Rightarrow> dict \<Rightarrow> receipt_row \<Rightarrow> db \<Rightarrow> db \<Rightarrow> bool" where
  "put_written now receipt row d d' \<longleftrightarrow>
    receipt_row_of (ar_receipt_id row) (dsetdefault receipt ''created_at'' (jtime now)) (dget receipt ''playback'')
      (JObj (dsetdefault receipt ''created_at'' (jtime now))) = Inr row \<and>
    ditem receipt ''receipt_id'' = Inr (ar_receipt_id row) \<and> ar_receipt_id row \<noteq> JNull \<and>
    (\<forall>cur. fetch_by ar_receipt_id (ar_receipt_id row) (db_audio_receipts d) = Some cur \<longrightarrow> \<not> counted cur) \<and>
    db_audio_receipts d' = upsert_receipt row (db_audio_receipts d)"

lemma write_unless_counted_result:
  assumes cur: "current = fetch_by ar_receipt_id rid (db_audio_receipts d)"
    and id: "ar_receipt_id row = rid"
  shows "(\<exists>e. write_unless_counted rid row current (idle d) = (Inl e, open_on d d)) \<or>
    write_unless_counted rid row current (idle d) = (Inr (), idle d) \<or>
    (\<exists>d1. write_unless_counted rid row current (idle d) = (Inr (), open_on d d1) \<and>
      (\<forall>cur. current = Some cur \<longrightarrow> \<not> counted cur) \<and>
      (rid \<noteq> JNull \<longrightarrow> db_audio_receipts d1 = upsert_receipt row (db_audio_receipts d)))"
proof (cases current)
  case None
  then have "rid = JNull \<or> rid \<notin> set (map ar_receipt_id (db_audio_receipts d))"
    using cur by (simp add: fetch_by_None)
  then show ?thesis
    using None id
    by (cases "insert_receipt row d")
      (auto simp: write_unless_counted_def insert_receipt_Inr upsert_receipt_def)
next
  case (Some r)
  then have "rid \<in> set (map ar_receipt_id (db_audio_receipts d))"
    using cur fetch_by_Some[of ar_receipt_id rid "db_audio_receipts d" r] by auto
  then show ?thesis
    using Some id
    by (cases "update_receipts (\<lambda>r. sql_eq (ar_receipt_id r) rid) (\<lambda>_. row) d")
      (auto simp: write_unless_counted_def cbind_def update_receipts_Inr upsert_receipt_def)
qed

lemma put_audio_receipt_cases:
  assumes ok: "ids_ok (db_audio_receipts d)"
  obtains (error) e where "put_audio_receipt now receipt (idle d) = (Inl e, idle d)"
  | (kept) x d' where "put_audio_receipt now receipt (idle d) = (Inr x, idle d')"
      "db_audio_receipts d' = db_audio_receipts d"
  | (written) x row d' where "put_audio_receipt now receipt (idle d) = (Inr x, idle d')"
      "put_written now receipt row d d'"
proof -
  let ?item = "dsetdefault receipt ''created_at'' (jtime now)"
  note unf = put_audio_receipt_def Let_def cbind_def with_connection_def
  show ?thesis
  proof (cases "ditem receipt ''receipt_id''")
    case (Inl e)
    then show ?thesis by (intro error) (simp add: unf)
  next
    case (Inr rid)
    note rid = Inr
    show ?thesis
    proof (cases "receipt_row_of rid ?item (dget receipt ''playback'') (JObj ?item)")
      case (Inl e)
      then show ?thesis using rid by (intro error) (simp add: unf)
    next
      case (Inr row)
      note row = Inr
      note id = receipt_row_of_Inr(1)[OF row]
      let ?w = "write_unless_counted rid row (fetch_by ar_receipt_id rid (db_audio_receipts d)) (idle d)"
      have attempt: ?thesis if w: "?w = (Inr (), c)" and c: "c = idle d \<and> d1 = d \<or> c = open_on d d1"
          and same: "db_audio_receipts d1 = db_audio_receipts d \<or>
            (rid \<noteq> JNull \<longrightarrow> put_written now receipt row d d1)" for c d1
      proof (cases "insert_attempt rid (max_attempt rid d + 1) row d1")
        case (Inl e)
        then show ?thesis using rid row w c by (intro error[of e]) (auto simp: unf)
      next
        case (Inr q)
        obtain u d2 where q: "q = (u, d2)" by (cases q)
        note att = insert_attempt_Inr[OF Inr[unfolded q]]
        obtain x where x: "stored_or rid ?item (idle d2) = (Inr x, idle d2)" using stored_or_idle by blast
        have run: "put_audio_receipt now receipt (idle d) = (Inr x, idle d2)"
          using rid row w c Inr q x by (auto simp: unf)
        show ?thesis
        proof (cases "db_audio_receipts d1 = db_audio_receipts d")
          case True
          then show ?thesis by (intro kept[OF run]) (simp add: att(4))
        next
          case False
          then have "put_written now receipt row d d2"
            using same att(1,4) by (simp add: put_written_def)
          then show ?thesis by (rule written[OF run])
        qed
      qed
      from write_unless_counted_result[where d = d, OF refl id] show ?thesis
      proof (elim disjE exE conjE)
        fix e assume "?w = (Inl e, open_on d d)"
        then show ?thesis using rid row by (intro error[of e]) (simp add: unf)
      next
        assume "?w = (Inr (), idle d)"
        then show ?thesis by (rule attempt) auto
      next
        fix d1 assume w: "?w = (Inr (), open_on d d1)" and
          "\<forall>cur. fetch_by ar_receipt_id rid (db_audio_receipts d) = Some cur \<longrightarrow> \<not> counted cur"
          "rid \<noteq> JNull \<longrightarrow> db_audio_receipts d1 = upsert_receipt row (db_audio_receipts d)"
        then show ?thesis
          by (intro attempt[OF w]) (use rid row id in \<open>auto simp: put_written_def\<close>)
      qed
    qed
  qed
qed

end
