(* ===== verification/Leases.thy ===== *)
theory Leases
  imports Ledger
begin

text \<open>
  The abstract specification of the audio ledger and the proof that the repository implements it.
  A receipt is free, pending under a token, in doubt under a token, or settled; every repository
  operation moves it along the edges of \<open>lease_step\<close>.  What a client may rely on over any sequence
  of operations is proved once in the locale \<open>audio_ledger\<close> and holds for the SQLite repository by
  interpretation.
\<close>

section \<open>Operations and leases\<close>

datatype ledger_op =
    Reserve time_us string dict limits
  | Finalize time_us json string dict
  | Put time_us dict
  | Reconcile json time_us "string option" "string option"

fun run_op :: "ledger_op \<Rightarrow> dict repo" where
  "run_op (Reserve now token receipt l) = reserve_audio_receipt now token receipt l"
| "run_op (Finalize now rid token receipt) = finalize_audio_receipt now rid token receipt"
| "run_op (Put now receipt) = put_audio_receipt now receipt"
| "run_op (Reconcile rid observed actor reason) = reconcile_expired_audio_receipt rid observed actor reason"

datatype lease = Free | Pending json | InDoubt json | Settled

definition lease :: "receipt_row option \<Rightarrow> lease" where
  "lease found = (case found of
     None \<Rightarrow> Free
   | Some r \<Rightarrow>
       if playback_status r = JStr ''pending'' then Pending (playback_token r)
       else if playback_status r = JStr ''uncertain'' then InDoubt (playback_token r)
       else if playback_status r \<in> {JStr ''accepted'', JStr ''duplicate'', JStr ''expired''} then Settled
       else Free)"

text \<open>The moves an operation may make on the lease of a receipt.\<close>

inductive lease_step :: "ledger_op \<Rightarrow> json \<Rightarrow> lease \<Rightarrow> lease \<Rightarrow> bool" where
  stay: "lease_step oper rid L L"
| grant: "ditem receipt ''receipt_id'' = Inr rid \<Longrightarrow>
    lease_step (Reserve now token receipt l) rid Free (Pending (JStr token))"
| finish: "L = Pending (JStr token) \<or> L = InDoubt (JStr token) \<Longrightarrow>
    lease_step (Finalize now rid token receipt) rid L L'"
| doubt: "lease_step (Reconcile rid observed actor reason) rid (Pending t) (InDoubt t)"
| entered: "ditem receipt ''receipt_id'' = Inr rid \<Longrightarrow> lease_step (Put now receipt) rid Free L'"

inductive_cases lease_step_settled: "lease_step oper rid Settled L"
inductive_cases lease_step_pending: "lease_step oper rid (Pending t) L"
inductive_cases lease_step_in_doubt: "lease_step oper rid (InDoubt t) L"

section \<open>The contract\<close>

locale audio_ledger =
  fixes apply_op :: "ledger_op \<Rightarrow> 's \<Rightarrow> dict result \<times> 's"
    and inv :: "'s \<Rightarrow> bool"
    and fact_of :: "json \<Rightarrow> 's \<Rightarrow> receipt_row option"
  assumes inv_step: "inv s \<Longrightarrow> inv (snd (apply_op oper s))"
    and lease_moves: "inv s \<Longrightarrow>
      lease_step oper rid (lease (fact_of rid s)) (lease (fact_of rid (snd (apply_op oper s))))"
    and settled_frozen: "inv s \<Longrightarrow> lease (fact_of rid s) = Settled \<Longrightarrow>
      fact_of rid (snd (apply_op oper s)) = fact_of rid s"
begin

definition run :: "ledger_op list \<Rightarrow> 's \<Rightarrow> 's" where
  "run ops s = fold (\<lambda>oper s. snd (apply_op oper s)) ops s"

lemma run_simps [simp]: "run [] s = s" "run (oper # ops) s = run ops (snd (apply_op oper s))"
  by (simp_all add: run_def)

lemma inv_run: "inv s \<Longrightarrow> inv (run ops s)"
  by (induction ops arbitrary: s) (simp_all add: inv_step)

text \<open>A settled fact never changes again.\<close>

lemma settled_forever:
  "inv s \<Longrightarrow> lease (fact_of rid s) = Settled \<Longrightarrow> fact_of rid (run ops s) = fact_of rid s"
  by (induction ops arbitrary: s) (simp_all add: inv_step settled_frozen)

text \<open>A held lease stays with its token until its owner finalises.\<close>

lemma held_until_owner:
  assumes "inv s" and "lease (fact_of rid s) \<in> {Pending (JStr token), InDoubt (JStr token)}"
    and "\<And>now receipt. Finalize now rid token receipt \<notin> set ops"
  shows "lease (fact_of rid (run ops s)) \<in> {Pending (JStr token), InDoubt (JStr token)}"
  using assms
proof (induction ops arbitrary: s)
  case (Cons oper ops)
  have no: "oper \<noteq> Finalize now rid token receipt" for now receipt
    using Cons.prems(3) by force
  have "lease (fact_of rid (snd (apply_op oper s))) \<in> {Pending (JStr token), InDoubt (JStr token)}"
    using lease_moves[OF Cons.prems(1), of oper rid] Cons.prems(2)
    by (auto simp: no elim!: lease_step_pending lease_step_in_doubt)
  then show ?case
    using Cons inv_step by simp
qed simp

end

section \<open>The SQLite ledger\<close>

text \<open>An idle connection whose receipt table satisfies its key constraint.\<close>

definition ledger_inv :: "db conn \<Rightarrow> bool" where
  "ledger_inv c \<longleftrightarrow> (\<exists>d. c = idle d \<and> ids_ok (db_audio_receipts d))"

definition receipt_fact :: "json \<Rightarrow> db conn \<Rightarrow> receipt_row option" where
  "receipt_fact rid c = fetch_by ar_receipt_id rid (db_audio_receipts (cn_work c))"

text \<open>Every operation either leaves the receipt table alone or replaces the row of one receipt,
  along an edge of the specification and never from a settled row.\<close>

lemma lease_not_settled:
  "lease (Some r) = Settled \<longleftrightarrow> playback_status r \<in> {JStr ''accepted'', JStr ''duplicate'', JStr ''expired''}"
  by (auto simp: lease_def)

lemma granted_effect:
  assumes g: "granted now token receipt l created row d d'"
  shows "ar_receipt_id row \<noteq> JNull" "db_audio_receipts d' = upsert_receipt row (db_audio_receipts d)"
    "lease (fetch_by ar_receipt_id (ar_receipt_id row) (db_audio_receipts d)) = Free"
    "ditem receipt ''receipt_id'' = Inr (ar_receipt_id row)"
    "playback_status row = JStr ''pending''" "playback_token row = JStr token"
    "lease (Some row) = Pending (JStr token)"
proof -
  have pb: "ar_playback row = JObj (pending_playback token created (lim_ttl l))"
    using g receipt_row_of_Inr(2) unfolding granted_def by blast
  show "lease (fetch_by ar_receipt_id (ar_receipt_id row) (db_audio_receipts d)) = Free"
    using g by (auto simp: granted_def lease_def blocking_statuses_def split: option.splits)
  show "playback_status row = JStr ''pending''" "playback_token row = JStr token"
    "lease (Some row) = Pending (JStr token)"
    by (simp_all add: playback_status_def playback_token_def lease_def pb pending_playback_def dget_def)
qed (use g in \<open>simp_all add: granted_def\<close>)

lemma run_op_effect:
  assumes ok: "ids_ok (db_audio_receipts d)"
  shows "\<exists>d'. snd (run_op oper (idle d)) = idle d' \<and>
    (db_audio_receipts d' = db_audio_receipts d \<or>
     (\<exists>row. ar_receipt_id row \<noteq> JNull \<and> db_audio_receipts d' = upsert_receipt row (db_audio_receipts d) \<and>
       lease (fetch_by ar_receipt_id (ar_receipt_id row) (db_audio_receipts d)) \<noteq> Settled \<and>
       lease_step oper (ar_receipt_id row)
         (lease (fetch_by ar_receipt_id (ar_receipt_id row) (db_audio_receipts d))) (lease (Some row))))"
proof (cases oper)
  case (Reserve now token receipt l)
  from ok show ?thesis
  proof (cases rule: reserve_audio_receipt_cases[where now = now and token = token and receipt = receipt and l = l])
    case (reserved created row d')
    note e = granted_effect[OF reserved(2)]
    have "lease_step oper (ar_receipt_id row)
         (lease (fetch_by ar_receipt_id (ar_receipt_id row) (db_audio_receipts d))) (lease (Some row))"
      unfolding e(3,7) Reserve by (rule grant[OF e(4)])
    then show ?thesis
      using reserved(1) Reserve e(1-3) by (intro exI[of _ d']) auto
  qed (use Reserve in auto)
next
  case (Finalize now rid token receipt)
  from ok show ?thesis
  proof (cases rule: finalize_audio_receipt_cases[where now = now and rid = rid and token = token and receipt = receipt])
    case (finalized x cur row d')
    then have row: "ar_receipt_id row = rid"
      using receipt_row_of_Inr(1) unfolding finalized_def by blast
    have cur: "fetch_by ar_receipt_id rid (db_audio_receipts d) = Some cur" "rid \<noteq> JNull"
      "lease (Some cur) = Pending (JStr token) \<or> lease (Some cur) = InDoubt (JStr token)"
      using finalized(2) by (auto simp: finalized_def lease_def dest: fetch_by_Some(3))
    then have "lease_step oper rid (lease (Some cur)) (lease (Some row))"
      unfolding Finalize by (intro finish) simp
    then show ?thesis
      using finalized Finalize row cur by (intro exI[of _ d']) (auto simp: finalized_def)
  qed (use Finalize in auto)
next
  case (Put now receipt)
  from ok show ?thesis
  proof (cases rule: put_audio_receipt_cases[where now = now and receipt = receipt])
    case (written x row d')
    have free: "lease (fetch_by ar_receipt_id (ar_receipt_id row) (db_audio_receipts d)) = Free"
      using written(2)
      by (auto simp: put_written_def lease_def counted_def counted_statuses_def split: option.splits)
    have "lease_step oper (ar_receipt_id row) Free (lease (Some row))"
      unfolding Put by (rule entered) (use written(2) in \<open>simp add: put_written_def\<close>)
    then show ?thesis
      using written Put free by (intro exI[of _ d']) (auto simp: put_written_def)
  qed (use Put in auto)
next
  case (Reconcile rid observed actor reason)
  from ok show ?thesis
  proof (cases rule: reconcile_cases[where rid = rid and observed = observed and actor = actor and reason = reason])
    case (reconciled x cur row d')
    then have cur: "fetch_by ar_receipt_id rid (db_audio_receipts d) = Some cur" "rid \<noteq> JNull"
        "ar_receipt_id cur = rid" "lease (Some cur) = Pending (playback_token cur)"
      by (auto simp: reconciled_def lease_def dest: fetch_by_Some)
    have row: "ar_receipt_id row = rid" "lease (Some row) = InDoubt (playback_token cur)"
      using reconciled(2) cur(3)
      by (auto simp: reconciled_def lease_def playback_status_def playback_token_def uncertain_playback_def)
    have "lease_step oper rid (lease (Some cur)) (lease (Some row))"
      unfolding Reconcile cur(4) row(2) by (rule doubt)
    moreover have "db_audio_receipts d' = upsert_receipt row (db_audio_receipts d)"
      using reconciled(2) by (simp add: reconciled_def)
    ultimately show ?thesis
      using reconciled(1) Reconcile row cur by (intro exI[of _ d']) auto
  qed (use Reconcile in auto)
qed

lemma run_op_ledger:
  assumes "ledger_inv c"
  shows "ledger_inv (snd (run_op oper c))"
    "lease_step oper rid (lease (receipt_fact rid c)) (lease (receipt_fact rid (snd (run_op oper c))))"
    "lease (receipt_fact rid c) = Settled \<Longrightarrow> receipt_fact rid (snd (run_op oper c)) = receipt_fact rid c"
proof -
  obtain d where c: "c = idle d" and ok: "ids_ok (db_audio_receipts d)"
    using assms by (auto simp: ledger_inv_def)
  obtain d' where d': "snd (run_op oper (idle d)) = idle d'" and
    eff: "db_audio_receipts d' = db_audio_receipts d \<or>
     (\<exists>row. ar_receipt_id row \<noteq> JNull \<and> db_audio_receipts d' = upsert_receipt row (db_audio_receipts d) \<and>
       lease (fetch_by ar_receipt_id (ar_receipt_id row) (db_audio_receipts d)) \<noteq> Settled \<and>
       lease_step oper (ar_receipt_id row)
         (lease (fetch_by ar_receipt_id (ar_receipt_id row) (db_audio_receipts d))) (lease (Some row)))"
    using run_op_effect[OF ok, of oper] by blast
  show "ledger_inv (snd (run_op oper c))"
    unfolding c d' ledger_inv_def using eff ok by auto
  show "lease_step oper rid (lease (receipt_fact rid c)) (lease (receipt_fact rid (snd (run_op oper c))))"
    unfolding c d' receipt_fact_def using eff ok by (auto simp: fetch_upsert intro: stay)
  show "receipt_fact rid (snd (run_op oper c)) = receipt_fact rid c" if "lease (receipt_fact rid c) = Settled"
    using that eff ok unfolding c d' receipt_fact_def by (auto simp: fetch_upsert)
qed

interpretation sqlite_ledger: audio_ledger run_op ledger_inv receipt_fact
  by unfold_locales (rule run_op_ledger; assumption)+

section \<open>Promises of the ledger\<close>

definition run_ops :: "ledger_op list \<Rightarrow> db conn \<Rightarrow> db conn" where
  "run_ops ops c = fold (\<lambda>oper c. snd (run_op oper c)) ops c"

lemma run_ops_run: "run_ops = sqlite_ledger.run"
  by (simp add: run_ops_def sqlite_ledger.run_def fun_eq_iff)

lemma ledger_inv_run_ops: "ledger_inv c \<Longrightarrow> ledger_inv (run_ops ops c)"
  unfolding run_ops_run by (rule sqlite_ledger.inv_run)

lemma ledger_inv_empty: "ledger_inv (idle empty_db)"
  by (auto simp: ledger_inv_def ids_ok_def empty_db_def)

text \<open>Inputs for the evaluation of the ledger: one decision in one zone.\<close>

definition sample_receipt :: dict where
  "sample_receipt = [(''receipt_id'', JStr ''audio:d1''), (''decision_id'', JStr ''d1''),
     (''camera_id'', JStr ''cam''), (''zone_id'', JStr ''hall''), (''outcome'', JStr ''announce_requested''),
     (''reason_code'', JStr ''announced''), (''command_id'', JStr ''c1''), (''playback'', JNull),
     (''created_at'', jtime 100)]"

definition sample_limits :: limits where
  "sample_limits = \<lparr>lim_cooldown = 60, lim_hourly = 10, lim_daily = 100, lim_ttl = 30\<rparr>"

definition sample_accepted :: dict where
  "sample_accepted = dset sample_receipt ''playback'' (JObj [(''status'', JStr ''accepted'')])"

definition sample_pending_conn :: "db conn" where
  "sample_pending_conn = run_ops [Reserve 100 ''t1'' sample_receipt sample_limits] (idle empty_db)"

definition sample_accepted_conn :: "db conn" where
  "sample_accepted_conn =
    run_ops [Finalize 100 (JStr ''audio:d1'') ''t1'' sample_accepted] sample_pending_conn"

lemma sample_conns:
  "ledger_inv sample_pending_conn" "ledger_inv sample_accepted_conn"
  by (simp_all add: sample_pending_conn_def sample_accepted_conn_def ledger_inv_run_ops ledger_inv_empty)

text \<open>Property C10.  Every repository operation on the ledger, whatever its arguments, leaves the
  connection idle with unique receipt ids and moves the lease of every receipt along an edge of the
  specification: free to pending by a reservation for that receipt, pending to in doubt by
  reconciliation, pending or in doubt to any terminal state only by the owner of the token.\<close>

theorem ledger_refines_leases:
  assumes "ledger_inv c"
  shows "ledger_inv (snd (run_op oper c)) \<and>
    lease_step oper rid (lease (receipt_fact rid c)) (lease (receipt_fact rid (snd (run_op oper c))))"
  using run_op_ledger[OF assms] by blast

theorem ledger_refines_leases_witness:
  "lease_step (Finalize 100 (JStr ''audio:d1'') ''t1'' sample_accepted) (JStr ''audio:d1'')
     (lease (receipt_fact (JStr ''audio:d1'') sample_pending_conn))
     (lease (receipt_fact (JStr ''audio:d1'') sample_accepted_conn)) \<and>
   lease (receipt_fact (JStr ''audio:d1'') sample_pending_conn) = Pending (JStr ''t1'') \<and>
   lease (receipt_fact (JStr ''audio:d1'') sample_accepted_conn) = Settled"
proof -
  have "lease (receipt_fact (JStr ''audio:d1'') sample_pending_conn) = Pending (JStr ''t1'')"
    by code_simp
  moreover have "lease (receipt_fact (JStr ''audio:d1'') sample_accepted_conn) = Settled"
    by code_simp
  ultimately show ?thesis
    using ledger_refines_leases[OF sample_conns(1),
        of "Finalize 100 (JStr ''audio:d1'') ''t1'' sample_accepted" "JStr ''audio:d1''"]
    by (simp add: sample_accepted_conn_def run_ops_def)
qed



text \<open>Mutual exclusion: while a lease is pending or in doubt under a token, no sequence
  of operations without a finalisation by that token takes it away, so a second reservation of the
  receipt is never granted and a late owner still finds its own lease.\<close>

theorem lease_held_until_owner:
  assumes "ledger_inv c"
    and "lease (receipt_fact rid c) \<in> {Pending (JStr token), InDoubt (JStr token)}"
    and "\<forall>oper \<in> set ops. \<forall>now receipt. oper \<noteq> Finalize now rid token receipt"
  shows "lease (receipt_fact rid (run_ops ops c)) \<in> {Pending (JStr token), InDoubt (JStr token)}"
  unfolding run_ops_run
  by (rule sqlite_ledger.held_until_owner) (use assms in auto)

theorem lease_held_until_owner_witness:
  "lease (receipt_fact (JStr ''audio:d1'') (run_ops [Reserve 900 ''t2'' sample_receipt sample_limits,
      Finalize 901 (JStr ''audio:d1'') ''t2'' sample_accepted,
      Reconcile (JStr ''audio:d1'') 40000000 None None] sample_pending_conn))
    \<in> {Pending (JStr ''t1''), InDoubt (JStr ''t1'')}"
proof (rule lease_held_until_owner[OF sample_conns(1)])
  show "lease (receipt_fact (JStr ''audio:d1'') sample_pending_conn) \<in> {Pending (JStr ''t1''), InDoubt (JStr ''t1'')}"
    by code_simp
qed simp

end
