(* ===== verification/Rate_Limits.thy ===== *)
theory Rate_Limits
  imports Leases
begin

text \<open>
  The announcement limits across interleaved requests.  \<open>service_run\<close> is the set of databases and
  in-flight requests reachable when any number of request threads or processes reserve, send,
  finalise, record suppressions, reconcile, or die between two of these steps, in any order and
  with any clock; the theorems bound what the receipt table can come to hold.
\<close>

section \<open>Limits on a receipt table\<close>

definition zone_count :: "json \<Rightarrow> (time_us \<Rightarrow> bool) \<Rightarrow> receipt_row list \<Rightarrow> nat" where
  "zone_count zone p rows =
    length (filter (\<lambda>r. counted r \<and> ar_zone_id r = zone \<and> p (col_time (ar_created_at r))) rows)"

definition hourly_ok :: "limits \<Rightarrow> receipt_row list \<Rightarrow> bool" where
  "hourly_ok l rows \<longleftrightarrow> (0 < lim_hourly l \<longrightarrow>
    (\<forall>zone t. int (zone_count zone (\<lambda>s. t - 3600 * us_per_second \<le> s \<and> s \<le> t) rows) \<le> lim_hourly l))"

definition daily_ok :: "limits \<Rightarrow> receipt_row list \<Rightarrow> bool" where
  "daily_ok l rows \<longleftrightarrow> (0 < lim_daily l \<longrightarrow>
    (\<forall>zone day. int (zone_count zone (\<lambda>s. utc_date s = day) rows) \<le> lim_daily l))"

definition spaced :: "limits \<Rightarrow> receipt_row list \<Rightarrow> bool" where
  "spaced l rows \<longleftrightarrow> (0 < lim_cooldown l \<longrightarrow>
    (\<forall>r \<in> set rows. \<forall>q \<in> set rows.
      ar_receipt_id r \<noteq> ar_receipt_id q \<and> counted r \<and> counted q \<and> ar_zone_id r = ar_zone_id q \<longrightarrow>
      lim_cooldown l * us_per_second < \<bar>col_time (ar_created_at r) - col_time (ar_created_at q)\<bar>))"

definition within_limits :: "limits \<Rightarrow> receipt_row list \<Rightarrow> bool" where
  "within_limits l rows \<longleftrightarrow> hourly_ok l rows \<and> daily_ok l rows \<and> spaced l rows"

section \<open>Replacing one row\<close>

text \<open>A row may be written when it does not count, when it takes the place of a counted row of the
  same zone and time, or when the limits admit it.\<close>

definition admissible :: "limits \<Rightarrow> receipt_row \<Rightarrow> receipt_row list \<Rightarrow> bool" where
  "admissible l row rows \<longleftrightarrow>
    ar_receipt_id row \<noteq> JNull \<and>
    (\<not> counted row \<or>
     (\<exists>cur. fetch_by ar_receipt_id (ar_receipt_id row) rows = Some cur \<and> counted cur \<and>
        ar_zone_id cur = ar_zone_id row \<and> col_time (ar_created_at cur) = col_time (ar_created_at row)) \<or>
     ar_zone_id row \<noteq> JNull \<and>
     limit_rejection l (col_time (ar_created_at row)) (zone_times (ar_zone_id row) rows) = None)"

lemma set_upsert:
  assumes "ids_ok rows" and "ar_receipt_id row \<noteq> JNull"
  shows "set (upsert_receipt row rows) = insert row {r \<in> set rows. ar_receipt_id r \<noteq> ar_receipt_id row}"
  using assms by (auto simp: upsert_receipt_def update_rows_def sql_eq_def image_iff)

lemma fetch_counts:
  assumes "ids_ok rows" and "fetch_by ar_receipt_id rid rows = Some cur" and "P cur"
  shows "length (filter P rows) = length (filter P (filter (\<lambda>r. ar_receipt_id r \<noteq> rid) rows)) + 1"
proof -
  note c = fetch_by_Some[OF assms(2)]
  then have "upsert_receipt cur rows = rows"
    using assms(1) by (auto simp: upsert_receipt_def update_rows_def sql_eq_def ids_ok_def distinct_map
        inj_on_eq_iff intro!: map_idI)
  then show ?thesis
    using length_filter_upsert[OF assms(1), of cur P] c assms(3) by simp
qed

lemma filter_others_le:
  "length (filter P (filter (\<lambda>r. ar_receipt_id r \<noteq> rid) rows)) \<le> length (filter P rows)"
  by (induction rows) auto

text \<open>Unless the limits are what admits the row, no count grows.\<close>

lemma zone_count_replace:
  assumes ok: "ids_ok rows" and id: "ar_receipt_id row \<noteq> JNull"
    and kind: "\<not> counted row \<or> (\<exists>cur. fetch_by ar_receipt_id (ar_receipt_id row) rows = Some cur \<and> counted cur \<and>
        ar_zone_id cur = ar_zone_id row \<and> col_time (ar_created_at cur) = col_time (ar_created_at row))"
  shows "zone_count zone p (upsert_receipt row rows) \<le> zone_count zone p rows"
proof -
  let ?P = "\<lambda>r. counted r \<and> ar_zone_id r = zone \<and> p (col_time (ar_created_at r))"
  have "length (filter ?P (upsert_receipt row rows)) \<le> length (filter ?P rows)"
  proof (cases "?P row")
    case False
    then show ?thesis
      using length_filter_upsert[OF ok id, of ?P] filter_others_le[of ?P "ar_receipt_id row" rows]
      by (simp only: if_False)
  next
    case True
    with kind obtain cur where "fetch_by ar_receipt_id (ar_receipt_id row) rows = Some cur" "?P cur"
      by auto
    then show ?thesis
      using fetch_counts[OF ok, of "ar_receipt_id row" cur ?P] length_filter_upsert[OF ok id, of ?P] True
      by simp
  qed
  then show ?thesis by (simp only: zone_count_def)
qed

lemma zone_count_add:
  assumes "ids_ok rows" and "ar_receipt_id row \<noteq> JNull"
  shows "zone_count zone p (upsert_receipt row rows) \<le>
    zone_count zone p rows + (if ar_zone_id row = zone \<and> p (col_time (ar_created_at row)) then 1 else 0)"
  unfolding zone_count_def length_filter_upsert[OF assms]
  using filter_others_le[of "\<lambda>r. counted r \<and> ar_zone_id r = zone \<and> p (col_time (ar_created_at r))"
      "ar_receipt_id row" rows] by auto

lemma zone_times_count:
  "zone \<noteq> JNull \<Longrightarrow> length (filter p (zone_times zone rows)) = zone_count zone p rows"
  by (simp add: zone_times_def zone_count_def sql_eq_def filter_map comp_def conj_ac)
    (metis (mono_tags, lifting) filter_cong)

lemma zone_count_mono:
  "(\<And>s. p s \<Longrightarrow> q s) \<Longrightarrow> zone_count zone p rows \<le> zone_count zone q rows"
  unfolding zone_count_def by (induction rows) auto

text \<open>A count grows only by an admitted row that it covers.\<close>

lemma zone_count_upsert:
  assumes ok: "ids_ok rows" and adm: "admissible l row rows"
  shows "zone_count zone p (upsert_receipt row rows) \<le> zone_count zone p rows \<or>
    ar_zone_id row = zone \<and> p (col_time (ar_created_at row)) \<and> zone \<noteq> JNull \<and>
    limit_rejection l (col_time (ar_created_at row)) (zone_times zone rows) = None \<and>
    zone_count zone p (upsert_receipt row rows) \<le> zone_count zone p rows + 1"
proof -
  have id: "ar_receipt_id row \<noteq> JNull" using adm by (simp add: admissible_def)
  note add = zone_count_add[OF ok id, of zone p]
  show ?thesis
  proof (cases "ar_zone_id row = zone \<and> p (col_time (ar_created_at row))")
    case True
    from adm consider (keep) "\<not> counted row \<or>
        (\<exists>cur. fetch_by ar_receipt_id (ar_receipt_id row) rows = Some cur \<and> counted cur \<and>
          ar_zone_id cur = ar_zone_id row \<and> col_time (ar_created_at cur) = col_time (ar_created_at row))"
      | (admit) "ar_zone_id row \<noteq> JNull"
        "limit_rejection l (col_time (ar_created_at row)) (zone_times (ar_zone_id row) rows) = None"
      unfolding admissible_def by metis
    then show ?thesis
    proof cases
      case keep
      then show ?thesis using zone_count_replace[OF ok id keep, of zone p] by blast
    next
      case admit
      then show ?thesis using add True by simp
    qed
  qed (use add in auto)
qed

lemma hourly_ok_upsert:
  assumes ok: "ids_ok rows" and lim: "hourly_ok l rows" and adm: "admissible l row rows"
  shows "hourly_ok l (upsert_receipt row rows)"
  unfolding hourly_ok_def
proof (intro impI allI)
  fix zone t
  assume pos: "0 < lim_hourly l"
  let ?p = "\<lambda>s. t - 3600 * us_per_second \<le> s \<and> s \<le> t"
  let ?q = "\<lambda>s. col_time (ar_created_at row) - 3600 * us_per_second \<le> s"
  have old: "int (zone_count zone ?p rows) \<le> lim_hourly l"
    using lim pos by (simp add: hourly_ok_def)
  from zone_count_upsert[OF ok adm, of zone ?p]
  show "int (zone_count zone ?p (upsert_receipt row rows)) \<le> lim_hourly l"
  proof (elim disjE conjE)
    assume n: "zone_count zone ?p (upsert_receipt row rows) \<le> zone_count zone ?p rows + 1"
      and "zone \<noteq> JNull" "col_time (ar_created_at row) \<le> t"
      and "limit_rejection l (col_time (ar_created_at row)) (zone_times zone rows) = None"
    then have "int (zone_count zone ?q rows) < lim_hourly l"
      using pos by (auto simp: limit_rejection_def zone_times_count split: if_splits)
    moreover have "zone_count zone ?p rows \<le> zone_count zone ?q rows"
      by (rule zone_count_mono) (use \<open>_ \<le> t\<close> in auto)
    ultimately show ?thesis using n by linarith
  qed (use old in linarith)
qed

lemma daily_ok_upsert:
  assumes ok: "ids_ok rows" and lim: "daily_ok l rows" and adm: "admissible l row rows"
  shows "daily_ok l (upsert_receipt row rows)"
  unfolding daily_ok_def
proof (intro impI allI)
  fix zone day
  assume pos: "0 < lim_daily l"
  let ?p = "\<lambda>s. utc_date s = day"
  have old: "int (zone_count zone ?p rows) \<le> lim_daily l"
    using lim pos by (simp add: daily_ok_def)
  from zone_count_upsert[OF ok adm, of zone ?p]
  show "int (zone_count zone ?p (upsert_receipt row rows)) \<le> lim_daily l"
  proof (elim disjE conjE)
    assume n: "zone_count zone ?p (upsert_receipt row rows) \<le> zone_count zone ?p rows + 1"
      and "zone \<noteq> JNull" "utc_date (col_time (ar_created_at row)) = day"
      and "limit_rejection l (col_time (ar_created_at row)) (zone_times zone rows) = None"
    then have "int (zone_count zone ?p rows) < lim_daily l"
      using pos by (auto simp: limit_rejection_def zone_times_count split: if_splits)
    then show ?thesis using n by linarith
  qed (use old in linarith)
qed

text \<open>The cooldown, for the written row against any other counted row of its zone.\<close>

lemma admissible_spacing:
  assumes lim: "spaced l rows" and adm: "admissible l row rows" and pos: "0 < lim_cooldown l"
    and q: "q \<in> set rows" "ar_receipt_id q \<noteq> ar_receipt_id row" "counted q" "ar_zone_id q = ar_zone_id row"
    and row: "counted row"
  shows "lim_cooldown l * us_per_second < \<bar>col_time (ar_created_at row) - col_time (ar_created_at q)\<bar>"
  using adm unfolding admissible_def
proof (elim conjE disjE exE)
  fix cur
  assume cur: "fetch_by ar_receipt_id (ar_receipt_id row) rows = Some cur" "counted cur"
    "ar_zone_id cur = ar_zone_id row" "col_time (ar_created_at cur) = col_time (ar_created_at row)"
  note c = fetch_by_Some[OF cur(1)]
  have "lim_cooldown l * us_per_second < \<bar>col_time (ar_created_at cur) - col_time (ar_created_at q)\<bar>"
    using lim pos c(1,2) q cur(2,3) unfolding spaced_def by metis
  then show ?thesis by (simp add: cur(4))
next
  assume "ar_zone_id row \<noteq> JNull"
    and none: "limit_rejection l (col_time (ar_created_at row)) (zone_times (ar_zone_id row) rows) = None"
  then have "col_time (ar_created_at q) \<in> set (zone_times (ar_zone_id row) rows)"
    using q by (auto simp: zone_times_def sql_eq_def)
  then show ?thesis
    using none pos by (auto simp: limit_rejection_def list_ex_iff split: if_splits)
qed (use row in simp)

lemma spaced_upsert:
  assumes ok: "ids_ok rows" and lim: "spaced l rows" and adm: "admissible l row rows"
  shows "spaced l (upsert_receipt row rows)"
proof -
  have id: "ar_receipt_id row \<noteq> JNull" using adm by (simp add: admissible_def)
  show ?thesis
    unfolding spaced_def set_upsert[OF ok id]
  proof (intro impI ballI, elim conjE)
    fix r q
    assume pos: "0 < lim_cooldown l"
      and mem: "r \<in> insert row {r \<in> set rows. ar_receipt_id r \<noteq> ar_receipt_id row}"
        "q \<in> insert row {r \<in> set rows. ar_receipt_id r \<noteq> ar_receipt_id row}"
      and c: "ar_receipt_id r \<noteq> ar_receipt_id q" "counted r" "counted q" "ar_zone_id r = ar_zone_id q"
    consider "r = row" "q \<in> set rows" "ar_receipt_id q \<noteq> ar_receipt_id row"
      | "q = row" "r \<in> set rows" "ar_receipt_id r \<noteq> ar_receipt_id row"
      | "r \<in> set rows" "q \<in> set rows"
      using mem c(1) by auto
    then show "lim_cooldown l * us_per_second < \<bar>col_time (ar_created_at r) - col_time (ar_created_at q)\<bar>"
    proof cases
      case 1
      then show ?thesis using admissible_spacing[OF lim adm pos, of q] c by simp
    next
      case 2
      then show ?thesis using admissible_spacing[OF lim adm pos, of r] c by (simp add: abs_minus_commute)
    next
      case 3
      then show ?thesis using lim pos c unfolding spaced_def by metis
    qed
  qed
qed

lemma within_limits_upsert:
  "ids_ok rows \<Longrightarrow> within_limits l rows \<Longrightarrow> admissible l row rows \<Longrightarrow>
    within_limits l (upsert_receipt row rows)"
  by (simp add: within_limits_def hourly_ok_upsert daily_ok_upsert spaced_upsert)

section \<open>Interleaved requests\<close>

text \<open>An in-flight request is the token it holds and the receipt it reserved with.  The service
  reserves with a receipt that carries its time and no \<open>reservation_status\<close> (\<open>_record\<close>), under a
  fresh \<open>uuid4\<close>; it finalises with the token, for the same zone and time, whatever the controller
  said; it records a suppression without playback, and a retry of a settled receipt as a
  duplicate.\<close>

type_synonym flight = "string \<times> dict"

fun after_reserve :: "string \<Rightarrow> dict \<Rightarrow> flight list \<Rightarrow> dict result \<Rightarrow> flight list" where
  "after_reserve token receipt fl (Inl e) = fl"
| "after_reserve token receipt fl (Inr x) =
    (if dget x ''reservation_status'' = JNull then (token, receipt) # fl else fl)"

inductive service_run :: "limits \<Rightarrow> db \<Rightarrow> flight list \<Rightarrow> bool" for l :: limits where
  start: "db_audio_receipts d = [] \<Longrightarrow> service_run l d []"
| reserve: "service_run l d fl \<Longrightarrow> token \<notin> fst ` set fl \<Longrightarrow>
    \<forall>q \<in> set (db_audio_receipts d). playback_token q \<noteq> JStr token \<Longrightarrow>
    ditem receipt ''created_at'' = Inr created \<Longrightarrow> dget receipt ''reservation_status'' = JNull \<Longrightarrow>
    run_op (Reserve now token receipt l) (idle d) = (r, idle d') \<Longrightarrow>
    service_run l d' (after_reserve token receipt fl r)"
| complete: "service_run l d fl \<Longrightarrow> (token, receipt) \<in> set fl \<Longrightarrow>
    ditem terminal ''zone_id'' = ditem receipt ''zone_id'' \<Longrightarrow>
    ditem terminal ''created_at'' = ditem receipt ''created_at'' \<Longrightarrow>
    run_op (Finalize now rid token terminal) (idle d) = (r, idle d') \<Longrightarrow>
    service_run l d' (remove1 (token, receipt) fl)"
| suppress: "service_run l d fl \<Longrightarrow> dget receipt ''playback'' = JNull \<Longrightarrow>
    run_op (Put now receipt) (idle d) = (r, idle d') \<Longrightarrow> service_run l d' fl"
| repeat: "service_run l d fl \<Longrightarrow> ditem receipt ''receipt_id'' = Inr rid \<Longrightarrow>
    lease (fetch_by ar_receipt_id rid (db_audio_receipts d)) = Settled \<Longrightarrow>
    run_op (Put now receipt) (idle d) = (r, idle d') \<Longrightarrow> service_run l d' fl"
| operator: "service_run l d fl \<Longrightarrow>
    run_op (Reconcile rid observed actor reason) (idle d) = (r, idle d') \<Longrightarrow> service_run l d' fl"
| crash: "service_run l d fl \<Longrightarrow> service_run l d (remove1 f fl)"

text \<open>The rows an in-flight token still owns are the ones its request reserved.\<close>

definition owned_by :: "receipt_row list \<Rightarrow> flight \<Rightarrow> bool" where
  "owned_by rows f \<longleftrightarrow> (\<forall>r \<in> set rows.
     playback_token r = JStr (fst f) \<and> playback_status r \<in> {JStr ''pending'', JStr ''uncertain''} \<longrightarrow>
     ditem (snd f) ''zone_id'' = Inr (ar_zone_id r) \<and> ditem (snd f) ''created_at'' = Inr (ar_created_at r))"

definition run_inv :: "limits \<Rightarrow> db \<Rightarrow> flight list \<Rightarrow> bool" where
  "run_inv l d fl \<longleftrightarrow> ids_ok (db_audio_receipts d) \<and> within_limits l (db_audio_receipts d) \<and>
    distinct (map fst fl) \<and> (\<forall>f \<in> set fl. owned_by (db_audio_receipts d) f)"

lemma owned_by_upsert:
  assumes "ids_ok rows" "ar_receipt_id row \<noteq> JNull" "owned_by rows f"
    and "playback_token row = JStr (fst f) \<Longrightarrow> playback_status row \<in> {JStr ''pending'', JStr ''uncertain''} \<Longrightarrow>
      ditem (snd f) ''zone_id'' = Inr (ar_zone_id row) \<and> ditem (snd f) ''created_at'' = Inr (ar_created_at row)"
  shows "owned_by (upsert_receipt row rows) f"
  using assms by (auto simp: owned_by_def set_upsert)

lemma run_inv_upsert:
  assumes inv: "run_inv l d fl" and up: "db_audio_receipts d' = upsert_receipt row (db_audio_receipts d)"
    and adm: "admissible l row (db_audio_receipts d)"
    and own: "\<And>f. f \<in> set fl' \<Longrightarrow> playback_token row = JStr (fst f) \<Longrightarrow>
      playback_status row \<in> {JStr ''pending'', JStr ''uncertain''} \<Longrightarrow>
      ditem (snd f) ''zone_id'' = Inr (ar_zone_id row) \<and> ditem (snd f) ''created_at'' = Inr (ar_created_at row)"
    and old: "\<And>f. f \<in> set fl' \<Longrightarrow> owned_by (db_audio_receipts d) f" and dist: "distinct (map fst fl')"
  shows "run_inv l d' fl'"
  using inv adm dist old own unfolding run_inv_def up
  by (auto simp: within_limits_upsert admissible_def intro!: owned_by_upsert)

lemma run_inv_same:
  "run_inv l d fl \<Longrightarrow> db_audio_receipts d' = db_audio_receipts d \<Longrightarrow> distinct (map fst fl') \<Longrightarrow>
    set fl' \<subseteq> set fl \<Longrightarrow> run_inv l d' fl'"
  by (auto simp: run_inv_def)

lemma run_inv_remove1:
  assumes "run_inv l d fl"
  shows "run_inv l d (remove1 f fl)"
proof (rule run_inv_same[OF assms])
  show "distinct (map fst (remove1 f fl))"
    using assms by (auto simp: run_inv_def distinct_map inj_on_def dest: notin_set_remove1)
qed (simp_all add: set_remove1_subset)

lemma run_inv_reserve:
  assumes inv: "run_inv l d fl" and fresh: "token \<notin> fst ` set fl"
    and unused: "\<forall>q \<in> set (db_audio_receipts d). playback_token q \<noteq> JStr token"
    and created: "ditem receipt ''created_at'' = Inr created"
    and status: "dget receipt ''reservation_status'' = JNull"
    and run: "run_op (Reserve now token receipt l) (idle d) = (r, idle d')"
  shows "run_inv l d' (after_reserve token receipt fl r)"
proof -
  have ok: "ids_ok (db_audio_receipts d)" and dist: "distinct (map fst fl)"
    using inv by (simp_all add: run_inv_def)
  from ok show ?thesis
  proof (cases rule: reserve_audio_receipt_cases[where now = now and token = token and receipt = receipt and l = l])
    case (reserved t row d1)
    note e = granted_effect[OF reserved(2)]
    note g = reserved(2)[unfolded granted_def]
    have row: "ditem receipt ''zone_id'' = Inr (ar_zone_id row)" "ditem receipt ''created_at'' = Inr (ar_created_at row)"
      using g receipt_row_of_Inr(4,5) created unfolding reserved_item_def by fastforce+
    have r: "r = Inr (reserved_item now token receipt l t)" "d1 = d'"
      using run reserved(1) by auto
    have fl: "after_reserve token receipt fl r = (token, receipt) # fl"
      using status by (simp add: r reserved_item_def)
    show ?thesis
      unfolding fl
    proof (rule run_inv_upsert[OF inv e(2)[unfolded r(2)]])
      show "admissible l row (db_audio_receipts d)"
        using g e(1) by (auto simp: admissible_def not_null_def receipt_required_def)
    qed (use inv fresh unused dist e row in \<open>auto simp: run_inv_def owned_by_def rev_image_eqI\<close>)
  qed (use run inv status dist in \<open>auto simp: rejected_def dget_def intro: run_inv_same\<close>)
qed

lemma run_inv_complete:
  assumes inv: "run_inv l d fl" and mem: "(token, receipt) \<in> set fl"
    and zone: "ditem terminal ''zone_id'' = ditem receipt ''zone_id''"
    and time: "ditem terminal ''created_at'' = ditem receipt ''created_at''"
    and run: "run_op (Finalize now rid token terminal) (idle d) = (r, idle d')"
  shows "run_inv l d' (remove1 (token, receipt) fl)"
proof -
  have ok: "ids_ok (db_audio_receipts d)" and dist: "distinct (map fst fl)"
    using inv by (simp_all add: run_inv_def)
  have dist': "distinct (map fst (remove1 (token, receipt) fl))"
    using run_inv_remove1[OF inv] by (simp add: run_inv_def)
  from ok show ?thesis
  proof (cases rule: finalize_audio_receipt_cases[where now = now and rid = rid and token = token and receipt = terminal])
    case (finalized x cur row d1)
    note f = finalized(2)[unfolded finalized_def]
    then have cur: "fetch_by ar_receipt_id rid (db_audio_receipts d) = Some cur" by blast
    have own: "ditem receipt ''zone_id'' = Inr (ar_zone_id cur)" "ditem receipt ''created_at'' = Inr (ar_created_at cur)"
      using inv mem f fetch_by_Some(1)[OF cur] by (auto simp: run_inv_def owned_by_def)
    have rof: "receipt_row_of rid (terminal_item now token terminal) (dget (terminal_item now token terminal) ''playback'')
        (JObj (dupdate (as_dict (ar_payload cur)) (terminal_item now token terminal))) = Inr row"
      using f by blast
    note row = receipt_row_of_Inr[OF rof]
    have same: "ar_zone_id row = ar_zone_id cur" "ar_created_at row = ar_created_at cur"
      using row(4,5) own zone time by (simp_all add: terminal_item_def Let_def)
    have tok: "playback_token row = JStr token"
      using row(2) by (simp add: playback_token_def terminal_item_def Let_def)
    have d1: "db_audio_receipts d' = upsert_receipt row (db_audio_receipts d)"
      using f run finalized(1) by auto
    show ?thesis
    proof (rule run_inv_upsert[OF inv d1 _ _ _ dist'])
      show "admissible l row (db_audio_receipts d)"
        using cur same row(1) f fetch_by_Some(3)[OF cur]
        by (auto simp: admissible_def counted_def counted_statuses_def)
    next
      fix f assume "f \<in> set (remove1 (token, receipt) fl)" "playback_token row = JStr (fst f)"
      then have "fst f = token" "f \<in> set fl" "f \<noteq> (token, receipt)"
        using tok dist by (auto dest: notin_set_remove1 simp: distinct_map distinct_remove1)
      then show "ditem (snd f) ''zone_id'' = Inr (ar_zone_id row) \<and> ditem (snd f) ''created_at'' = Inr (ar_created_at row)"
        using mem dist by (metis distinct_map fst_conv inj_on_eq_iff)
    qed (use inv in \<open>auto simp: run_inv_def dest: notin_set_remove1\<close>)
  qed (use run inv in \<open>auto intro: run_inv_remove1\<close>)
qed

lemma counted_leases: "lease (Some r) \<noteq> Free \<Longrightarrow> counted r"
  by (auto simp: lease_def counted_def counted_statuses_def split: if_splits)

lemma run_inv_put:
  assumes inv: "run_inv l d fl" and run: "run_op (Put now receipt) (idle d) = (r, idle d')"
    and mild: "dget receipt ''playback'' = JNull \<or>
      (\<exists>rid. ditem receipt ''receipt_id'' = Inr rid \<and>
        lease (fetch_by ar_receipt_id rid (db_audio_receipts d)) = Settled)"
  shows "run_inv l d' fl"
proof -
  have ok: "ids_ok (db_audio_receipts d)" and dist: "distinct (map fst fl)"
    using inv by (simp_all add: run_inv_def)
  from ok show ?thesis
  proof (cases rule: put_audio_receipt_cases[where now = now and receipt = receipt])
    case (written x row d1)
    note w = written(2)[unfolded put_written_def]
    have "\<not> lease (fetch_by ar_receipt_id (ar_receipt_id row) (db_audio_receipts d)) = Settled"
      using w counted_leases by (auto simp: lease_def split: option.splits)
    then have pb: "ar_playback row = JNull"
      using mild w receipt_row_of_Inr(2) by fastforce
    then have silent: "playback_token row = JNull" "\<not> counted row"
      by (simp_all add: playback_token_def counted_def counted_statuses_def playback_status_def dget_def)
    have d1: "db_audio_receipts d' = upsert_receipt row (db_audio_receipts d)"
      using w run written(1) by auto
    show ?thesis
      by (rule run_inv_upsert[OF inv d1]) (use inv w silent in \<open>auto simp: run_inv_def admissible_def\<close>)
  qed (use run inv dist in \<open>auto intro: run_inv_same\<close>)
qed

lemma run_inv_reconcile:
  assumes inv: "run_inv l d fl" and run: "run_op (Reconcile rid observed actor reason) (idle d) = (r, idle d')"
  shows "run_inv l d' fl"
proof -
  have ok: "ids_ok (db_audio_receipts d)" and dist: "distinct (map fst fl)"
    using inv by (simp_all add: run_inv_def)
  from ok show ?thesis
  proof (cases rule: reconcile_cases[where rid = rid and observed = observed and actor = actor and reason = reason])
    case (reconciled x cur row d1)
    note c = reconciled(2)[unfolded reconciled_def]
    have cur: "fetch_by ar_receipt_id rid (db_audio_receipts d) = Some cur" "playback_status cur = JStr ''pending''"
      using c by blast+
    have row: "ar_receipt_id row = ar_receipt_id cur" "ar_zone_id row = ar_zone_id cur"
        "ar_created_at row = ar_created_at cur" "playback_token row = playback_token cur"
      using c by (auto simp: playback_token_def uncertain_playback_def)
    have d1: "db_audio_receipts d' = upsert_receipt row (db_audio_receipts d)"
      using c run reconciled(1) by auto
    have adm: "admissible l row (db_audio_receipts d)"
      using cur row fetch_by_Some[OF cur(1)]
      by (auto simp: admissible_def counted_def counted_statuses_def)
    show ?thesis
      by (rule run_inv_upsert[OF inv d1 adm])
        (use inv cur row fetch_by_Some(1)[OF cur(1)] in \<open>auto simp: run_inv_def owned_by_def\<close>)
  qed (use run inv dist in \<open>auto intro: run_inv_same\<close>)
qed

lemma service_run_inv: "service_run l d fl \<Longrightarrow> run_inv l d fl"
proof (induction rule: service_run.induct)
  case (start d)
  then show ?case
    by (simp add: run_inv_def ids_ok_def within_limits_def hourly_ok_def daily_ok_def spaced_def zone_count_def)
next
  case (crash d fl f)
  then show ?case by (blast intro: run_inv_remove1)
qed (blast intro: run_inv_reserve run_inv_complete run_inv_put run_inv_reconcile)+

section \<open>The limits hold\<close>


definition sample_pending_db :: db where
  "sample_pending_db = cn_work sample_pending_conn"

lemma sample_service_run:
  "service_run sample_limits sample_pending_db [(''t1'', sample_receipt)]"
proof -
  have run: "run_op (Reserve 100 ''t1'' sample_receipt sample_limits) (idle empty_db) =
      (fst (run_op (Reserve 100 ''t1'' sample_receipt sample_limits) (idle empty_db)), idle sample_pending_db)"
    by code_simp
  have fl: "after_reserve ''t1'' sample_receipt [] (fst (run_op (Reserve 100 ''t1'' sample_receipt sample_limits)
      (idle empty_db))) = [(''t1'', sample_receipt)]"
    by code_simp
  have "service_run sample_limits sample_pending_db (after_reserve ''t1'' sample_receipt []
      (fst (run_op (Reserve 100 ''t1'' sample_receipt sample_limits) (idle empty_db))))"
    by (rule service_run.reserve[OF _ _ _ _ _ run, where created = "jtime 100"])
      (simp_all add: service_run.start empty_db_def sample_receipt_def ditem_def dget_def)
  then show ?thesis by (simp only: fl)
qed


text \<open>Tokens are exclusive: in every reachable state at most one in-flight request owns a
  receipt, and the row it owns is the one it reserved, in its zone and at its time, so a
  finalisation can neither move a counted receipt to another zone or hour nor settle the lease of
  another request.\<close>

theorem in_flight_ownership:
  assumes "service_run l d fl" and "(token, receipt) \<in> set fl"
    and "r \<in> set (db_audio_receipts d)" and "playback_token r = JStr token"
    and "playback_status r = JStr ''pending'' \<or> playback_status r = JStr ''uncertain''"
  shows "ditem receipt ''zone_id'' = Inr (ar_zone_id r) \<and> ditem receipt ''created_at'' = Inr (ar_created_at r) \<and>
    (\<forall>other. (token, other) \<in> set fl \<longrightarrow> other = receipt)"
proof -
  have "distinct (map fst fl)" "owned_by (db_audio_receipts d) (token, receipt)"
    using service_run_inv[OF assms(1)] assms(2) by (auto simp: run_inv_def)
  then show ?thesis
    using assms(2-5) by (auto simp: owned_by_def dest: eq_key_imp_eq_value)
qed

theorem in_flight_ownership_witness:
  "\<exists>r \<in> set (db_audio_receipts sample_pending_db). ditem sample_receipt ''zone_id'' = Inr (ar_zone_id r)"
proof -
  have *: "list_ex (\<lambda>r. playback_token r = JStr ''t1'' \<and> playback_status r = JStr ''pending'')
      (db_audio_receipts sample_pending_db)"
    by code_simp
  then obtain r where r: "r \<in> set (db_audio_receipts sample_pending_db)" "playback_token r = JStr ''t1''"
      "playback_status r = JStr ''pending''"
    by (auto simp: list_ex_iff)
  show ?thesis
    using in_flight_ownership[OF sample_service_run, of "''t1''" sample_receipt, OF _ r(1,2)] r(1,3) by auto
qed

end
