(* ===== verification/Request_Audio.thy ===== *)
theory Request_Audio
  imports Rate_Limits Playback
begin

text \<open>
  The one choke point between a decision and the audio adapter:
  \<open>AudioRequestService\<close> of \<open>src/tp_smoke_detect/application/request_audio.py\<close>.  The state is the
  repository (absent, or the SQLite repository on its connection) and the controller; the
  controller's \<open>send\<close> is a parameter and may raise.  \<open>token\<close> is the \<open>uuid4\<close> the repository draws for
  the reservation.
\<close>

section \<open>State\<close>

record 'c world =
  w_repo :: "db conn option"
  w_ctl :: 'c

type_synonym 'c sender = "AudioCommand \<Rightarrow> 'c \<Rightarrow> AudioPlaybackReceipt result \<times> 'c"

record request_args =
  ra_decision :: audio_decision
  ra_camera_id :: string
  ra_zone_id :: string
  ra_now :: datetime
  ra_announced_at :: "time_us list"
  ra_hourly_count :: int
  ra_daily_count :: int
  ra_site_muted :: bool
  ra_zone_muted :: bool
  ra_camera_muted :: bool
  ra_camera_suspended :: bool

definition request_context :: "request_args \<Rightarrow> AudioPolicyContext" where
  "request_context a = \<lparr>ctx_now = ra_now a, ctx_camera_id = ra_camera_id a, ctx_zone_id = ra_zone_id a,
     ctx_announced_at = ra_announced_at a, ctx_hourly_count = ra_hourly_count a,
     ctx_daily_count = ra_daily_count a, ctx_site_muted = ra_site_muted a,
     ctx_zone_muted = ra_zone_muted a, ctx_camera_muted = ra_camera_muted a,
     ctx_camera_suspended = ra_camera_suspended a\<rparr>"

section \<open>_record\<close>

fun record_decision_id :: "audio_decision \<Rightarrow> string result" where
  "record_decision_id (CompletedDecision d) = ret (dc_decision_id d)"
| "record_decision_id (MappingDecision m) = (case dm_decision_id m of
     None \<Rightarrow> raise (KeyError ''decision_id'') | Some v \<Rightarrow> ret v)"
| "record_decision_id (CascadeVerdict v) = raise (TypeError ''object is not subscriptable'')"

text \<open>The payload; \<open>playback\<close> is the dumped receipt, the override, or \<open>None\<close>.\<close>

definition record_payload :: "request_args \<Rightarrow> AudioPolicyResult \<Rightarrow> json \<Rightarrow> string \<Rightarrow> dict" where
  "record_payload a result playback did =
    [(''receipt_id'', JStr (''audio:'' @ did)), (''decision_id'', JStr did),
     (''camera_id'', JStr (ra_camera_id a)), (''zone_id'', JStr (ra_zone_id a)),
     (''outcome'', JStr (apr_outcome result)), (''reason_code'', JStr (audio_reason_value (apr_reason_code result))),
     (''command_id'', case apr_command result of None \<Rightarrow> JNull | Some c \<Rightarrow> JStr (ac_command_id c)),
     (''playback'', playback), (''created_at'', jtime (astimezone_utc (ra_now a)))]"

definition policy_limits :: "AudioPolicyConfig \<Rightarrow> limits" where
  "policy_limits cfg = \<lparr>lim_cooldown = ap_cooldown_seconds cfg, lim_hourly = ap_hourly_audio_cap cfg,
     lim_daily = ap_daily_audio_cap cfg, lim_ttl = ap_command_ttl_seconds cfg\<rparr>"

text \<open>\<open>_record\<close> with a repository: finalise under a token; otherwise reserve under an override other
  than a duplicate, and put in every other case.  \<open>clock\<close> is what \<open>_now\<close> would return.\<close>

definition record_outcome ::
  "AudioPolicyConfig \<Rightarrow> time_us \<Rightarrow> string \<Rightarrow> request_args \<Rightarrow> AudioPolicyResult \<Rightarrow>
   AudioPlaybackReceipt option \<Rightarrow> dict option \<Rightarrow> string option \<Rightarrow> dict option repo" where
  "record_outcome cfg clock token a result receipt override reservation =
    cbind (clift (record_decision_id (ra_decision a))) (\<lambda>did.
    let playback = (case receipt of Some r \<Rightarrow> JObj (receipt_dump r)
          | None \<Rightarrow> (case override of Some ov \<Rightarrow> JObj ov | None \<Rightarrow> JNull));
        payload = record_payload a result playback did
    in case reservation of
      Some tok \<Rightarrow> cbind (finalize_audio_receipt clock (JStr (''audio:'' @ did)) tok payload) (\<lambda>d. cret (Some d))
    | None \<Rightarrow>
        if (case override of None \<Rightarrow> True | Some ov \<Rightarrow> dget ov ''status'' = JStr ''duplicate'')
        then cbind (put_audio_receipt clock payload) (\<lambda>_. cret None)
        else cbind (reserve_audio_receipt clock token payload (policy_limits cfg)) (\<lambda>d. cret (Some d)))"

text \<open>\<open>if self.repository is None: return None\<close>.\<close>

definition do_record :: "dict option repo \<Rightarrow> 'c world \<Rightarrow> dict option result \<times> 'c world" where
  "do_record m w = (case w_repo w of
     None \<Rightarrow> (ret None, w)
   | Some c \<Rightarrow> (let (r, c') = m c in (r, w\<lparr>w_repo := Some c'\<rparr>)))"

section \<open>request\<close>

fun refused_code :: "PlaybackStatus \<Rightarrow> AudioReasonCode option" where
  "refused_code PB_FAILED = Some ADAPTER_ERROR"
| "refused_code PB_REJECTED = Some ADAPTER_REJECTED"
| "refused_code PB_EXPIRED = Some AudioReasonCode.EXPIRED"
| "refused_code PB_ACCEPTED = None"
| "refused_code PB_DUPLICATE = None"

definition after_receipt :: "AudioPolicyResult \<Rightarrow> AudioPlaybackReceipt \<Rightarrow> AudioPolicyResult" where
  "after_receipt result r = (case refused_code (pr_status r) of
     None \<Rightarrow> result
   | Some code \<Rightarrow> \<lparr>apr_allowed = False, apr_reason_code = code, apr_outcome = ''suppressed'',
                   apr_command = apr_command result\<rparr>)"

text \<open>Lines 107 to 161: send under the reservation token (if any), and record what came of it.\<close>

definition send_and_record ::
  "AudioPolicyConfig \<Rightarrow> time_us \<Rightarrow> 'c sender \<Rightarrow> request_args \<Rightarrow> AudioPolicyResult \<Rightarrow> AudioCommand \<Rightarrow> string option \<Rightarrow>
   'c world \<Rightarrow> AudioPolicyResult result \<times> 'c world" where
  "send_and_record cfg clock send a result command reservation w =
    (case send command (w_ctl w) of
       (Inl e, s') \<Rightarrow>
         (let w1 = w\<lparr>w_ctl := s'\<rparr> in
          case reservation of
            None \<Rightarrow> (raise e, w1)
          | Some tok \<Rightarrow> (raise e, snd (do_record (record_outcome cfg clock [] a
              \<lparr>apr_allowed = False, apr_reason_code = ADAPTER_ERROR, apr_outcome = ''suppressed'',
               apr_command = apr_command result\<rparr> None
              (Some [(''status'', JStr ''failed''), (''detail_code'', JStr ''adapter_error'')]) (Some tok)) w1)))
     | (Inr r, s') \<Rightarrow>
         (let w1 = w\<lparr>w_ctl := s'\<rparr>; result' = after_receipt result r in
          case do_record (record_outcome cfg clock [] a result' (Some r) None reservation) w1 of
            (Inl e, w2) \<Rightarrow> (raise e, w2)
          | (Inr _, w2) \<Rightarrow> (ret result', w2)))"

text \<open>Lines 76 to 106: what the reservation decides.  A granted one names its token.\<close>

definition after_reservation ::
  "AudioPolicyConfig \<Rightarrow> time_us \<Rightarrow> string \<Rightarrow> 'c sender \<Rightarrow> request_args \<Rightarrow> AudioPolicyResult \<Rightarrow> AudioCommand \<Rightarrow>
   dict option \<Rightarrow> 'c world \<Rightarrow> AudioPolicyResult result \<times> 'c world" where
  "after_reservation cfg clock token send a result command reserved w1 = (case reserved of
       None \<Rightarrow> send_and_record cfg clock send a result command None w1
     | Some reservation \<Rightarrow>
         if dget reservation ''reservation_status'' = JStr ''rejected'' then
           (case AudioReasonCode_of (text_of (dget reservation ''reservation_reason'')) of
              Inl e \<Rightarrow> (raise e, w1)
            | Inr code \<Rightarrow>
                (let refused = suppressed code in
                 case do_record (record_outcome cfg clock token a refused None None None) w1 of
                   (Inl e, w2) \<Rightarrow> (raise e, w2) | (Inr _, w2) \<Rightarrow> (ret refused, w2)))
         else if dget reservation ''reservation_status'' = JStr ''existing'' then
           (let again = \<lparr>apr_allowed = True, apr_reason_code = ANNOUNCED, apr_outcome = ''announce_requested'',
                         apr_command = Some command\<rparr> in
            case do_record (record_outcome cfg clock token a again None (Some [(''status'', JStr ''duplicate'')]) None) w1 of
              (Inl e, w2) \<Rightarrow> (raise e, w2) | (Inr _, w2) \<Rightarrow> (ret again, w2))
         else send_and_record cfg clock send a result command
           (case dget (as_dict (dget reservation ''playback'')) ''reservation_token'' of
              JStr tok \<Rightarrow> Some tok | _ \<Rightarrow> None) w1)"

text \<open>Lines 66 to 75: the reservation of an allowed command, when there is a repository.\<close>

definition reserve_and_send ::
  "AudioPolicyConfig \<Rightarrow> time_us \<Rightarrow> string \<Rightarrow> 'c sender \<Rightarrow> request_args \<Rightarrow> AudioPolicyResult \<Rightarrow> AudioCommand \<Rightarrow>
   'c world \<Rightarrow> AudioPolicyResult result \<times> 'c world" where
  "reserve_and_send cfg clock token send a result command w =
    (if w_repo w = None then send_and_record cfg clock send a result command None w
     else case do_record (record_outcome cfg clock token a result None (Some [(''status'', JStr ''pending'')]) None) w of
       (Inl e, w1) \<Rightarrow> (raise e, w1)
     | (Inr reservation, w1) \<Rightarrow> after_reservation cfg clock token send a result command reservation w1)"

definition request ::
  "audio_env \<Rightarrow> AudioPolicyConfig \<Rightarrow> time_us \<Rightarrow> string \<Rightarrow> 'c sender \<Rightarrow> request_args \<Rightarrow>
   'c world \<Rightarrow> AudioPolicyResult result \<times> 'c world" where
  "request env cfg clock token send a w =
    (case rbind (AudioPolicyContext_post_init (request_context a)) (audio_evaluate env cfg (ra_decision a)) of
       Inl e \<Rightarrow> (raise e, w)
     | Inr result \<Rightarrow>
         (case apr_command result of
            Some command \<Rightarrow> reserve_and_send cfg clock token send a result command w
          | None \<Rightarrow>
              (case do_record (record_outcome cfg clock token a result None None None) w of
                 (Inl e, w1) \<Rightarrow> (raise e, w1)
               | (Inr _, w1) \<Rightarrow> (ret result, w1))))"

section \<open>The owner of a lease always finalises\<close>

lemma fold_max_nat: "(n :: nat) \<in> set ns \<or> n = m \<Longrightarrow> n \<le> fold max ns m"
proof -
  have base: "m \<le> fold max ns m" for m :: nat and ns
  proof (induction ns arbitrary: m)
    case (Cons k ns)
    then show ?case using order.trans[OF max.cobounded2 Cons[of "max k m"]] by simp
  qed simp
  have "n \<in> set ns \<Longrightarrow> n \<le> fold max ns m" for m
  proof (induction ns arbitrary: m)
    case (Cons k ns)
    then show ?case using base[of "max k m" ns] by auto
  qed simp
  then show "n \<in> set ns \<or> n = m \<Longrightarrow> n \<le> fold max ns m" using base by blast
qed

lemma next_attempt_fresh:
  assumes "rid \<noteq> JNull"
  shows "(rid, max_attempt rid d + 1) \<notin>
    set (map (\<lambda>a. (aa_receipt_id a, aa_attempt_no a)) (db_audio_receipt_attempts d))"
proof
  assume "(rid, max_attempt rid d + 1) \<in> set (map (\<lambda>a. (aa_receipt_id a, aa_attempt_no a)) (db_audio_receipt_attempts d))"
  then obtain a where a: "a \<in> set (db_audio_receipt_attempts d)" "aa_receipt_id a = rid"
      "aa_attempt_no a = max_attempt rid d + 1"
    by auto
  then have "aa_attempt_no a \<in> set (map aa_attempt_no
      (filter (\<lambda>a. sql_eq (aa_receipt_id a) rid) (db_audio_receipt_attempts d)))"
    unfolding set_map set_filter using a(1,2) assms by (intro imageI) (simp add: sql_eq_def)
  then have "aa_attempt_no a \<le> max_attempt rid d"
    unfolding max_attempt_def by (intro fold_max_nat) simp
  then show False using a(3) by simp
qed

lemma write_terminal_succeeds:
  assumes ok: "ids_ok (db_audio_receipts d)"
    and cur: "fetch_by ar_receipt_id rid (db_audio_receipts d) = Some cur" and pb: "ar_playback cur \<noteq> JNull"
    and row: "receipt_row_of rid item (dget item ''playback'') (JObj (dupdate (as_dict (ar_payload cur)) item)) = Inr row"
    and nn: "not_null (receipt_required row)"
  shows "\<exists>d'. write_terminal rid item cur (open_on d d) = (Inr None, idle d') \<and>
    db_audio_receipts d' = upsert_receipt row (db_audio_receipts d)"
proof -
  let ?p = "\<lambda>r. sql_eq (ar_receipt_id r) rid \<and> sql_eq (ar_playback r) (ar_playback cur)"
  let ?d1 = "d\<lparr>db_audio_receipts := update_rows ?p (\<lambda>_. row) (db_audio_receipts d)\<rparr>"
  have upd: "update_receipts ?p (\<lambda>_. row) d = Inr (1, ?d1)"
    using nn cas_row_count[OF ok cur pb] by (simp add: update_receipts_Inr)
  have rows: "db_audio_receipts ?d1 = upsert_receipt row (db_audio_receipts d)"
    using cas_update_rows[OF ok cur pb, of "\<lambda>_. row"] receipt_row_of_Inr(1)[OF row] by simp
  have rid: "rid \<noteq> JNull" using fetch_by_Some(3)[OF cur] .
  have "rid \<in> set (map ar_receipt_id (db_audio_receipts ?d1))"
    unfolding rows ids_upsert using receipt_row_of_Inr(1)[OF row] by auto
  then have "\<exists>d2. insert_attempt rid (max_attempt rid d + 1) row ?d1 = Inr ((), d2) \<and>
      db_audio_receipts d2 = db_audio_receipts ?d1"
    using nn rid next_attempt_fresh[OF rid, of d]
    by (simp add: insert_attempt_def not_null_def receipt_required_def)
  then obtain d2 where "insert_attempt rid (max_attempt rid d + 1) row ?d1 = Inr ((), d2)"
      "db_audio_receipts d2 = upsert_receipt row (db_audio_receipts d)"
    using rows by auto
  then show ?thesis
    using row upd by (simp add: write_terminal_def cbind_def)
qed

text \<open>A receipt payload of the service has every required column.\<close>

lemma record_payload_row:
  "\<exists>row. receipt_row_of rid (terminal_item clock tok (record_payload a result playback did)) pb payload = Inr row \<and>
    ar_receipt_id row = rid \<and> ar_playback row = pb \<and> (payload \<noteq> JNull \<longrightarrow> not_null (receipt_required row))"
  by (simp add: receipt_row_of_def terminal_item_def record_payload_def Let_def ditem_def dsetdefault_def
      not_null_def receipt_required_def)

lemma finalize_succeeds:
  assumes ok: "ids_ok (db_audio_receipts d)"
    and cur: "fetch_by ar_receipt_id rid (db_audio_receipts d) = Some cur"
    and own: "playback_status cur \<in> {JStr ''pending'', JStr ''uncertain''}" "playback_token cur = JStr tok"
    and payload: "payload = record_payload a result playback did"
  shows "\<exists>x d' row. finalize_audio_receipt clock rid tok payload (idle d) = (Inr x, idle d') \<and>
    ids_ok (db_audio_receipts d') \<and> fetch_by ar_receipt_id rid (db_audio_receipts d') = Some row \<and>
    ar_playback row = JObj (dset (as_dict playback) ''reservation_token'' (JStr tok))"
proof -
  let ?item = "terminal_item clock tok payload"
  have pb: "dget ?item ''playback'' = JObj (dset (as_dict playback) ''reservation_token'' (JStr tok))"
    by (simp add: terminal_item_def payload Let_def record_payload_def dget_def dsetdefault_def)
  obtain row where row: "receipt_row_of rid ?item (dget ?item ''playback'')
        (JObj (dupdate (as_dict (ar_payload cur)) ?item)) = Inr row"
      "ar_receipt_id row = rid" "ar_playback row = dget ?item ''playback''" "not_null (receipt_required row)"
    using record_payload_row[of rid clock tok a result playback did "dget ?item ''playback''"
        "JObj (dupdate (as_dict (ar_payload cur)) ?item)"] unfolding payload by blast
  have "ar_playback cur \<noteq> JNull" using own(1) by (auto dest: playback_status_not_null)
  from write_terminal_succeeds[OF ok cur this row(1,4)] obtain d' where
      w: "write_terminal rid ?item cur (open_on d d) = (Inr None, idle d')"
      and d': "db_audio_receipts d' = upsert_receipt row (db_audio_receipts d)"
    by blast
  obtain x where "stored_or rid ?item (idle d') = (Inr x, idle d')" using stored_or_idle by blast
  then have "finalize_audio_receipt clock rid tok payload (idle d) = (Inr x, idle d')"
    using cur own w by (auto simp: finalize_audio_receipt_def Let_def cbind_def rollback_on_error_def)
  moreover have "rid \<noteq> JNull" using fetch_by_Some(3)[OF cur] .
  ultimately show ?thesis
    using ok row(2,3) d' pb by (intro exI[of _ x] exI[of _ d'] exI[of _ row]) (simp add: fetch_upsert)
qed

section \<open>What a request does\<close>

lemma do_record_ctl [simp]: "w_ctl (snd (do_record m w)) = w_ctl w"
  by (simp add: do_record_def case_prod_beta split: option.split)

lemma send_and_record_ctl:
  "w_ctl (snd (send_and_record cfg clock send a result command reservation w)) = snd (send command (w_ctl w))"
proof (cases "send command (w_ctl w)")
  case (Pair x s')
  show ?thesis
  proof (cases x)
    case (Inl e)
    then show ?thesis using Pair by (simp add: send_and_record_def Let_def split: option.split)
  next
    case (Inr r)
    let ?m = "record_outcome cfg clock [] a (after_receipt result r) (Some r) None reservation"
    have "w_ctl (snd (do_record ?m (w\<lparr>w_ctl := s'\<rparr>))) = s'" by simp
    then show ?thesis
      using Pair Inr by (cases "do_record ?m (w\<lparr>w_ctl := s'\<rparr>)") (simp add: send_and_record_def Let_def split: sum.split)
  qed
qed

text \<open>The payload a reservation is made with.\<close>

definition reservation_payload :: "request_args \<Rightarrow> AudioPolicyResult \<Rightarrow> string \<Rightarrow> dict" where
  "reservation_payload a result did = record_payload a result (JObj [(''status'', JStr ''pending'')]) did"

lemma reservation_payload_keys [simp]:
  "ditem (reservation_payload a result did) ''receipt_id'' = Inr (JStr (''audio:'' @ did))"
  "ditem (reservation_payload a result did) ''created_at'' = Inr (jtime (astimezone_utc (ra_now a)))"
  "ditem (reservation_payload a result did) ''zone_id'' = Inr (JStr (ra_zone_id a))"
  "dget (reservation_payload a result did) ''reservation_status'' = JNull"
  by (simp_all add: reservation_payload_def record_payload_def ditem_def dget_def)

lemma record_reservation:
  assumes "record_decision_id (ra_decision a) = Inr did"
  shows "record_outcome cfg clock token a result None (Some [(''status'', JStr ''pending'')]) None c =
    (case reserve_audio_receipt clock token (reservation_payload a result did) (policy_limits cfg) c of
       (Inl e, c') \<Rightarrow> (Inl e, c') | (Inr x, c') \<Rightarrow> (Inr (Some x), c'))"
  using assms by (simp add: record_outcome_def cbind_def Let_def dget_def reservation_payload_def
      split: prod.split sum.split)

lemma reserved_item_reads:
  "dget (reserved_item clock token (reservation_payload a result did) l created) ''reservation_status'' = JNull"
  "dget (as_dict (dget (reserved_item clock token (reservation_payload a result did) l created) ''playback''))
     ''reservation_token'' = JStr token"
  by (simp_all add: reserved_item_def pending_playback_def) (simp add: dget_def)

text \<open>An allowed command either stops before the controller, or is sent under a granted lease.\<close>

lemma reserve_and_send_cases:
  assumes repo: "w_repo w = Some (idle d)" and ok: "ids_ok (db_audio_receipts d)"
  obtains (stopped) "w_ctl (snd (reserve_and_send cfg clock token send a result command w)) = w_ctl w"
  | (sent) did created row d1 where
      "record_decision_id (ra_decision a) = Inr did"
      "granted clock token (reservation_payload a result did) (policy_limits cfg) created row d d1"
      "reserve_and_send cfg clock token send a result command w =
        send_and_record cfg clock send a result command (Some token) (w\<lparr>w_repo := Some (idle d1)\<rparr>)"
proof (cases "record_decision_id (ra_decision a)")
  case (Inl e)
  then have "reserve_and_send cfg clock token send a result command w = (Inl e, w)"
    using repo by (simp add: reserve_and_send_def after_reservation_def do_record_def record_outcome_def cbind_def)
  then show ?thesis by (intro stopped) simp
next
  case (Inr did)
  let ?R = "reserve_audio_receipt clock token (reservation_payload a result did) (policy_limits cfg) (idle d)"
  have rec: "do_record (record_outcome cfg clock token a result None (Some [(''status'', JStr ''pending'')]) None) w =
      (case ?R of (Inl e, c') \<Rightarrow> (Inl e, w\<lparr>w_repo := Some c'\<rparr>) | (Inr x, c') \<Rightarrow> (Inr (Some x), w\<lparr>w_repo := Some c'\<rparr>))"
    using repo by (simp add: do_record_def record_reservation[OF Inr] split: prod.split sum.split)
  from ok show ?thesis
  proof (cases rule: reserve_audio_receipt_cases[where now = clock and token = token and
        receipt = "reservation_payload a result did" and l = "policy_limits cfg"])
    case (error e)
    then show ?thesis using repo rec by (intro stopped) (simp add: reserve_and_send_def after_reservation_def)
  next
    case (existing rid cur x)
    let ?again = "\<lparr>apr_allowed = True, apr_reason_code = ANNOUNCED, apr_outcome = ''announce_requested'',
      apr_command = Some command\<rparr>"
    let ?m = "record_outcome cfg clock token a ?again None (Some [(''status'', JStr ''duplicate'')]) None"
    have "w_ctl (snd (do_record ?m (w\<lparr>w_repo := Some (idle d)\<rparr>))) = w_ctl w" by simp
    then show ?thesis
      using existing(1,2) repo rec
      by (intro stopped) (cases "do_record ?m (w\<lparr>w_repo := Some (idle d)\<rparr>)";
          simp add: reserve_and_send_def after_reservation_def Let_def split: sum.split)
  next
    case (rejected reason)
    have st: "dget (rejected reason) ''reservation_status'' = JStr ''rejected''"
      by (simp add: rejected_def dget_def)
    show ?thesis
    proof (cases "AudioReasonCode_of (text_of (dget (rejected reason) ''reservation_reason''))")
      case (Inl e)
      then show ?thesis using rejected(1) repo rec st by (intro stopped) (simp add: reserve_and_send_def after_reservation_def)
    next
      case (Inr code)
      let ?m = "record_outcome cfg clock token a (suppressed code) None None None"
      have "w_ctl (snd (do_record ?m (w\<lparr>w_repo := Some (idle d)\<rparr>))) = w_ctl w" by simp
      then show ?thesis
        using Inr rejected(1) repo rec st
        by (intro stopped) (cases "do_record ?m (w\<lparr>w_repo := Some (idle d)\<rparr>)";
            simp add: reserve_and_send_def after_reservation_def Let_def split: sum.split)
    qed
  next
    case (reserved created row d1)
    have "reserve_and_send cfg clock token send a result command w =
        send_and_record cfg clock send a result command (Some token) (w\<lparr>w_repo := Some (idle d1)\<rparr>)"
      using reserved(1) repo rec by (simp add: reserve_and_send_def after_reservation_def reserved_item_reads)
    then show ?thesis by (rule sent[OF Inr reserved(2)])
  qed
qed

text \<open>After the send, the outcome is in the ledger, whatever the controller did.\<close>

definition outcome_status :: "AudioPlaybackReceipt result \<Rightarrow> string" where
  "outcome_status x = (case x of Inl _ \<Rightarrow> ''failed'' | Inr r \<Rightarrow> playback_value (pr_status r))"

definition outcome_result :: "AudioPolicyResult \<Rightarrow> AudioPlaybackReceipt result \<Rightarrow> AudioPolicyResult result" where
  "outcome_result result x = (case x of Inl e \<Rightarrow> Inl e | Inr r \<Rightarrow> Inr (after_receipt result r))"

lemma send_and_record_outcome:
  assumes did: "record_decision_id (ra_decision a) = Inr did"
    and repo: "w_repo w = Some (idle d)" and ok: "ids_ok (db_audio_receipts d)"
    and cur: "fetch_by ar_receipt_id (JStr (''audio:'' @ did)) (db_audio_receipts d) = Some cur"
    and own: "playback_status cur \<in> {JStr ''pending'', JStr ''uncertain''}" "playback_token cur = JStr tok"
  shows "\<exists>d' q. fst (send_and_record cfg clock send a result command (Some tok) w) =
      outcome_result result (fst (send command (w_ctl w))) \<and>
    w_repo (snd (send_and_record cfg clock send a result command (Some tok) w)) = Some (idle d') \<and>
    ids_ok (db_audio_receipts d') \<and>
    fetch_by ar_receipt_id (JStr (''audio:'' @ did)) (db_audio_receipts d') = Some q \<and>
    playback_status q = JStr (outcome_status (fst (send command (w_ctl w))))"
proof -
  let ?rid = "JStr (''audio:'' @ did)"
  obtain x s' where x: "send command (w_ctl w) = (x, s')" by (cases "send command (w_ctl w)")
  have fin: "\<exists>y d' q. finalize_audio_receipt clock ?rid tok (record_payload a res pb did) (idle d) = (Inr y, idle d') \<and>
      ids_ok (db_audio_receipts d') \<and> fetch_by ar_receipt_id ?rid (db_audio_receipts d') = Some q \<and>
      playback_status q = dget (as_dict pb) ''status''" for res pb
    using finalize_succeeds[OF ok cur own refl, of clock a res pb did]
    by (auto simp: playback_status_def)
  show ?thesis
  proof (cases x)
    case (Inl e)
    let ?res = "\<lparr>apr_allowed = False, apr_reason_code = ADAPTER_ERROR, apr_outcome = ''suppressed'',
      apr_command = apr_command result\<rparr>"
    let ?pb = "JObj [(''status'', JStr ''failed''), (''detail_code'', JStr ''adapter_error'')]"
    from fin[of ?res ?pb] obtain y d' q where
      "finalize_audio_receipt clock ?rid tok (record_payload a ?res ?pb did) (idle d) = (Inr y, idle d')"
      "ids_ok (db_audio_receipts d')" "fetch_by ar_receipt_id ?rid (db_audio_receipts d') = Some q"
      "playback_status q = dget (as_dict ?pb) ''status''"
      by blast
    then show ?thesis
      using x Inl repo did
      by (intro exI[of _ d'] exI[of _ q]) (simp add: send_and_record_def Let_def do_record_def record_outcome_def cbind_def
          outcome_result_def outcome_status_def dget_def)
  next
    case (Inr r)
    let ?res = "after_receipt result r"
    let ?pb = "JObj (receipt_dump r)"
    from fin[of ?res ?pb] obtain y d' q where
      "finalize_audio_receipt clock ?rid tok (record_payload a ?res ?pb did) (idle d) = (Inr y, idle d')"
      "ids_ok (db_audio_receipts d')" "fetch_by ar_receipt_id ?rid (db_audio_receipts d') = Some q"
      "playback_status q = dget (as_dict ?pb) ''status''"
      by blast
    then show ?thesis
      using x Inr repo did
      by (intro exI[of _ d'] exI[of _ q]) (simp add: send_and_record_def Let_def do_record_def record_outcome_def cbind_def
          outcome_result_def outcome_status_def receipt_dump_def dget_def)
  qed
qed

lemma request_eq:
  "request env cfg clock token send a w =
    (case rbind (AudioPolicyContext_post_init (request_context a)) (audio_evaluate env cfg (ra_decision a)) of
       Inl e \<Rightarrow> (Inl e, w)
     | Inr result \<Rightarrow> (case apr_command result of
         Some command \<Rightarrow> reserve_and_send cfg clock token send a result command w
       | None \<Rightarrow> (case do_record (record_outcome cfg clock token a result None None None) w of
           (Inl e, w1) \<Rightarrow> (Inl e, w1) | (Inr _, w1) \<Rightarrow> (Inr result, w1))))"
  by (simp add: request_def)

text \<open>A request either never reaches the controller, or sends its policy's command under its lease.\<close>

lemma request_cases:
  assumes repo: "w_repo w = Some (idle d)" and ok: "ids_ok (db_audio_receipts d)"
  obtains (silent) "w_ctl (snd (request env cfg clock token send a w)) = w_ctl w"
  | (sent) result command did created row d1 where
      "gates_open cfg (ra_decision a) (request_context a)"
      "audio_evaluate env cfg (ra_decision a) (request_context a) = Inr result"
      "apr_command result = Some command"
      "record_decision_id (ra_decision a) = Inr did"
      "granted clock token (reservation_payload a result did) (policy_limits cfg) created row d d1"
      "request env cfg clock token send a w =
        send_and_record cfg clock send a result command (Some token) (w\<lparr>w_repo := Some (idle d1)\<rparr>)"
proof (cases "rbind (AudioPolicyContext_post_init (request_context a)) (audio_evaluate env cfg (ra_decision a))")
  case (Inl e)
  then show ?thesis by (intro silent) (simp add: request_eq)
next
  case (Inr result)
  then have ev: "audio_evaluate env cfg (ra_decision a) (request_context a) = Inr result"
    by (auto simp: rbind_Inr AudioPolicyContext_post_init_def split: datetime.splits if_splits)
  show ?thesis
  proof (cases "apr_command result")
    case None
    let ?m = "do_record (record_outcome cfg clock token a result None None None) w"
    have "w_ctl (snd ?m) = w_ctl w" by simp
    then show ?thesis
      using Inr None by (intro silent) (cases ?m; simp add: request_eq split: sum.split)
  next
    case (Some command)
    then have eq: "request env cfg clock token send a w = reserve_and_send cfg clock token send a result command w"
      using Inr by (simp add: request_eq)
    from repo ok show ?thesis
    proof (cases rule: reserve_and_send_cases[where cfg = cfg and clock = clock and token = token and
          send = send and a = a and result = result and command = command])
      case stopped
      then show ?thesis by (intro silent) (simp add: eq)
    next
      case (sent did created row d1)
      note s = that(2)
      show ?thesis
        by (rule s[OF audio_evaluate_command(1)[OF ev Some] ev Some sent(1,2)]) (simp add: eq sent(3))
    qed
  qed
qed

section \<open>The ledger operations behind a request\<close>

lemma run_ops_simps [simp]:
  "run_ops [] c = c" "run_ops [oper] c = snd (run_op oper c)"
  "run_ops ops' (run_ops ops c) = run_ops (ops @ ops') c"
  by (simp_all add: run_ops_def)

lemma snd_cbind_ret: "snd (cbind m (\<lambda>x. cret (f x)) c) = snd (m c)"
  by (simp add: cbind_def cret_def split: prod.split sum.split)

lemma record_outcome_ops: "\<exists>ops. snd (record_outcome cfg clock token a result receipt override reservation c) = run_ops ops c"
proof (cases "record_decision_id (ra_decision a)")
  case (Inl e)
  then have "snd (record_outcome cfg clock token a result receipt override reservation c) = run_ops [] c"
    by (simp add: record_outcome_def cbind_def)
  then show ?thesis ..
next
  case (Inr did)
  have "\<exists>oper. snd (record_outcome cfg clock token a result receipt override reservation c) = snd (run_op oper c)"
    unfolding record_outcome_def Inr cbind_clift Let_def
    by (auto simp: snd_cbind_ret split: option.splits simp del: run_op.simps
        intro: run_op.simps[symmetric, THEN fun_cong, THEN arg_cong[where f = snd]])
  then show ?thesis by (metis run_ops_simps(2))
qed
lemma do_record_repo:
  assumes "w_repo w = Some c"
  shows "\<exists>ops. w_repo (snd (do_record (record_outcome cfg clock token a result receipt override reservation) w)) =
    Some (run_ops ops c)"
  using record_outcome_ops[of cfg clock token a result receipt override reservation c] assms
  by (auto simp: do_record_def split: prod.splits)

lemma do_record_case:
  "w_repo (snd (case do_record m w of (Inl e, w1) \<Rightarrow> (Inl e, w1) | (Inr y, w1) \<Rightarrow> (Inr (f y), w1))) =
    w_repo (snd (do_record m w))"
  by (simp split: prod.split sum.split)

lemma send_and_record_repo:
  assumes "w_repo w = Some c"
  shows "\<exists>ops. w_repo (snd (send_and_record cfg clock send a result command reservation w)) = Some (run_ops ops c)"
proof (cases "send command (w_ctl w)")
  case (Pair x s')
  have repo: "w_repo (w\<lparr>w_ctl := s'\<rparr>) = Some c" using assms by simp
  show ?thesis
  proof (cases x)
    case (Inl e)
    then show ?thesis
      using Pair do_record_repo[OF repo] run_ops_simps(1)[of c] assms
      by (cases reservation) (auto simp: send_and_record_def Let_def intro: exI[of _ "[]"])
  next
    case (Inr r)
    then show ?thesis
      using Pair do_record_repo[OF repo] by (simp add: send_and_record_def Let_def do_record_case)
  qed
qed

lemma two_records_repo:
  assumes "w_repo w = Some c" and "\<And>y w1. \<exists>c1. w_repo w1 = Some c1 \<Longrightarrow>
      \<exists>ops. w_repo (snd (k y w1)) = Some (run_ops ops (the (w_repo w1)))"
  shows "\<exists>ops. w_repo (snd (case do_record (record_outcome cfg clock token a result receipt override reservation) w of
      (Inl e, w1) \<Rightarrow> (Inl e, w1) | (Inr y, w1) \<Rightarrow> k y w1)) = Some (run_ops ops c)"
proof -
  let ?m = "do_record (record_outcome cfg clock token a result receipt override reservation) w"
  obtain ops where ops: "w_repo (snd ?m) = Some (run_ops ops c)" using do_record_repo[OF assms(1)] by blast
  show ?thesis
  proof (cases "fst ?m")
    case (Inr y)
    then show ?thesis
      using assms(2)[of "snd ?m" y] ops by (cases ?m) (auto intro: exI[of _ "ops @ _"])
  qed (use ops in \<open>cases ?m; auto\<close>)
qed

lemma reserve_and_send_repo:
  assumes "w_repo w = Some c"
  shows "\<exists>ops. w_repo (snd (reserve_and_send cfg clock token send a result command w)) = Some (run_ops ops c)"
proof -
  have "\<exists>ops. w_repo (snd (after_reservation cfg clock token send a result command y w1)) =
      Some (run_ops ops (the (w_repo w1)))" if c1: "w_repo w1 = Some c1" for y w1 c1
    using send_and_record_repo[OF c1] do_record_repo[OF c1] exI[of "\<lambda>ops. c1 = run_ops ops c1" "[]"] c1
    by (auto simp: after_reservation_def Let_def do_record_case split: option.split sum.split)
  then show ?thesis
    using two_records_repo[OF assms, of "after_reservation cfg clock token send a result command"
        cfg clock token a result None "Some [(''status'', JStr ''pending'')]" None] assms
    by (auto simp: reserve_and_send_def)
qed

lemma request_repo:
  assumes "w_repo w = Some c"
  shows "\<exists>ops. w_repo (snd (request env cfg clock token send a w)) = Some (run_ops ops c)"
  using reserve_and_send_repo[OF assms] do_record_repo[OF assms] exI[of "\<lambda>ops. c = run_ops ops c" "[]"] assms
  by (auto simp: request_eq do_record_case split: sum.split option.split)
section \<open>Sequences of requests\<close>

text \<open>The controller with a log of what it was asked and what it answered, each entry with the
  request it served; \<open>serve\<close> handles one request after the other, each with its own clock reading
  and reservation token.\<close>

type_synonym 'c traced = "'c \<times> (request_args \<times> AudioCommand \<times> AudioPlaybackReceipt result) list"

definition traced :: "request_args \<Rightarrow> 'c sender \<Rightarrow> 'c traced sender" where
  "traced a send command st = (case st of (s, entries) \<Rightarrow>
     (case send command s of (x, s') \<Rightarrow> (x, s', entries @ [(a, command, x)])))"

fun serve :: "audio_env \<Rightarrow> AudioPolicyConfig \<Rightarrow> 'c sender \<Rightarrow> (time_us \<times> string \<times> request_args) list \<Rightarrow>
    'c traced world \<Rightarrow> 'c traced world" where
  "serve env cfg send [] w = w"
| "serve env cfg send ((clock, token, a) # rs) w =
    serve env cfg send rs (snd (request env cfg clock token (traced a send) a w))"

lemma traced_log: "snd (snd (traced a send command st)) = snd st @ [(a, command, fst (traced a send command st))]"
  by (cases st) (simp add: traced_def split: prod.split)

text \<open>An outcome that settles the receipt.\<close>

definition final_outcome :: "AudioPlaybackReceipt result \<Rightarrow> bool" where
  "final_outcome x \<longleftrightarrow> outcome_status x \<in> {''accepted'', ''duplicate'', ''expired''}"

definition settled_log :: "(request_args \<times> AudioCommand \<times> AudioPlaybackReceipt result) list \<Rightarrow> string result list" where
  "settled_log entries = map (\<lambda>(a, _, _). record_decision_id (ra_decision a)) (filter (\<lambda>(_, _, x). final_outcome x) entries)"

lemma settled_log_append [simp]:
  "settled_log [] = []"
  "settled_log (entries @ [(a, command, x)]) =
    settled_log entries @ (if final_outcome x then [record_decision_id (ra_decision a)] else [])"
  by (simp_all add: settled_log_def)

text \<open>Every decision of the settled log has a settled receipt, and no decision is there twice.\<close>

definition serve_inv :: "'c traced world \<Rightarrow> bool" where
  "serve_inv w \<longleftrightarrow> (\<exists>c. w_repo w = Some c \<and> ledger_inv c \<and> distinct (settled_log (snd (w_ctl w))) \<and>
    (\<forall>x \<in> set (settled_log (snd (w_ctl w))). \<exists>did. x = Inr did \<and>
      lease (receipt_fact (JStr (''audio:'' @ did)) c) = Settled))"

lemma settled_run_ops:
  assumes "ledger_inv c" and "lease (receipt_fact rid c) = Settled"
  shows "lease (receipt_fact rid (run_ops ops c)) = Settled"
  using sqlite_ledger.settled_forever[OF assms, of ops] assms(2) by (simp add: run_ops_run)

lemma request_traced_cases:
  assumes repo: "w_repo w = Some c" and inv: "ledger_inv c"
  obtains (silent) "snd (w_ctl (snd (request env cfg clock token (traced a send) a w))) = snd (w_ctl w)"
  | (sent) result command did created row d d1 x q where "c = idle d"
      "gates_open cfg (ra_decision a) (request_context a)"
      "audio_evaluate env cfg (ra_decision a) (request_context a) = Inr result"
      "apr_command result = Some command"
      "record_decision_id (ra_decision a) = Inr did"
      "granted clock token (reservation_payload a result did) (policy_limits cfg) created row d d1"
      "snd (w_ctl (snd (request env cfg clock token (traced a send) a w))) = snd (w_ctl w) @ [(a, command, x)]"
      "fst (request env cfg clock token (traced a send) a w) = outcome_result result x"
      "receipt_fact (JStr (''audio:'' @ did)) (the (w_repo (snd (request env cfg clock token (traced a send) a w)))) = Some q"
      "playback_status q = JStr (outcome_status x)"
proof -
  obtain d where c: "c = idle d" and ok: "ids_ok (db_audio_receipts d)"
    using inv by (auto simp: ledger_inv_def)
  have repo': "w_repo w = Some (idle d)" using repo c by simp
  from repo' ok show ?thesis
  proof (cases rule: request_cases[where env = env and cfg = cfg and clock = clock and token = token and
        send = "traced a send" and a = a])
    case silent
    then show ?thesis by (intro that(1)) simp
  next
    case (sent result command did created row d1)
    note e = granted_effect[OF sent(5)]
    have rid: "ar_receipt_id row = JStr (''audio:'' @ did)" using e(4) by simp
    have ok1: "ids_ok (db_audio_receipts d1)" using ok e(1,2) by simp
    have cur: "fetch_by ar_receipt_id (JStr (''audio:'' @ did)) (db_audio_receipts d1) = Some row"
      using ok e(1,2) by (simp add: fetch_upsert rid)
    let ?w1 = "w\<lparr>w_repo := Some (idle d1)\<rparr>"
    have own: "playback_status row \<in> {JStr ''pending'', JStr ''uncertain''}" using e(5) by simp
    have repo1: "w_repo ?w1 = Some (idle d1)" by simp
    from send_and_record_outcome[OF sent(4) repo1 ok1 cur own e(6), of cfg clock "traced a send" result command]
    obtain d' q where o: "fst (request env cfg clock token (traced a send) a w) =
          outcome_result result (fst (traced a send command (w_ctl w)))"
        "w_repo (snd (request env cfg clock token (traced a send) a w)) = Some (idle d')"
        "fetch_by ar_receipt_id (JStr (''audio:'' @ did)) (db_audio_receipts d') = Some q"
        "playback_status q = JStr (outcome_status (fst (traced a send command (w_ctl w))))"
      unfolding sent(6) by auto
    have l: "snd (w_ctl (snd (request env cfg clock token (traced a send) a w))) =
        snd (w_ctl w) @ [(a, command, fst (traced a send command (w_ctl w)))]"
      unfolding sent(6) send_and_record_ctl traced_log by simp
    have "receipt_fact (JStr (''audio:'' @ did)) (the (w_repo (snd (request env cfg clock token (traced a send) a w)))) = Some q"
      using o(2,3) by (simp add: receipt_fact_def)
    from that(2)[OF c sent(1-5) l o(1) this o(4)] show ?thesis .
  qed
qed

lemma serve_inv_request:
  assumes "serve_inv w"
  shows "serve_inv (snd (request env cfg clock token (traced a send) a w))"
proof -
  let ?w' = "snd (request env cfg clock token (traced a send) a w)"
  obtain c where c: "w_repo w = Some c" "ledger_inv c" and dist: "distinct (settled_log (snd (w_ctl w)))"
    and all: "\<And>x. x \<in> set (settled_log (snd (w_ctl w))) \<Longrightarrow>
      \<exists>did. x = Inr did \<and> lease (receipt_fact (JStr (''audio:'' @ did)) c) = Settled"
    using assms by (auto simp: serve_inv_def)
  obtain ops where ops: "w_repo ?w' = Some (run_ops ops c)" using request_repo[OF c(1)] by blast
  note kept = settled_run_ops[OF c(2), of _ ops]
  have inv': "ledger_inv (run_ops ops c)" by (rule ledger_inv_run_ops[OF c(2)])
  from c show ?thesis
  proof (cases rule: request_traced_cases[where env = env and cfg = cfg and clock = clock and token = token and
        send = send and a = a])
    case silent
    then show ?thesis
      using ops inv' dist all kept unfolding serve_inv_def by fastforce
  next
    case (sent result command did created row d d1 x q)
    have free: "lease (receipt_fact (JStr (''audio:'' @ did)) c) = Free"
      using granted_effect(3,4)[OF sent(6)] by (simp add: receipt_fact_def sent(1))
    then have new: "Inr did \<notin> set (settled_log (snd (w_ctl w)))" using all by force
    have "lease (receipt_fact (JStr (''audio:'' @ did)) (run_ops ops c)) = Settled" if "final_outcome x"
      using that sent(9,10) ops by (auto simp: lease_def final_outcome_def)
    then show ?thesis
      using ops inv' dist all kept new sent(5,7) unfolding serve_inv_def by fastforce
  qed
qed

lemma serve_inv_serve: "serve_inv w \<Longrightarrow> serve_inv (serve env cfg send rs w)"
proof (induction env cfg send rs w rule: serve.induct)
  case (2 env cfg send clock token a rs w)
  show ?case unfolding serve.simps by (rule "2.IH"[OF serve_inv_request[OF "2.prems"]])
qed simp

section \<open>Properties\<close>

text \<open>A request that passes every gate, a fresh repository and the in-memory controller.\<close>

definition sample_request :: request_args where
  "sample_request = \<lparr>ra_decision = sample_audio_decision, ra_camera_id = ''cam'', ra_zone_id = ''hall'',
     ra_now = Aware 100, ra_announced_at = [], ra_hourly_count = 0, ra_daily_count = 0, ra_site_muted = False,
     ra_zone_muted = False, ra_camera_muted = False, ra_camera_suspended = False\<rparr>"

definition sample_world :: "fake_controller traced world" where
  "sample_world = \<lparr>w_repo = Some (idle empty_db), w_ctl = (fake_new None None, [])\<rparr>"

definition sample_served :: "AudioPolicyResult result \<times> fake_controller traced world" where
  "sample_served = request sample_audio_env sample_audio_config 100 ''t1'' (traced sample_request (fake_send 100))
     sample_request sample_world"

lemma sample_world_repo: "w_repo sample_world = Some (idle empty_db)" "snd (w_ctl sample_world) = []"
  by (simp_all add: sample_world_def)

lemma sample_served_log: "length (snd (w_ctl (snd sample_served))) = 1"
  by code_simp



text \<open>Property C1.  Over any sequence of requests, for any decisions, clocks, tokens and controller
  behaviour, no decision is announced twice: among the commands the controller answered with
  accepted, duplicate or expired, each decision id occurs at most once, and the ledger keeps a
  settled receipt for each of them.\<close>

theorem no_decision_announced_twice:
  assumes "w_repo w = Some c" and "ledger_inv c" and "snd (w_ctl w) = []"
  shows "distinct (settled_log (snd (w_ctl (serve env cfg send rs w)))) \<and>
    list_all (\<lambda>x. case x of Inl _ \<Rightarrow> False
      | Inr did \<Rightarrow> lease (receipt_fact (JStr (''audio:'' @ did)) (the (w_repo (serve env cfg send rs w)))) = Settled)
      (settled_log (snd (w_ctl (serve env cfg send rs w))))"
proof -
  have "serve_inv w" using assms by (simp add: serve_inv_def)
  from serve_inv_serve[OF this, of env cfg send rs] show ?thesis
    unfolding serve_inv_def list_all_iff by fastforce
qed

theorem no_decision_announced_twice_witness:
  "settled_log (snd (w_ctl (serve sample_audio_env sample_audio_config (fake_send 100)
      [(100, ''t1'', sample_request), (101, ''t2'', sample_request)] sample_world))) = [Inr ''d1''] \<and>
   distinct (settled_log (snd (w_ctl (serve sample_audio_env sample_audio_config (fake_send 100)
      [(100, ''t1'', sample_request), (101, ''t2'', sample_request)] sample_world))))"
proof
  show "distinct (settled_log (snd (w_ctl (serve sample_audio_env sample_audio_config (fake_send 100)
      [(100, ''t1'', sample_request), (101, ''t2'', sample_request)] sample_world))))"
    using no_decision_announced_twice[OF sample_world_repo(1) ledger_inv_empty sample_world_repo(2)] by blast
qed code_simp

end
