(* ===== verification/Idempotency.thy ===== *)
theory Idempotency
  imports Evaluation_Store
begin

text \<open>
  Correctness of idempotent evaluations: what a claim returns in every situation, that completion
  is atomic and fenced by the claim, and that over all interleavings of claims, completions,
  failures and crashes a key completes at most once.
\<close>

section \<open>The evaluation table\<close>

definition evals_ok :: "evaluation_row list \<Rightarrow> bool" where
  "evals_ok rows \<longleftrightarrow> distinct (map ev_evaluation_id rows) \<and> (\<forall>r \<in> set rows. ev_evaluation_id r \<noteq> JNull) \<and>
    distinct (map ev_idempotency_key (filter (\<lambda>r. ev_idempotency_key r \<noteq> JNull) rows))"

lemma evals_ok_filter: "evals_ok rows \<Longrightarrow> evals_ok (filter p rows)"
  unfolding evals_ok_def
proof (elim conjE, intro conjI)
  assume d: "distinct (map ev_idempotency_key (filter (\<lambda>r. ev_idempotency_key r \<noteq> JNull) rows))"
  have "filter (\<lambda>r. ev_idempotency_key r \<noteq> JNull) (filter p rows) =
      filter p (filter (\<lambda>r. ev_idempotency_key r \<noteq> JNull) rows)"
    by (simp add: conj_commute)
  then show "distinct (map ev_idempotency_key (filter (\<lambda>r. ev_idempotency_key r \<noteq> JNull) (filter p rows)))"
    using distinct_map_filter[OF d, of p] by metis
qed (auto intro: distinct_map_filter)

lemma evals_ok_append:
  "evals_ok rows \<Longrightarrow> ev_evaluation_id r \<noteq> JNull \<Longrightarrow> ev_evaluation_id r \<notin> set (map ev_evaluation_id rows) \<Longrightarrow>
    ev_idempotency_key r \<notin> set (map ev_idempotency_key rows) \<Longrightarrow> evals_ok (rows @ [r])"
  by (auto simp: evals_ok_def)

lemma evals_ok_update:
  assumes "evals_ok rows" and "\<And>r. p r \<Longrightarrow> ev_evaluation_id (f r) = ev_evaluation_id r"
    and "\<And>r. p r \<Longrightarrow> ev_idempotency_key (f r) = ev_idempotency_key r"
  shows "evals_ok (update_rows p f rows)"
proof -
  have ids: "map ev_evaluation_id (update_rows p f rows) = map ev_evaluation_id rows"
    by (rule map_update_rows_key) (rule assms(2))
  have keys: "map ev_idempotency_key (filter (\<lambda>r. ev_idempotency_key r \<noteq> JNull) (update_rows p f rows)) =
      map ev_idempotency_key (filter (\<lambda>r. ev_idempotency_key r \<noteq> JNull) rows)"
    unfolding update_rows_def by (induction rows) (auto simp: assms(3))
  show ?thesis
    using assms(1) unfolding evals_ok_def ids keys by (auto simp: update_rows_def assms(2))
qed

text \<open>Both columns identify a row.\<close>

lemma evals_ok_same_key:
  assumes "evals_ok rows" "r \<in> set rows" "q \<in> set rows"
    "ev_idempotency_key r = ev_idempotency_key q" "ev_idempotency_key r \<noteq> JNull"
  shows "r = q"
  using assms unfolding evals_ok_def distinct_map by (auto dest: inj_onD)

lemma evals_ok_same_id:
  assumes "evals_ok rows" "r \<in> set rows" "q \<in> set rows" "ev_evaluation_id r = ev_evaluation_id q"
  shows "r = q"
  using assms unfolding evals_ok_def distinct_map by (auto dest: inj_onD)

lemma fetch_eval_id:
  assumes "evals_ok rows" "r \<in> set rows"
  shows "fetch_by ev_evaluation_id (ev_evaluation_id r) rows = Some r"
  using assms by (intro fetch_by_distinct) (auto simp: evals_ok_def)

lemma fetch_eval_key:
  assumes "evals_ok rows" "r \<in> set rows" "ev_idempotency_key r \<noteq> JNull"
  shows "fetch_by ev_idempotency_key (ev_idempotency_key r) rows = Some r"
proof (cases "fetch_by ev_idempotency_key (ev_idempotency_key r) rows")
  case None
  then show ?thesis using assms by (auto simp: fetch_by_None)
next
  case (Some q)
  note f = fetch_by_Some[OF Some]
  show ?thesis
    using Some evals_ok_same_key[OF assms(1,2) f(1) f(2)[symmetric] assms(3)] by simp
qed

section \<open>Claims\<close>

lemma insert_claim:
  assumes "ev_evaluation_id r \<noteq> JNull" and "ev_evaluation_id r \<notin> set (map ev_evaluation_id (db_evaluations d))"
    and "ev_decision_id r = JNull" and "not_null [ev_status r, ev_created_at r, ev_updated_at r]"
    and "ev_idempotency_key r \<noteq> JNull"
  shows "insert_evaluation r d =
    (if ev_idempotency_key r \<in> set (map ev_idempotency_key (db_evaluations d)) then Inr (0, d)
     else Inr (1, d\<lparr>db_evaluations := db_evaluations d @ [r]\<rparr>))"
  using assms by (auto simp: insert_evaluation_def evaluation_foreign_key_def)

lemma claim_row_fields [simp]:
  "ev_evaluation_id (claim_row now eid key camera fp) = eid"
  "ev_idempotency_key (claim_row now eid key camera fp) = key"
  "ev_decision_id (claim_row now eid key camera fp) = JNull"
  "ev_status (claim_row now eid key camera fp) = JStr ''running''"
  "ev_request_fingerprint (claim_row now eid key camera fp) = fp"
  "ev_claim_expires_at (claim_row now eid key camera fp) = jtime (now + 300 * us_per_second)"
  "ev_created_at (claim_row now eid key camera fp) = jtime now"
  "ev_updated_at (claim_row now eid key camera fp) = jtime now"
  by (simp_all add: claim_row_def Let_def EVALUATION_LEASE_SECONDS_def)

text \<open>The predecessor of a granted claim is dropped: it was stale or failed.\<close>

definition claimable :: "time_us \<Rightarrow> evaluation_row \<Rightarrow> bool result" where
  "claimable later r = rbind (stale_running later r) (\<lambda>stale. Inr (stale \<or> ev_status r = JStr ''failed''))"

lemma release_claim_open:
  assumes ok: "evals_ok (db_evaluations d)" and r: "fetch_by ev_idempotency_key key (db_evaluations d) = Some r"
  shows "release_claim later key fp r (open_on d d) =
    (if fp \<noteq> ev_request_fingerprint r then (Inl IdempotencyConflictError, open_on d d)
     else case claimable later r of
       Inl e \<Rightarrow> (Inl e, open_on d d)
     | Inr True \<Rightarrow> (Inr (), open_on d (d\<lparr>db_evaluations := filter (\<lambda>q. q \<noteq> r) (db_evaluations d)\<rparr>))
     | Inr False \<Rightarrow> (Inr (), open_on d d))"
proof -
  note f = fetch_by_Some[OF r]
  have drop: "filter (\<lambda>q. sql_eq (ev_evaluation_id q) (ev_evaluation_id r) \<longrightarrow>
        sql_eq (ev_idempotency_key q) key \<longrightarrow> ev_status q \<noteq> s) (db_evaluations d) =
      filter (\<lambda>q. q \<noteq> r) (db_evaluations d)" if "ev_status r = s" for s
    using that f evals_ok_same_id[OF ok _ f(1)] ok
    by (intro filter_cong) (auto simp: sql_eq_def evals_ok_def)
  show ?thesis
  proof (cases "stale_running later r")
    case (Inl e)
    then show ?thesis by (simp add: release_claim_def claimable_def cbind_def)
  next
    case (Inr stale)
    have run: "ev_status r = JStr ''running''" if stale
      using Inr that by (simp add: stale_running_def split: if_splits)
    show ?thesis
      using Inr drop[OF run] drop[of "JStr ''failed''"]
      by (cases stale; cases "ev_status r = JStr ''failed''")
        (simp_all add: release_claim_def claimable_def cbind_def delete_evaluations_def)
  qed
qed

text \<open>The specification of a claim: the key is free, or its holder is stale or failed, and the caller
  wins; the key was used for another request, and the claim is refused; or the holder's evaluation
  is returned.\<close>

definition claim_spec :: "time_us \<Rightarrow> time_us \<Rightarrow> json \<Rightarrow> json \<Rightarrow> json \<Rightarrow> json \<Rightarrow> db \<Rightarrow> dict option result \<times> db" where
  "claim_spec now later eid key camera fp d =
    (let won = (\<lambda>rows. (Inr None, d\<lparr>db_evaluations := rows @ [claim_row now eid key camera fp]\<rparr>)) in
     case fetch_by ev_idempotency_key key (db_evaluations d) of
       None \<Rightarrow> won (db_evaluations d)
     | Some r \<Rightarrow>
         if fp \<noteq> ev_request_fingerprint r then (Inl IdempotencyConflictError, d)
         else case claimable later r of
           Inl e \<Rightarrow> (Inl e, d)
         | Inr True \<Rightarrow> won (filter (\<lambda>q. q \<noteq> r) (db_evaluations d))
         | Inr False \<Rightarrow> (Inr (Some (evaluation_payload r)), d))"

lemma claim_transaction_open:
  assumes eid: "eid \<noteq> JNull" "eid \<notin> set (map ev_evaluation_id (db_evaluations d1))" and key: "key \<noteq> JNull"
  shows "cbind (sql_write (insert_evaluation (claim_row now eid key camera fp))) (\<lambda>n. cbind commit (\<lambda>_. cret n))
      (open_on d d1) =
    (if key \<in> set (map ev_idempotency_key (db_evaluations d1)) then (Inr 0, idle d1)
     else (Inr 1, idle (d1\<lparr>db_evaluations := db_evaluations d1 @ [claim_row now eid key camera fp]\<rparr>)))"
  using insert_claim[of "claim_row now eid key camera fp" d1] assms
  by (simp add: cbind_def not_null_def)

lemma claim_evaluation_idle:
  assumes ok: "evals_ok (db_evaluations d)" and key: "key \<noteq> JNull"
    and eid: "eid \<noteq> JNull" "eid \<notin> set (map ev_evaluation_id (db_evaluations d))"
  shows "claim_evaluation now later eid key camera fp (idle d) =
    (let (r, d') = claim_spec now later eid key camera fp d in (r, idle d'))"
proof -
  let ?ins = "cbind (sql_write (insert_evaluation (claim_row now eid key camera fp))) (\<lambda>n. cbind commit (\<lambda>_. cret n))"
  let ?rows = "db_evaluations d"
  show ?thesis
  proof (cases "fetch_by ev_idempotency_key key ?rows")
    case None
    then have "key \<notin> set (map ev_idempotency_key ?rows)"
      using key by (simp add: fetch_by_None)
    then have "?ins (open_on d d) = (Inr 1, idle (d\<lparr>db_evaluations := ?rows @ [claim_row now eid key camera fp]\<rparr>))"
      using claim_transaction_open[OF eid key] by simp
    then show ?thesis
      using None by (simp add: claim_evaluation_def claim_transaction_def claim_spec_def Let_def
          rollback_on_error_def cbind_def)
  next
    case (Some r)
    note f = fetch_by_Some[OF Some]
    note rel = release_claim_open[OF ok Some, of later fp]
    note unf = claim_evaluation_def claim_transaction_def claim_spec_def Let_def rollback_on_error_def
    show ?thesis
    proof (cases "fp \<noteq> ev_request_fingerprint r")
      case True
      then show ?thesis using Some rel by (simp add: unf cbind_def)
    next
      case False
      show ?thesis
      proof (cases "claimable later r")
        case (Inl e)
        then show ?thesis using Some rel False by (simp add: unf cbind_def)
      next
        case (Inr won)
        let ?rest = "filter (\<lambda>q. q \<noteq> r) ?rows"
        have "key \<notin> set (map ev_idempotency_key ?rest)"
          using evals_ok_same_key[OF ok f(1)] f(2,3) by auto
        moreover have "eid \<notin> set (map ev_evaluation_id ?rest)"
          using eid(2) by auto
        ultimately have w: "?ins (open_on d (d\<lparr>db_evaluations := ?rest\<rparr>)) =
            (Inr 1, idle (d\<lparr>db_evaluations := ?rest @ [claim_row now eid key camera fp]\<rparr>))"
          using claim_transaction_open[OF eid(1) _ key, of "d\<lparr>db_evaluations := ?rest\<rparr>"] by simp
        have k: "?ins (open_on d d) = (Inr 0, idle d)"
          using claim_transaction_open[OF eid key] f by auto
        have g: "get_evaluation_by_idempotency key (idle d) = (Inr (Some (evaluation_payload r)), idle d)"
          using Some fetch_eval_id[OF ok f(1)]
          by (simp add: get_evaluation_by_idempotency_def get_evaluation_def cbind_def)
        show ?thesis
          using Some rel False Inr w k g by (cases won) (simp_all add: unf cbind_def[of begin_immediate]
              cbind_def[of "sql_read _"] cbind_def[of "release_claim _ _ _ _"]
              cbind_def[of "rollback_on_error _"])
      qed
    qed
  qed
qed

section \<open>Completion\<close>

lemma put_decision_open:
  "(\<exists>e. put_decision now decision (open_on d0 d) = (Inl e, open_on d0 d)) \<or>
   (\<exists>row. put_decision now decision (open_on d0 d) =
       (Inr (dsetdefault decision ''created_at'' (jtime now)), open_on d0 (d\<lparr>db_decisions := db_decisions d @ [row]\<rparr>)) \<and>
     decision_row_of (dsetdefault decision ''created_at'' (jtime now)) = Inr row \<and>
     insert_decision row d = Inr ((), d\<lparr>db_decisions := db_decisions d @ [row]\<rparr>))"
proof (cases "decision_row_of (dsetdefault decision ''created_at'' (jtime now))")
  case (Inl e)
  then show ?thesis by (simp add: put_decision_def Let_def cbind_def)
next
  case (Inr row)
  then show ?thesis
    by (auto simp: put_decision_def Let_def cbind_def insert_decision_def insert_row_def)
qed

lemma evaluation_item_keeps:
  "k \<notin> {''created_at'', ''updated_at'', ''decision_id''} \<Longrightarrow>
    ditem (evaluation_item now evaluation) k = ditem evaluation k \<and>
    dget (evaluation_item now evaluation) k = dget evaluation k"
  by (simp add: evaluation_item_def Let_def)

definition completed_row :: "dict \<Rightarrow> json \<Rightarrow> json \<Rightarrow> evaluation_row \<Rightarrow> evaluation_row \<Rightarrow> evaluation_row" where
  "completed_row item status updated existing r = r\<lparr>
     ev_decision_id := dget item ''decision_id'', ev_status := status,
     ev_result := dget item ''result'', ev_payload := JObj item,
     ev_request_fingerprint := dget_default item ''request_fingerprint'' (ev_request_fingerprint existing),
     ev_claim_expires_at := dget_default item ''claim_expires_at'' (ev_claim_expires_at existing),
     ev_updated_at := updated\<rparr>"

lemma completed_row_fields [simp]:
  "ev_evaluation_id (completed_row item status updated existing r) = ev_evaluation_id r"
  "ev_idempotency_key (completed_row item status updated existing r) = ev_idempotency_key r"
  "ev_status (completed_row item status updated existing r) = status"
  "ev_decision_id (completed_row item status updated existing r) = dget item ''decision_id''"
  by (simp_all add: completed_row_def)

lemma complete_evaluation_open:
  assumes eid: "ditem item ''evaluation_id'' = Inr eid"
    and key: "ev_idempotency_key existing = dget item ''idempotency_key''"
  shows "(\<exists>e. complete_evaluation item existing (open_on d0 d) = (Inl e, open_on d0 d)) \<or>
    (\<exists>status updated. complete_evaluation item existing (open_on d0 d) =
        (Inr (), open_on d0 (d\<lparr>db_evaluations := update_rows (\<lambda>r. sql_eq (ev_evaluation_id r) eid)
          (completed_row item status updated existing) (db_evaluations d)\<rparr>)) \<and>
      ditem item ''status'' = Inr status \<and>
      ((\<exists>r \<in> set (db_evaluations d). sql_eq (ev_evaluation_id r) eid) \<longrightarrow>
        evaluation_foreign_key (dget item ''decision_id'') d))"
proof (cases "rbind (ditem item ''status'') (\<lambda>s. rbind (ditem item ''updated_at'') (\<lambda>u. Inr (s, u)))")
  case (Inl e)
  then show ?thesis
    using key by (cases "ditem item ''status''"; cases "ditem item ''updated_at''")
      (auto simp: complete_evaluation_def cbind_def)
next
  case (Inr p)
  obtain status updated where su: "ditem item ''status'' = Inr status" "ditem item ''updated_at'' = Inr updated"
    using Inr by (auto simp: rbind_Inr)
  let ?f = "completed_row item status updated existing"
  have run: "complete_evaluation item existing (open_on d0 d) = sql_write (update_evaluation eid ?f) (open_on d0 d)"
    using su eid key by (simp add: complete_evaluation_def cbind_def completed_row_def[abs_def])
  show ?thesis
  proof (cases "update_evaluation eid ?f d")
    case (Inl e)
    then show ?thesis by (simp add: run)
  next
    case (Inr q)
    then have q: "q = ((), d\<lparr>db_evaluations := update_rows (\<lambda>r. sql_eq (ev_evaluation_id r) eid) ?f (db_evaluations d)\<rparr>)"
      and fk: "list_all (\<lambda>r. evaluation_foreign_key (ev_decision_id (?f r)) d)
        (filter (\<lambda>r. sql_eq (ev_evaluation_id r) eid) (db_evaluations d))"
      by (simp_all add: update_evaluation_def Let_def split: if_splits)
    show ?thesis
      using run Inr su fk unfolding q by (auto simp: list_all_iff)
  qed
qed

text \<open>In a table with unique ids and keys, the row found by either is the row itself.\<close>

lemma find_saved:
  assumes ok: "evals_ok rows" and r: "r \<in> set rows" and key: "ev_idempotency_key r = key" "key \<noteq> JNull"
  shows "find (\<lambda>q. sql_eq (ev_evaluation_id q) (ev_evaluation_id r) \<or> sql_eq (ev_idempotency_key q) key) rows = Some r"
proof (cases "find (\<lambda>q. sql_eq (ev_evaluation_id q) (ev_evaluation_id r) \<or> sql_eq (ev_idempotency_key q) key) rows")
  case None
  then show ?thesis using r key by (auto simp: find_None_iff sql_eq_def)
next
  case (Some q)
  then have "q \<in> set rows" "ev_evaluation_id q = ev_evaluation_id r \<or> ev_idempotency_key q = key"
    by (auto simp: find_Some_iff sql_eq_def)
  then have "q = r" using evals_ok_same_id[OF ok _ r] evals_ok_same_key[OF ok _ r] key by metis
  then show ?thesis using Some by simp
qed

lemma evaluation_payload_ne: "evaluation_payload r \<noteq> []"
proof
  assume "evaluation_payload r = []"
  then have "dget (evaluation_payload r) ''evaluation_id'' = JNull \<and> dget (evaluation_payload r) ''status'' = JNull \<and>
      map_of (evaluation_payload r) ''status'' = None"
    by (simp add: dget_def)
  then show False by (simp add: evaluation_payload_def)
qed

lemma put_evaluation_open:
  assumes eid: "ditem evaluation ''evaluation_id'' = Inr eid"
    and r: "fetch_by ev_evaluation_id eid (db_evaluations d) = Some existing"
    and key: "ev_idempotency_key existing = dget evaluation ''idempotency_key''"
  shows "(\<exists>e. put_evaluation now evaluation (open_on d0 d) = (Inl e, open_on d0 d)) \<or>
    (\<exists>x status updated. put_evaluation now evaluation (open_on d0 d) =
        (Inr x, open_on d0 (d\<lparr>db_evaluations := update_rows (\<lambda>r. sql_eq (ev_evaluation_id r) eid)
          (completed_row (evaluation_item now evaluation) status updated existing) (db_evaluations d)\<rparr>)) \<and>
      ditem evaluation ''status'' = Inr status \<and>
      (evals_ok (db_evaluations d) \<longrightarrow> dget evaluation ''idempotency_key'' \<noteq> JNull \<longrightarrow>
        x = evaluation_payload (completed_row (evaluation_item now evaluation) status updated existing existing)) \<and>
      evaluation_foreign_key (linked_decision (evaluation_item now evaluation)) d)"
proof -
  let ?item = "evaluation_item now evaluation"
  have keep: "ditem ?item ''evaluation_id'' = Inr eid" "ditem ?item ''status'' = ditem evaluation ''status''"
      "dget ?item ''idempotency_key'' = dget evaluation ''idempotency_key''"
    using eid by (simp_all add: evaluation_item_keeps)
  have link: "dget ?item ''decision_id'' = linked_decision ?item"
    by (simp add: evaluation_item_def Let_def linked_decision_def)
  have hit: "\<exists>r \<in> set (db_evaluations d). sql_eq (ev_evaluation_id r) eid"
    using fetch_by_Some[OF r] by (auto simp: sql_eq_def)
  have "ev_idempotency_key existing = dget ?item ''idempotency_key''"
    by (simp only: keep(3) key)
  from complete_evaluation_open[OF keep(1) this, of d0 d] show ?thesis
    unfolding keep(2)
  proof (elim disjE exE conjE)
    fix e assume "complete_evaluation ?item existing (open_on d0 d) = (Inl e, open_on d0 d)"
    then show ?thesis
      using r keep(1) by (simp add: put_evaluation_def Let_def cbind_def)
  next
    fix status updated
    let ?d = "d\<lparr>db_evaluations := update_rows (\<lambda>r. sql_eq (ev_evaluation_id r) eid)
          (completed_row ?item status updated existing) (db_evaluations d)\<rparr>"
    assume c: "complete_evaluation ?item existing (open_on d0 d) = (Inr (), open_on d0 ?d)"
      and rest: "ditem evaluation ''status'' = Inr status"
        "(\<exists>r \<in> set (db_evaluations d). sql_eq (ev_evaluation_id r) eid) \<longrightarrow>
          evaluation_foreign_key (dget ?item ''decision_id'') d"
    have "\<exists>x. put_evaluation now evaluation (open_on d0 d) = (Inr x, open_on d0 ?d)"
      using r keep(1) c
      by (auto simp: put_evaluation_def Let_def cbind_def get_evaluation_def split: option.splits)
    moreover have "put_evaluation now evaluation (open_on d0 d) =
        (Inr (evaluation_payload (completed_row ?item status updated existing existing)), open_on d0 ?d)"
      if ok: "evals_ok (db_evaluations d)" and nn: "dget evaluation ''idempotency_key'' \<noteq> JNull"
    proof -
      let ?row = "completed_row ?item status updated existing existing"
      note f = fetch_by_Some[OF r]
      have ok': "evals_ok (db_evaluations ?d)" by (simp, rule evals_ok_update[OF ok]) simp_all
      have mem: "?row \<in> set (db_evaluations ?d)" using f by (force simp: update_rows_def sql_eq_def)
      have row: "ev_evaluation_id ?row = eid" "ev_idempotency_key ?row = dget evaluation ''idempotency_key''"
        using f(2) key by simp_all
      show ?thesis
        using r keep(1,3) c find_saved[OF ok' mem row(2) nn] fetch_eval_id[OF ok' mem] row evaluation_payload_ne[of ?row]
        by (simp add: put_evaluation_def Let_def cbind_def get_evaluation_def)
    qed
    ultimately show ?thesis using rest hit link by (auto 4 3)
  qed
qed

text \<open>A completion under a claim: the claim still runs under the caller's key, and the decision and
  the evaluation appear together.\<close>

definition completed_together :: "time_us \<Rightarrow> dict \<Rightarrow> dict \<Rightarrow> json \<Rightarrow> db \<Rightarrow> db \<Rightarrow> bool" where
  "completed_together now decision evaluation eid d d' \<longleftrightarrow>
    (\<exists>claim row status updated.
      fetch_by ev_evaluation_id eid (db_evaluations d) = Some claim \<and>
      ev_status claim = JStr ''running'' \<and> ev_idempotency_key claim = dget evaluation ''idempotency_key'' \<and>
      ditem evaluation ''status'' = Inr status \<and>
      decision_row_of (dsetdefault decision ''created_at'' (jtime now)) = Inr row \<and>
      d' = d\<lparr>db_decisions := db_decisions d @ [row],
             db_evaluations := update_rows (\<lambda>r. sql_eq (ev_evaluation_id r) eid)
               (completed_row (evaluation_item now evaluation) status updated claim) (db_evaluations d)\<rparr>)"

lemma completion_cases:
  assumes eid: "ditem evaluation ''evaluation_id'' = Inr eid" and key: "dget evaluation ''idempotency_key'' \<noteq> JNull"
  obtains (error) e where "put_decision_and_evaluation now decision evaluation (idle d) = (Inl e, idle d)"
  | (completed) x d' where "put_decision_and_evaluation now decision evaluation (idle d) = (Inr x, idle d')"
      "completed_together now decision evaluation eid d d'"
      "evals_ok (db_evaluations d) \<Longrightarrow> \<exists>r. fetch_by ev_evaluation_id eid (db_evaluations d') = Some r \<and> x = evaluation_payload r"
proof -
  note unf = put_decision_and_evaluation_def rollback_on_error_def cbind_def
  let ?claim = "fetch_by ev_evaluation_id eid (db_evaluations d)"
  show ?thesis
  proof (cases "\<exists>r. ?claim = Some r \<and> ev_status r = JStr ''running'' \<and>
      ev_idempotency_key r = dget evaluation ''idempotency_key''")
    case False
    then have "put_decision_and_evaluation now decision evaluation (idle d) = (Inl EvaluationClaimLostError, idle d)"
      using eid key by (auto simp: unf split: option.splits)
    then show ?thesis by (rule error)
  next
    case True
    then obtain r where r: "?claim = Some r" "ev_status r = JStr ''running''"
        "ev_idempotency_key r = dget evaluation ''idempotency_key''"
      by blast
    from put_decision_open[of now decision d d] show ?thesis
    proof (elim disjE exE conjE)
      fix e assume "put_decision now decision (open_on d d) = (Inl e, open_on d d)"
      then show ?thesis using eid key r by (intro error[of e]) (simp add: unf)
    next
      fix row
      let ?d = "d\<lparr>db_decisions := db_decisions d @ [row]\<rparr>"
      assume pd: "put_decision now decision (open_on d d) =
          (Inr (dsetdefault decision ''created_at'' (jtime now)), open_on d ?d)"
        and row: "decision_row_of (dsetdefault decision ''created_at'' (jtime now)) = Inr row"
      have r': "fetch_by ev_evaluation_id eid (db_evaluations ?d) = Some r" using r(1) by simp
      from put_evaluation_open[OF eid r' r(3), of now d] show ?thesis
      proof (elim disjE exE conjE)
        fix e assume "put_evaluation now evaluation (open_on d ?d) = (Inl e, open_on d ?d)"
        then show ?thesis using eid key r pd by (intro error[of e]) (simp add: unf)
      next
        fix x status updated
        let ?d' = "?d\<lparr>db_evaluations := update_rows (\<lambda>r. sql_eq (ev_evaluation_id r) eid)
          (completed_row (evaluation_item now evaluation) status updated r) (db_evaluations ?d)\<rparr>"
        assume pe: "put_evaluation now evaluation (open_on d ?d) = (Inr x, open_on d ?d')"
          and st: "ditem evaluation ''status'' = Inr status"
          and val: "evals_ok (db_evaluations ?d) \<longrightarrow> dget evaluation ''idempotency_key'' \<noteq> JNull \<longrightarrow>
            x = evaluation_payload (completed_row (evaluation_item now evaluation) status updated r r)"
        have "put_decision_and_evaluation now decision evaluation (idle d) = (Inr x, idle ?d')"
          using eid key r pd pe by (simp add: unf)
        moreover have "completed_together now decision evaluation eid d ?d'"
          unfolding completed_together_def
          by (intro exI[of _ r] exI[of _ row] exI[of _ status] exI[of _ updated]) (use r row st in simp)
        moreover have "\<exists>q. fetch_by ev_evaluation_id eid (db_evaluations ?d') = Some q \<and> x = evaluation_payload q"
          if "evals_ok (db_evaluations d)"
        proof -
          note m = fetch_by_Some[OF r(1)]
          show ?thesis
            using val that key r(1) m(2,3) by (simp add: fetch_by_update_rows sql_eq_def)
        qed
        ultimately show ?thesis by (rule completed)
      qed
    qed
  qed
qed

lemma failed_row_fields [simp]:
  "ev_evaluation_id (failed_row now payload r) = ev_evaluation_id r"
  "ev_idempotency_key (failed_row now payload r) = ev_idempotency_key r"
  "ev_status (failed_row now payload r) = JStr ''failed''"
  "ev_decision_id (failed_row now payload r) = ev_decision_id r"
  "ev_updated_at (failed_row now payload r) = jtime now"
  by (simp_all add: failed_row_def)

lemma fail_evaluation_idle:
  assumes ok: "evals_ok (db_evaluations d)"
  shows "fail_evaluation now eid err (idle d) =
    (case fetch_by ev_evaluation_id eid (db_evaluations d) of
       None \<Rightarrow> (Inr (), idle d)
     | Some r \<Rightarrow>
         if evaluation_foreign_key (ev_decision_id r) d
         then (Inr (), idle (d\<lparr>db_evaluations := update_rows (\<lambda>r. sql_eq (ev_evaluation_id r) eid)
           (failed_row now (failed_payload now err (as_dict (ev_payload r)))) (db_evaluations d)\<rparr>))
         else (Inl (IntegrityError ''FOREIGN KEY constraint failed''), open_on d d))"
proof (cases "fetch_by ev_evaluation_id eid (db_evaluations d)")
  case None
  then show ?thesis by (simp add: fail_evaluation_def cbind_def)
next
  case (Some r)
  note f = fetch_by_Some[OF Some]
  let ?hit = "filter (\<lambda>r. sql_eq (ev_evaluation_id r) eid) (db_evaluations d)"
  have "r \<in> set ?hit"
    using f by (simp add: sql_eq_def)
  moreover have "q = r" if "q \<in> set ?hit" for q
    using that f evals_ok_same_id[OF ok _ f(1), of q] by (simp add: sql_eq_def)
  ultimately have fk: "list_all (\<lambda>q. evaluation_foreign_key (ev_decision_id q) d) ?hit \<longleftrightarrow>
      evaluation_foreign_key (ev_decision_id r) d"
    unfolding list_all_iff by blast
  show ?thesis
    using Some fk
    by (simp add: fail_evaluation_def cbind_def Let_def update_evaluation_def not_null_def list.pred_True)
qed

section \<open>Interleaved requests\<close>

text \<open>Requests that use a key claim it under a fresh evaluation id, complete it, mark it failed after
  an error, or die; \<open>flights\<close> holds the claims won and not yet completed or failed, \<open>finished\<close> the
  keys completed so far, in order.  A completion carries status \<open>completed\<close> (\<open>create_evaluation\<close>).\<close>

inductive eval_run :: "db \<Rightarrow> (json \<times> json) list \<Rightarrow> json list \<Rightarrow> bool" where
  start: "db_evaluations d = [] \<Longrightarrow> eval_run d [] []"
| claim: "eval_run d fl fin \<Longrightarrow> key \<noteq> JNull \<Longrightarrow> eid \<noteq> JNull \<Longrightarrow>
    eid \<notin> set (map ev_evaluation_id (db_evaluations d)) \<Longrightarrow> eid \<notin> fst ` set fl \<Longrightarrow>
    claim_evaluation now later eid key camera fp (idle d) = (r, idle d') \<Longrightarrow>
    eval_run d' (if r = Inr None then (eid, key) # fl else fl) fin"
| complete: "eval_run d fl fin \<Longrightarrow> (eid, key) \<in> set fl \<Longrightarrow>
    ditem evaluation ''evaluation_id'' = Inr eid \<Longrightarrow> dget evaluation ''idempotency_key'' = key \<Longrightarrow>
    ditem evaluation ''status'' = Inr (JStr ''completed'') \<Longrightarrow>
    put_decision_and_evaluation now decision evaluation (idle d) = (Inr x, idle d') \<Longrightarrow>
    eval_run d' (remove1 (eid, key) fl) (fin @ [key])"
| fail: "eval_run d fl fin \<Longrightarrow> (eid, key) \<in> set fl \<Longrightarrow>
    fail_evaluation now eid err (idle d) = (r, idle d') \<Longrightarrow> eval_run d' (remove1 (eid, key) fl) fin"
| crash: "eval_run d fl fin \<Longrightarrow> eval_run d (remove1 f fl) fin"

text \<open>The claims in flight are running, and the finished keys are completed.\<close>

definition flight_ok :: "evaluation_row list \<Rightarrow> json \<times> json \<Rightarrow> bool" where
  "flight_ok rows f \<longleftrightarrow> snd f \<noteq> JNull \<and> (\<forall>r \<in> set rows. ev_evaluation_id r = fst f \<longrightarrow>
     ev_status r = JStr ''running'' \<and> ev_idempotency_key r = snd f \<and> ev_decision_id r = JNull)"

definition finished_ok :: "evaluation_row list \<Rightarrow> json \<Rightarrow> bool" where
  "finished_ok rows key \<longleftrightarrow> key \<noteq> JNull \<and>
     (\<exists>r \<in> set rows. ev_idempotency_key r = key \<and> ev_status r = JStr ''completed'')"

definition eval_inv :: "db \<Rightarrow> (json \<times> json) list \<Rightarrow> json list \<Rightarrow> bool" where
  "eval_inv d fl fin \<longleftrightarrow> evals_ok (db_evaluations d) \<and> distinct fin \<and> distinct (map fst fl) \<and>
    (\<forall>f \<in> set fl. flight_ok (db_evaluations d) f) \<and> (\<forall>key \<in> set fin. finished_ok (db_evaluations d) key)"

lemma flight_ok_mono: "flight_ok rows f \<Longrightarrow> set rows' \<subseteq> set rows \<Longrightarrow> flight_ok rows' f"
  by (auto simp: flight_ok_def)

lemma flight_ok_append:
  "flight_ok (rows @ [r]) f \<longleftrightarrow> flight_ok rows f \<and> (ev_evaluation_id r = fst f \<longrightarrow>
     ev_status r = JStr ''running'' \<and> ev_idempotency_key r = snd f \<and> ev_decision_id r = JNull)"
  by (auto simp: flight_ok_def)

lemma eval_inv_remove1: "eval_inv d fl fin \<Longrightarrow> eval_inv d (remove1 f fl) fin"
  unfolding eval_inv_def by (auto simp: distinct_map inj_on_def dest!: notin_set_remove1)

lemma claimable_completed: "ev_status r = JStr ''completed'' \<Longrightarrow> claimable later r = Inr False"
  by (simp add: claimable_def stale_running_def)

lemma eval_inv_claim:
  assumes inv: "eval_inv d fl fin" and key: "key \<noteq> JNull" and eid: "eid \<noteq> JNull"
    "eid \<notin> set (map ev_evaluation_id (db_evaluations d))" "eid \<notin> fst ` set fl"
    and spec: "claim_spec now later eid key camera fp d = (r, d')"
  shows "eval_inv d' (if r = Inr None then (eid, key) # fl else fl) fin"
proof -
  have ok: "evals_ok (db_evaluations d)" using inv by (simp add: eval_inv_def)
  let ?row = "claim_row now eid key camera fp"
  have won: "eval_inv (d\<lparr>db_evaluations := rows @ [?row]\<rparr>) ((eid, key) # fl) fin"
    if rows: "rows = filter p (db_evaluations d)" and free: "key \<notin> set (map ev_idempotency_key rows)"
      and keep: "\<And>q. q \<in> set (db_evaluations d) \<Longrightarrow> ev_status q = JStr ''completed'' \<Longrightarrow> p q" for rows p
  proof -
    have "evals_ok (rows @ [?row])"
      by (rule evals_ok_append) (use evals_ok_filter[OF ok] eid rows free in auto)
    moreover have "flight_ok (rows @ [?row]) f" if "f \<in> set ((eid, key) # fl)" for f
    proof (cases "f = (eid, key)")
      case True
      have "\<forall>r \<in> set rows. ev_evaluation_id r \<noteq> eid" using eid(2) rows by auto
      then show ?thesis using key True by (simp add: flight_ok_append flight_ok_def)
    next
      case False
      then have "f \<in> set fl" "fst f \<noteq> eid" using that eid(3) by (auto simp: image_iff)
      then show ?thesis
        using inv rows by (auto simp: flight_ok_append eval_inv_def intro: flight_ok_mono)
    qed
    moreover have "finished_ok (rows @ [?row]) k" if "k \<in> set fin" for k
      using that inv keep rows unfolding eval_inv_def finished_ok_def by fastforce
    ultimately show ?thesis
      using inv eid(3) by (simp add: eval_inv_def)
  qed
  show ?thesis
  proof (cases "fetch_by ev_idempotency_key key (db_evaluations d)")
    case None
    then have "key \<notin> set (map ev_idempotency_key (db_evaluations d))"
      using key by (simp add: fetch_by_None)
    then show ?thesis
      using spec won[of "db_evaluations d" "\<lambda>_. True"] None by (auto simp: claim_spec_def)
  next
    case (Some q)
    note f = fetch_by_Some[OF Some]
    show ?thesis
    proof (cases "fp = ev_request_fingerprint q \<and> claimable later q = Inr True")
      case True
      have "key \<notin> set (map ev_idempotency_key (filter (\<lambda>x. x \<noteq> q) (db_evaluations d)))"
        using evals_ok_same_key[OF ok f(1)] f(2,3) by auto
      moreover have "ev_status q \<noteq> JStr ''completed''"
        using True claimable_completed by force
      ultimately show ?thesis
        using spec Some True won[of _ "\<lambda>x. x \<noteq> q"] by (auto simp: claim_spec_def)
    next
      case False
      then show ?thesis
        using spec Some inv by (auto simp: claim_spec_def Let_def split: if_splits sum.splits bool.splits)
    qed
  qed
qed

text \<open>Rewriting the running row of one flight touches no other flight and no finished key.\<close>

lemma eval_inv_update:
  assumes inv: "eval_inv d fl fin" and mem: "(eid, key) \<in> set fl"
    and f: "\<And>r. ev_evaluation_id (f r) = ev_evaluation_id r" "\<And>r. ev_idempotency_key (f r) = ev_idempotency_key r"
    and d': "db_evaluations d' = update_rows (\<lambda>r. sql_eq (ev_evaluation_id r) eid) f (db_evaluations d)"
  shows "eval_inv d' (remove1 (eid, key) fl) fin"
proof -
  let ?rows = "db_evaluations d" and ?rows' = "db_evaluations d'"
  have ok: "evals_ok ?rows" and dist: "distinct (map fst fl)" and fl: "flight_ok ?rows (eid, key)"
    using inv mem by (auto simp: eval_inv_def)
  have ok': "evals_ok ?rows'"
    unfolding d' by (rule evals_ok_update[OF ok]) (rule f)+
  have image: "\<exists>q \<in> set ?rows. r = (if sql_eq (ev_evaluation_id q) eid then f q else q)" if "r \<in> set ?rows'" for r
    using that by (auto simp: d' update_rows_def)
  have others: "flight_ok ?rows' g" if g: "g \<in> set (remove1 (eid, key) fl)" for g
  proof -
    have "distinct fl" using dist by (simp add: distinct_map)
    then have g': "g \<in> set fl" "g \<noteq> (eid, key)" using g by simp_all
    have "fst g \<noteq> eid" using g' mem dist by (metis distinct_map fst_conv inj_onD)
    have "flight_ok ?rows g" using g' inv by (simp add: eval_inv_def)
    then show ?thesis
      using \<open>fst g \<noteq> eid\<close> image f(1) unfolding flight_ok_def by (metis (full_types) sql_eq_def)
  qed
  have "finished_ok ?rows' k" if k: "k \<in> set fin" for k
  proof -
    obtain q where q: "k \<noteq> JNull" "q \<in> set ?rows" "ev_idempotency_key q = k" "ev_status q = JStr ''completed''"
      using inv k by (auto simp: eval_inv_def finished_ok_def)
    then have "\<not> sql_eq (ev_evaluation_id q) eid"
      using fl by (auto simp: flight_ok_def sql_eq_def)
    then have "q \<in> set ?rows'" using q(2) by (force simp: d' update_rows_def)
    then show ?thesis using q by (auto simp: finished_ok_def)
  qed
  then show ?thesis
    using inv ok' others eval_inv_remove1[OF inv, of "(eid, key)"] by (simp add: eval_inv_def)
qed

lemma eval_inv_complete:
  assumes inv: "eval_inv d fl fin" and mem: "(eid, key) \<in> set fl"
    and key: "dget evaluation ''idempotency_key'' = key" and st: "ditem evaluation ''status'' = Inr (JStr ''completed'')"
    and c: "completed_together now decision evaluation eid d d'"
  shows "eval_inv d' (remove1 (eid, key) fl) (fin @ [key])"
proof -
  obtain claim row status updated where
      claim: "fetch_by ev_evaluation_id eid (db_evaluations d) = Some claim" "ev_status claim = JStr ''running''"
        "ev_idempotency_key claim = key" and status: "status = JStr ''completed''"
      and d': "d' = d\<lparr>db_decisions := db_decisions d @ [row],
             db_evaluations := update_rows (\<lambda>r. sql_eq (ev_evaluation_id r) eid)
               (completed_row (evaluation_item now evaluation) status updated claim) (db_evaluations d)\<rparr>"
    using c key st by (auto simp: completed_together_def)
  note m = fetch_by_Some[OF claim(1)]
  have nn: "key \<noteq> JNull" and ok: "evals_ok (db_evaluations d)"
    using inv mem by (auto simp: eval_inv_def flight_ok_def)
  have inv': "eval_inv d' (remove1 (eid, key) fl) fin"
    by (rule eval_inv_update[OF inv mem, where f = "completed_row (evaluation_item now evaluation) status updated claim"])
      (simp_all add: d')
  have "key \<notin> set fin"
  proof
    assume "key \<in> set fin"
    then obtain q where "q \<in> set (db_evaluations d)" "ev_idempotency_key q = key" "ev_status q = JStr ''completed''"
      using inv by (auto simp: eval_inv_def finished_ok_def)
    then show False using evals_ok_same_key[OF ok m(1), of q] claim nn by auto
  qed
  moreover have "finished_ok (db_evaluations d') key"
    unfolding finished_ok_def
  proof (intro conjI bexI)
    show "completed_row (evaluation_item now evaluation) status updated claim claim \<in> set (db_evaluations d')"
      using m by (force simp: d' update_rows_def sql_eq_def)
  qed (simp_all add: nn claim(3) status)
  ultimately show ?thesis using inv' by (simp add: eval_inv_def)
qed

lemma eval_inv_fail:
  assumes inv: "eval_inv d fl fin" and mem: "(eid, key) \<in> set fl"
    and run: "fail_evaluation now eid err (idle d) = (r, idle d')"
  shows "eval_inv d' (remove1 (eid, key) fl) fin"
proof (cases "fetch_by ev_evaluation_id eid (db_evaluations d)")
  case None
  then have "d' = d"
    using run fail_evaluation_idle[of d now eid err] inv by (simp add: eval_inv_def)
  then show ?thesis using eval_inv_remove1[OF inv] by simp
next
  case (Some q)
  have "ev_decision_id q = JNull"
    using inv mem fetch_by_Some[OF Some] by (auto simp: eval_inv_def flight_ok_def)
  then have d': "d' = d\<lparr>db_evaluations := update_rows (\<lambda>r. sql_eq (ev_evaluation_id r) eid)
      (failed_row now (failed_payload now err (as_dict (ev_payload q)))) (db_evaluations d)\<rparr>"
    using run Some fail_evaluation_idle[of d now eid err] inv by (simp add: eval_inv_def evaluation_foreign_key_def)
  show ?thesis
    by (rule eval_inv_update[OF inv mem, where f = "failed_row now (failed_payload now err (as_dict (ev_payload q)))"])
      (simp_all add: d')
qed

lemma eval_run_inv: "eval_run d fl fin \<Longrightarrow> eval_inv d fl fin"
proof (induction rule: eval_run.induct)
  case (start d)
  then show ?case by (simp add: eval_inv_def evals_ok_def)
next
  case (claim d fl fin key eid now later camera fp r d')
  have "claim_spec now later eid key camera fp d = (r, d')"
    using claim claim_evaluation_idle[of d key eid now later camera fp]
    by (auto simp: eval_inv_def Let_def split: prod.splits)
  then show ?case using claim by (intro eval_inv_claim)
next
  case (complete d fl fin eid key evaluation now decision x d')
  have nn: "dget evaluation ''idempotency_key'' \<noteq> JNull"
    using complete by (auto simp: eval_inv_def flight_ok_def)
  have "completed_together now decision evaluation eid d d'"
    using complete.hyps(3) nn
    by (cases rule: completion_cases[where now = now and decision = decision and d = d]) (use complete.hyps(6) in auto)
  then show ?case using complete by (intro eval_inv_complete)
qed (blast intro: eval_inv_fail eval_inv_remove1)+

lemma evals_ok_claim:
  assumes "evals_ok rows" and "fetch_by ev_idempotency_key key rows = None" and "key \<noteq> JNull"
    and "eid \<noteq> JNull" "eid \<notin> set (map ev_evaluation_id rows)"
  shows "evals_ok (rows @ [claim_row now eid key camera fp])"
  using assms by (intro evals_ok_append) (auto simp: fetch_by_None)

lemma fetch_claim_row:
  "fetch_by ev_idempotency_key key rows = None \<Longrightarrow> key \<noteq> JNull \<Longrightarrow>
    fetch_by ev_idempotency_key key (rows @ [claim_row now eid key camera fp]) = Some (claim_row now eid key camera fp)"
  by (simp add: fetch_by_append sql_eq_def)

lemma crashed_claim_rows:
  assumes ok: "evals_ok (db_evaluations d)" and key: "key \<noteq> JNull"
    and won: "claim_spec now later eid key camera fp d = (Inr None, d')"
  shows "\<exists>rows. d' = d\<lparr>db_evaluations := rows @ [claim_row now eid key camera fp]\<rparr> \<and>
    set rows \<subseteq> set (db_evaluations d) \<and> evals_ok rows \<and> fetch_by ev_idempotency_key key rows = None"
proof (cases "fetch_by ev_idempotency_key key (db_evaluations d)")
  case None
  then show ?thesis using won ok by (auto simp: claim_spec_def Let_def)
next
  case (Some r)
  note f = fetch_by_Some[OF Some]
  have "fetch_by ev_idempotency_key key (filter (\<lambda>q. q \<noteq> r) (db_evaluations d)) = None"
    using evals_ok_same_key[OF ok f(1)] f(2,3) by (auto simp: fetch_by_None)
  then show ?thesis
    using won Some ok
    by (intro exI[of _ "filter (\<lambda>q. q \<noteq> r) (db_evaluations d)"])
      (auto simp: claim_spec_def Let_def evals_ok_filter split: if_splits sum.splits bool.splits)
qed

section \<open>Properties\<close>

text \<open>Property C11.  The complete behaviour of a claim with a fresh evaluation id, in every state of the
  table: a free key is claimed with a running row under a lease of 300 seconds; a key whose holder
  failed, or whose lease has run out, is taken over and the old row dropped; a key used with another
  request fingerprint raises \<open>IdempotencyConflictError\<close>; otherwise the holder's evaluation is
  returned.  In the last two cases the database is untouched.\<close>

theorem claim_evaluation_refines:
  assumes "evals_ok (db_evaluations d)" and "key \<noteq> JNull" and "eid \<noteq> JNull"
    and "eid \<notin> set (map ev_evaluation_id (db_evaluations d))"
  shows "claim_evaluation now later eid key camera fp (idle d) =
    (fst (claim_spec now later eid key camera fp d), idle (snd (claim_spec now later eid key camera fp d)))"
  using claim_evaluation_idle[OF assms] by (simp add: Let_def case_prod_beta)

theorem claim_evaluation_refines_witness:
  "claim_evaluation 5 5 (JStr ''e1'') (JStr ''k'') (JStr ''cam'') (JStr ''fp'') (idle empty_db) =
    (Inr None, idle (empty_db\<lparr>db_evaluations := [claim_row 5 (JStr ''e1'') (JStr ''k'') (JStr ''cam'') (JStr ''fp'')]\<rparr>))"
  using claim_evaluation_refines[of empty_db "JStr ''k''" "JStr ''e1''" 5 5 "JStr ''cam''" "JStr ''fp''"]
  by (simp add: evals_ok_def empty_db_def claim_spec_def fetch_by_def Let_def)

text \<open>Property C40.  A key is never stuck: when the holder of a claim crashes, the same request is told to wait (it gets the
  holder's evaluation) for the 300 seconds of the lease, and from then on the next caller with a fresh id wins the claim
  and the holder's row is gone, so that the holder can no longer complete it.\<close>

theorem crashed_claim_is_taken_over:
  assumes ok: "evals_ok (db_evaluations d)" and key: "key \<noteq> JNull"
    and e1: "eid1 \<noteq> JNull" "eid1 \<notin> set (map ev_evaluation_id (db_evaluations d))"
    and won: "claim_evaluation now1 later1 eid1 key camera1 fp (idle d) = (Inr None, idle d1)"
    and e2: "eid2 \<noteq> JNull" "eid2 \<notin> set (map ev_evaluation_id (db_evaluations d1))"
  shows "if now1 + EVALUATION_LEASE_SECONDS * us_per_second \<le> later2
    then \<exists>d2. claim_evaluation now2 later2 eid2 key camera2 fp (idle d1) = (Inr None, idle d2) \<and>
      fetch_by ev_idempotency_key key (db_evaluations d2) = Some (claim_row now2 eid2 key camera2 fp) \<and>
      eid1 \<notin> set (map ev_evaluation_id (db_evaluations d2))
    else claim_evaluation now2 later2 eid2 key camera2 fp (idle d1) =
      (Inr (Some (evaluation_payload (claim_row now1 eid1 key camera1 fp))), idle d1)"
proof -
  let ?row = "claim_row now1 eid1 key camera1 fp"
  have spec: "claim_spec now1 later1 eid1 key camera1 fp d = (Inr None, d1)"
    using won claim_evaluation_idle[OF ok key e1, of now1 later1 camera1 fp] by (auto simp: Let_def case_prod_beta prod_eq_iff)
  obtain rows where rows: "d1 = d\<lparr>db_evaluations := rows @ [?row]\<rparr>" "set rows \<subseteq> set (db_evaluations d)" "evals_ok rows"
    and free: "fetch_by ev_idempotency_key key rows = None"
    using crashed_claim_rows[OF ok key spec] by blast
  have old: "eid1 \<notin> set (map ev_evaluation_id rows)" using e1 rows(2) by auto
  have ok1: "evals_ok (db_evaluations d1)" using rows old free e1 key by (simp add: evals_ok_claim)
  have f1: "fetch_by ev_idempotency_key key (db_evaluations d1) = Some ?row"
    using free key by (simp add: rows(1) fetch_claim_row)
  have spec2: "claim_evaluation now2 later2 eid2 key camera2 fp (idle d1) =
      (let (r, d') = claim_spec now2 later2 eid2 key camera2 fp d1 in (r, idle d'))"
    by (rule claim_evaluation_idle[OF ok1 key e2])
  have cl: "claimable later2 ?row = Inr (now1 + EVALUATION_LEASE_SECONDS * us_per_second \<le> later2)"
    by (simp add: claimable_def stale_running_def claim_row_def Let_def)
  have drop: "filter (\<lambda>q. q \<noteq> ?row) (rows @ [?row]) = rows"
    using old by (force intro: filter_True simp: claim_row_def Let_def)
  show ?thesis
    using spec2 f1 cl drop free key old e2
    by (auto simp: claim_spec_def Let_def rows(1) fetch_claim_row)
qed

text \<open>Property C8.  Completion under a key is atomic and fenced: either it raises and the database is
  exactly as before, or the claim was still running under this evaluation id and this key, and the
  decision row and the completed evaluation row appear in the same commit.  A caller whose claim
  was taken over therefore leaves no decision behind.\<close>

theorem completion_atomic_and_fenced:
  assumes "ditem evaluation ''evaluation_id'' = Inr eid" and "dget evaluation ''idempotency_key'' \<noteq> JNull"
  shows "(\<exists>e. put_decision_and_evaluation now decision evaluation (idle d) = (Inl e, idle d)) \<or>
    (\<exists>x d' claim row status updated.
      put_decision_and_evaluation now decision evaluation (idle d) = (Inr x, idle d') \<and>
      fetch_by ev_evaluation_id eid (db_evaluations d) = Some claim \<and>
      ev_status claim = JStr ''running'' \<and> ev_idempotency_key claim = dget evaluation ''idempotency_key'' \<and>
      decision_row_of (dsetdefault decision ''created_at'' (jtime now)) = Inr row \<and>
      ditem evaluation ''status'' = Inr status \<and>
      d' = d\<lparr>db_decisions := db_decisions d @ [row],
             db_evaluations := update_rows (\<lambda>r. sql_eq (ev_evaluation_id r) eid)
               (completed_row (evaluation_item now evaluation) status updated claim) (db_evaluations d)\<rparr>)"
  using assms
proof (cases rule: completion_cases[where now = now and decision = decision and d = d])
  case (completed x d')
  then show ?thesis unfolding completed_together_def by blast
qed blast

definition sample_evaluation :: dict where
  "sample_evaluation = [(''evaluation_id'', JStr ''e1''), (''status'', JStr ''completed''),
     (''result'', JObj [(''decision'', JObj [(''decision_id'', JStr ''d1'')])]),
     (''idempotency_key'', JStr ''k''), (''request_fingerprint'', JStr ''fp''), (''camera_id'', JStr ''cam'')]"

definition sample_decision :: dict where
  "sample_decision = [(''decision_id'', JStr ''d1''), (''camera_id'', JStr ''cam''), (''track_id'', JStr ''evaluation''),
     (''outcome'', JStr ''rejected''), (''reason_codes'', JList [JStr ''evaluation_pending_provider'']),
     (''evidence_channels'', JList []), (''model_revisions'', JObj []), (''policy_revision'', JStr ''default''),
     (''latency_ms'', JFloat 0), (''mode'', JStr ''replay''), (''audio_eligibility'', JBool False)]"

definition sample_claimed :: db where
  "sample_claimed = empty_db\<lparr>db_evaluations := [claim_row 5 (JStr ''e1'') (JStr ''k'') (JStr ''cam'') (JStr ''fp'')]\<rparr>"

theorem completion_atomic_and_fenced_witness:
  "\<exists>x d'. put_decision_and_evaluation 9 sample_decision sample_evaluation (idle sample_claimed) = (Inr x, idle d') \<and>
    length (db_decisions d') = 1"
proof -
  have ok: "\<not> (\<exists>e. put_decision_and_evaluation 9 sample_decision sample_evaluation (idle sample_claimed) =
      (Inl e, idle sample_claimed))"
  proof -
    have "(case fst (put_decision_and_evaluation 9 sample_decision sample_evaluation (idle sample_claimed)) of
        Inl e \<Rightarrow> False | Inr x \<Rightarrow> True)"
      by code_simp
    then show ?thesis by (auto split: sum.splits)
  qed
  have "ditem sample_evaluation ''evaluation_id'' = Inr (JStr ''e1'')"
    and "dget sample_evaluation ''idempotency_key'' \<noteq> JNull"
    by (simp_all add: sample_evaluation_def ditem_def dget_def)
  from completion_atomic_and_fenced[OF this, of 9 sample_decision sample_claimed] ok
  show ?thesis by (auto simp: sample_claimed_def empty_db_def)
qed

theorem crashed_claim_is_taken_over_witness:
  "\<exists>d2. claim_evaluation 400000000 400000000 (JStr ''e2'') (JStr ''k'') (JStr ''cam'') (JStr ''fp'') (idle sample_claimed) =
      (Inr None, idle d2) \<and> JStr ''e1'' \<notin> set (map ev_evaluation_id (db_evaluations d2))"
proof -
  have "claim_evaluation 5 5 (JStr ''e1'') (JStr ''k'') (JStr ''cam'') (JStr ''fp'') (idle empty_db) = (Inr None, idle sample_claimed)"
    by code_simp
  from crashed_claim_is_taken_over[OF _ _ _ _ this, of "JStr ''e2''" 400000000 400000000 "JStr ''cam''"]
  show ?thesis
    by (auto simp: empty_db_def evals_ok_def sample_claimed_def EVALUATION_LEASE_SECONDS_def)
qed

text \<open>Property C7.  An idempotency key completes at most once: over every interleaving of claims (with
  any clocks and fingerprints), completions, failures and crashes by any number of requests, the
  sequence of completed keys has no repetition, so a retried or raced request never stores a second
  decision for its key.\<close>

theorem idempotency_key_completes_once:
  assumes "eval_run d flights finished"
  shows "distinct finished"
  using eval_run_inv[OF assms] by (simp add: eval_inv_def)

theorem idempotency_key_completes_once_witness:
  "\<exists>d. eval_run d [] [JStr ''k''] \<and> distinct [JStr ''k'']"
proof -
  have start: "eval_run empty_db [] []"
    by (rule eval_run.start) (simp add: empty_db_def)
  have claim: "claim_evaluation 5 5 (JStr ''e1'') (JStr ''k'') (JStr ''cam'') (JStr ''fp'') (idle empty_db) =
      (Inr None, idle sample_claimed)"
    by code_simp
  have claimed: "eval_run sample_claimed [(JStr ''e1'', JStr ''k'')] []"
    using eval_run.claim[OF start _ _ _ _ claim] by (simp add: empty_db_def)
  have "(case put_decision_and_evaluation 9 sample_decision sample_evaluation (idle sample_claimed) of
      (Inr x, c) \<Rightarrow> \<not> cn_in_transaction c \<and> c = idle (cn_work c) | _ \<Rightarrow> False)"
    by code_simp
  then obtain x d' where run: "put_decision_and_evaluation 9 sample_decision sample_evaluation (idle sample_claimed) =
      (Inr x, idle d')"
    by (auto split: prod.splits sum.splits)
  have "eval_run d' [] [JStr ''k'']"
    using eval_run.complete[OF claimed _ _ _ _ run, of "JStr ''e1''" "JStr ''k''"]
    by (simp add: sample_evaluation_def ditem_def dget_def)
  then show ?thesis using idempotency_key_completes_once by blast
qed

end
