(* ===== verification/Settings.thy ===== *)
theory Settings
  imports Contracts Json "HOL-Library.Product_Lexorder" "HOL-Library.Sublist"
begin

text \<open>
  Runtime configuration, \<open>src/tp_smoke_detect/settings.py\<close>: the camera and policy models with their
  field checks, the merge of YAML documents and the layer of environment variables.  Reading a YAML
  file, decoding a JSON text and pydantic's coercion of the final document are parameters
  (\<open>read_yaml\<close>, \<open>loads\<close>, \<open>validate\<close>); a document is a dictionary of JSON values.
\<close>

section \<open>Models\<close>

record point =
  pt_x :: rat
  pt_y :: rat

record CameraProfile =
  cp_camera_id :: string
  cp_zone_id :: string
  cp_enabled :: bool
  cp_analysis_fps :: rat
  cp_roi :: "point list"
  cp_excluded_zones :: "point list list"
  cp_min_face_pixels :: int
  cp_min_crop_pixels :: int
  cp_day_night :: string

definition distinct_vertices :: "point list \<Rightarrow> nat" where
  "distinct_vertices ps = length (remdups (map (\<lambda>p. (pt_x p, pt_y p)) ps))"

definition point_ok :: "point \<Rightarrow> bool" where
  "point_ok p \<longleftrightarrow> unit_score (pt_x p) \<and> unit_score (pt_y p)"

text \<open>Construction of a profile from typed fields: strings are stripped and measured, numbers
  checked, and every polygon needs three distinct vertices.\<close>

definition CameraProfile_new :: "CameraProfile \<Rightarrow> CameraProfile result" where
  "CameraProfile_new c =
    rbind (check_text 1 128 (cp_camera_id c)) (\<lambda>camera.
    rbind (check_text 1 128 (cp_zone_id c)) (\<lambda>zone.
    if \<not> (0 < cp_analysis_fps c \<and> cp_analysis_fps c \<le> 30) then raise (ValueError ''analysis_fps'')
    else if length (cp_roi c) < 3 \<or> \<not> list_all point_ok (cp_roi c) \<or> \<not> list_all (list_all point_ok) (cp_excluded_zones c)
    then raise (ValueError ''roi'')
    else if distinct_vertices (cp_roi c) < 3
    then raise (ValueError ''polygon must contain at least three distinct vertices'')
    else if list_ex (\<lambda>polygon. distinct_vertices polygon < 3) (cp_excluded_zones c)
    then raise (ValueError ''polygon must contain at least three distinct vertices'')
    else if cp_min_face_pixels c < 0 \<or> cp_min_crop_pixels c < 0 then raise (ValueError ''pixels'')
    else if cp_day_night c \<notin> {''day'', ''night'', ''auto''} then raise (ValueError ''day_night'')
    else ret (c\<lparr>cp_camera_id := camera, cp_zone_id := zone\<rparr>)))"

record PolicySettings =
  ps_mode :: RunMode
  ps_audio_muted :: bool
  ps_reject_on_unclear :: bool
  ps_min_persistence_ms :: int
  ps_min_independent_channels :: int
  ps_queue_max_per_camera :: int
  ps_cooldown_seconds :: int
  ps_hourly_audio_cap :: int
  ps_daily_audio_cap :: int
  ps_quiet_hours_start :: "int option"
  ps_quiet_hours_end :: "int option"
  ps_policy_revision :: string
  ps_audio_message_id :: string
  ps_audio_command_ttl_seconds :: int

definition default_policy_settings :: PolicySettings where
  "default_policy_settings = \<lparr>ps_mode = SIMULATION, ps_audio_muted = True, ps_reject_on_unclear = True,
     ps_min_persistence_ms = 2000, ps_min_independent_channels = 2, ps_queue_max_per_camera = 32,
     ps_cooldown_seconds = 60, ps_hourly_audio_cap = 10, ps_daily_audio_cap = 100,
     ps_quiet_hours_start = None, ps_quiet_hours_end = None, ps_policy_revision = ''default'',
     ps_audio_message_id = ''smoke-reminder-neutral-01'', ps_audio_command_ttl_seconds = 30\<rparr>"

definition PolicySettings_new :: "PolicySettings \<Rightarrow> PolicySettings result" where
  "PolicySettings_new p =
    (if ps_min_persistence_ms p < 0 \<or> ps_min_independent_channels p < 1 \<or> ps_queue_max_per_camera p < 1 \<or>
        ps_cooldown_seconds p < 0 \<or> ps_hourly_audio_cap p < 0 \<or> ps_daily_audio_cap p < 0 \<or>
        ps_audio_command_ttl_seconds p \<le> 0
     then raise (ValueError ''policy'')
     else rbind (check_text 1 128 (ps_policy_revision p)) (\<lambda>revision.
       rbind (check_text 1 128 (ps_audio_message_id p)) (\<lambda>message.
       ret (p\<lparr>ps_policy_revision := revision, ps_audio_message_id := message\<rparr>))))"

section \<open>Documents\<close>

function merge_mapping :: "dict \<Rightarrow> dict \<Rightarrow> dict" where
  "merge_mapping target [] = target"
| "merge_mapping target ((key, value) # source) =
    (case (value, map_of target key) of
       (JObj d, Some (JObj t)) \<Rightarrow> merge_mapping (dset target key (JObj (merge_mapping t d))) source
     | _ \<Rightarrow> merge_mapping (dset target key value) source)"
  by pat_completeness auto

termination
  by (relation "measure (\<lambda>(t, s). size (JObj s))") auto

text \<open>\<open>_set_nested\<close>; the code passes a non-empty list of keys.\<close>

fun set_nested :: "dict \<Rightarrow> string list \<Rightarrow> json \<Rightarrow> dict" where
  "set_nested mapping [] value = mapping"
| "set_nested mapping [key] value = dset mapping key value"
| "set_nested mapping (key # k # keys) value =
    dset mapping key (JObj (set_nested (case map_of mapping key of Some (JObj d) \<Rightarrow> d | _ \<Rightarrow> []) (k # keys) value))"

section \<open>Environment\<close>

definition env_prefix :: string where
  "env_prefix = ''SMOKE_DETECT_''"

definition config_variables :: "string list" where
  "config_variables = [''SMOKE_DETECT_CONFIG'', ''SMOKE_DETECT_POLICY_CONFIG'', ''SMOKE_DETECT_CAMERAS_CONFIG'']"

definition known_settings :: "string list" where
  "known_settings = [''service_name'', ''environment'', ''database'', ''artifact_root'', ''policy'', ''cameras'']"

text \<open>\<open>s.split("__")\<close> and \<open>s.lower()\<close> of an ASCII string.\<close>

fun split_dunder :: "string \<Rightarrow> string list" where
  "split_dunder [] = [[]]"
| "split_dunder [c] = [[c]]"
| "split_dunder (c # d # cs) =
    (if c = CHR ''_'' \<and> d = CHR ''_'' then [] # split_dunder cs
     else (case split_dunder (d # cs) of [] \<Rightarrow> [[c]] | l # ls \<Rightarrow> (c # l) # ls))"

definition lower :: "string \<Rightarrow> string" where
  "lower s = map lower_char s"

definition env_keys :: "string \<Rightarrow> string list" where
  "env_keys name = map lower (split_dunder (drop (length env_prefix) name))"

text \<open>One variable: skipped, or an override of a path.\<close>

definition env_override :: "(string \<Rightarrow> json option) \<Rightarrow> string \<times> string \<Rightarrow> (string list \<times> json) option" where
  "env_override loads var = (case var of (name, raw) \<Rightarrow>
     if take (length env_prefix) name \<noteq> env_prefix \<or> name \<in> set config_variables then None
     else let keys = env_keys name in
       if hd keys \<notin> set known_settings then None
       else Some (keys,
         if length keys = 1 \<and> hd keys \<in> {''policy'', ''cameras''}
         then (case loads raw of None \<Rightarrow> JStr raw | Some v \<Rightarrow> v) else JStr raw))"

definition env_overrides :: "(string \<Rightarrow> json option) \<Rightarrow> (string \<times> string) list \<Rightarrow> (string list \<times> json) list" where
  "env_overrides loads env = List.map_filter (env_override loads) env"

definition override_key :: "string list \<times> json \<Rightarrow> nat \<times> string list" where
  "override_key item = (length (fst item), fst item)"

definition environment_overrides :: "(string \<Rightarrow> json option) \<Rightarrow> (string \<times> string) list \<Rightarrow> dict \<Rightarrow> dict" where
  "environment_overrides loads env document =
    fold (\<lambda>(keys, value) d. set_nested d keys value) (sort_key override_key (env_overrides loads env)) document"

section \<open>Loading\<close>

text \<open>\<open>a or os.environ.get(name)\<close>.\<close>

definition path_or_env :: "string option \<Rightarrow> string \<Rightarrow> (string \<times> string) list \<Rightarrow> string option" where
  "path_or_env p name env = (case p of Some s \<Rightarrow> if s = [] then map_of env name else p | None \<Rightarrow> map_of env name)"

text \<open>\<open>_read_yaml\<close>: an empty document is the empty mapping, and the root must be a mapping.\<close>

definition read_document :: "(string \<Rightarrow> json result) \<Rightarrow> string \<Rightarrow> dict result" where
  "read_document read_yaml p = rbind (read_yaml p) (\<lambda>v.
     if \<not> truthy v then ret [] else (case v of
       JObj d \<Rightarrow> ret d
     | _ \<Rightarrow> raise (ValueError ''configuration root must be a YAML mapping'')))"

definition merge_candidate :: "(string \<Rightarrow> json result) \<Rightarrow> string option \<Rightarrow> dict \<Rightarrow> dict result" where
  "merge_candidate read_yaml candidate document = (case candidate of
     None \<Rightarrow> ret document
   | Some p \<Rightarrow> rbind (read_document read_yaml p) (\<lambda>d. ret (merge_mapping document d)))"

definition load_settings ::
  "(string \<Rightarrow> json result) \<Rightarrow> (string \<Rightarrow> json option) \<Rightarrow> (dict \<Rightarrow> 'a result) \<Rightarrow> (string \<times> string) list \<Rightarrow>
   string option \<Rightarrow> string option \<Rightarrow> string option \<Rightarrow> 'a result" where
  "load_settings read_yaml loads validate env p policy_path cameras_path =
    rbind (merge_candidate read_yaml (path_or_env p ''SMOKE_DETECT_CONFIG'' env) []) (\<lambda>d1.
    rbind (merge_candidate read_yaml (path_or_env policy_path ''SMOKE_DETECT_POLICY_CONFIG'' env) d1) (\<lambda>d2.
    rbind (merge_candidate read_yaml (path_or_env cameras_path ''SMOKE_DETECT_CAMERAS_CONFIG'' env) d2) (\<lambda>d3.
    validate (environment_overrides loads env d3))))"

section \<open>Paths in a document\<close>

fun get_path :: "dict \<Rightarrow> string list \<Rightarrow> json option" where
  "get_path d [] = None"
| "get_path d [k] = map_of d k"
| "get_path d (k # j # ks) = (case map_of d k of Some (JObj t) \<Rightarrow> get_path t (j # ks) | _ \<Rightarrow> None)"

lemma get_path_set_nested: "keys \<noteq> [] \<Longrightarrow> get_path (set_nested d keys v) keys = Some v"
  by (induction d keys v rule: set_nested.induct) simp_all

lemma get_path_empty: "get_path [] ks = None"
  by (induction "[] :: dict" ks rule: get_path.induct) simp_all

text \<open>Setting one path leaves every path that neither extends it nor is extended by it.\<close>

lemma get_path_set_other:
  "\<not> prefix keys js \<Longrightarrow> \<not> prefix js keys \<Longrightarrow> get_path (set_nested d keys v) js = get_path d js"
proof (induction d keys v arbitrary: js rule: set_nested.induct)
  case (2 d key v)
  then obtain j js' where "js = j # js'" "j \<noteq> key" by (cases js) auto
  then show ?case by (cases js') simp_all
next
  case (3 d key k keys v)
  obtain j js' where js: "js = j # js'" using "3.prems" by (cases js) auto
  show ?case
  proof (cases "j = key")
    case True
    then obtain i rest where js': "js' = i # rest" using "3.prems" js by (cases js') auto
    have "\<not> prefix (k # keys) js'" "\<not> prefix js' (k # keys)" using "3.prems" js True by auto
    from "3.IH"[OF this] show ?thesis
      by (auto simp: js js' True get_path_empty split: option.split json.split)
  next
    case False
    then show ?thesis by (cases js') (simp_all add: js)
  qed
qed simp

lemma fold_set_nested:
  assumes "keys \<noteq> []" and "get_path d keys = Some value"
    and "\<forall>(ks, v) \<in> set items. (ks = keys \<and> v = value) \<or> (\<not> prefix ks keys \<and> \<not> prefix keys ks)"
  shows "get_path (fold (\<lambda>(ks, v) d. set_nested d ks v) items d) keys = Some value"
  using assms(2,3)
proof (induction items arbitrary: d)
  case (Cons item items)
  obtain ks v where item: "item = (ks, v)" by (cases item)
  have "get_path (set_nested d ks v) keys = Some value"
    using Cons.prems item get_path_set_nested[OF assms(1)] get_path_set_other by auto
  then show ?case using Cons.IH Cons.prems(2) item by simp
qed simp

lemma split_dunder_ne: "split_dunder s \<noteq> []"
  by (induction s rule: split_dunder.induct) (auto split: list.split)

lemma env_overrides_keys: "(keys, value) \<in> set (env_overrides loads env) \<Longrightarrow> keys \<noteq> []"
  by (auto simp: env_overrides_def map_filter_def env_override_def env_keys_def split_dunder_ne Let_def split: if_splits)

lemma env_overrides_set:
  "mset env' = mset env \<Longrightarrow> set (env_overrides loads env') = set (env_overrides loads env)"
  by (auto simp: env_overrides_def map_filter_def dest: mset_eq_setD)

text \<open>The overrides are applied in order of length, so what is applied after a path is no shorter.\<close>

lemma environment_overrides_leaf:
  assumes mem: "(keys, value) \<in> set (env_overrides loads env)"
    and leaf: "\<forall>(ks, v) \<in> set (env_overrides loads env). prefix keys ks \<longrightarrow> ks = keys \<and> v = value"
  shows "get_path (environment_overrides loads env document) keys = Some value"
proof -
  let ?xs = "sort_key override_key (env_overrides loads env)"
  have ne: "keys \<noteq> []" by (rule env_overrides_keys[OF mem])
  have "(keys, value) \<in> set ?xs" using mem by simp
  then obtain pre post where xs: "?xs = pre @ (keys, value) # post" by (meson split_list)
  have sorted: "sorted (map override_key (pre @ (keys, value) # post))"
    unfolding xs[symmetric] by (rule sorted_sort_key)
  have "(ks = keys \<and> v = value) \<or> (\<not> prefix ks keys \<and> \<not> prefix keys ks)" if p: "(ks, v) \<in> set post" for ks v
  proof (cases "prefix keys ks")
    case True
    have "(ks, v) \<in> set ?xs" unfolding xs using p by simp
    then show ?thesis using leaf True by auto
  next
    case False
    have "override_key (keys, value) \<le> override_key (ks, v)" using sorted p by (auto simp: sorted_append)
    then have "length keys \<le> length ks" by (auto simp: override_key_def less_eq_prod_def)
    then have "\<not> prefix ks keys" using False by (auto simp: prefix_def)
    with False show ?thesis by simp
  qed
  then have "get_path (fold (\<lambda>(ks, v) d. set_nested d ks v) post
      (set_nested (fold (\<lambda>(ks, v) d. set_nested d ks v) pre document) keys value)) keys = Some value"
    by (intro fold_set_nested[OF ne get_path_set_nested[OF ne]]) auto
  then show ?thesis unfolding environment_overrides_def xs by simp
qed

section \<open>Properties\<close>

text \<open>An explicit environment variable is final: when a variable sets a path that no other
  variable sets differently or extends, the loaded configuration holds its value at that path,
  whatever the YAML documents contain, whatever a coarser JSON variable such as
  \<open>SMOKE_DETECT_POLICY\<close> says, and in whatever order the environment lists the variables.  Every
  successful load validates such a document.\<close>

theorem environment_variable_is_final:
  assumes "(keys, value) \<in> set (env_overrides loads env)"
    and "\<forall>(ks, v) \<in> set (env_overrides loads env). prefix keys ks \<longrightarrow> ks = keys \<and> v = value"
    and "mset env' = mset env"
    and "load_settings read_yaml loads validate env' p policy_path cameras_path = Inr settings"
  shows "\<exists>document. validate document = Inr settings \<and> get_path document keys = Some value"
proof -
  have set: "set (env_overrides loads env') = set (env_overrides loads env)"
    by (rule env_overrides_set[OF assms(3)])
  have "get_path (environment_overrides loads env' d) keys = Some value" for d
    by (rule environment_overrides_leaf) (use assms(1,2) in \<open>simp_all only: set\<close>)
  then show ?thesis
    using assms(4) by (auto simp: load_settings_def rbind_Inr)
qed

definition sample_environment :: "(string \<times> string) list" where
  "sample_environment = [(''SMOKE_DETECT_POLICY__AUDIO_MUTED'', ''true''), (''HOME'', ''/root''),
     (''SMOKE_DETECT_POLICY'', ''{}''), (''SMOKE_DETECT_POLICY_CONFIG'', ''policy.yaml'')]"

theorem environment_variable_is_final_witness:
  "\<exists>document. load_settings (\<lambda>_. Inr (JObj [(''policy'', JObj [(''audio_muted'', JBool False)])])) (\<lambda>_. Some (JObj []))
      Inr (rev sample_environment) None None None = Inr document \<and>
    get_path document [''policy'', ''audio_muted''] = Some (JStr ''true'')"
proof -
  let ?read = "\<lambda>_ :: string. (Inr (JObj [(''policy'', JObj [(''audio_muted'', JBool False)])]) :: json result)"
  let ?loads = "\<lambda>_ :: string. Some (JObj [])"
  have overrides: "env_overrides ?loads sample_environment =
      [([''policy'', ''audio_muted''], JStr ''true''), ([''policy''], JObj [])]"
    by code_simp
  obtain document where load: "load_settings ?read ?loads Inr (rev sample_environment) None None None = Inr document"
    by (simp add: load_settings_def path_or_env_def sample_environment_def merge_candidate_def read_document_def)
  show ?thesis
    using environment_variable_is_final[of "[''policy'', ''audio_muted'']" "JStr ''true''" ?loads sample_environment
        "rev sample_environment" ?read Inr None None None document] load
    by (simp add: overrides)
qed

end
