(* ===== verification/Api_Models.thy ===== *)
theory Api_Models
  imports Settings
begin

text \<open>
  The request and response models of REST v1, \<open>src/tp_smoke_detect/api/models.py\<close>, with the checks
  pydantic performs on construction from fields of the declared types.  Strings are stripped before
  they are measured.
\<close>

definition check_opt_text :: "nat \<Rightarrow> nat \<Rightarrow> string option \<Rightarrow> string option result" where
  "check_opt_text lo hi s = (case s of None \<Rightarrow> ret None | Some t \<Rightarrow> rbind (check_text lo hi t) (\<lambda>u. ret (Some u)))"

definition check_literal :: "string list \<Rightarrow> string \<Rightarrow> string result" where
  "check_literal options s = (if s \<in> set options then ret s else raise (ValueError ''literal''))"

record ArtifactCreate =
  art_artifact_id :: "string option"
  art_path :: string
  art_media_type :: string
  art_media_class :: string
  art_size_bytes :: int

definition ArtifactCreate_new :: "ArtifactCreate \<Rightarrow> ArtifactCreate result" where
  "ArtifactCreate_new r =
    rbind (check_opt_text 1 128 (art_artifact_id r)) (\<lambda>aid.
    rbind (check_text 1 1024 (art_path r)) (\<lambda>p.
    rbind (check_literal [''video/mp4'', ''video/webm'', ''image/jpeg'', ''image/png''] (art_media_type r)) (\<lambda>media.
    rbind (check_literal [''raw_media'', ''event_clip''] (art_media_class r)) (\<lambda>cls.
    if 0 \<le> art_size_bytes r \<and> art_size_bytes r \<le> 500000000
    then ret (r\<lparr>art_artifact_id := aid, art_path := p, art_media_type := media, art_media_class := cls\<rparr>)
    else raise (ValueError ''size_bytes'')))))"

record EvaluationCreate =
  evc_artifact_id :: "string option"
  evc_camera_id :: string
  evc_mode :: RunMode

definition EvaluationCreate_new :: "EvaluationCreate \<Rightarrow> EvaluationCreate result" where
  "EvaluationCreate_new r =
    rbind (check_opt_text 1 128 (evc_artifact_id r)) (\<lambda>aid.
    rbind (check_text 1 128 (evc_camera_id r)) (\<lambda>camera.
    ret (r\<lparr>evc_artifact_id := aid, evc_camera_id := camera\<rparr>)))"

record ReviewCreate =
  rvc_label :: string
  rvc_actor :: string
  rvc_reason :: "string option"

definition ReviewCreate_new :: "ReviewCreate \<Rightarrow> ReviewCreate result" where
  "ReviewCreate_new r =
    rbind (check_literal [''true_positive'', ''false_positive'', ''false_negative'', ''unusable''] (rvc_label r)) (\<lambda>label.
    rbind (check_text 1 128 (rvc_actor r)) (\<lambda>actor.
    rbind (check_opt_text 0 1000 (rvc_reason r)) (\<lambda>reason.
    ret (r\<lparr>rvc_label := label, rvc_actor := actor, rvc_reason := reason\<rparr>))))"

record SiteModeChange =
  smc_mode :: RunMode
  smc_reason :: string
  smc_actor :: string

definition SiteModeChange_new :: "SiteModeChange \<Rightarrow> SiteModeChange result" where
  "SiteModeChange_new r =
    rbind (check_text 1 1000 (smc_reason r)) (\<lambda>reason.
    rbind (check_text 1 128 (smc_actor r)) (\<lambda>actor.
    ret (r\<lparr>smc_reason := reason, smc_actor := actor\<rparr>)))"

record AudioMuteCreate =
  amc_scope :: string
  amc_scope_id :: "string option"
  amc_expires_at :: "datetime option"
  amc_reason :: string
  amc_actor :: string

definition require_aware_expiry :: "datetime option \<Rightarrow> datetime option result" where
  "require_aware_expiry value = (case value of
     None \<Rightarrow> ret None
   | Some (Naive _) \<Rightarrow> raise (ValueError ''expires_at must include a timezone'')
   | Some (Aware t) \<Rightarrow> ret (Some (Aware t)))"

definition require_scope_id :: "AudioMuteCreate \<Rightarrow> AudioMuteCreate result" where
  "require_scope_id r =
    (if amc_scope r \<noteq> ''site'' \<and> (case amc_scope_id r of None \<Rightarrow> True | Some s \<Rightarrow> s = [])
     then raise (ValueError ''scope_id is required for zone and camera mutes'') else ret r)"

definition AudioMuteCreate_new :: "AudioMuteCreate \<Rightarrow> AudioMuteCreate result" where
  "AudioMuteCreate_new r =
    rbind (check_literal [''site'', ''zone'', ''camera''] (amc_scope r)) (\<lambda>scope.
    rbind (check_opt_text 0 128 (amc_scope_id r)) (\<lambda>scope_id.
    rbind (require_aware_expiry (amc_expires_at r)) (\<lambda>expiry.
    rbind (check_text 1 1000 (amc_reason r)) (\<lambda>reason.
    rbind (check_text 1 128 (amc_actor r)) (\<lambda>actor.
    require_scope_id (r\<lparr>amc_scope := scope, amc_scope_id := scope_id, amc_expires_at := expiry,
      amc_reason := reason, amc_actor := actor\<rparr>))))))"

record AudioReceiptReconcile =
  arr_actor :: string
  arr_reason :: string

definition AudioReceiptReconcile_new :: "AudioReceiptReconcile \<Rightarrow> AudioReceiptReconcile result" where
  "AudioReceiptReconcile_new r =
    rbind (check_text 1 128 (arr_actor r)) (\<lambda>actor.
    rbind (check_text 1 1000 (arr_reason r)) (\<lambda>reason.
    ret (r\<lparr>arr_actor := actor, arr_reason := reason\<rparr>)))"

record CameraUpdate =
  cu_profile :: CameraProfile
  cu_revision :: string
  cu_activate :: bool

definition CameraUpdate_new :: "CameraUpdate \<Rightarrow> CameraUpdate result" where
  "CameraUpdate_new r =
    rbind (CameraProfile_new (cu_profile r)) (\<lambda>profile.
    rbind (check_text 1 128 (cu_revision r)) (\<lambda>revision.
    ret (r\<lparr>cu_profile := profile, cu_revision := revision\<rparr>)))"

record page =
  pg_items :: "dict list"
  pg_limit :: int
  pg_offset :: int

record EvaluationResponse =
  er_evaluation_id :: uuid
  er_status :: string
  er_result :: "dict option"

definition evaluation_statuses :: "string list" where
  "evaluation_statuses = [''accepted'', ''running'', ''completed'', ''failed'']"

text \<open>\<open>EvaluationResponse.model_validate\<close>; \<open>parse\<close> reads a UUID.\<close>

definition EvaluationResponse_validate :: "(string \<Rightarrow> uuid option) \<Rightarrow> dict \<Rightarrow> EvaluationResponse result" where
  "EvaluationResponse_validate parse value =
    (case (map_of value ''evaluation_id'', map_of value ''status'') of
       (Some (JStr i), Some (JStr s)) \<Rightarrow>
         (case (parse i, dget value ''result'') of
            (Some u, JNull) \<Rightarrow> if s \<in> set evaluation_statuses
              then ret \<lparr>er_evaluation_id = u, er_status = s, er_result = None\<rparr> else raise (ValueError ''status'')
          | (Some u, JObj d) \<Rightarrow> if s \<in> set evaluation_statuses
              then ret \<lparr>er_evaluation_id = u, er_status = s, er_result = Some d\<rparr> else raise (ValueError ''status'')
          | _ \<Rightarrow> raise (ValueError ''evaluation response''))
     | _ \<Rightarrow> raise (ValueError ''evaluation response''))"

end
