(* ===== verification/Metrics.thy ===== *)
theory Metrics
  imports Observations Floats "HOL-Library.Product_Lexorder"
begin

text \<open>
  The metric registry, \<open>src/tp_smoke_detect/observability/metrics.py\<close>.  The key of a sample is the
  sorted tuple of its labels with the marker the histogram code appends to it (\<open>__count\<close>, \<open>__sum\<close>,
  \<open>__bucket\<close>); the marker is a constructor, since label names are confined to the allow-list and
  \<open>str\<close> of a float is injective.  \<open>show_g\<close> and \<open>show_float\<close> are Python's \<open>format(x, "g")\<close> and
  \<open>str(x)\<close>.
\<close>

section \<open>Label schemas\<close>

definition FORBIDDEN_LABELS :: "string list" where
  "FORBIDDEN_LABELS = [''track_id'', ''decision_id'', ''artifact_id'', ''url'', ''raw_url'',
     ''request_id'', ''correlation_id'']"

definition ALLOWED_LABELS :: "string list" where
  "ALLOWED_LABELS = [''camera_id'', ''component'', ''outcome'', ''reason'', ''stage'', ''model_role'',
     ''mode'', ''media_class'', ''operation'', ''state'', ''status'']"

definition DECISION_REASONS :: "string list" where
  "DECISION_REASONS = map reason_value reason_codes @ [''evaluation_pending_provider'', ''other'']"

type_synonym label_key = "(string \<times> string) list"

datatype marker = Plain | Count | Sum | Bucket rat

type_synonym samples = "((label_key \<times> marker) \<times> pyfloat) list"

record metric_definition =
  md_name :: string
  md_help :: string
  md_kind :: string
  md_labels :: "string list"
  md_buckets :: "rat list"

text \<open>\<open>_values\<close> is a \<open>defaultdict\<close>: a name without samples has the empty dictionary.\<close>

record registry =
  reg_definitions :: "(string \<times> metric_definition) list"
  reg_values :: "string \<Rightarrow> samples"

definition registry_new :: registry where
  "registry_new = \<lparr>reg_definitions = [], reg_values = (\<lambda>_. [])\<rparr>"

text \<open>\<open>str.isalpha\<close> and \<open>str.isalnum\<close> of an ASCII character.\<close>

definition py_alpha :: "char \<Rightarrow> bool" where
  "py_alpha c \<longleftrightarrow> (let n = of_char c :: nat in (65 \<le> n \<and> n \<le> 90) \<or> (97 \<le> n \<and> n \<le> 122))"

definition py_alnum :: "char \<Rightarrow> bool" where
  "py_alnum c \<longleftrightarrow> py_alpha c \<or> (let n = of_char c :: nat in 48 \<le> n \<and> n \<le> 57)"

definition valid_metric_name :: "string \<Rightarrow> bool" where
  "valid_metric_name name \<longleftrightarrow>
    (let s = filter (\<lambda>c. c \<noteq> CHR ''_'') name in s \<noteq> [] \<and> list_all py_alnum s \<and> py_alpha (hd name))"

definition register ::
  "string \<Rightarrow> string \<Rightarrow> string \<Rightarrow> string list \<Rightarrow> rat list \<Rightarrow> registry \<Rightarrow> registry result" where
  "register name help kind labels buckets reg =
    (if \<not> valid_metric_name name then raise (ValueError ''invalid metric name'')
     else if list_ex (\<lambda>l. l \<in> set FORBIDDEN_LABELS) labels
     then raise (ValueError ''high-cardinality labels are forbidden'')
     else if list_ex (\<lambda>l. l \<notin> set ALLOWED_LABELS) labels
     then raise (ValueError ''labels are not allowed in metrics'')
     else
       (let d = \<lparr>md_name = name, md_help = help, md_kind = kind, md_labels = labels, md_buckets = buckets\<rparr> in
        case map_of (reg_definitions reg) name of
          Some previous \<Rightarrow>
            if previous \<noteq> d then raise (ValueError ''metric already registered with another schema'')
            else ret (reg\<lparr>reg_definitions := AList.update name d (reg_definitions reg)\<rparr>)
        | None \<Rightarrow> ret (reg\<lparr>reg_definitions := AList.update name d (reg_definitions reg)\<rparr>)))"

definition register_counter :: "string \<Rightarrow> string \<Rightarrow> string list \<Rightarrow> registry \<Rightarrow> registry result" where
  "register_counter name help labels = register name help ''counter'' labels []"

definition register_gauge :: "string \<Rightarrow> string \<Rightarrow> string list \<Rightarrow> registry \<Rightarrow> registry result" where
  "register_gauge name help labels = register name help ''gauge'' labels []"

definition default_buckets :: "rat list" where
  "default_buckets = [1/100, 5/100, 1/10, 25/100, 5/10, 1, 2, 5, 10]"

definition register_histogram ::
  "string \<Rightarrow> string \<Rightarrow> string list \<Rightarrow> rat list \<Rightarrow> registry \<Rightarrow> registry result" where
  "register_histogram name help labels buckets = register name help ''histogram'' labels (sort buckets)"

section \<open>Samples\<close>

definition metric_key :: "metric_definition \<Rightarrow> label_key \<Rightarrow> label_key result" where
  "metric_key d labels =
    (if set (map fst labels) \<noteq> set (md_labels d) then raise (ValueError ''labels'')
     else ret (sort_key fst labels))"

definition sample_get :: "samples \<Rightarrow> label_key \<times> marker \<Rightarrow> pyfloat" where
  "sample_get s k = (case map_of s k of None \<Rightarrow> Fin 0 | Some v \<Rightarrow> v)"

definition bump :: "label_key \<times> marker \<Rightarrow> pyfloat \<Rightarrow> samples \<Rightarrow> samples" where
  "bump k x s = AList.update k (fadd (sample_get s k) x) s"

definition metric_inc :: "string \<Rightarrow> pyfloat \<Rightarrow> label_key \<Rightarrow> registry \<Rightarrow> registry result" where
  "metric_inc name amount labels reg =
    (if \<not> (pf_ge0 amount \<and> isfinite amount)
     then raise (ValueError ''counter increment must be finite and non-negative'')
     else case map_of (reg_definitions reg) name of
       None \<Rightarrow> raise (KeyError name)
     | Some d \<Rightarrow>
         if md_kind d \<noteq> ''counter'' then raise (TypeError ''not a counter'')
         else rbind (metric_key d labels) (\<lambda>key.
           ret (reg\<lparr>reg_values := (reg_values reg)(name := bump (key, Plain) amount (reg_values reg name))\<rparr>)))"

definition metric_set :: "string \<Rightarrow> pyfloat \<Rightarrow> label_key \<Rightarrow> registry \<Rightarrow> registry result" where
  "metric_set name value labels reg =
    (if \<not> isfinite value then raise (ValueError ''gauge value must be finite'')
     else case map_of (reg_definitions reg) name of
       None \<Rightarrow> raise (KeyError name)
     | Some d \<Rightarrow>
         if md_kind d \<noteq> ''gauge'' then raise (TypeError ''not a gauge'')
         else rbind (metric_key d labels) (\<lambda>key.
           ret (reg\<lparr>reg_values := (reg_values reg)(name := AList.update (key, Plain) value (reg_values reg name))\<rparr>)))"

text \<open>The samples of one observation: count, sum and every bucket that contains the value.\<close>

definition observed :: "rat list \<Rightarrow> label_key \<Rightarrow> rat \<Rightarrow> samples \<Rightarrow> samples" where
  "observed buckets key x s =
    fold (\<lambda>b s. if x \<le> b then bump (key, Bucket b) (Fin 1) s else s) buckets
      (bump (key, Sum) (Fin x) (bump (key, Count) (Fin 1) s))"

definition metric_observe :: "string \<Rightarrow> pyfloat \<Rightarrow> label_key \<Rightarrow> registry \<Rightarrow> registry result" where
  "metric_observe name value labels reg = (case value of
     Fin x \<Rightarrow> (case map_of (reg_definitions reg) name of
       None \<Rightarrow> raise (KeyError name)
     | Some d \<Rightarrow>
         if md_kind d \<noteq> ''histogram'' then raise (TypeError ''not a histogram'')
         else rbind (metric_key d labels) (\<lambda>key.
           ret (reg\<lparr>reg_values := (reg_values reg)(name := observed (md_buckets d) key x (reg_values reg name))\<rparr>)))
   | _ \<Rightarrow> raise (ValueError ''histogram value must be finite''))"

section \<open>Exposition\<close>

definition replace_char :: "char \<Rightarrow> string \<Rightarrow> string \<Rightarrow> string" where
  "replace_char c r s = concat (map (\<lambda>x. if x = c then r else [x]) s)"

definition escape :: "string \<Rightarrow> string" where
  "escape value = replace_char (CHR 0x22) [CHR 0x5C, CHR 0x22]
     (replace_char (CHR 0x0A) [CHR 0x5C, CHR ''n'']
       (replace_char (CHR 0x5C) [CHR 0x5C, CHR 0x5C] value))"

fun join_comma :: "string list \<Rightarrow> string" where
  "join_comma [] = []"
| "join_comma [x] = x"
| "join_comma (x # y # xs) = x @ '','' @ join_comma (y # xs)"

text \<open>\<open>_format_labels\<close>; \<open>extra\<close> holds the bucket bound of a histogram line.\<close>

definition format_labels :: "label_key \<Rightarrow> label_key \<Rightarrow> string" where
  "format_labels key extra =
    (let labels = fold (\<lambda>(k, v) d. AList.update k v d) extra
           (filter (\<lambda>(k, v). take 2 k \<noteq> ''__'') key)
     in if labels = [] then []
        else ''{'' @ join_comma (map (\<lambda>(n, v). n @ [CHR ''='', CHR 0x22] @ escape v @ [CHR 0x22])
               (sort_key fst labels)) @ ''}'')"

definition sample_line :: "(pyfloat \<Rightarrow> string) \<Rightarrow> string \<Rightarrow> label_key \<Rightarrow> label_key \<Rightarrow> pyfloat \<Rightarrow> string" where
  "sample_line show_g name key extra v = name @ format_labels key extra @ '' '' @ show_g v"

definition histogram_lines ::
  "(pyfloat \<Rightarrow> string) \<Rightarrow> (rat \<Rightarrow> string) \<Rightarrow> metric_definition \<Rightarrow> samples \<Rightarrow> label_key \<Rightarrow> string list" where
  "histogram_lines show_g show_float d s key =
    map (\<lambda>b. sample_line show_g (md_name d @ ''_bucket'') key [(''le'', show_float b)]
      (sample_get s (key, Bucket b))) (md_buckets d) @
    [sample_line show_g (md_name d @ ''_bucket'') key [(''le'', ''+Inf'')] (sample_get s (key, Count)),
     sample_line show_g (md_name d @ ''_count'') key [] (sample_get s (key, Count)),
     sample_line show_g (md_name d @ ''_sum'') key [] (sample_get s (key, Sum))]"

definition metric_lines ::
  "(pyfloat \<Rightarrow> string) \<Rightarrow> (rat \<Rightarrow> string) \<Rightarrow> metric_definition \<Rightarrow> samples \<Rightarrow> string list" where
  "metric_lines show_g show_float d s =
    [''# HELP '' @ md_name d @ '' '' @ md_help d, ''# TYPE '' @ md_name d @ '' '' @ md_kind d] @
    (if md_kind d \<noteq> ''histogram''
     then map (\<lambda>((key, m), v). sample_line show_g (md_name d) key [] v) (sort_key (\<lambda>e. fst (fst e)) s)
     else concat (map (histogram_lines show_g show_float d s) (sort (remdups (map (\<lambda>e. fst (fst e)) s)))))"

definition render :: "(pyfloat \<Rightarrow> string) \<Rightarrow> (rat \<Rightarrow> string) \<Rightarrow> registry \<Rightarrow> string" where
  "render show_g show_float reg =
    concat (map (\<lambda>l. l @ [CHR 0x0A]) (concat (map (\<lambda>(name, d).
      metric_lines show_g show_float d (reg_values reg name)) (sort_key fst (reg_definitions reg)))))"

section \<open>OperationalMetrics\<close>

definition operational_metrics :: "registry \<Rightarrow> registry result" where
  "operational_metrics reg =
    rbind (register_gauge ''smoke_camera_last_good_frame_timestamp_seconds''
      ''Unix timestamp of the last good frame'' [''camera_id''] reg) (\<lambda>reg.
    rbind (register_gauge ''smoke_camera_queue_depth'' ''Current bounded queue depth'' [''camera_id''] reg) (\<lambda>reg.
    rbind (register_histogram ''smoke_stage_latency_seconds'' ''Stage processing latency'' [''stage'']
      default_buckets reg) (\<lambda>reg.
    rbind (register_counter ''smoke_decisions_total'' ''Completed decisions'' [''outcome'', ''reason''] reg) (\<lambda>reg.
    rbind (register_counter ''smoke_model_requests_total'' ''Model requests'' [''model_role'', ''status''] reg) (\<lambda>reg.
    rbind (register_counter ''smoke_audio_requests_total'' ''Audio requests'' [''status''] reg) (\<lambda>reg.
    rbind (register_counter ''smoke_degraded_transitions_total'' ''Component degraded transitions''
      [''component'', ''state''] reg) (\<lambda>reg.
    register_counter ''smoke_retention_operations_total'' ''Retention operations'' [''media_class'', ''status''] reg)))))))"

definition metrics_frame :: "string \<Rightarrow> pyfloat \<Rightarrow> registry \<Rightarrow> registry result" where
  "metrics_frame camera t =
    metric_set ''smoke_camera_last_good_frame_timestamp_seconds'' t [(''camera_id'', camera)]"

definition metrics_queue :: "string \<Rightarrow> int \<Rightarrow> registry \<Rightarrow> registry result" where
  "metrics_queue camera depth = metric_set ''smoke_camera_queue_depth'' (Fin (of_int depth)) [(''camera_id'', camera)]"

definition metrics_stage_latency :: "string \<Rightarrow> pyfloat \<Rightarrow> registry \<Rightarrow> registry result" where
  "metrics_stage_latency stage seconds = metric_observe ''smoke_stage_latency_seconds'' seconds [(''stage'', stage)]"

definition metrics_decision :: "string \<Rightarrow> string \<Rightarrow> registry \<Rightarrow> registry result" where
  "metrics_decision outcome reason =
    (let bounded = (if reason \<in> set DECISION_REASONS then reason else ''other'')
     in metric_inc ''smoke_decisions_total'' (Fin 1) [(''outcome'', outcome), (''reason'', bounded)])"

definition metrics_model_request :: "string \<Rightarrow> string \<Rightarrow> registry \<Rightarrow> registry result" where
  "metrics_model_request model_role status =
    metric_inc ''smoke_model_requests_total'' (Fin 1) [(''model_role'', model_role), (''status'', status)]"

definition metrics_audio_request :: "string \<Rightarrow> registry \<Rightarrow> registry result" where
  "metrics_audio_request status = metric_inc ''smoke_audio_requests_total'' (Fin 1) [(''status'', status)]"

definition metrics_degraded :: "string \<Rightarrow> string \<Rightarrow> registry \<Rightarrow> registry result" where
  "metrics_degraded component state =
    metric_inc ''smoke_degraded_transitions_total'' (Fin 1) [(''component'', component), (''state'', state)]"

definition metrics_retention :: "string \<Rightarrow> string \<Rightarrow> registry \<Rightarrow> registry result" where
  "metrics_retention media_class status =
    metric_inc ''smoke_retention_operations_total'' (Fin 1) [(''media_class'', media_class), (''status'', status)]"

section \<open>The service registry\<close>

definition service_definitions :: "(string \<times> metric_definition) list" where
  "service_definitions = map (\<lambda>(name, help, kind, labels, buckets).
      (name, \<lparr>md_name = name, md_help = help, md_kind = kind, md_labels = labels, md_buckets = buckets\<rparr>))
    [(''smoke_camera_last_good_frame_timestamp_seconds'', ''Unix timestamp of the last good frame'', ''gauge'', [''camera_id''], []),
     (''smoke_camera_queue_depth'', ''Current bounded queue depth'', ''gauge'', [''camera_id''], []),
     (''smoke_stage_latency_seconds'', ''Stage processing latency'', ''histogram'', [''stage''], default_buckets),
     (''smoke_decisions_total'', ''Completed decisions'', ''counter'', [''outcome'', ''reason''], []),
     (''smoke_model_requests_total'', ''Model requests'', ''counter'', [''model_role'', ''status''], []),
     (''smoke_audio_requests_total'', ''Audio requests'', ''counter'', [''status''], []),
     (''smoke_degraded_transitions_total'', ''Component degraded transitions'', ''counter'', [''component'', ''state''], []),
     (''smoke_retention_operations_total'', ''Retention operations'', ''counter'', [''media_class'', ''status''], [])]"

lemma service_names_valid:
  "list_all (\<lambda>(name, d). valid_metric_name name) service_definitions"
  by code_simp

lemma sort_default_buckets: "sort default_buckets = default_buckets"
  by code_simp

text \<open>The constructor of \<open>OperationalMetrics\<close> succeeds, with these definitions and no sample.\<close>

lemma operational_metrics_new:
  "operational_metrics registry_new = Inr \<lparr>reg_definitions = service_definitions, reg_values = (\<lambda>_. [])\<rparr>"
proof -
  have valid: "valid_metric_name ''smoke_camera_last_good_frame_timestamp_seconds''"
    "valid_metric_name ''smoke_camera_queue_depth''" "valid_metric_name ''smoke_stage_latency_seconds''"
    "valid_metric_name ''smoke_decisions_total''" "valid_metric_name ''smoke_model_requests_total''"
    "valid_metric_name ''smoke_audio_requests_total''" "valid_metric_name ''smoke_degraded_transitions_total''"
    "valid_metric_name ''smoke_retention_operations_total''"
    using service_names_valid by (simp_all add: service_definitions_def)
  show ?thesis
    by (simp add: operational_metrics_def register_gauge_def register_counter_def register_histogram_def
        register_def valid registry_new_def service_definitions_def sort_default_buckets
        FORBIDDEN_LABELS_def ALLOWED_LABELS_def Let_def)
qed

text \<open>One call of \<open>OperationalMetrics\<close>; a call that raises changes nothing.\<close>

datatype metric_op =
    OpFrame string pyfloat
  | OpQueue string int
  | OpStageLatency string pyfloat
  | OpDecision string string
  | OpModelRequest string string
  | OpAudioRequest string
  | OpDegraded string string
  | OpRetention string string

fun metric_call :: "metric_op \<Rightarrow> registry \<Rightarrow> registry result" where
  "metric_call (OpFrame c t) = metrics_frame c t"
| "metric_call (OpQueue c n) = metrics_queue c n"
| "metric_call (OpStageLatency s x) = metrics_stage_latency s x"
| "metric_call (OpDecision out r) = metrics_decision out r"
| "metric_call (OpModelRequest m s) = metrics_model_request m s"
| "metric_call (OpAudioRequest s) = metrics_audio_request s"
| "metric_call (OpDegraded c s) = metrics_degraded c s"
| "metric_call (OpRetention m s) = metrics_retention m s"

definition metric_step :: "metric_op \<Rightarrow> registry \<Rightarrow> registry" where
  "metric_step op reg = (case metric_call op reg of Inl _ \<Rightarrow> reg | Inr reg' \<Rightarrow> reg')"

text \<open>The key a call writes to, and what it does to the samples of its metric.\<close>

fun op_metric :: "metric_op \<Rightarrow> string" where
  "op_metric (OpFrame c t) = ''smoke_camera_last_good_frame_timestamp_seconds''"
| "op_metric (OpQueue c n) = ''smoke_camera_queue_depth''"
| "op_metric (OpStageLatency s x) = ''smoke_stage_latency_seconds''"
| "op_metric (OpDecision out r) = ''smoke_decisions_total''"
| "op_metric (OpModelRequest m s) = ''smoke_model_requests_total''"
| "op_metric (OpAudioRequest s) = ''smoke_audio_requests_total''"
| "op_metric (OpDegraded c s) = ''smoke_degraded_transitions_total''"
| "op_metric (OpRetention m s) = ''smoke_retention_operations_total''"

definition bounded_reason :: "string \<Rightarrow> string" where
  "bounded_reason r = (if r \<in> set DECISION_REASONS then r else ''other'')"

fun op_samples :: "metric_op \<Rightarrow> samples \<Rightarrow> samples" where
  "op_samples (OpFrame c t) s = (if isfinite t then AList.update ([(''camera_id'', c)], Plain) t s else s)"
| "op_samples (OpQueue c n) s = AList.update ([(''camera_id'', c)], Plain) (Fin (of_int n)) s"
| "op_samples (OpStageLatency st x) s =
     (case x of Fin v \<Rightarrow> observed default_buckets [(''stage'', st)] v s | _ \<Rightarrow> s)"
| "op_samples (OpDecision out r) s =
     bump ([(''outcome'', out), (''reason'', bounded_reason r)], Plain) (Fin 1) s"
| "op_samples (OpModelRequest m st) s = bump ([(''model_role'', m), (''status'', st)], Plain) (Fin 1) s"
| "op_samples (OpAudioRequest st) s = bump ([(''status'', st)], Plain) (Fin 1) s"
| "op_samples (OpDegraded c st) s = bump ([(''component'', c), (''state'', st)], Plain) (Fin 1) s"
| "op_samples (OpRetention m st) s = bump ([(''media_class'', m), (''status'', st)], Plain) (Fin 1) s"

text \<open>The labels of every call are already in the order of \<open>sorted\<close>.\<close>

lemma label_order:
  "sort_key fst [(''outcome'', a), (''reason'', b)] = [(''outcome'', a), (''reason'', b)]"
  "sort_key fst [(''model_role'', a), (''status'', b)] = [(''model_role'', a), (''status'', b)]"
  "sort_key fst [(''component'', a), (''state'', b)] = [(''component'', a), (''state'', b)]"
  "sort_key fst [(''media_class'', a), (''status'', b)] = [(''media_class'', a), (''status'', b)]"
  for a b :: string
  by (code_simp)+

lemma metric_step_values:
  assumes "reg_definitions reg = service_definitions"
  shows "metric_step op reg = reg\<lparr>reg_values := (reg_values reg)(op_metric op := op_samples op (reg_values reg (op_metric op)))\<rparr>"
  using assms
  by (cases op) (simp_all add: metric_step_def metrics_frame_def metrics_queue_def metrics_stage_latency_def
      metrics_decision_def metrics_model_request_def metrics_audio_request_def metrics_degraded_def metrics_retention_def
      metric_inc_def metric_set_def metric_observe_def metric_key_def service_definitions_def label_order
      bounded_reason_def Let_def insert_commute split: pyfloat.split)

section \<open>Runs\<close>

lemma metrics_run_values:
  assumes "reg_definitions reg = service_definitions"
  shows "reg_definitions (fold metric_step ops reg) = service_definitions \<and>
    reg_values (fold metric_step ops reg) name =
      fold op_samples (filter (\<lambda>op. op_metric op = name) ops) (reg_values reg name)"
  using assms by (induction ops arbitrary: reg) (auto simp: metric_step_values)

lemma sample_get_bump: "sample_get (bump k x s) j = (if j = k then fadd (sample_get s k) x else sample_get s j)"
  by (auto simp: sample_get_def bump_def map_of_update)

lemma keys_update: "set (map fst (AList.update k v s)) = insert k (set (map fst s))"
  by (auto simp: AList.update_keys)

lemma distinct_bump: "distinct (map fst s) \<Longrightarrow> distinct (map fst (bump k x s))"
  by (simp add: bump_def AList.distinct_update)

lemma keys_bump: "fst ` set (bump k x s) = insert k (fst ` set s)"
  using keys_update[of k "fadd (sample_get s k) x" s] by (simp add: bump_def)

text \<open>The outcomes a run reports.\<close>

definition op_outcomes :: "metric_op list \<Rightarrow> string set" where
  "op_outcomes ops = {out. \<exists>r. OpDecision out r \<in> set ops}"

lemma finite_op_outcomes: "finite (op_outcomes ops)"
proof -
  have "op_outcomes ops \<subseteq> (\<lambda>op. case op of OpDecision out r \<Rightarrow> out | _ \<Rightarrow> []) ` set ops"
    unfolding op_outcomes_def by force
  then show ?thesis by (rule finite_subset) simp
qed

lemma bounded_reason_in: "bounded_reason r \<in> set DECISION_REASONS"
  by (simp add: bounded_reason_def DECISION_REASONS_def)

definition decision_keys :: "string set \<Rightarrow> (label_key \<times> marker) set" where
  "decision_keys outs = (\<lambda>(out, r). ([(''outcome'', out), (''reason'', r)], Plain)) ` (outs \<times> set DECISION_REASONS)"

lemma decision_samples:
  assumes "\<And>op. op \<in> set ops \<Longrightarrow> op_metric op = ''smoke_decisions_total''"
    and "distinct (map fst s)" and "fst ` set s \<subseteq> decision_keys outs" and "op_outcomes ops \<subseteq> outs"
  shows "distinct (map fst (fold op_samples ops s)) \<and> fst ` set (fold op_samples ops s) \<subseteq> decision_keys outs"
  using assms
proof (induction ops arbitrary: s)
  case (Cons op ops)
  obtain out r where op: "op = OpDecision out r"
    using Cons.prems(1)[of op] by (cases op) auto
  have "out \<in> outs" using Cons.prems(4) unfolding op op_outcomes_def by auto
  then have "([(''outcome'', out), (''reason'', bounded_reason r)], Plain) \<in> decision_keys outs"
    using bounded_reason_in by (auto simp: decision_keys_def)
  then show ?case
    unfolding fold_simps comp_def
    by (intro Cons.IH) (use Cons.prems in \<open>auto simp: op distinct_bump keys_bump op_outcomes_def\<close>)
qed simp

lemma card_decision_keys: "finite outs \<Longrightarrow> card (decision_keys outs) \<le> 24 * card outs"
proof -
  assume f: "finite outs"
  have "card (decision_keys outs) \<le> card (outs \<times> set DECISION_REASONS)"
    unfolding decision_keys_def by (rule card_image_le) (simp add: f)
  also have "\<dots> = card outs * card (set DECISION_REASONS)" by (rule card_cartesian_product)
  also have "card (set DECISION_REASONS) \<le> 24"
    using card_length[of DECISION_REASONS] by (simp add: DECISION_REASONS_def reason_codes_def)
  finally show ?thesis by (simp add: mult.commute)
qed

section \<open>Histograms\<close>

text \<open>The finite latencies a run observed for a stage, in order.\<close>

definition latencies :: "string \<Rightarrow> metric_op list \<Rightarrow> rat list" where
  "latencies st ops = concat (map (\<lambda>op. case op of
     OpStageLatency s (Fin x) \<Rightarrow> if s = st then [x] else [] | _ \<Rightarrow> []) ops)"

lemma latencies_simps [simp]:
  "latencies st [] = []"
  "latencies st (op # ops) = (case op of OpStageLatency s (Fin x) \<Rightarrow> if s = st then [x] else [] | _ \<Rightarrow> []) @ latencies st ops"
  by (simp_all add: latencies_def)

lemma length_latencies: "length (latencies st ops) \<le> length ops"
  by (induction ops) (auto split: metric_op.split pyfloat.split)

lemma sample_get_bucket_fold:
  assumes "distinct bs"
  shows "sample_get (fold (\<lambda>b s. if x \<le> b then bump (key, Bucket b) (Fin 1) s else s) bs s) j =
    (case j of (k, Bucket b) \<Rightarrow> if k = key \<and> b \<in> set bs \<and> x \<le> b then fadd (sample_get s j) (Fin 1) else sample_get s j
     | _ \<Rightarrow> sample_get s j)"
  using assms by (induction bs arbitrary: s) (auto simp: sample_get_bump split: prod.splits marker.splits)

lemma sample_get_observed:
  assumes "distinct bs" and "b \<in> set bs"
  shows "sample_get (observed bs key x s) (k, Count) =
      (if k = key then fadd (sample_get s (k, Count)) (Fin 1) else sample_get s (k, Count))"
    and "sample_get (observed bs key x s) (k, Sum) =
      (if k = key then fadd (sample_get s (k, Sum)) (Fin x) else sample_get s (k, Sum))"
    and "sample_get (observed bs key x s) (k, Bucket b) =
      (if k = key \<and> x \<le> b then fadd (sample_get s (k, Bucket b)) (Fin 1) else sample_get s (k, Bucket b))"
  using assms by (simp_all add: observed_def sample_get_bucket_fold sample_get_bump)

lemma default_buckets_distinct: "distinct default_buckets" "1 \<in> set default_buckets"
  by (simp_all add: default_buckets_def)

text \<open>What a run of calls leaves in the samples of a stage, from counts that start at \<open>n\<close> and \<open>m\<close>.\<close>

lemma latency_samples:
  assumes ops: "\<And>op. op \<in> set ops \<Longrightarrow> op_metric op = ''smoke_stage_latency_seconds''"
    and b: "b \<in> set default_buckets"
    and start: "sample_get s ([(''stage'', st)], Count) = Fin (of_nat n)"
      "sample_get s ([(''stage'', st)], Bucket b) = Fin (of_nat m)"
    and size: "n + length ops < 2 ^ 53" "m + length ops < 2 ^ 53"
  shows "sample_get (fold op_samples ops s) ([(''stage'', st)], Count) = Fin (of_nat (n + length (latencies st ops))) \<and>
    sample_get (fold op_samples ops s) ([(''stage'', st)], Bucket b) =
      Fin (of_nat (m + length (filter (\<lambda>x. x \<le> b) (latencies st ops)))) \<and>
    sample_get (fold op_samples ops s) ([(''stage'', st)], Sum) =
      fold (\<lambda>x a. fadd a (Fin x)) (latencies st ops) (sample_get s ([(''stage'', st)], Sum))"
  using ops start size
proof (induction ops arbitrary: s n m)
  case (Cons op ops)
  obtain s' v where op: "op = OpStageLatency s' v"
    using Cons.prems(1)[of op] by (cases op) auto
  note get = sample_get_observed[OF default_buckets_distinct(1) b]
  show ?case
  proof (cases "\<exists>x. v = Fin x \<and> s' = st")
    case False
    then have "\<And>k. k \<in> {Count, Sum, Bucket b} \<Longrightarrow>
        sample_get (op_samples op s) ([(''stage'', st)], k) = sample_get s ([(''stage'', st)], k)"
      by (auto simp: op get split: pyfloat.split)
    moreover have "latencies st (op # ops) = latencies st ops"
      using False by (auto simp: op split: pyfloat.split)
    ultimately show ?thesis
      using Cons.IH[of "op_samples op s" n m] Cons.prems by simp
  next
    case True
    then obtain x where x: "op = OpStageLatency st (Fin x)" using op by blast
    have c: "sample_get (op_samples op s) ([(''stage'', st)], Count) = Fin (of_nat (Suc n))"
      using Cons.prems(2,4) fadd_count[of n] by (simp add: x get del: fadd.simps)
    have bk: "sample_get (op_samples op s) ([(''stage'', st)], Bucket b) = Fin (of_nat (if x \<le> b then Suc m else m))"
      using Cons.prems(3,5) fadd_count[of m] by (simp add: x get del: fadd.simps)
    have sm: "sample_get (op_samples op s) ([(''stage'', st)], Sum) =
        fadd (sample_get s ([(''stage'', st)], Sum)) (Fin x)"
      by (simp add: x get)
    show ?thesis
      using Cons.IH[OF _ c bk] Cons.prems(1,4,5) sm by (simp add: x)
  qed
qed simp

section \<open>Reading the exposition format back\<close>

text \<open>The escape in one pass.\<close>

definition escape_char :: "char \<Rightarrow> string" where
  "escape_char c = (if c = CHR 0x5C then [CHR 0x5C, CHR 0x5C] else if c = CHR 0x0A then [CHR 0x5C, CHR ''n'']
     else if c = CHR 0x22 then [CHR 0x5C, CHR 0x22] else [c])"

lemma escape_simps [simp]: "escape [] = []" "escape (c # s) = escape_char c @ escape s"
  by (simp_all add: escape_def replace_char_def escape_char_def)

text \<open>A quoted label value of the Prometheus text format, up to its closing quote.\<close>

fun parse_quoted :: "string \<Rightarrow> (string \<times> string) option" where
  "parse_quoted [] = None"
| "parse_quoted (c # cs) =
    (if c = CHR 0x22 then Some ([], cs)
     else if c = CHR 0x5C then (case cs of
         [] \<Rightarrow> None
       | d # ds \<Rightarrow> map_option (\<lambda>(v, r). ((if d = CHR ''n'' then CHR 0x0A else d) # v, r)) (parse_quoted ds))
     else map_option (\<lambda>(v, r). (c # v, r)) (parse_quoted cs))"

lemma parse_quoted_escape: "parse_quoted (escape v @ CHR 0x22 # rest) = Some (v, rest)"
  by (induction v) (simp_all add: escape_char_def)

text \<open>A label block; each label takes at least one character, so the length is enough fuel.\<close>

fun parse_pairs :: "nat \<Rightarrow> string \<Rightarrow> (label_key \<times> string) option" where
  "parse_pairs 0 s = None"
| "parse_pairs (Suc n) s =
    (let name = takeWhile (\<lambda>c. c \<noteq> CHR ''='') s; tail = drop (length name) s in
     if take 2 tail \<noteq> [CHR ''='', CHR 0x22] then None
     else (case parse_quoted (drop 2 tail) of
         None \<Rightarrow> None
       | Some (v, r) \<Rightarrow>
           if take 1 r = ''}'' then Some ([(name, v)], drop 1 r)
           else if take 1 r = '','' then map_option (\<lambda>(ls, r'). ((name, v) # ls, r')) (parse_pairs n (drop 1 r))
           else None))"

definition parse_labels :: "string \<Rightarrow> (label_key \<times> string) option" where
  "parse_labels s = (if take 1 s = ''{'' then parse_pairs (length s) (drop 1 s) else Some ([], s))"

abbreviation label_text :: "string \<times> string \<Rightarrow> string" where
  "label_text \<equiv> \<lambda>(n, v). n @ [CHR ''='', CHR 0x22] @ escape v @ [CHR 0x22]"

lemma parse_pairs_format:
  assumes "labels \<noteq> []" and "\<forall>(k, v) \<in> set labels. CHR ''='' \<notin> set k" and "length labels \<le> n"
  shows "parse_pairs n (join_comma (map label_text labels) @ CHR ''}'' # rest) = Some (labels, rest)"
  using assms
proof (induction labels arbitrary: n rule: induct_list012)
  case (2 p)
  obtain k v where p: "p = (k, v)" by (cases p)
  obtain m where n: "n = Suc m" using "2.prems" by (cases n) auto
  have "takeWhile (\<lambda>c. c \<noteq> CHR ''='') (k @ CHR ''='' # xs) = k" for xs
    using "2.prems"(2) p by (subst takeWhile_append2) auto
  then show ?case by (simp add: p n parse_quoted_escape)
next
  case (3 p q ps)
  obtain k v where p: "p = (k, v)" by (cases p)
  obtain m where n: "n = Suc m" using "3.prems" by (cases n) auto
  have name: "takeWhile (\<lambda>c. c \<noteq> CHR ''='') (k @ CHR ''='' # xs) = k" for xs
    using "3.prems"(2) p by (subst takeWhile_append2) auto
  have "parse_pairs m (join_comma (map label_text (q # ps)) @ CHR ''}'' # rest) = Some (q # ps, rest)"
    by (rule "3.IH"(2)) (use "3.prems" n in auto)
  then show ?case by (simp add: p n name parse_quoted_escape)
qed simp

lemma length_join_comma: "(\<And>x. x \<in> set xs \<Longrightarrow> x \<noteq> []) \<Longrightarrow> length xs \<le> length (join_comma xs)"
proof (induction xs rule: join_comma.induct)
  case (3 x y xs)
  have "length (y # xs) \<le> length (join_comma (y # xs))" by (rule "3.IH") (use "3.prems" in auto)
  then show ?case by simp
qed (auto simp: Suc_le_eq)

lemma newline_escape: "CHR 0x0A \<notin> set (escape v)"
  by (induction v) (auto simp: escape_char_def)

lemma newline_join: "(\<And>x. x \<in> set xs \<Longrightarrow> c \<notin> set x) \<Longrightarrow> c \<noteq> CHR '','' \<Longrightarrow> c \<notin> set (join_comma xs)"
  by (induction xs rule: join_comma.induct) auto

lemma allowed_label_plain:
  assumes "k \<in> set ALLOWED_LABELS"
  shows "CHR ''='' \<notin> set k" "CHR 0x0A \<notin> set k" "take 2 k \<noteq> ''__''"
  using assms by (auto simp: ALLOWED_LABELS_def)

lemma format_labels_plain:
  assumes "list_all (\<lambda>(k, v). k \<in> set ALLOWED_LABELS) key" and "key \<noteq> []"
  shows "format_labels key [] = ''{'' @ join_comma (map label_text (sort_key fst key)) @ ''}''"
proof -
  have "filter (\<lambda>(k, v). take 2 k \<noteq> ''__'') key = key"
    using assms(1) allowed_label_plain(3) by (intro filter_True) (auto simp: list_all_iff)
  then show ?thesis using assms(2) by (simp add: format_labels_def Let_def)
qed

section \<open>Properties\<close>

text \<open>The metric registry stays small whatever is reported: the constructor of the service
  metrics succeeds, and after any sequence of calls (with any strings and numbers, failing calls
  included) there are at most 24 decision series for each distinct outcome, because every reason
  outside the catalogue is folded into \<open>other\<close>.\<close>

theorem decision_series_bounded:
  "case operational_metrics registry_new of
     Inl _ \<Rightarrow> False
   | Inr reg \<Rightarrow> length (reg_values (fold metric_step ops reg) ''smoke_decisions_total'') \<le> 24 * card (op_outcomes ops)"
proof -
  let ?ops = "filter (\<lambda>op. op_metric op = ''smoke_decisions_total'') ops"
  let ?s = "fold op_samples ?ops []"
  have "op_outcomes ?ops = op_outcomes ops" by (auto simp: op_outcomes_def)
  then have s: "distinct (map fst ?s)" "fst ` set ?s \<subseteq> decision_keys (op_outcomes ops)"
    using decision_samples[of ?ops "[]" "op_outcomes ops"] by auto
  have "length ?s = card (fst ` set ?s)"
    using distinct_card[OF s(1)] by simp
  also have "\<dots> \<le> card (decision_keys (op_outcomes ops))"
    by (rule card_mono[OF _ s(2)]) (simp add: decision_keys_def finite_op_outcomes)
  also have "\<dots> \<le> 24 * card (op_outcomes ops)"
    by (rule card_decision_keys[OF finite_op_outcomes])
  finally show ?thesis
    using metrics_run_values[of _ ops] by (simp add: operational_metrics_new)
qed



text \<open>No label value can break the exposition: for any labels of the allow-list with any
  values (quotes, backslashes and line breaks included), the rendered label block stays on one line,
  and reading it by the Prometheus text format gives back exactly the labels, in sorted order, with
  nothing left over.\<close>

theorem label_block_round_trip:
  assumes "list_all (\<lambda>(k, v). k \<in> set ALLOWED_LABELS) key"
  shows "parse_labels (format_labels key []) = Some (sort_key fst key, []) \<and>
    CHR 0x0A \<notin> set (format_labels key [])"
proof (cases "key = []")
  case False
  let ?ls = "sort_key fst key"
  have all: "\<forall>(k, v) \<in> set ?ls. k \<in> set ALLOWED_LABELS" using assms by (auto simp: list_all_iff)
  have ne: "?ls \<noteq> []" using False by (metis set_empty set_sort)
  have "length (map label_text ?ls) \<le> length (join_comma (map label_text ?ls))"
    by (rule length_join_comma) auto
  then have len: "length ?ls \<le> length (join_comma (map label_text ?ls))" by simp
  have "parse_pairs (length (format_labels key [])) (join_comma (map label_text ?ls) @ ''}'') = Some (?ls, [])"
    using all ne len allowed_label_plain(1)
    by (intro parse_pairs_format) (auto simp: format_labels_plain[OF assms False])
  then have "parse_labels (format_labels key []) = Some (?ls, [])"
    by (simp add: parse_labels_def format_labels_plain[OF assms False])
  moreover have "CHR 0x0A \<notin> set (join_comma (map label_text ?ls))"
    using all newline_escape allowed_label_plain(2) by (intro newline_join) auto
  ultimately show ?thesis by (simp add: format_labels_plain[OF assms False])
qed (simp add: format_labels_def parse_labels_def)

theorem label_block_round_trip_witness:
  "parse_labels (format_labels [(''stage'', [CHR 0x22, CHR 0x0A, CHR 0x5C])] []) =
    Some ([(''stage'', [CHR 0x22, CHR 0x0A, CHR 0x5C])], [])"
  using label_block_round_trip[of "[(''stage'', [CHR 0x22, CHR 0x0A, CHR 0x5C])]"]
  by (simp add: ALLOWED_LABELS_def)

end
