(* ===== verification/Health.thy ===== *)
theory Health
  imports Metrics Json
begin

text \<open>
  Readiness state, \<open>src/tp_smoke_detect/observability/health.py\<close>: components and cameras with their
  last state, the queue depths, and the counter of degraded transitions it feeds.  A dictionary is
  written before its metric is reported, so an operation returns its result and the state after it
  even when the report raises.
\<close>

section \<open>State\<close>

datatype HealthState = HEALTHY | DEGRADED | UNAVAILABLE | UNKNOWN

fun health_value :: "HealthState \<Rightarrow> string" where
  "health_value HEALTHY = ''healthy''"
| "health_value DEGRADED = ''degraded''"
| "health_value UNAVAILABLE = ''unavailable''"
| "health_value UNKNOWN = ''unknown''"

record ComponentHealth =
  ch_name :: string
  ch_state :: HealthState
  ch_last_success_at :: "datetime option"
  ch_message :: "string option"
  ch_details :: "(string \<times> string) list"

record CameraHealth =
  cm_camera_id :: string
  cm_state :: HealthState
  cm_last_good_frame_at :: "datetime option"
  cm_reason :: "string option"

record health =
  he_metrics :: "registry option"
  he_components :: "(string \<times> ComponentHealth) list"
  he_cameras :: "(string \<times> CameraHealth) list"
  he_queue_depth :: "(string \<times> int) list"
  he_last_activity :: "datetime option"

definition health_new :: "registry option \<Rightarrow> health" where
  "health_new m = \<lparr>he_metrics = m, he_components = [], he_cameras = [], he_queue_depth = [],
     he_last_activity = None\<rparr>"

text \<open>\<open>if self.metrics: self.metrics.f(...)\<close>.\<close>

definition report :: "(registry \<Rightarrow> registry result) \<Rightarrow> health \<Rightarrow> unit result \<times> health" where
  "report f h = (case he_metrics h of
     None \<Rightarrow> (ret (), h)
   | Some reg \<Rightarrow> (case f reg of Inl e \<Rightarrow> (raise e, h) | Inr reg' \<Rightarrow> (ret (), h\<lparr>he_metrics := Some reg'\<rparr>)))"

text \<open>\<open>datetime.timestamp()\<close>: the microseconds since the epoch, divided and rounded.\<close>

definition timestamp :: "datetime \<Rightarrow> pyfloat" where
  "timestamp t = round64 (of_int (astimezone_utc t) / 1000000)"

section \<open>Operations\<close>

definition set_component ::
  "string \<Rightarrow> HealthState \<Rightarrow> datetime option \<Rightarrow> string option \<Rightarrow> (string \<times> string) list option \<Rightarrow>
   health \<Rightarrow> ComponentHealth result \<times> health" where
  "set_component name state last_success message details h =
    (if name = [] then (raise (ValueError ''component name is required''), h)
     else
       (let previous = map_of (he_components h) name;
            value = \<lparr>ch_name = name, ch_state = state, ch_last_success_at = last_success, ch_message = message,
              ch_details = (case details of None \<Rightarrow> [] | Some d \<Rightarrow> d)\<rparr>;
            h1 = h\<lparr>he_components := AList.update name value (he_components h)\<rparr>
        in if state = DEGRADED \<and> (case previous of None \<Rightarrow> True | Some p \<Rightarrow> ch_state p \<noteq> DEGRADED)
           then (case report (metrics_degraded name (health_value state)) h1 of
               (Inl e, h2) \<Rightarrow> (raise e, h2) | (Inr _, h2) \<Rightarrow> (ret value, h2))
           else (ret value, h1)))"

text \<open>\<open>now\<close> is the clock when \<open>healthy\<close> reads it.\<close>

definition mark_component ::
  "time_us \<Rightarrow> string \<Rightarrow> bool \<Rightarrow> string option \<Rightarrow> health \<Rightarrow> ComponentHealth result \<times> health" where
  "mark_component now name healthy message =
    set_component name (if healthy then HEALTHY else DEGRADED) (if healthy then Some (Aware now) else None)
      message None"

definition set_camera ::
  "string \<Rightarrow> HealthState \<Rightarrow> datetime option \<Rightarrow> string option \<Rightarrow> health \<Rightarrow> CameraHealth result \<times> health" where
  "set_camera camera_id state last_frame reason h =
    (if camera_id = [] then (raise (ValueError ''camera_id is required''), h)
     else
       (let previous = map_of (he_cameras h) camera_id;
            value = \<lparr>cm_camera_id = camera_id, cm_state = state, cm_last_good_frame_at = last_frame, cm_reason = reason\<rparr>;
            h1 = h\<lparr>he_cameras := AList.update camera_id value (he_cameras h)\<rparr>
        in case (case last_frame of None \<Rightarrow> (ret (), h1)
               | Some t \<Rightarrow> report (metrics_frame camera_id (timestamp t)) h1) of
             (Inl e, h2) \<Rightarrow> (raise e, h2)
           | (Inr _, h2) \<Rightarrow>
               if state \<in> {DEGRADED, UNAVAILABLE} \<and> (case previous of None \<Rightarrow> True | Some p \<Rightarrow> cm_state p \<noteq> state)
               then (case report (metrics_degraded ''camera'' (health_value state)) h2 of
                   (Inl e, h3) \<Rightarrow> (raise e, h3) | (Inr _, h3) \<Rightarrow> (ret value, h3))
               else (ret value, h2)))"

text \<open>\<open>at\<close> with its default \<open>datetime.now(UTC)\<close> already applied.\<close>

definition record_frame :: "string \<Rightarrow> datetime \<Rightarrow> health \<Rightarrow> CameraHealth result \<times> health" where
  "record_frame camera_id t h = set_camera camera_id HEALTHY (Some t) None (h\<lparr>he_last_activity := Some t\<rparr>)"

definition set_queue_depth :: "string \<Rightarrow> int \<Rightarrow> health \<Rightarrow> unit result \<times> health" where
  "set_queue_depth camera_id depth h =
    (if depth < 0 then (raise (ValueError ''queue depth cannot be negative''), h)
     else report (metrics_queue camera_id depth)
       (h\<lparr>he_queue_depth := AList.update camera_id depth (he_queue_depth h)\<rparr>))"

definition mark_camera_degraded :: "string \<Rightarrow> string \<Rightarrow> health \<Rightarrow> CameraHealth result \<times> health" where
  "mark_camera_degraded camera_id reason h =
    set_camera camera_id DEGRADED
      (case map_of (he_cameras h) camera_id of None \<Rightarrow> None | Some c \<Rightarrow> cm_last_good_frame_at c) (Some reason) h"

section \<open>Snapshot\<close>

definition json_time :: "datetime option \<Rightarrow> json" where
  "json_time t = (case t of None \<Rightarrow> JNull | Some x \<Rightarrow> jtime (astimezone_utc x))"

definition serialize_component :: "ComponentHealth \<Rightarrow> dict" where
  "serialize_component c = [(''name'', JStr (ch_name c)), (''state'', JStr (health_value (ch_state c))),
     (''last_success_at'', json_time (ch_last_success_at c)), (''message'', json_opt (ch_message c)),
     (''details'', JObj (map (\<lambda>(k, v). (k, JStr v)) (ch_details c)))]"

definition serialize_camera :: "CameraHealth \<Rightarrow> dict" where
  "serialize_camera c = [(''camera_id'', JStr (cm_camera_id c)), (''state'', JStr (health_value (cm_state c))),
     (''last_good_frame_at'', json_time (cm_last_good_frame_at c)), (''reason'', json_opt (cm_reason c))]"

definition bad_state :: "HealthState \<Rightarrow> bool" where
  "bad_state s \<longleftrightarrow> s = DEGRADED \<or> s = UNAVAILABLE"

definition snapshot :: "health \<Rightarrow> dict" where
  "snapshot h =
    [(''status'', JStr (if list_ex (\<lambda>(n, c). bad_state (ch_state c)) (he_components h) then ''degraded'' else ''ready'')),
     (''components'', JObj (map (\<lambda>(n, c). (n, JObj (serialize_component c))) (sort_key fst (he_components h)))),
     (''cameras'', JObj (map (\<lambda>(n, c). (n, JObj (serialize_camera c))) (sort_key fst (he_cameras h)))),
     (''affected_camera_count'', JInt (int (length (filter (\<lambda>(n, c). bad_state (cm_state c)) (he_cameras h))))),
     (''queue_depth'', JObj (map (\<lambda>(n, q). (n, JInt q)) (sort_key fst (he_queue_depth h)))),
     (''last_successful_activity'', json_time (he_last_activity h))]"

section \<open>Counting transitions\<close>

text \<open>A call that reports through \<open>OperationalMetrics\<close>, over a registry of the service.\<close>

lemma report_call:
  assumes "he_metrics h = Some reg"
  shows "snd (report (metric_call m) h) = h\<lparr>he_metrics := Some (metric_step m reg)\<rparr>"
  using assms by (auto simp: report_def metric_step_def split: sum.split)

lemma degraded_succeeds:
  assumes "he_metrics h = Some reg" and "reg_definitions reg = service_definitions"
  shows "report (metrics_degraded c st) h = (Inr (), h\<lparr>he_metrics := Some (metric_step (OpDegraded c st) reg)\<rparr>)"
  using assms by (simp add: report_def metric_step_def metrics_degraded_def metric_inc_def metric_key_def
      service_definitions_def insert_commute)

datatype health_op =
    SetComponent string HealthState "datetime option" "string option" "(string \<times> string) list option"
  | MarkComponent time_us string bool "string option"
  | SetCamera string HealthState "datetime option" "string option"
  | RecordFrame string datetime
  | SetQueueDepth string int
  | MarkCameraDegraded string string

fun health_step :: "health_op \<Rightarrow> health \<Rightarrow> health" where
  "health_step (SetComponent n s t m d) h = snd (set_component n s t m d h)"
| "health_step (MarkComponent now n ok m) h = snd (mark_component now n ok m h)"
| "health_step (SetCamera c s t r) h = snd (set_camera c s t r h)"
| "health_step (RecordFrame c t) h = snd (record_frame c t h)"
| "health_step (SetQueueDepth c n) h = snd (set_queue_depth c n h)"
| "health_step (MarkCameraDegraded c r) h = snd (mark_camera_degraded c r h)"

text \<open>The state an operation gives to a component.\<close>

fun assigned :: "string \<Rightarrow> health_op \<Rightarrow> HealthState option" where
  "assigned c (SetComponent n s t m d) = (if n = c then Some s else None)"
| "assigned c (MarkComponent now n ok m) = (if n = c then Some (if ok then HEALTHY else DEGRADED) else None)"
| "assigned c _ = None"

fun component_op :: "health_op \<Rightarrow> bool" where
  "component_op (SetComponent n s t m d) = True"
| "component_op (MarkComponent now n ok m) = True"
| "component_op _ = False"

text \<open>Rising edges into \<open>DEGRADED\<close> in a sequence of states after \<open>prev\<close>.\<close>

fun rising :: "HealthState option \<Rightarrow> HealthState list \<Rightarrow> nat" where
  "rising prev [] = 0"
| "rising prev (s # ss) = (if s = DEGRADED \<and> prev \<noteq> Some DEGRADED then 1 else 0) + rising (Some s) ss"

definition component_states :: "string \<Rightarrow> health_op list \<Rightarrow> HealthState list" where
  "component_states c ops = List.map_filter (assigned c) ops"

definition degraded_count :: "string \<Rightarrow> registry \<Rightarrow> pyfloat" where
  "degraded_count c reg = sample_get (reg_values reg ''smoke_degraded_transitions_total'')
     ([(''component'', c), (''state'', ''degraded'')], Plain)"

lemma degraded_count_step:
  assumes "reg_definitions reg = service_definitions"
  shows "degraded_count c (metric_step m reg) =
    (if m = OpDegraded c ''degraded'' then fadd (degraded_count c reg) (Fin 1) else degraded_count c reg)"
  using assms by (cases m) (simp_all add: degraded_count_def metric_step_values sample_get_bump)

lemma definitions_step:
  "reg_definitions reg = service_definitions \<Longrightarrow> reg_definitions (metric_step m reg) = service_definitions"
  by (simp add: metric_step_values)

text \<open>What is known of one component: the counter and the last state.\<close>

definition tracks :: "string \<Rightarrow> pyfloat \<Rightarrow> HealthState option \<Rightarrow> health \<Rightarrow> bool" where
  "tracks c n prev h \<longleftrightarrow> (\<exists>reg. he_metrics h = Some reg \<and> reg_definitions reg = service_definitions \<and>
     degraded_count c reg = n \<and> map_option ch_state (map_of (he_components h) c) = prev)"

lemma tracks_report:
  assumes "tracks c n prev h" and "m \<noteq> OpDegraded c ''degraded''"
  shows "tracks c n prev (snd (report (metric_call m) h))"
  using assms unfolding tracks_def
  by (auto simp: report_call degraded_count_step definitions_step)

lemma tracks_frame:
  assumes "tracks c n prev h" and "he_components h' = he_components h" and "he_metrics h' = he_metrics h"
  shows "tracks c n prev h'"
  using assms by (simp add: tracks_def)

lemma tracks_set_component:
  assumes t: "tracks c n prev h" and name: "name \<noteq> []"
  shows "tracks c (if name = c \<and> s = DEGRADED \<and> prev \<noteq> Some DEGRADED then fadd n (Fin 1) else n)
    (if name = c then Some s else prev) (snd (set_component name s t' m d h))"
proof -
  obtain reg where reg: "he_metrics h = Some reg" "reg_definitions reg = service_definitions"
      "degraded_count c reg = n" "map_option ch_state (map_of (he_components h) c) = prev"
    using t by (auto simp: tracks_def)
  show ?thesis
    unfolding tracks_def
    using reg name
    by (auto simp: set_component_def Let_def degraded_succeeds degraded_count_step definitions_step map_of_update
        split: option.splits)
qed

lemma set_component_empty: "snd (set_component [] s t m d h) = h"
  by (simp add: set_component_def)

lemma tracks_set_camera:
  assumes "tracks c n prev h" and "c \<noteq> ''camera''"
  shows "tracks c n prev (snd (set_camera camera s t r h))"
proof (cases "camera = []")
  case False
  let ?h1 = "h\<lparr>he_cameras := AList.update camera \<lparr>cm_camera_id = camera, cm_state = s, cm_last_good_frame_at = t,
    cm_reason = r\<rparr> (he_cameras h)\<rparr>"
  let ?f = "case t of None \<Rightarrow> (ret (), ?h1) | Some t \<Rightarrow> report (metrics_frame camera (timestamp t)) ?h1"
  have t1: "tracks c n prev ?h1" by (rule tracks_frame[OF assms(1)]) simp_all
  have f: "tracks c n prev (snd ?f)"
    using t1 tracks_report[OF t1, of "OpFrame camera (timestamp (the t))"] by (cases t) simp_all
  have "tracks c n prev (snd (report (metrics_degraded ''camera'' (health_value s)) (snd ?f)))"
    using tracks_report[OF f, of "OpDegraded ''camera'' (health_value s)"] assms(2) by simp
  with f False show ?thesis
    by (cases ?f; cases "fst ?f") (auto simp: set_camera_def Let_def split: prod.splits sum.splits)
qed (simp add: set_camera_def assms)

lemma tracks_step:
  assumes "tracks c n prev h" and "c \<noteq> ''camera''" and "c \<noteq> []"
  shows "tracks c (if assigned c op = Some DEGRADED \<and> prev \<noteq> Some DEGRADED then fadd n (Fin 1) else n)
    (case assigned c op of None \<Rightarrow> prev | Some s \<Rightarrow> Some s) (health_step op h)"
proof (cases op)
  case (SetComponent name s t m d)
  then show ?thesis
    using tracks_set_component[OF assms(1), of name s t m d] assms(1,3)
    by (cases "name = []") (auto simp: set_component_empty)
next
  case (MarkComponent now name ok m)
  then show ?thesis
    using tracks_set_component[OF assms(1), of name "if ok then HEALTHY else DEGRADED"
        "if ok then Some (Aware now) else None" m None] assms(1,3)
    by (cases "name = []"; cases ok) (auto simp: mark_component_def set_component_empty)
next
  case (RecordFrame camera t)
  have "tracks c n prev (h\<lparr>he_last_activity := Some t\<rparr>)" by (rule tracks_frame[OF assms(1)]) simp_all
  then show ?thesis using RecordFrame assms(2) by (simp add: record_frame_def tracks_set_camera)
next
  case (SetQueueDepth camera depth)
  have "tracks c n prev (h\<lparr>he_queue_depth := AList.update camera depth (he_queue_depth h)\<rparr>)"
    by (rule tracks_frame[OF assms(1)]) simp_all
  then show ?thesis
    using SetQueueDepth assms(1) tracks_report[of c n prev _ "OpQueue camera depth"] by (simp add: set_queue_depth_def)
qed (use assms in \<open>simp_all add: mark_camera_degraded_def tracks_set_camera\<close>)

lemma tracks_run:
  assumes "tracks c (Fin (of_nat n)) prev h" and "c \<noteq> ''camera''" and "c \<noteq> []" and "n + length ops < 2 ^ 53"
  shows "\<exists>prev'. tracks c (Fin (of_nat (n + rising prev (component_states c ops)))) prev' (fold health_step ops h)"
  using assms
proof (induction ops arbitrary: n prev h)
  case Nil
  then show ?case by (auto simp: component_states_def List.map_filter_simps)
next
  case (Cons op ops)
  note step = tracks_step[OF Cons.prems(1-3), of op]
  show ?case
  proof (cases "assigned c op")
    case None
    then show ?thesis
      using Cons.IH[OF _ Cons.prems(2,3), of n prev "health_step op h"] step Cons.prems(4)
      by (simp add: component_states_def List.map_filter_simps)
  next
    case (Some s)
    let ?n = "if s = DEGRADED \<and> prev \<noteq> Some DEGRADED then Suc n else n"
    have "tracks c (Fin (of_nat ?n)) (Some s) (health_step op h)"
      using step Some Cons.prems(4) fadd_count[of n] by (auto simp del: fadd.simps split: if_splits)
    from Cons.IH[OF this Cons.prems(2,3)] show ?thesis
      using Cons.prems(4) Some by (auto simp: component_states_def List.map_filter_simps algebra_simps split: if_splits)
  qed
qed

section \<open>Isolation of cameras\<close>

lemma report_frame [simp]:
  "he_components (snd (report f h)) = he_components h" "he_cameras (snd (report f h)) = he_cameras h"
  by (simp_all add: report_def split: option.split sum.split)

lemma set_camera_components [simp]: "he_components (snd (set_camera c s t r h)) = he_components h"
proof -
  have f: "report f h' = (x, h'') \<Longrightarrow> he_components h'' = he_components h'" for f h' x h''
    using report_frame(1)[of f h'] by simp
  show ?thesis
    by (auto simp: set_camera_def Let_def dest!: f split: option.splits prod.splits sum.splits)
qed

lemma components_step:
  "\<not> component_op op \<Longrightarrow> he_components (health_step op h) = he_components h"
  by (cases op) (simp_all add: record_frame_def set_queue_depth_def mark_camera_degraded_def)

lemma set_component_components:
  "he_components (snd (set_component n s t m d h)) =
    (if n = [] then he_components h
     else AList.update n \<lparr>ch_name = n, ch_state = s, ch_last_success_at = t, ch_message = m,
       ch_details = (case d of None \<Rightarrow> [] | Some d \<Rightarrow> d)\<rparr> (he_components h))"
proof -
  have f: "report f h' = (x, h'') \<Longrightarrow> he_components h'' = he_components h'" for f h' x h''
    using report_frame(1)[of f h'] by simp
  show ?thesis by (auto simp: set_component_def Let_def dest!: f split: option.splits prod.splits sum.splits)
qed

lemma components_cong:
  "component_op op \<Longrightarrow> he_components h = he_components h' \<Longrightarrow>
    he_components (health_step op h) = he_components (health_step op h')"
  by (cases op) (simp_all add: set_component_components mark_component_def)

lemma components_run:
  "he_components h = he_components h' \<Longrightarrow>
    he_components (fold health_step ops h) = he_components (fold health_step (filter component_op ops) h')"
proof (induction ops arbitrary: h h')
  case (Cons op ops)
  show ?case
  proof (cases "component_op op")
    case True
    then show ?thesis using Cons.IH[OF components_cong[OF True Cons.prems]] by simp
  next
    case False
    then show ?thesis using Cons.IH[of "health_step op h" h'] Cons.prems by (simp add: components_step)
  qed
qed simp

section \<open>Properties\<close>

text \<open>Over any sequence of fewer than \<open>2 ^ 53\<close> health operations on a fresh registry: the
  degraded-transition counter of a component counts exactly the rising edges into \<open>degraded\<close> of the
  states it was given (a component that stays degraded is counted once, one that recovers and
  degrades again is counted again), and the readiness status in the snapshot is what the component
  operations alone give: nothing reported about cameras, frames or queues can make the service
  unready or ready.  (The name \<open>camera\<close> is excluded, since cameras share that series.)\<close>

theorem degraded_edges_counted:
  assumes "operational_metrics registry_new = Inr reg" and "length ops < 2 ^ 53"
    and "c \<noteq> []" and "c \<noteq> ''camera''"
  shows "(\<exists>reg'. he_metrics (fold health_step ops (health_new (Some reg))) = Some reg' \<and>
      degraded_count c reg' = Fin (of_nat (rising None (component_states c ops)))) \<and>
    dget (snapshot (fold health_step ops (health_new (Some reg)))) ''status'' =
    dget (snapshot (fold health_step (filter component_op ops) (health_new None))) ''status''"
proof (intro conjI)
  have "tracks c (Fin (of_nat 0)) None (health_new (Some reg))"
    using assms(1) by (auto simp: tracks_def health_new_def operational_metrics_new degraded_count_def sample_get_def)
  from tracks_run[OF this assms(4,3), of ops] assms(2)
  show "\<exists>reg'. he_metrics (fold health_step ops (health_new (Some reg))) = Some reg' \<and>
      degraded_count c reg' = Fin (of_nat (rising None (component_states c ops)))"
    by (auto simp: tracks_def)
  show "dget (snapshot (fold health_step ops (health_new (Some reg)))) ''status'' =
    dget (snapshot (fold health_step (filter component_op ops) (health_new None))) ''status''"
    using components_run[of "health_new (Some reg)" "health_new None" ops]
    by (simp add: snapshot_def dget_def health_new_def)
qed

theorem degraded_edges_counted_witness:
  "\<exists>reg reg'. operational_metrics registry_new = Inr reg \<and>
    he_metrics (fold health_step [MarkComponent 1 ''database'' False None, MarkComponent 2 ''database'' False None,
      MarkCameraDegraded ''cam'' ''stalled'', MarkComponent 3 ''database'' True None,
      MarkComponent 4 ''database'' False None] (health_new (Some reg))) = Some reg' \<and>
    degraded_count ''database'' reg' = Fin 2"
  using degraded_edges_counted[OF operational_metrics_new, of "[MarkComponent 1 ''database'' False None,
      MarkComponent 2 ''database'' False None, MarkCameraDegraded ''cam'' ''stalled'',
      MarkComponent 3 ''database'' True None, MarkComponent 4 ''database'' False None]" "''database''"]
    operational_metrics_new
  by (auto simp: component_states_def List.map_filter_simps)

end
