(* ===== verification/Api.thy ===== *)
theory Api
  imports Request_Audio Idempotency Artifact_Store Paths Api_Models Health
begin

text \<open>
  The REST edge, \<open>src/tp_smoke_detect/api/app.py\<close>, over the SQLite repository: \<open>create_app\<close> with its
  camera reconciliation, and one definition per handler.  The application state is the repository's
  connection, the audio controller and the health registry, which owns the metrics.  A handler gets
  the validated request; a raised \<open>HTTPException\<close> is an error value with its status code.

  Values drawn during a call (identifiers of \<open>uuid4\<close>, clock readings) are arguments.  \<open>digest\<close> is the
  hexadecimal SHA-256 of the canonical JSON text of a value, \<open>parse\<close> the parser of \<open>uuid.UUID\<close>.  The
  zone lock makes \<open>perform\<close> one step of this model; the SQLite repository has the optional
  methods the handlers look up with \<open>getattr\<close>.
\<close>

section \<open>State\<close>

record 'c app =
  st_repo :: "db conn"
  st_ctl :: 'c
  st_health :: health
  st_policy :: PolicySettings

type_synonym ('a, 'c) handler = "'c app \<Rightarrow> 'a result \<times> 'c app"

definition on_repo :: "'a repo \<Rightarrow> ('a, 'c) handler" where
  "on_repo m s = (let (r, c) = m (st_repo s) in (r, s\<lparr>st_repo := c\<rparr>))"

section \<open>Cameras\<close>

definition dump_point :: "point \<Rightarrow> json" where
  "dump_point p = JObj [(''x'', JFloat (pt_x p)), (''y'', JFloat (pt_y p))]"

text \<open>\<open>profile.model_dump(mode="json")\<close>.\<close>

definition dump_profile :: "CameraProfile \<Rightarrow> dict" where
  "dump_profile p =
    [(''camera_id'', JStr (cp_camera_id p)), (''zone_id'', JStr (cp_zone_id p)), (''enabled'', JBool (cp_enabled p)),
     (''analysis_fps'', JFloat (cp_analysis_fps p)), (''roi'', JList (map dump_point (cp_roi p))),
     (''excluded_zones'', JList (map (\<lambda>z. JList (map dump_point z)) (cp_excluded_zones p))),
     (''min_face_pixels'', JInt (cp_min_face_pixels p)), (''min_crop_pixels'', JInt (cp_min_crop_pixels p)),
     (''day_night'', JStr (cp_day_night p))]"

definition profile_revision :: "(json \<Rightarrow> string) \<Rightarrow> CameraProfile \<Rightarrow> string" where
  "profile_revision digest p = take 16 (digest (JObj (sort_key fst (dump_profile p))))"

text \<open>The reconciliation of \<open>create_app\<close>: every mounted profile is written, then every configured camera
  that is no longer mounted is switched off.\<close>

definition mount_profile :: "(json \<Rightarrow> string) \<Rightarrow> time_us \<Rightarrow> CameraProfile \<Rightarrow> unit repo" where
  "mount_profile digest now p =
    cbind (upsert_camera now (dump_profile p @
      [(''revision'', JStr (profile_revision digest p)), (''active'', JBool (cp_enabled p)),
       (''managed_by_config'', JBool True), (''deactivated_by_config'', JBool False)])) (\<lambda>_. cret ())"

definition retire_camera :: "time_us \<Rightarrow> string list \<Rightarrow> dict \<Rightarrow> unit repo" where
  "retire_camera now mounted persisted =
    (if dget persisted ''managed_by_config'' = JBool True \<and> text_of (dget persisted ''camera_id'') \<notin> set mounted
     then cbind (upsert_camera now (dset (dset (dset persisted ''active'' (JBool False)) ''enabled'' (JBool False))
       ''deactivated_by_config'' (JBool True))) (\<lambda>_. cret ())
     else cret ())"

fun each :: "('x \<Rightarrow> unit repo) \<Rightarrow> 'x list \<Rightarrow> unit repo" where
  "each f [] = cret ()"
| "each f (x # xs) = cbind (f x) (\<lambda>_. each f xs)"

definition reconcile_cameras :: "(json \<Rightarrow> string) \<Rightarrow> time_us \<Rightarrow> CameraProfile list \<Rightarrow> unit repo" where
  "reconcile_cameras digest now profiles =
    cbind (each (mount_profile digest now) profiles) (\<lambda>_.
    cbind list_cameras (\<lambda>rows.
    each (retire_camera now (map cp_camera_id profiles)) rows))"

definition create_app ::
  "(json \<Rightarrow> string) \<Rightarrow> time_us \<Rightarrow> PolicySettings \<Rightarrow> CameraProfile list \<Rightarrow> 'c \<Rightarrow> db conn \<Rightarrow> 'c app result" where
  "create_app digest now policy profiles ctl conn =
    rbind (operational_metrics registry_new) (\<lambda>reg.
    case set_component ''database'' HEALTHY None None None (health_new (Some reg)) of
      (Inl e, _) \<Rightarrow> raise e
    | (Inr _, h) \<Rightarrow> (case reconcile_cameras digest now profiles conn of
        (Inl e, _) \<Rightarrow> raise e
      | (Inr _, c) \<Rightarrow> ret \<lparr>st_repo = c, st_ctl = ctl, st_health = h, st_policy = policy\<rparr>))"

text \<open>\<open>PUT /v1/cameras/{camera_id}\<close>: the explicit update, or a bare profile.\<close>

datatype camera_body = UpdateBody CameraUpdate | ProfileBody CameraProfile

definition update_camera ::
  "(json \<Rightarrow> string) \<Rightarrow> time_us \<Rightarrow> string \<Rightarrow> camera_body \<Rightarrow> (dict, 'c) handler" where
  "update_camera digest now camera_id body =
    (let (profile, revision, active) = (case body of
         UpdateBody u \<Rightarrow> (cu_profile u, cu_revision u, cu_activate u)
       | ProfileBody p \<Rightarrow> (p, profile_revision digest p, False))
     in if cp_camera_id profile \<noteq> camera_id
        then on_repo (clift (raise (HTTPException 422 ''camera_id must match path'')))
        else on_repo (upsert_camera now (dupdate (dump_profile profile)
          [(''revision'', JStr revision), (''active'', JBool active), (''managed_by_config'', JBool False),
           (''deactivated_by_config'', JBool False)])))"

definition cameras :: "(dict list, 'c) handler" where
  "cameras = on_repo list_cameras"

definition models :: "(dict list, 'c) handler" where
  "models = on_repo list_models"

section \<open>Health\<close>

text \<open>\<open>GET /health/ready\<close>; \<open>healthy\<close> is the answer of \<open>repository.health()\<close>.\<close>

definition ready :: "bool \<Rightarrow> (dict, 'c) handler" where
  "ready healthy s =
    (case set_component ''database'' (if healthy then HEALTHY else DEGRADED) None
        (if healthy then None else Some ''database health check failed'') None (st_health s) of
       (Inl e, h) \<Rightarrow> (raise e, s\<lparr>st_health := h\<rparr>)
     | (Inr _, h) \<Rightarrow>
         if \<not> healthy then (raise (HTTPException 503 ''degraded''), s\<lparr>st_health := h\<rparr>)
         else (ret [(''status'', JStr ''ready''), (''components'', JObj [(''database'', JBool True)]),
            (''component_health'', dget (snapshot h) ''components''), (''cameras'', dget (snapshot h) ''cameras''),
            (''affected_camera_count'', dget (snapshot h) ''affected_camera_count''),
            (''queue_depth'', dget (snapshot h) ''queue_depth''),
            (''last_successful_activity'', dget (snapshot h) ''last_successful_activity'')], s\<lparr>st_health := h\<rparr>))"

section \<open>Artifacts\<close>

definition create_artifact ::
  "files \<Rightarrow> path \<Rightarrow> uuid \<Rightarrow> time_us \<Rightarrow> ArtifactCreate \<Rightarrow> (dict, 'c) handler" where
  "create_artifact fs base uuid now req = (case safe_artifact_path fs base (art_path req) of
     Inl e \<Rightarrow> on_repo (clift (raise e))
   | Inr relative \<Rightarrow> on_repo (put_artifact now
       [(''artifact_id'', JStr (case art_artifact_id req of
           None \<Rightarrow> uuid | Some a \<Rightarrow> if a = [] then uuid else a)),
        (''path'', JStr relative), (''media_type'', JStr (art_media_type req)),
        (''media_class'', JStr (art_media_class req)), (''size_bytes'', JInt (art_size_bytes req))]))"

section \<open>Evaluations\<close>

definition evaluation_request_fingerprint :: "(json \<Rightarrow> string) \<Rightarrow> EvaluationCreate \<Rightarrow> string" where
  "evaluation_request_fingerprint digest r = digest (JObj [(''artifact_id'', json_opt (evc_artifact_id r)),
     (''camera_id'', JStr (evc_camera_id r)), (''mode'', JStr (mode_value (evc_mode r)))])"

definition decision_for_evaluation :: "uuid \<Rightarrow> EvaluationCreate \<Rightarrow> dict" where
  "decision_for_evaluation uuid r =
    [(''decision_id'', JStr uuid), (''camera_id'', JStr (evc_camera_id r)), (''track_id'', JStr ''evaluation''),
     (''outcome'', JStr ''rejected''), (''reason_codes'', JList [JStr ''evaluation_pending_provider'']),
     (''evidence_channels'', JList []), (''model_revisions'', JObj []), (''policy_revision'', JStr ''default''),
     (''latency_ms'', JFloat 0), (''mode'', JStr (mode_value (evc_mode r))), (''audio_eligibility'', JBool False)]"

definition evaluation_response :: "(string \<Rightarrow> uuid option) \<Rightarrow> dict \<Rightarrow> EvaluationResponse result" where
  "evaluation_response parse value = EvaluationResponse_validate parse
     (concat (map (\<lambda>key. case map_of value key of None \<Rightarrow> [] | Some v \<Rightarrow> [(key, v)])
       [''evaluation_id'', ''status'', ''result'']))"

text \<open>What one call draws: the two identifiers, and the clock at the claim, inside its transaction,
  at the completion and at a failure.\<close>

record eval_draw =
  ed_evaluation_id :: uuid
  ed_decision_id :: uuid
  ed_now :: time_us
  ed_later :: time_us
  ed_put :: time_us
  ed_fail :: time_us

fun error_name :: "error \<Rightarrow> string" where
  "error_name (ValueError _) = ''ValueError''"
| "error_name (KeyError _) = ''KeyError''"
| "error_name (TypeError _) = ''TypeError''"
| "error_name (IntegrityError _) = ''IntegrityError''"
| "error_name (OperationalError _) = ''OperationalError''"
| "error_name IdempotencyConflictError = ''IdempotencyConflictError''"
| "error_name EvaluationClaimLostError = ''EvaluationClaimLostError''"
| "error_name (HTTPException _ _) = ''HTTPException''"
| "error_name (AdapterError n) = n"

text \<open>Lines 290 to 303: the decision and the completed evaluation of a request.\<close>

definition evaluated_decision :: "eval_draw \<Rightarrow> EvaluationCreate \<Rightarrow> dict" where
  "evaluated_decision draw r =
    (let decision = decision_for_evaluation (ed_decision_id draw) r in
     if evc_mode r = SHADOW then dset (dset decision ''audio_eligibility'' (JBool False)) ''audio_outcome'' JNull
     else decision)"

definition completed_evaluation ::
  "(json \<Rightarrow> string) \<Rightarrow> eval_draw \<Rightarrow> EvaluationCreate \<Rightarrow> string option \<Rightarrow> dict" where
  "completed_evaluation digest draw r key =
    [(''evaluation_id'', JStr (ed_evaluation_id draw)), (''status'', JStr ''completed''),
     (''result'', JObj [(''decision'', JObj (evaluated_decision draw r))]), (''idempotency_key'', json_opt key),
     (''request_fingerprint'', JStr (evaluation_request_fingerprint digest r)), (''camera_id'', JStr (evc_camera_id r))]"

text \<open>The metric of a stored decision; a failure to record it is logged and dropped.\<close>

definition record_decision_metric :: "string \<Rightarrow> string \<Rightarrow> health \<Rightarrow> health" where
  "record_decision_metric outcome reason h = snd (report (metrics_decision outcome reason) h)"

text \<open>Lines 289 to 346: completion, its failure paths, and the response.\<close>

definition finish_evaluation ::
  "(json \<Rightarrow> string) \<Rightarrow> (string \<Rightarrow> uuid option) \<Rightarrow> eval_draw \<Rightarrow> EvaluationCreate \<Rightarrow> string option \<Rightarrow> bool \<Rightarrow>
   (EvaluationResponse, 'c) handler" where
  "finish_evaluation digest parse draw r key claimed s =
    (case put_decision_and_evaluation (ed_put draw) (evaluated_decision draw r) (completed_evaluation digest draw r key)
        (st_repo s) of
       (Inr saved, c) \<Rightarrow>
         (evaluation_response parse saved, s\<lparr>st_repo := c,
            st_health := record_decision_metric ''rejected'' ''evaluation_pending_provider'' (st_health s)\<rparr>)
     | (Inl e, c) \<Rightarrow>
         if e = EvaluationClaimLostError
         then (raise (HTTPException 409 ''evaluation claim was reclaimed; retry the request''), s\<lparr>st_repo := c\<rparr>)
         else if claimed then
           (case fail_evaluation (ed_fail draw) (JStr (ed_evaluation_id draw)) (Some (error_name e)) c of
              (Inl e2, c2) \<Rightarrow> (raise e2, s\<lparr>st_repo := c2\<rparr>)
            | (Inr _, c2) \<Rightarrow> (raise e, s\<lparr>st_repo := c2\<rparr>))
         else (raise e, s\<lparr>st_repo := c\<rparr>))"

text \<open>Lines 262 to 279: an empty header counts as absent here.\<close>

definition claim_and_finish ::
  "(json \<Rightarrow> string) \<Rightarrow> (string \<Rightarrow> uuid option) \<Rightarrow> eval_draw \<Rightarrow> EvaluationCreate \<Rightarrow> string option \<Rightarrow>
   (EvaluationResponse, 'c) handler" where
  "claim_and_finish digest parse draw r key s = (case key of
     None \<Rightarrow> finish_evaluation digest parse draw r key False s
   | Some k \<Rightarrow>
       if k = [] then finish_evaluation digest parse draw r key False s
       else (case claim_evaluation (ed_now draw) (ed_later draw) (JStr (ed_evaluation_id draw)) (JStr k)
           (JStr (evc_camera_id r)) (JStr (evaluation_request_fingerprint digest r)) (st_repo s) of
           (Inl e, c) \<Rightarrow> (raise (if e = IdempotencyConflictError
              then HTTPException 409 ''idempotency key was reused for a different request'' else e), s\<lparr>st_repo := c\<rparr>)
         | (Inr (Some existing), c) \<Rightarrow> (evaluation_response parse existing, s\<lparr>st_repo := c\<rparr>)
         | (Inr None, c) \<Rightarrow> finish_evaluation digest parse draw r key True (s\<lparr>st_repo := c\<rparr>)))"

definition create_evaluation ::
  "(json \<Rightarrow> string) \<Rightarrow> (string \<Rightarrow> uuid option) \<Rightarrow> eval_draw \<Rightarrow> EvaluationCreate \<Rightarrow> string option \<Rightarrow>
   (EvaluationResponse, 'c) handler" where
  "create_evaluation digest parse draw r key s =
    (if (case evc_artifact_id r of None \<Rightarrow> False | Some a \<Rightarrow> a \<noteq> [])
     then (case get_artifact (json_opt (evc_artifact_id r)) (st_repo s) of
         (Inl e, c) \<Rightarrow> (raise e, s\<lparr>st_repo := c\<rparr>)
       | (Inr None, c) \<Rightarrow> (raise (HTTPException 404 ''artifact not found''), s\<lparr>st_repo := c\<rparr>)
       | (Inr (Some _), c) \<Rightarrow> claim_and_finish digest parse draw r key (s\<lparr>st_repo := c\<rparr>))
     else claim_and_finish digest parse draw r key s)"

definition read_evaluation :: "(string \<Rightarrow> uuid option) \<Rightarrow> uuid \<Rightarrow> (EvaluationResponse, 'c) handler" where
  "read_evaluation parse eid = on_repo (cbind (get_evaluation (JStr eid)) (\<lambda>result. clift (case result of
     None \<Rightarrow> raise (HTTPException 404 ''evaluation not found'')
   | Some v \<Rightarrow> evaluation_response parse v)))"

section \<open>Events, reviews, modes and mutes\<close>

text \<open>\<open>GET /v1/events\<close>, with the bounds of its query parameters.\<close>

definition events ::
  "string option \<Rightarrow> string option \<Rightarrow> string option \<Rightarrow> time_bound option \<Rightarrow> time_bound option \<Rightarrow> int \<Rightarrow> int \<Rightarrow> (page, 'c) handler" where
  "events camera_id outcome reason after before limit offset =
    (if limit < 1 \<or> 500 < limit \<or> offset < 0 then on_repo (clift (raise (HTTPException 422 ''query'')))
     else on_repo (cbind (list_decisions (json_opt camera_id) (json_opt outcome) (json_opt reason) before after limit offset)
       (\<lambda>items. cret \<lparr>pg_items = items, pg_limit = limit, pg_offset = offset\<rparr>)))"

definition review :: "uuid \<Rightarrow> time_us \<Rightarrow> uuid \<Rightarrow> ReviewCreate \<Rightarrow> (dict, 'c) handler" where
  "review uuid now decision req = on_repo (cbind (get_decision (JStr decision)) (\<lambda>found. case found of
     None \<Rightarrow> clift (raise (HTTPException 404 ''decision not found''))
   | Some _ \<Rightarrow> append_review now
       [(''review_id'', JStr uuid), (''decision_id'', JStr decision), (''label'', JStr (rvc_label req)),
        (''actor'', JStr (rvc_actor req)), (''reason'', json_opt (rvc_reason req))]))"

definition site_mode :: "uuid \<Rightarrow> time_us \<Rightarrow> SiteModeChange \<Rightarrow> (dict, 'c) handler" where
  "site_mode uuid now req = on_repo (append_mode_change now
     [(''change_id'', JStr uuid), (''mode'', JStr (mode_value (smc_mode req))), (''reason'', JStr (smc_reason req)),
      (''actor'', JStr (smc_actor req))])"

definition mute :: "uuid \<Rightarrow> time_us \<Rightarrow> AudioMuteCreate \<Rightarrow> (dict, 'c) handler" where
  "mute uuid now req = on_repo (put_mute now
     [(''mute_id'', JStr uuid), (''scope'', JStr (amc_scope req)), (''scope_id'', json_opt (amc_scope_id req)),
      (''expires_at'', case amc_expires_at req of None \<Rightarrow> JNull | Some t \<Rightarrow> JTime t),
      (''reason'', JStr (amc_reason req)), (''actor'', JStr (amc_actor req))])"

section \<open>Audio requests\<close>

text \<open>Lines 414 to 437: the policy of the site, under the mode an operator set last.\<close>

definition current_run_mode :: "PolicySettings \<Rightarrow> dict option \<Rightarrow> RunMode" where
  "current_run_mode p current = (case current of
     None \<Rightarrow> ps_mode p
   | Some change \<Rightarrow> (case dget change ''mode'' of
       JStr m \<Rightarrow> (case RunMode_of m of Inl _ \<Rightarrow> ps_mode p | Inr mode \<Rightarrow> mode)
     | _ \<Rightarrow> ps_mode p))"

definition site_policy :: "PolicySettings \<Rightarrow> RunMode \<Rightarrow> AudioPolicyConfig" where
  "site_policy p mode =
    \<lparr>ap_mode = mode, ap_audio_muted = ps_audio_muted p, ap_cooldown_seconds = ps_cooldown_seconds p,
     ap_hourly_audio_cap = ps_hourly_audio_cap p, ap_daily_audio_cap = ps_daily_audio_cap p,
     ap_quiet_hours = (case (ps_quiet_hours_start p, ps_quiet_hours_end p) of
       (Some a, Some b) \<Rightarrow> Some (a, b) | _ \<Rightarrow> None),
     ap_policy_revision = ps_policy_revision p, ap_message_id = ps_audio_message_id p,
     ap_volume_profile = ''default'', ap_command_ttl_seconds = ps_audio_command_ttl_seconds p,
     ap_catalog = DEFAULT_MESSAGE_CATALOG\<rparr>"

text \<open>Lines 441 to 455: a mute without expiry, or with one in the future, is active.\<close>

definition mute_active :: "time_us \<Rightarrow> dict \<Rightarrow> bool result" where
  "mute_active now m = (if dget m ''expires_at'' = JNull then ret True
     else rbind (fromisoformat (dget m ''expires_at'')) (\<lambda>t. ret (now < astimezone_utc t)))"

definition active_mutes :: "time_us \<Rightarrow> dict list \<Rightarrow> dict list result" where
  "active_mutes now mutes = rbind (rmap (mute_active now) mutes) (\<lambda>flags.
     ret (map fst (filter snd (zip mutes flags))))"

definition scope_muted :: "string \<Rightarrow> string option \<Rightarrow> dict list \<Rightarrow> bool" where
  "scope_muted scope scope_id mutes = list_ex (\<lambda>m. dget m ''scope'' = JStr scope \<and>
     (case scope_id of None \<Rightarrow> True | Some i \<Rightarrow> dget m ''scope_id'' = JStr i)) mutes"

text \<open>Lines 456 to 471: the receipts of the zone that count.\<close>

definition counted_receipts :: "dict list \<Rightarrow> dict list" where
  "counted_receipts receipts = filter (\<lambda>item. dget (as_dict (dget item ''playback'')) ''status'' \<in>
     {JStr ''accepted'', JStr ''pending'', JStr ''failed'', JStr ''expired'', JStr ''uncertain''}) receipts"

definition receipt_times :: "dict list \<Rightarrow> time_us list result" where
  "receipt_times accepted = rmap (\<lambda>item. rbind (rbind (ditem item ''created_at'') fromisoformat)
     (\<lambda>t. ret (astimezone_utc t))) accepted"

text \<open>The decision as the policy reads it off the stored mapping.\<close>

definition decision_mapping_of :: "dict \<Rightarrow> audio_decision" where
  "decision_mapping_of d = MappingDecision
    \<lparr>dm_outcome = (case dget d ''outcome'' of JStr s \<Rightarrow> Some s | _ \<Rightarrow> None),
     dm_audio_eligibility = (case dget d ''audio_eligibility'' of JBool b \<Rightarrow> Some b | _ \<Rightarrow> None),
     dm_decision_id = (case dget d ''decision_id'' of JStr s \<Rightarrow> Some s | _ \<Rightarrow> None)\<rparr>"

text \<open>What \<open>perform\<close> reads before it calls the service: the configuration and the arguments.\<close>

definition gather_request ::
  "PolicySettings \<Rightarrow> time_us \<Rightarrow> dict \<Rightarrow> string \<Rightarrow> string \<Rightarrow> (AudioPolicyConfig \<times> request_args) repo" where
  "gather_request policy now decision camera_id zone_id =
    cbind current_mode (\<lambda>current.
    cbind (clift (AudioPolicyConfig_post_init (site_policy policy (current_run_mode policy current)))) (\<lambda>cfg.
    cbind list_mutes (\<lambda>mutes.
    cbind (clift (active_mutes now mutes)) (\<lambda>active.
    cbind (list_audio_receipts JNull (JStr zone_id)) (\<lambda>receipts.
    cbind (clift (receipt_times (counted_receipts receipts))) (\<lambda>times.
    cbind (false_announcement_count (JStr camera_id)) (\<lambda>false_count.
    cret (cfg, \<lparr>ra_decision = decision_mapping_of decision, ra_camera_id = camera_id, ra_zone_id = zone_id,
      ra_now = Aware now, ra_announced_at = times,
      ra_hourly_count = int (length (filter (\<lambda>t. now - 3600 * us_per_second \<le> t) times)),
      ra_daily_count = int (length (filter (\<lambda>t. utc_date t = utc_date now) times)),
      ra_site_muted = scope_muted ''site'' None active, ra_zone_muted = scope_muted ''zone'' (Some zone_id) active,
      ra_camera_muted = scope_muted ''camera'' (Some camera_id) active,
      ra_camera_suspended = 0 < false_count\<rparr>))))))))"

record audio_response =
  au_decision_id :: uuid
  au_outcome :: string
  au_reason_code :: string
  au_command :: "AudioCommand option"

definition perform_audio ::
  "audio_env \<Rightarrow> time_us \<Rightarrow> time_us \<Rightarrow> string \<Rightarrow> (request_args \<Rightarrow> 'c sender) \<Rightarrow> uuid \<Rightarrow> dict \<Rightarrow> string \<Rightarrow> string \<Rightarrow>
   (audio_response, 'c) handler" where
  "perform_audio env now clock token send did decision camera_id zone_id s =
    (case gather_request (st_policy s) now decision camera_id zone_id (st_repo s) of
       (Inl e, c) \<Rightarrow> (raise e, s\<lparr>st_repo := c\<rparr>)
     | (Inr (cfg, a), c) \<Rightarrow>
         (case request env cfg clock token (send a) a \<lparr>w_repo = Some c, w_ctl = st_ctl s\<rparr> of
            (x, w) \<Rightarrow>
              (rbind x (\<lambda>result. ret \<lparr>au_decision_id = did, au_outcome = apr_outcome result,
                 au_reason_code = audio_reason_value (apr_reason_code result), au_command = apr_command result\<rparr>),
               s\<lparr>st_repo := the (w_repo w), st_ctl := w_ctl w\<rparr>)))"

text \<open>\<open>camera.get(key, True) is True\<close>.\<close>

definition camera_flag :: "dict \<Rightarrow> string \<Rightarrow> bool" where
  "camera_flag camera key \<longleftrightarrow> dget_default camera key (JBool True) = JBool True"

definition route_audio :: "uuid \<Rightarrow> (dict \<times> string \<times> string) repo" where
  "route_audio did =
    cbind (get_decision (JStr did)) (\<lambda>found. case found of
      None \<Rightarrow> clift (raise (HTTPException 404 ''decision not found''))
    | Some decision \<Rightarrow>
        cbind (clift (ditem decision ''camera_id'')) (\<lambda>camera_id.
        cbind (get_camera camera_id) (\<lambda>camera. case camera of
          None \<Rightarrow> clift (raise (HTTPException 409 ''camera profile with zone_id is required''))
        | Some cam \<Rightarrow>
            if \<not> truthy (dget cam ''zone_id'')
            then clift (raise (HTTPException 409 ''camera profile with zone_id is required''))
            else if \<not> camera_flag cam ''active'' \<or> \<not> camera_flag cam ''enabled''
            then clift (raise (HTTPException 409 ''camera is inactive or disabled''))
            else cret (decision, text_of camera_id, text_of (dget cam ''zone_id'')))))"

definition request_audio ::
  "audio_env \<Rightarrow> time_us \<Rightarrow> time_us \<Rightarrow> string \<Rightarrow> (request_args \<Rightarrow> 'c sender) \<Rightarrow> uuid \<Rightarrow> (audio_response, 'c) handler" where
  "request_audio env now clock token send did s =
    (case route_audio did (st_repo s) of
       (Inl e, c) \<Rightarrow> (raise e, s\<lparr>st_repo := c\<rparr>)
     | (Inr (decision, camera_id, zone_id), c) \<Rightarrow>
         perform_audio env now clock token send did decision camera_id zone_id (s\<lparr>st_repo := c\<rparr>))"

definition reconcile_audio_receipt ::
  "time_us \<Rightarrow> string \<Rightarrow> AudioReceiptReconcile \<Rightarrow> (dict, 'c) handler" where
  "reconcile_audio_receipt now receipt_id req =
    on_repo (cbind (reconcile_expired_audio_receipt (JStr receipt_id) now (Some (arr_actor req)) (Some (arr_reason req)))
      (\<lambda>result. clift (
        if dget result ''reservation_status'' = JStr ''rejected''
        then (let reason = text_of (dget_default result ''reservation_reason'' (JStr ''reconciliation_rejected''))
              in raise (HTTPException (if reason = ''missing'' then 404 else 409) reason))
        else ret result)))"

text \<open>Putting back the connection a handler found.\<close>

lemma app_repo_same [simp]: "st_repo s = c \<Longrightarrow> s\<lparr>st_repo := c\<rparr> = s"
  by (cases s) simp

end
