(* ===== verification/Api_Audio.thy ===== *)
theory Api_Audio
  imports Api
begin

text \<open>
  The audio endpoint end to end: from a decision id in a request to the controller, through the
  decision, camera, mute, review, mode and receipt tables.
\<close>

section \<open>Reading the tables\<close>

text \<open>The site mode change in force.\<close>

definition latest_mode :: "db \<Rightarrow> dict option" where
  "latest_mode d = (case order_by_desc mr_created_at (db_mode_changes d) of
     [] \<Rightarrow> None | r # _ \<Rightarrow> Some (as_dict (mr_payload r)))"

text \<open>A stored mute that names the site, the zone or the camera, and one that has run out.\<close>

definition mute_applies :: "string \<Rightarrow> string \<Rightarrow> mute_row \<Rightarrow> bool" where
  "mute_applies camera zone m \<longleftrightarrow> (let p = as_dict (mu_payload m) in
     dget p ''scope'' = JStr ''site'' \<or>
     (dget p ''scope'' = JStr ''zone'' \<and> dget p ''scope_id'' = JStr zone) \<or>
     (dget p ''scope'' = JStr ''camera'' \<and> dget p ''scope_id'' = JStr camera))"

definition mute_over :: "time_us \<Rightarrow> mute_row \<Rightarrow> bool" where
  "mute_over now m \<longleftrightarrow> (\<exists>t. dget (as_dict (mu_payload m)) ''expires_at'' = JTime t \<and> astimezone_utc t \<le> now)"

text \<open>A false-positive review of a decision of the camera.\<close>

definition false_positive :: "db \<Rightarrow> json \<Rightarrow> review_row \<Rightarrow> bool" where
  "false_positive d camera r \<longleftrightarrow> rr_label r = JStr ''false_positive'' \<and>
     (\<exists>dec \<in> set (db_decisions d). sql_eq (dr_decision_id dec) (rr_decision_id r) \<and> sql_eq (dr_camera_id dec) camera)"

lemma rmap_Inr_nth:
  "rmap f xs = Inr ys \<Longrightarrow> length ys = length xs \<and> (\<forall>i < length xs. f (xs ! i) = Inr (ys ! i))"
proof (induction xs arbitrary: ys)
  case (Cons x xs)
  then obtain y ys' where "f x = Inr y" "rmap f xs = Inr ys'" "ys = y # ys'" by (auto simp: rbind_Inr)
  then show ?case using Cons.IH[of ys'] by (auto simp: less_Suc_eq_0_disj)
qed simp

lemma rmap_Inr_mem:
  assumes "rmap f xs = Inr ys" and "x \<in> set xs"
  shows "\<exists>y \<in> set ys. f x = Inr y"
  using rmap_Inr_nth[OF assms(1)] assms(2) by (metis in_set_conv_nth)

lemma active_mutes_mem:
  assumes "active_mutes now mutes = Inr active" and "m \<in> set mutes" and "mute_active now m = Inr True"
  shows "m \<in> set active"
proof -
  obtain flags where flags: "rmap (mute_active now) mutes = Inr flags"
      "active = map fst (filter snd (zip mutes flags))"
    using assms(1) by (auto simp: active_mutes_def rbind_Inr)
  obtain i where i: "i < length mutes" "mutes ! i = m" using assms(2) by (metis in_set_conv_nth)
  note n = rmap_Inr_nth[OF flags(1)]
  have "(m, True) \<in> set (zip mutes flags)"
    using i n assms(3) by (auto simp: set_zip intro!: exI[of _ i])
  then show ?thesis unfolding flags(2) by force
qed

text \<open>Reading a mute keeps its scope and normalises its expiry.\<close>

lemma read_mute_cases:
  assumes "read_mute r = Inr m"
  obtains (never) "dget (as_dict (mu_payload r)) ''expires_at'' = JNull" "m = normalize_dict (as_dict (mu_payload r))"
  | (expires) t where "dget (as_dict (mu_payload r)) ''expires_at'' = JTime t"
      "m = dset (normalize_dict (as_dict (mu_payload r))) ''expires_at'' (jtime (astimezone_utc t))"
proof (cases "dget (as_dict (mu_payload r)) ''expires_at''")
  case (JTime t)
  then show thesis using assms expires by (cases t) (simp_all add: read_mute_def Let_def)
qed (use assms never in \<open>simp_all add: read_mute_def Let_def BOOLEAN_KEYS_def\<close>)

lemma read_mute_fields:
  assumes "read_mute r = Inr m"
  shows "k \<in> {''scope'', ''scope_id''} \<Longrightarrow> dget (as_dict (mu_payload r)) k = JStr x \<Longrightarrow> dget m k = JStr x"
    and "mute_active now m = Inr b \<Longrightarrow> \<not> b \<Longrightarrow> mute_over now r"
  using assms by (cases rule: read_mute_cases; auto simp: mute_active_def mute_over_def)+

lemma unmuted_over:
  assumes rows: "rmap read_mute rows = Inr mutes" and act: "active_mutes now mutes = Inr active"
    and free: "\<not> scope_muted ''site'' None active" "\<not> scope_muted ''zone'' (Some zone) active"
      "\<not> scope_muted ''camera'' (Some camera) active"
    and r: "r \<in> set rows" "mute_applies camera zone r"
  shows "mute_over now r"
proof -
  obtain m where m: "m \<in> set mutes" "read_mute r = Inr m" using rmap_Inr_mem[OF rows r(1)] by blast
  obtain flags where "rmap (mute_active now) mutes = Inr flags" using act by (auto simp: active_mutes_def rbind_Inr)
  then obtain b where b: "mute_active now m = Inr b" using rmap_Inr_mem[OF _ m(1)] by auto
  have "\<not> b"
  proof
    assume b': b
    then have "m \<in> set active" using active_mutes_mem[OF act m(1)] b by simp
    moreover have "dget m ''scope'' = JStr ''site'' \<or> dget m ''scope'' = JStr ''zone'' \<and> dget m ''scope_id'' = JStr zone \<or>
        dget m ''scope'' = JStr ''camera'' \<and> dget m ''scope_id'' = JStr camera"
      using r(2) read_mute_fields(1)[OF m(2), of "''scope''"] read_mute_fields(1)[OF m(2), of "''scope_id''"]
      unfolding mute_applies_def Let_def by blast
    ultimately show False
      using free by (fastforce simp: scope_muted_def list_ex_iff)
  qed
  then show ?thesis using read_mute_fields(2)[OF m(2) b] by simp
qed

section \<open>Gathering the arguments\<close>

lemma current_mode_idle: "current_mode (idle d) = (Inr (latest_mode d), idle d)"
  by (simp add: current_mode_def latest_mode_def)

lemma list_mutes_idle:
  "list_mutes (idle d) = (rmap read_mute (order_by_desc mu_created_at (db_mutes d)), idle d)"
  by (simp add: list_mutes_def cbind_def)

lemma gather_request_idle:
  "snd (gather_request p now decision camera zone (idle d)) = idle d"
  by (auto simp: gather_request_def cbind_def current_mode_idle list_mutes_idle list_audio_receipts_def
      false_announcement_count_def split: sum.split)

lemma gather_request_Inr:
  assumes "fst (gather_request p now decision camera zone (idle d)) = Inr (cfg, a)"
  obtains mutes active where
    "cfg = site_policy p (current_run_mode p (latest_mode d))"
    "ra_decision a = decision_mapping_of decision" "ra_camera_id a = camera" "ra_zone_id a = zone" "ra_now a = Aware now"
    "rmap read_mute (order_by_desc mu_created_at (db_mutes d)) = Inr mutes" "active_mutes now mutes = Inr active"
    "ra_site_muted a = scope_muted ''site'' None active" "ra_zone_muted a = scope_muted ''zone'' (Some zone) active"
    "ra_camera_muted a = scope_muted ''camera'' (Some camera) active"
    "ra_camera_suspended a \<longleftrightarrow> (\<exists>r \<in> set (db_reviews d). false_positive d (JStr camera) r)"
proof -
  let ?cfg = "site_policy p (current_run_mode p (latest_mode d))"
  obtain cfg' where cfg: "AudioPolicyConfig_post_init ?cfg = Inr cfg'"
    using assms by (cases "AudioPolicyConfig_post_init ?cfg")
      (simp_all add: gather_request_def cbind_def current_mode_idle)
  obtain mutes where mutes: "rmap read_mute (order_by_desc mu_created_at (db_mutes d)) = Inr mutes"
    using assms cfg by (cases "rmap read_mute (order_by_desc mu_created_at (db_mutes d))")
      (simp_all add: gather_request_def cbind_def current_mode_idle list_mutes_idle)
  obtain active where active: "active_mutes now mutes = Inr active"
    using assms cfg mutes by (cases "active_mutes now mutes")
      (simp_all add: gather_request_def cbind_def current_mode_idle list_mutes_idle)
  have "cfg' = ?cfg" using cfg by (auto simp: AudioPolicyConfig_post_init_def split: if_splits)
  moreover have "0 < length (concat (map (\<lambda>r.
     filter (\<lambda>dec. sql_eq (dr_decision_id dec) (rr_decision_id r) \<and> sql_eq (dr_camera_id dec) (JStr camera))
       (db_decisions d)) (filter (\<lambda>r. rr_label r = JStr ''false_positive'') (db_reviews d)))) \<longleftrightarrow>
    (\<exists>r \<in> set (db_reviews d). false_positive d (JStr camera) r)"
    by (auto simp: false_positive_def length_greater_0_conv filter_empty_conv)
  ultimately show ?thesis
    using assms cfg mutes active
    by (intro that[of mutes active])
      (auto simp: gather_request_def cbind_def current_mode_idle list_mutes_idle list_audio_receipts_def
        false_announcement_count_def split: sum.splits)
qed

section \<open>Routing\<close>

definition stored_camera :: "camera_row \<Rightarrow> dict" where
  "stored_camera r = normalize_dict (as_dict (cr_payload r))"

lemma route_audio_idle: "snd (route_audio did (idle d)) = idle d"
  by (auto simp: route_audio_def cbind_def get_decision_def get_camera_def split: option.split sum.split)

lemma route_audio_Inr:
  assumes "fst (route_audio did (idle d)) = Inr (decision, camera, zone)"
  obtains row cam where
    "fetch_by dr_decision_id (JStr did) (db_decisions d) = Some row" "decision = decode (decision_columns row)"
    "fetch_by cr_camera_id (dget decision ''camera_id'') (db_cameras d) = Some cam"
    "camera = text_of (dget decision ''camera_id'')" "zone = text_of (dget (stored_camera cam) ''zone_id'')"
    "truthy (dget (stored_camera cam) ''zone_id'')"
    "camera_flag (stored_camera cam) ''active''" "camera_flag (stored_camera cam) ''enabled''"
proof -
  obtain row where row: "fetch_by dr_decision_id (JStr did) (db_decisions d) = Some row"
    using assms by (cases "fetch_by dr_decision_id (JStr did) (db_decisions d)")
      (simp_all add: route_audio_def cbind_def get_decision_def)
  obtain camera_id where cid: "ditem (decode (decision_columns row)) ''camera_id'' = Inr camera_id"
    using assms row by (cases "ditem (decode (decision_columns row)) ''camera_id''")
      (simp_all add: route_audio_def cbind_def get_decision_def)
  obtain cam where cam: "fetch_by cr_camera_id camera_id (db_cameras d) = Some cam"
    using assms row cid by (cases "fetch_by cr_camera_id camera_id (db_cameras d)")
      (simp_all add: route_audio_def cbind_def get_decision_def get_camera_def)
  show ?thesis
    using assms row cid cam ditem_Inr_dget[OF cid]
    by (intro that[of row cam])
      (auto simp: route_audio_def cbind_def get_decision_def get_camera_def stored_camera_def split: if_splits)
qed

text \<open>The columns the policy reads of a decoded row.\<close>

lemma decode_columns:
  "dget (decode (decision_columns r)) ''outcome'' = normalize_persisted (Some ''outcome'') (dr_outcome r)"
  "dget (decode (decision_columns r)) ''camera_id'' = normalize_persisted (Some ''camera_id'') (dr_camera_id r)"
  "dget (decode (decision_columns r)) ''audio_eligibility'' =
    normalize_persisted (Some ''audio_eligibility'') (dr_audio_eligibility r)"
  by (simp_all add: decode_def, simp_all add: dget_def decision_columns_def json_columns_def)

lemma normalize_text: "normalize_persisted k v = JStr s \<longleftrightarrow> v = JStr s"
  by (cases v) (auto split: option.split)

lemma normalize_true: "normalize_persisted (Some ''audio_eligibility'') v = JBool True \<longleftrightarrow>
    v = JBool True \<or> (\<exists>n. v = JInt n \<and> n \<noteq> 0)"
  by (cases v) (auto simp: BOOLEAN_KEYS_def)

section \<open>Property\<close>

text \<open>Everything that has to be true of the database before the endpoint may announce.\<close>

definition announceable :: "PolicySettings \<Rightarrow> time_us \<Rightarrow> uuid \<Rightarrow> db \<Rightarrow> decision_row \<Rightarrow> camera_row \<Rightarrow> bool" where
  "announceable p now did d row cam \<longleftrightarrow>
    fetch_by dr_decision_id (JStr did) (db_decisions d) = Some row \<and>
    dr_outcome row = JStr ''verified'' \<and>
    (dr_audio_eligibility row = JBool True \<or> (\<exists>n. dr_audio_eligibility row = JInt n \<and> n \<noteq> 0)) \<and>
    (\<exists>camera zone. dr_camera_id row = JStr camera \<and> dget (stored_camera cam) ''zone_id'' = zone \<and> truthy zone \<and>
      fetch_by cr_camera_id (JStr camera) (db_cameras d) = Some cam \<and>
      (\<forall>m \<in> set (db_mutes d). mute_applies camera (text_of zone) m \<longrightarrow> mute_over now m) \<and>
      \<not> (\<exists>r \<in> set (db_reviews d). false_positive d (JStr camera) r)) \<and>
    camera_flag (stored_camera cam) ''active'' \<and> camera_flag (stored_camera cam) ''enabled'' \<and>
    \<not> ps_audio_muted p \<and> current_run_mode p (latest_mode d) = AUTOMATIC"

lemma eligible_mapping:
  assumes "decision_is_eligible (decision_mapping_of (decode (decision_columns row)))"
  shows "dr_outcome row = JStr ''verified''"
    and "dr_audio_eligibility row = JBool True \<or> (\<exists>n. dr_audio_eligibility row = JInt n \<and> n \<noteq> 0)"
proof -
  have "dget (decode (decision_columns row)) ''outcome'' = JStr ''verified''"
    "dget (decode (decision_columns row)) ''audio_eligibility'' = JBool True"
    using assms by (auto simp: decision_mapping_of_def split: json.splits)
  then show "dr_outcome row = JStr ''verified''"
    and "dr_audio_eligibility row = JBool True \<or> (\<exists>n. dr_audio_eligibility row = JInt n \<and> n \<noteq> 0)"
    by (simp_all add: decode_columns normalize_text normalize_true)
qed

lemma camera_id_text:
  assumes "fetch_by cr_camera_id v (db_cameras d) = Some cam"
    and "v = normalize_persisted k u" and "\<forall>r \<in> set (db_cameras d). \<exists>s. cr_camera_id r = JStr s"
  shows "\<exists>s. u = JStr s \<and> v = JStr s"
proof -
  obtain s where "v = JStr s" using fetch_by_Some[OF assms(1)] assms(3) by metis
  then show ?thesis using assms(2) normalize_text by metis
qed

text \<open>A request either changes nothing or is routed, gathers its arguments and reaches the service.\<close>

lemma request_audio_cases:
  assumes "st_repo s = idle d" and "request_audio env now clock token (\<lambda>a. traced a send) did s = (res, s')"
  obtains (silent) "s' = s"
  | (performed) decision camera zone cfg a where "fst (route_audio did (idle d)) = Inr (decision, camera, zone)"
      "fst (gather_request (st_policy s) now decision camera zone (idle d)) = Inr (cfg, a)"
      "st_ctl s' = w_ctl (snd (request env cfg clock token (traced a send) a \<lparr>w_repo = Some (idle d), w_ctl = st_ctl s\<rparr>))"
proof (cases "fst (route_audio did (idle d))")
  case (Inl e)
  then have "s' = s" using assms route_audio_idle[of did d]
    by (cases "route_audio did (idle d)") (auto simp: request_audio_def)
  then show ?thesis by (rule silent)
next
  case (Inr route)
  obtain decision camera zone where route: "route = (decision, camera, zone)" by (cases route)
  have run: "perform_audio env now clock token (\<lambda>a. traced a send) did decision camera zone s = (res, s')"
    using assms Inr route route_audio_idle[of did d]
    by (cases "route_audio did (idle d)") (simp add: request_audio_def)
  note idle = gather_request_idle[of "st_policy s" now decision camera zone d]
  show ?thesis
  proof (cases "fst (gather_request (st_policy s) now decision camera zone (idle d))")
    case (Inl e)
    then have "s' = s" using run assms(1) idle
      by (cases "gather_request (st_policy s) now decision camera zone (idle d)") (simp add: perform_audio_def)
    then show ?thesis by (rule silent)
  next
    case g: (Inr g)
    then have "st_ctl s' = w_ctl (snd (request env (fst g) clock token (traced (snd g) send) (snd g) \<lparr>w_repo = Some (idle d), w_ctl = st_ctl s\<rparr>))"
      using run assms(1) idle
      by (cases "gather_request (st_policy s) now decision camera zone (idle d)")
        (auto simp: perform_audio_def split: prod.splits)
    then show ?thesis using performed[of decision camera zone "fst g" "snd g"] Inr route g by simp
  qed
qed

text \<open>When all gates of the policy are open for the gathered arguments, the database permits the announcement.\<close>

lemma gates_announceable:
  assumes "fst (route_audio did (idle d)) = Inr (decision, camera, zone)"
    and "fst (gather_request p now decision camera zone (idle d)) = Inr (cfg, a)"
    and "gates_open cfg (ra_decision a) (request_context a)" and "\<forall>r \<in> set (db_cameras d). \<exists>c. cr_camera_id r = JStr c"
  obtains row cam where "announceable p now did d row cam" "JStr (ra_camera_id a) = dr_camera_id row"
    "ra_zone_id a = text_of (dget (stored_camera cam) ''zone_id'')" "cfg = site_policy p AUTOMATIC"
    "record_decision_id (ra_decision a) = Inr did"
proof -
  from assms(1) obtain row cam where row:
    "fetch_by dr_decision_id (JStr did) (db_decisions d) = Some row" "decision = decode (decision_columns row)"
    "fetch_by cr_camera_id (dget decision ''camera_id'') (db_cameras d) = Some cam"
    "camera = text_of (dget decision ''camera_id'')" "zone = text_of (dget (stored_camera cam) ''zone_id'')"
    "truthy (dget (stored_camera cam) ''zone_id'')"
    "camera_flag (stored_camera cam) ''active''" "camera_flag (stored_camera cam) ''enabled''"
    by (rule route_audio_Inr)
  obtain c where c: "dr_camera_id row = JStr c" "dget decision ''camera_id'' = JStr c"
    using camera_id_text[OF row(3) _ assms(4)] decode_columns(2)[of row] row(2) by metis
  from assms(2) obtain mutes active where a:
    "cfg = site_policy p (current_run_mode p (latest_mode d))"
    "ra_decision a = decision_mapping_of decision" "ra_camera_id a = camera" "ra_zone_id a = zone" "ra_now a = Aware now"
    "rmap read_mute (order_by_desc mu_created_at (db_mutes d)) = Inr mutes" "active_mutes now mutes = Inr active"
    "ra_site_muted a = scope_muted ''site'' None active" "ra_zone_muted a = scope_muted ''zone'' (Some zone) active"
    "ra_camera_muted a = scope_muted ''camera'' (Some camera) active"
    "ra_camera_suspended a \<longleftrightarrow> (\<exists>r \<in> set (db_reviews d). false_positive d (JStr camera) r)"
    by (rule gather_request_Inr)
  note gates = assms(3)[unfolded gates_open_def]
  have open_policy: "\<not> ps_audio_muted p" "current_run_mode p (latest_mode d) = AUTOMATIC"
    using gates by (simp_all add: a(1) site_policy_def)
  have free: "\<not> scope_muted ''site'' None active" "\<not> scope_muted ''zone'' (Some zone) active"
    "\<not> scope_muted ''camera'' (Some camera) active" "\<not> (\<exists>r \<in> set (db_reviews d). false_positive d (JStr camera) r)"
    using gates by (simp_all add: request_context_def a)
  have mutes: "\<forall>m \<in> set (db_mutes d). mute_applies camera zone m \<longrightarrow> mute_over now m"
    using unmuted_over[OF a(6,7) free(1-3)] by simp
  have el: "decision_is_eligible (decision_mapping_of (decode (decision_columns row)))"
    using gates by (simp add: a(2) row(2))
  have camera: "camera = c" using row(4) c by simp
  have "dget decision ''decision_id'' = JStr did"
    using row(1,2) fetch_by_Some(2)[OF row(1)] by (simp add: decode_def, simp add: dget_def decision_columns_def json_columns_def)
  then have "record_decision_id (ra_decision a) = Inr did" by (simp add: a(2) decision_mapping_of_def)
  moreover have "announceable p now did d row cam"
    unfolding announceable_def using row c open_policy free(4) mutes eligible_mapping[OF el] camera by auto
  ultimately show ?thesis using that[of row cam] a(1,3,4) row(5) c(1) camera open_policy(2) by simp
qed

text \<open>Property C3.  The audio endpoint, end to end: if serving \<open>POST /v1/audio/requests\<close> reaches the
  controller, then in the database the request found, the decision is stored, verified and marked
  eligible, its camera has a zone and is active and enabled, every mute of the site, the zone or
  the camera has run out, no decision of the camera has a false-positive review, the mode in force
  is automatic and audio is not muted; exactly one command is sent, for the zone of that camera, under a
  fresh lease of the ledger within the configured limits.  In every case at most one command is
  sent.\<close>

theorem audio_endpoint_announces_only_when_safe:
  assumes "st_repo s = idle d" and "ledger_inv (idle d)" and "\<forall>r \<in> set (db_cameras d). \<exists>c. cr_camera_id r = JStr c"
    and "request_audio env now clock token (\<lambda>a. traced a send) did s = (res, s')"
  shows "snd (st_ctl s') = snd (st_ctl s) \<or>
    (\<exists>row cam a result command x created lease d1. announceable (st_policy s) now did d row cam \<and>
      snd (st_ctl s') = snd (st_ctl s) @ [(a, command, x)] \<and>
      JStr (ra_camera_id a) = dr_camera_id row \<and> ra_zone_id a = text_of (dget (stored_camera cam) ''zone_id'') \<and>
      ac_zone_id command = str_strip (ra_zone_id a) \<and>
      granted clock token (reservation_payload a result did) (policy_limits (site_policy (st_policy s) AUTOMATIC))
        created lease d d1)"
proof -
  from assms(1,4) show ?thesis
  proof (cases rule: request_audio_cases)
    case (performed decision camera zone cfg a)
    have repo: "w_repo \<lparr>w_repo = Some (idle d), w_ctl = st_ctl s\<rparr> = Some (idle d)" by simp
    from repo assms(2) show ?thesis
    proof (cases rule: request_traced_cases[where env = env and cfg = cfg and clock = clock and token = token and
          send = send and a = a])
      case (sent result command did' created lease d0 d1 x q)
      from performed(1,2) sent(2) assms(3) obtain row cam where row: "announceable (st_policy s) now did d row cam"
        "JStr (ra_camera_id a) = dr_camera_id row" "ra_zone_id a = text_of (dget (stored_camera cam) ''zone_id'')"
        "cfg = site_policy (st_policy s) AUTOMATIC" "record_decision_id (ra_decision a) = Inr did"
        by (rule gates_announceable)
      have zone: "ac_zone_id command = str_strip (ra_zone_id a)"
        using audio_evaluate_command(2)[OF sent(3,4)] build_command_fields by (fastforce simp: request_context_def)
      show ?thesis
        using row sent(1,5,6,7) performed(3) zone
        by (intro disjI2 exI[of _ row] exI[of _ cam] exI[of _ a] exI[of _ result] exI[of _ command] exI[of _ x]
            exI[of _ created] exI[of _ lease] exI[of _ d1]) (simp add: idle_inject)
    qed (use performed(3) in simp)
  qed simp
qed

text \<open>A stored verified decision, its camera, and the in-memory controller.\<close>

definition sample_decision_row :: decision_row where
  "sample_decision_row = \<lparr>dr_decision_id = JStr ''d1'', dr_camera_id = JStr ''cam'', dr_track_id = JStr ''t'',
     dr_outcome = JStr ''verified'', dr_reason_codes = JList [], dr_evidence_channels = JList [],
     dr_model_revisions = JObj [], dr_policy_revision = JStr ''default'', dr_latency_ms = JFloat 0,
     dr_mode = JStr ''automatic'', dr_audio_eligibility = JInt 1, dr_audio_outcome = JNull, dr_payload = JObj [],
     dr_created_at = jtime 0\<rparr>"

definition sample_camera_row :: camera_row where
  "sample_camera_row = \<lparr>cr_camera_id = JStr ''cam'', cr_revision = JStr ''r1'',
     cr_payload = JObj [(''camera_id'', JStr ''cam''), (''zone_id'', JStr ''hall''), (''active'', JInt 1)],
     cr_updated_at = jtime 0\<rparr>"

definition sample_site :: db where
  "sample_site = empty_db\<lparr>db_decisions := [sample_decision_row], db_cameras := [sample_camera_row]\<rparr>"

definition sample_app :: "fake_controller traced app" where
  "sample_app = \<lparr>st_repo = idle sample_site, st_ctl = (fake_new None None, []), st_health = health_new None,
     st_policy = default_policy_settings\<lparr>ps_mode := AUTOMATIC, ps_audio_muted := False\<rparr>\<rparr>"

theorem audio_endpoint_announces_only_when_safe_witness:
  "\<exists>row cam. announceable (st_policy sample_app) 100 ''d1'' sample_site row cam"
proof -
  let ?run = "request_audio sample_audio_env 100 100 ''t1'' (\<lambda>a. traced a (fake_send 100)) ''d1'' sample_app"
  have log: "length (snd (st_ctl (snd ?run))) = 1" by code_simp
  have repo: "st_repo sample_app = idle sample_site" "snd (st_ctl sample_app) = []"
    by (simp_all add: sample_app_def)
  have inv: "ledger_inv (idle sample_site)"
    using ledger_inv_empty by (simp add: ledger_inv_def sample_site_def)
  have cams: "\<forall>r \<in> set (db_cameras sample_site). \<exists>c. cr_camera_id r = JStr c"
    by (simp add: sample_site_def sample_camera_row_def)
  from audio_endpoint_announces_only_when_safe[OF repo(1) inv cams, of sample_audio_env 100 100 "''t1''" "fake_send 100"
      "''d1''" "fst ?run" "snd ?run"] log repo(2)
  show ?thesis by auto
qed

end
