(* ===== verification/Api_Evaluations.thy ===== *)
theory Api_Evaluations
  imports Api
begin

text \<open>
  Idempotent evaluations end to end: what \<open>POST /v1/evaluations\<close> leaves in the database when it
  answers, and what a retry under the same key then finds.
\<close>

section \<open>The settled state of a key\<close>

text \<open>The key is held by a completed evaluation of this fingerprint, which the response shows.\<close>

definition answered ::
  "(string \<Rightarrow> uuid option) \<Rightarrow> string \<Rightarrow> string \<Rightarrow> EvaluationResponse \<Rightarrow> db \<Rightarrow> bool" where
  "answered parse k fp resp d \<longleftrightarrow> evals_ok (db_evaluations d) \<and>
    (\<exists>row. fetch_by ev_idempotency_key (JStr k) (db_evaluations d) = Some row \<and>
      ev_status row = JStr ''completed'' \<and> ev_request_fingerprint row = JStr fp \<and>
      evaluation_response parse (evaluation_payload row) = Inr resp)"

lemma map_of_evaluation_payload:
  "map_of (evaluation_payload r) ''evaluation_id'' = Some (ev_evaluation_id r)"
  "map_of (evaluation_payload r) ''status'' = Some (ev_status r)"
  by (simp_all add: evaluation_payload_def)

lemma evaluation_response_status:
  assumes "evaluation_response parse (evaluation_payload r) = Inr resp"
  shows "ev_status r = JStr (er_status resp)"
  using assms
  by (auto simp: evaluation_response_def EvaluationResponse_validate_def map_of_evaluation_payload
      split: option.splits json.splits if_splits)

lemma claim_spec_artifacts: "db_artifacts (snd (claim_spec now later eid key camera fp d)) = db_artifacts d"
  by (simp add: claim_spec_def Let_def split: option.split sum.split bool.split)

lemma dget_default_ditem: "ditem d k = Inr v \<Longrightarrow> dget_default d k w = v"
  by (auto simp: ditem_def dget_default_def split: option.splits)

text \<open>A completion under the key settles it.\<close>

lemma completion_answered:
  assumes ok: "evals_ok (db_evaluations d)" and parse: "evaluation_response parse saved = Inr resp"
    and run: "put_decision_and_evaluation now decision (completed_evaluation digest draw r (Some k)) (idle d) =
      (Inr saved, c)"
  shows "\<exists>d'. c = idle d' \<and> answered parse k (evaluation_request_fingerprint digest r) resp d' \<and>
    db_artifacts d' = db_artifacts d"
proof -
  let ?e = "completed_evaluation digest draw r (Some k)" and ?eid = "JStr (ed_evaluation_id draw)"
  let ?item = "evaluation_item now ?e"
  have e: "ditem ?e ''evaluation_id'' = Inr ?eid" "dget ?e ''idempotency_key'' = JStr k"
      "ditem ?e ''status'' = Inr (JStr ''completed'')"
      "ditem ?e ''request_fingerprint'' = Inr (JStr (evaluation_request_fingerprint digest r))"
    by (simp_all add: completed_evaluation_def ditem_def dget_def json_opt_def)
  have nn: "dget ?e ''idempotency_key'' \<noteq> JNull" using e(2) by simp
  from e(1) nn show ?thesis
  proof (cases rule: completion_cases[where now = now and decision = decision and d = d])
    case (error err)
    then show ?thesis using run by simp
  next
    case (completed x d')
    obtain q where q: "fetch_by ev_evaluation_id ?eid (db_evaluations d') = Some q" "x = evaluation_payload q"
      using completed(3)[OF ok] by blast
    obtain claim row updated where c:
        "fetch_by ev_evaluation_id ?eid (db_evaluations d) = Some claim" "ev_idempotency_key claim = JStr k"
        "d' = d\<lparr>db_decisions := db_decisions d @ [row], db_evaluations := update_rows (\<lambda>r. sql_eq (ev_evaluation_id r) ?eid)
          (completed_row ?item (JStr ''completed'') updated claim) (db_evaluations d)\<rparr>"
      using completed(2) e(2,3) by (auto simp: completed_together_def)
    let ?row = "completed_row ?item (JStr ''completed'') updated claim claim"
    have qr: "q = ?row"
      using q(1) c(1) fetch_by_Some[OF c(1)] by (simp add: c(3) fetch_by_update_rows sql_eq_def)
    have "ditem ?item ''request_fingerprint'' = Inr (JStr (evaluation_request_fingerprint digest r))"
      using e(4) by (simp add: evaluation_item_keeps)
    then have fp: "ev_request_fingerprint q = JStr (evaluation_request_fingerprint digest r)"
      by (simp add: qr completed_row_def dget_default_ditem)
    have ok': "evals_ok (db_evaluations d')"
      unfolding c(3) by (simp, rule evals_ok_update[OF ok]) simp_all
    have key: "ev_idempotency_key q = JStr k" and st: "ev_status q = JStr ''completed''"
      using c(2) by (simp_all add: qr)
    have "fetch_by ev_idempotency_key (JStr k) (db_evaluations d') = Some q"
      using fetch_eval_key[OF ok' fetch_by_Some(1)[OF q(1)]] key by simp
    then have "answered parse k (evaluation_request_fingerprint digest r) resp d'"
      using ok' st fp parse run completed(1) q(2) by (auto simp: answered_def)
    then show ?thesis using run completed(1) c(3) by auto
  qed
qed

text \<open>The claim step, on an idle connection and with a fresh evaluation id.\<close>

definition fresh_draw :: "eval_draw \<Rightarrow> db \<Rightarrow> bool" where
  "fresh_draw draw d \<longleftrightarrow> JStr (ed_evaluation_id draw) \<notin> set (map ev_evaluation_id (db_evaluations d))"

definition draw_claim :: "(json \<Rightarrow> string) \<Rightarrow> eval_draw \<Rightarrow> EvaluationCreate \<Rightarrow> string \<Rightarrow> db \<Rightarrow> dict option result \<times> db" where
  "draw_claim digest draw r k d = claim_spec (ed_now draw) (ed_later draw) (JStr (ed_evaluation_id draw)) (JStr k)
     (JStr (evc_camera_id r)) (JStr (evaluation_request_fingerprint digest r)) d"

lemma draw_claim_idle:
  assumes "evals_ok (db_evaluations d)" and "fresh_draw draw d"
  shows "claim_evaluation (ed_now draw) (ed_later draw) (JStr (ed_evaluation_id draw)) (JStr k)
      (JStr (evc_camera_id r)) (JStr (evaluation_request_fingerprint digest r)) (idle d) =
    (fst (draw_claim digest draw r k d), idle (snd (draw_claim digest draw r k d)))"
  using claim_evaluation_idle[OF assms(1), of "JStr k" "JStr (ed_evaluation_id draw)"] assms(2)
  by (simp add: draw_claim_def fresh_draw_def Let_def case_prod_beta)

lemma draw_claim_ok:
  assumes "evals_ok (db_evaluations d)" and "fresh_draw draw d"
  shows "evals_ok (db_evaluations (snd (draw_claim digest draw r k d)))"
proof -
  let ?c = "draw_claim digest draw r k d"
  have inv: "eval_inv d [] []" using assms(1) by (simp add: eval_inv_def)
  have "claim_spec (ed_now draw) (ed_later draw) (JStr (ed_evaluation_id draw)) (JStr k) (JStr (evc_camera_id r))
      (JStr (evaluation_request_fingerprint digest r)) d = (fst ?c, snd ?c)"
    by (simp add: draw_claim_def)
  from eval_inv_claim[OF inv _ _ _ _ this] show ?thesis
    using assms(2) by (simp add: fresh_draw_def eval_inv_def)
qed

lemma finish_evaluation_answered:
  assumes "evals_ok (db_evaluations d)" and "st_repo s = idle d"
    and "finish_evaluation digest parse draw r (Some k) claimed s = (Inr resp, s1)"
  shows "\<exists>d1. st_repo s1 = idle d1 \<and> answered parse k (evaluation_request_fingerprint digest r) resp d1 \<and>
    db_artifacts d1 = db_artifacts d"
proof -
  let ?run = "put_decision_and_evaluation (ed_put draw) (evaluated_decision draw r)
    (completed_evaluation digest draw r (Some k)) (idle d)"
  obtain x c where run: "?run = (x, c)" by (cases ?run)
  show ?thesis
  proof (cases x)
    case (Inl e)
    then show ?thesis
      using assms(2,3) run by (auto simp: finish_evaluation_def split: if_splits prod.splits sum.splits)
  next
    case (Inr saved)
    then have "evaluation_response parse saved = Inr resp" "st_repo s1 = c"
      using assms(2,3) run by (auto simp: finish_evaluation_def)
    with completion_answered[OF assms(1)] run Inr show ?thesis by auto
  qed
qed

lemma claim_and_finish_answered:
  assumes ok: "evals_ok (db_evaluations d)" and fresh: "fresh_draw draw d" and repo: "st_repo s = idle d" and k: "k \<noteq> []"
    and run: "claim_and_finish digest parse draw r (Some k) s = (Inr resp, s1)" and st: "er_status resp = ''completed''"
  shows "\<exists>d1. st_repo s1 = idle d1 \<and> answered parse k (evaluation_request_fingerprint digest r) resp d1 \<and>
    db_artifacts d1 = db_artifacts d"
proof -
  note claim = draw_claim_idle[OF ok fresh, of k r digest]
  note ok1 = draw_claim_ok[OF ok fresh, of digest r k]
  have art: "db_artifacts (snd (draw_claim digest draw r k d)) = db_artifacts d"
    by (simp add: draw_claim_def claim_spec_artifacts)
  show ?thesis
  proof (cases "fst (draw_claim digest draw r k d)")
    case (Inl e)
    then show ?thesis using run repo k claim by (simp add: claim_and_finish_def)
  next
    case (Inr won)
    show ?thesis
    proof (cases won)
      case None
      have "finish_evaluation digest parse draw r (Some k) True (s\<lparr>st_repo := idle (snd (draw_claim digest draw r k d))\<rparr>) =
          (Inr resp, s1)"
        using run repo k claim Inr None by (simp add: claim_and_finish_def)
      from finish_evaluation_answered[OF ok1 _ this] show ?thesis using art by simp
    next
      case (Some existing)
      have resp: "evaluation_response parse existing = Inr resp" "st_repo s1 = idle (snd (draw_claim digest draw r k d))"
        using run repo k claim Inr Some by (auto simp: claim_and_finish_def)
      have "\<exists>row. fetch_by ev_idempotency_key (JStr k) (db_evaluations d) = Some row \<and> existing = evaluation_payload row \<and>
          ev_request_fingerprint row = JStr (evaluation_request_fingerprint digest r) \<and> snd (draw_claim digest draw r k d) = d"
        using Inr Some by (auto simp: draw_claim_def claim_spec_def Let_def split: option.splits if_splits sum.splits bool.splits)
      then show ?thesis
        using resp st ok evaluation_response_status by (auto simp: answered_def)
    qed
  qed
qed

section \<open>A retry\<close>

lemma retry_claim:
  assumes "answered parse k fp resp d" and "fresh_draw draw d"
  shows "evaluation_request_fingerprint digest r = fp \<Longrightarrow>
      \<exists>row. draw_claim digest draw r k d = (Inr (Some (evaluation_payload row)), d) \<and>
        evaluation_response parse (evaluation_payload row) = Inr resp"
    and "evaluation_request_fingerprint digest r \<noteq> fp \<Longrightarrow> draw_claim digest draw r k d = (Inl IdempotencyConflictError, d)"
  using assms claimable_completed by (auto simp: answered_def draw_claim_def claim_spec_def)

lemma retry_claim_and_finish:
  assumes a: "answered parse k fp resp d" and fresh: "fresh_draw draw d" and repo: "st_repo s = idle d" and k: "k \<noteq> []"
  shows "claim_and_finish digest parse draw r (Some k) s =
    (if evaluation_request_fingerprint digest r = fp then (Inr resp, s)
     else (Inl (HTTPException 409 ''idempotency key was reused for a different request''), s))"
proof -
  have ok: "evals_ok (db_evaluations d)" using a by (simp add: answered_def)
  show ?thesis
    using draw_claim_idle[OF ok fresh, of k r digest] retry_claim[OF a fresh, of digest r] repo k
    by (auto simp: claim_and_finish_def)
qed

lemma get_artifact_idle: "snd (get_artifact aid (idle d)) = idle d"
  by (simp add: get_artifact_def)

lemma create_evaluation_registered:
  assumes "st_repo s = idle d"
    and "case evc_artifact_id r of None \<Rightarrow> True
      | Some a \<Rightarrow> a \<noteq> [] \<longrightarrow> fetch_by af_artifact_id (JStr a) (db_artifacts d) \<noteq> None"
  shows "create_evaluation digest parse draw r key s = claim_and_finish digest parse draw r key s"
  using assms by (auto simp: create_evaluation_def get_artifact_def json_opt_def split: option.splits)

lemma create_evaluation_unregistered:
  assumes "st_repo s = idle d" and "evc_artifact_id r = Some a" "a \<noteq> []" "fetch_by af_artifact_id (JStr a) (db_artifacts d) = None"
  shows "create_evaluation digest parse draw r key s = (Inl (HTTPException 404 ''artifact not found''), s)"
  using assms by (cases s) (simp add: create_evaluation_def get_artifact_def json_opt_def)

section \<open>Property\<close>

text \<open>Property C9.  \<open>POST /v1/evaluations\<close> is idempotent: once a request under a non-empty key has been
  answered with a completed evaluation, every retry of the same request under that key (with any
  clocks, and a fresh evaluation id of its own) is answered with exactly the same response, and a
  different request under that key is refused with 409 (or 404, if it names an unknown artifact);
  none of them changes anything in the application, so no second decision is stored or counted.\<close>

theorem evaluation_retry_is_idempotent:
  assumes "st_repo s = idle d" and "evals_ok (db_evaluations d)" and "fresh_draw draw d" and "k \<noteq> []"
    and "create_evaluation digest parse draw r (Some k) s = (Inr resp, s1)" and "er_status resp = ''completed''"
  shows "\<exists>d1. st_repo s1 = idle d1 \<and>
    (\<forall>draw'. fresh_draw draw' d1 \<longrightarrow> create_evaluation digest parse draw' r (Some k) s1 = (Inr resp, s1)) \<and>
    (\<forall>draw' r'. fresh_draw draw' d1 \<longrightarrow>
      evaluation_request_fingerprint digest r' \<noteq> evaluation_request_fingerprint digest r \<longrightarrow>
      (\<exists>code detail. code \<in> {404, 409} \<and>
        create_evaluation digest parse draw' r' (Some k) s1 = (Inl (HTTPException code detail), s1)))"
proof -
  let ?registered = "\<lambda>r d. case evc_artifact_id r of None \<Rightarrow> True
      | Some a \<Rightarrow> a \<noteq> [] \<longrightarrow> fetch_by af_artifact_id (JStr a) (db_artifacts d) \<noteq> None"
  have reg: "?registered r d"
    using assms(5) create_evaluation_unregistered[OF assms(1)] by (fastforce split: option.splits)
  have "claim_and_finish digest parse draw r (Some k) s = (Inr resp, s1)"
    using assms(5) create_evaluation_registered[OF assms(1) reg] by simp
  from claim_and_finish_answered[OF assms(2,3,1,4) this assms(6)] obtain d1 where d1: "st_repo s1 = idle d1"
      "answered parse k (evaluation_request_fingerprint digest r) resp d1" "db_artifacts d1 = db_artifacts d"
    by blast
  have again: "create_evaluation digest parse draw' r (Some k) s1 = (Inr resp, s1)" if "fresh_draw draw' d1" for draw'
    using create_evaluation_registered[OF d1(1)] reg retry_claim_and_finish[OF d1(2) that d1(1) assms(4)] d1(3)
    by (simp split: option.splits)
  have other: "\<exists>code detail. code \<in> {404, 409} \<and>
      create_evaluation digest parse draw' r' (Some k) s1 = (Inl (HTTPException code detail), s1)"
    if "fresh_draw draw' d1" "evaluation_request_fingerprint digest r' \<noteq> evaluation_request_fingerprint digest r" for draw' r'
  proof (cases "?registered r' d1")
    case True
    then show ?thesis
      using create_evaluation_registered[OF d1(1) True] retry_claim_and_finish[OF d1(2) that(1) d1(1) assms(4), of digest r'] that(2)
      by auto
  next
    case False
    then show ?thesis
      using create_evaluation_unregistered[OF d1(1)] by (fastforce split: option.splits)
  qed
  show ?thesis using d1(1) again other by blast
qed

definition sample_draw :: eval_draw where
  "sample_draw = \<lparr>ed_evaluation_id = ''e1'', ed_decision_id = ''d1'', ed_now = 5, ed_later = 6, ed_put = 7, ed_fail = 8\<rparr>"

definition sample_evaluation_request :: EvaluationCreate where
  "sample_evaluation_request = \<lparr>evc_artifact_id = None, evc_camera_id = ''cam'', evc_mode = SHADOW\<rparr>"

definition sample_server :: "unit app" where
  "sample_server = \<lparr>st_repo = idle empty_db, st_ctl = (), st_health = health_new None, st_policy = default_policy_settings\<rparr>"

definition sample_answer :: "EvaluationResponse result \<times> unit app" where
  "sample_answer = create_evaluation (\<lambda>_. ''fp'') Some sample_draw sample_evaluation_request (Some ''k'') sample_server"

theorem evaluation_retry_is_idempotent_witness:
  "\<exists>resp. fst sample_answer = Inr resp \<and>
    create_evaluation (\<lambda>_. ''fp'') Some (sample_draw\<lparr>ed_evaluation_id := ''e2'', ed_now := 900, ed_later := 900\<rparr>)
      sample_evaluation_request (Some ''k'') (snd sample_answer) = (Inr resp, snd sample_answer)"
proof -
  have "case fst sample_answer of Inl _ \<Rightarrow> False | Inr resp \<Rightarrow> er_status resp = ''completed''"
    by code_simp
  then obtain resp where resp: "fst sample_answer = Inr resp" "er_status resp = ''completed''"
    by (auto split: sum.splits)
  have fresh: "fresh_draw (sample_draw\<lparr>ed_evaluation_id := ''e2'', ed_now := 900, ed_later := 900\<rparr>)
      (cn_work (st_repo (snd sample_answer)))"
    by code_simp
  have ok: "evals_ok (db_evaluations empty_db)" "fresh_draw sample_draw empty_db" "st_repo sample_server = idle empty_db"
    by (simp_all add: evals_ok_def empty_db_def fresh_draw_def sample_server_def)
  have run: "create_evaluation (\<lambda>_. ''fp'') Some sample_draw sample_evaluation_request (Some ''k'') sample_server =
      (Inr resp, snd sample_answer)"
    using resp(1) unfolding sample_answer_def by (metis prod.collapse)
  from evaluation_retry_is_idempotent[OF ok(3,1,2) _ run resp(2)] fresh resp(1)
  show ?thesis by auto
qed

section \<open>The empty key\<close>

text \<open>An empty \<open>Idempotency-Key\<close> header is absent for the claim and present for the completion, so a request
  that carries one is always refused.\<close>

lemma empty_key_is_always_refused:
  assumes "st_repo s = idle d" and "fresh_draw draw d" and "evc_artifact_id r = None"
  shows "create_evaluation digest parse draw r (Some []) s =
    (Inl (HTTPException 409 ''evaluation claim was reclaimed; retry the request''), s)"
proof -
  let ?e = "completed_evaluation digest draw r (Some [])"
  have e: "ditem ?e ''evaluation_id'' = Inr (JStr (ed_evaluation_id draw))" "dget ?e ''idempotency_key'' = JStr []"
    by (simp_all add: completed_evaluation_def ditem_def dget_def json_opt_def)
  have "fetch_by ev_evaluation_id (JStr (ed_evaluation_id draw)) (db_evaluations d) = None"
    using assms(2) by (simp add: fetch_by_None fresh_draw_def)
  then have "put_decision_and_evaluation (ed_put draw) (evaluated_decision draw r) ?e (idle d) =
      (Inl EvaluationClaimLostError, idle d)"
    using e by (simp add: put_decision_and_evaluation_def rollback_on_error_def cbind_def)
  then show ?thesis
    using assms by (simp add: create_evaluation_def claim_and_finish_def finish_evaluation_def)
qed

end
