(* ===== verification/Api_Cameras.thy ===== *)
theory Api_Cameras
  imports Api
begin

text \<open>
  What the camera reconciliation of \<open>create_app\<close> does to the camera table, for any table and any
  list of mounted profiles.
\<close>

section \<open>The camera table\<close>

text \<open>Every row was written by \<open>upsert_camera\<close>: one row per id, whose payload names the id and has a
  revision and a time.\<close>

definition camera_item_ok :: "string \<Rightarrow> dict \<Rightarrow> bool" where
  "camera_item_ok s p \<longleftrightarrow> ditem p ''camera_id'' = Inr (JStr s) \<and>
     (\<exists>v. ditem p ''revision'' = Inr v \<and> v \<noteq> JNull) \<and> (\<exists>v. ditem p ''updated_at'' = Inr v \<and> v \<noteq> JNull)"

definition cams_ok :: "camera_row list \<Rightarrow> bool" where
  "cams_ok rows \<longleftrightarrow> distinct (map cr_camera_id rows) \<and>
     (\<forall>r \<in> set rows. \<exists>s p. cr_camera_id r = JStr s \<and> cr_payload r = JObj p \<and> camera_item_ok s p)"

definition camera_view :: "camera_row list \<Rightarrow> string \<Rightarrow> dict option" where
  "camera_view rows s = map_option (\<lambda>r. as_dict (cr_payload r)) (fetch_by cr_camera_id (JStr s) rows)"

lemma camera_view_mem:
  assumes "cams_ok (db_cameras d)" and "r \<in> set (db_cameras d)" and "cr_camera_id r = JStr s"
  shows "camera_view (db_cameras d) s = Some (as_dict (cr_payload r))"
  using fetch_by_distinct[of cr_camera_id "db_cameras d" r] assms by (simp add: camera_view_def cams_ok_def)

lemma camera_view_ok:
  assumes "cams_ok (db_cameras d)" and "camera_view (db_cameras d) s = Some p"
  shows "camera_item_ok s p"
proof -
  obtain r where r: "fetch_by cr_camera_id (JStr s) (db_cameras d) = Some r" "p = as_dict (cr_payload r)"
    using assms(2) by (auto simp: camera_view_def)
  note f = fetch_by_Some[OF r(1)]
  obtain t q where "cr_camera_id r = JStr t" "cr_payload r = JObj q" "camera_item_ok t q"
    using assms(1) f(1) by (auto simp: cams_ok_def)
  then show ?thesis using r(2) f(2) by simp
qed

text \<open>Writing one camera replaces its payload and nothing else.\<close>

lemma upsert_camera_view:
  assumes ok: "cams_ok (db_cameras d)" and item: "camera_item_ok s (dsetdefault camera ''updated_at'' (jtime now))"
  shows "\<exists>rows. upsert_camera now camera (idle d) =
      (Inr (dsetdefault camera ''updated_at'' (jtime now)), idle (d\<lparr>db_cameras := rows\<rparr>)) \<and> cams_ok rows \<and>
    (\<forall>t. camera_view rows t =
      (if t = s then Some (dsetdefault camera ''updated_at'' (jtime now)) else camera_view (db_cameras d) t))"
proof -
  let ?item = "dsetdefault camera ''updated_at'' (jtime now)"
  obtain rev upd where f: "ditem ?item ''camera_id'' = Inr (JStr s)" "ditem ?item ''revision'' = Inr rev" "rev \<noteq> JNull"
      "ditem ?item ''updated_at'' = Inr upd" "upd \<noteq> JNull"
    using item by (auto simp: camera_item_ok_def)
  let ?row = "\<lparr>cr_camera_id = JStr s, cr_revision = rev, cr_payload = JObj ?item, cr_updated_at = upd\<rparr>"
  let ?upd = "\<lambda>q. q\<lparr>cr_revision := rev, cr_payload := JObj ?item, cr_updated_at := upd\<rparr>"
  let ?p = "\<lambda>q. cr_camera_id q = JStr s"
  let ?rows = "if JStr s \<in> set (map cr_camera_id (db_cameras d)) then update_rows ?p ?upd (db_cameras d)
    else db_cameras d @ [?row]"
  have row: "camera_row_of ?item = Inr ?row" using f by (simp add: camera_row_of_def)
  have nn: "not_null [cr_revision ?row, cr_payload ?row, cr_updated_at ?row]" using f by (simp add: not_null_def)
  have run: "upsert_camera now camera (idle d) = (Inr ?item, idle (d\<lparr>db_cameras := ?rows\<rparr>))"
    using row nn by (simp add: upsert_camera_def Let_def cbind_def upsert_camera_row_def)
  have keys: "map cr_camera_id (update_rows ?p ?upd (db_cameras d)) = map cr_camera_id (db_cameras d)"
    by (rule map_update_rows_key) simp
  have ok': "cams_ok ?rows"
  proof (cases "JStr s \<in> set (map cr_camera_id (db_cameras d))")
    case True
    have "\<exists>t p. cr_camera_id r = JStr t \<and> cr_payload r = JObj p \<and> camera_item_ok t p"
      if r: "r \<in> set (update_rows ?p ?upd (db_cameras d))" for r
    proof -
      obtain q where "q \<in> set (db_cameras d)" "r = (if ?p q then ?upd q else q)"
        using r by (auto simp: update_rows_def)
      then show ?thesis using ok item by (cases "?p q") (auto simp: cams_ok_def)
    qed
    then show ?thesis using True ok keys by (simp add: cams_ok_def)
  next
    case False
    then show ?thesis using ok item by (auto simp: cams_ok_def)
  qed
  have "camera_view ?rows t = (if t = s then Some ?item else camera_view (db_cameras d) t)" for t
  proof (cases "JStr s \<in> set (map cr_camera_id (db_cameras d))")
    case True
    have "fetch_by cr_camera_id (JStr t) (update_rows ?p ?upd (db_cameras d)) =
        map_option (\<lambda>r. if ?p r then ?upd r else r) (fetch_by cr_camera_id (JStr t) (db_cameras d))"
      by (rule fetch_by_update_rows) simp
    moreover have "fetch_by cr_camera_id (JStr s) (db_cameras d) \<noteq> None"
      using True by (simp add: fetch_by_None)
    ultimately show ?thesis
      using True fetch_by_Some(2)[of cr_camera_id "JStr t" "db_cameras d"]
      by (cases "fetch_by cr_camera_id (JStr t) (db_cameras d)") (auto simp: camera_view_def)
  next
    case False
    then have "fetch_by cr_camera_id (JStr s) (db_cameras d) = None" by (simp add: fetch_by_None)
    then show ?thesis
      using False by (auto simp: camera_view_def fetch_by_append sql_eq_def split: option.split)
  qed
  then show ?thesis using run ok' by blast
qed

section \<open>Mounting\<close>

text \<open>The payload of a mounted profile.\<close>

definition mounted :: "(json \<Rightarrow> string) \<Rightarrow> time_us \<Rightarrow> CameraProfile \<Rightarrow> dict" where
  "mounted digest now p = dump_profile p @
     [(''revision'', JStr (profile_revision digest p)), (''active'', JBool (cp_enabled p)),
      (''managed_by_config'', JBool True), (''deactivated_by_config'', JBool False), (''updated_at'', jtime now)]"

lemma mounted_item:
  "dsetdefault (dump_profile p @ [(''revision'', JStr (profile_revision digest p)), (''active'', JBool (cp_enabled p)),
     (''managed_by_config'', JBool True), (''deactivated_by_config'', JBool False)]) ''updated_at'' (jtime now) =
   mounted digest now p"
  "camera_item_ok (cp_camera_id p) (mounted digest now p)"
  by (simp_all add: mounted_def dsetdefault_def dump_profile_def camera_item_ok_def ditem_def)

lemma mount_profile_view:
  assumes "cams_ok (db_cameras d)"
  shows "\<exists>rows. mount_profile digest now p (idle d) = (Inr (), idle (d\<lparr>db_cameras := rows\<rparr>)) \<and> cams_ok rows \<and>
    (\<forall>t. camera_view rows t = (if t = cp_camera_id p then Some (mounted digest now p) else camera_view (db_cameras d) t))"
proof -
  obtain rows where "upsert_camera now (dump_profile p @ [(''revision'', JStr (profile_revision digest p)),
      (''active'', JBool (cp_enabled p)), (''managed_by_config'', JBool True), (''deactivated_by_config'', JBool False)]) (idle d) =
      (Inr (mounted digest now p), idle (d\<lparr>db_cameras := rows\<rparr>))" "cams_ok rows"
    "\<forall>t. camera_view rows t = (if t = cp_camera_id p then Some (mounted digest now p) else camera_view (db_cameras d) t)"
    using upsert_camera_view[OF assms, of "cp_camera_id p"] mounted_item by metis
  then show ?thesis by (auto simp: mount_profile_def cbind_def)
qed

lemma mount_all_view:
  assumes "cams_ok (db_cameras d)"
  shows "\<exists>rows. each (mount_profile digest now) profiles (idle d) = (Inr (), idle (d\<lparr>db_cameras := rows\<rparr>)) \<and> cams_ok rows \<and>
    (\<forall>t. if t \<in> cp_camera_id ` set profiles
       then \<exists>p \<in> set profiles. cp_camera_id p = t \<and> camera_view rows t = Some (mounted digest now p)
       else camera_view rows t = camera_view (db_cameras d) t)"
  using assms
proof (induction profiles arbitrary: d)
  case Nil
  then show ?case by (intro exI[of _ "db_cameras d"]) simp
next
  case (Cons p profiles)
  obtain rows1 where r1: "mount_profile digest now p (idle d) = (Inr (), idle (d\<lparr>db_cameras := rows1\<rparr>))" "cams_ok rows1"
      "\<forall>t. camera_view rows1 t = (if t = cp_camera_id p then Some (mounted digest now p) else camera_view (db_cameras d) t)"
    using mount_profile_view[OF Cons.prems] by blast
  obtain rows where r: "each (mount_profile digest now) profiles (idle (d\<lparr>db_cameras := rows1\<rparr>)) =
        (Inr (), idle (d\<lparr>db_cameras := rows\<rparr>))" "cams_ok rows"
      "\<forall>t. if t \<in> cp_camera_id ` set profiles
       then \<exists>p \<in> set profiles. cp_camera_id p = t \<and> camera_view rows t = Some (mounted digest now p)
       else camera_view rows t = camera_view rows1 t"
    using Cons.IH[of "d\<lparr>db_cameras := rows1\<rparr>"] r1(2) by auto
  show ?case
    using r r1 by (intro exI[of _ rows]) (auto simp: cbind_def split: if_splits)
qed

section \<open>Retiring\<close>

definition retired :: "dict \<Rightarrow> dict" where
  "retired c = dset (dset (dset c ''active'' (JBool False)) ''enabled'' (JBool False)) ''deactivated_by_config'' (JBool True)"

definition stale :: "string list \<Rightarrow> dict \<Rightarrow> bool" where
  "stale ids c \<longleftrightarrow> dget c ''managed_by_config'' = JBool True \<and> text_of (dget c ''camera_id'') \<notin> set ids"

lemma retired_item: "camera_item_ok s c \<Longrightarrow> dsetdefault (retired c) ''updated_at'' (jtime now) = retired c \<and> camera_item_ok s (retired c)"
  by (auto simp: camera_item_ok_def retired_def)

lemma retire_camera_view:
  assumes ok: "cams_ok (db_cameras d)" and c: "camera_view (db_cameras d) s = Some c"
  shows "\<exists>rows. retire_camera now ids c (idle d) = (Inr (), idle (d\<lparr>db_cameras := rows\<rparr>)) \<and> cams_ok rows \<and>
    (\<forall>t. camera_view rows t = (if t = s \<and> stale ids c then Some (retired c) else camera_view (db_cameras d) t))"
proof (cases "stale ids c")
  case True
  have item: "camera_item_ok s c" by (rule camera_view_ok[OF ok c])
  obtain rows where "upsert_camera now (retired c) (idle d) = (Inr (retired c), idle (d\<lparr>db_cameras := rows\<rparr>))" "cams_ok rows"
      "\<forall>t. camera_view rows t = (if t = s then Some (retired c) else camera_view (db_cameras d) t)"
    using upsert_camera_view[OF ok, of s "retired c" now] retired_item[OF item, of now] by auto
  then show ?thesis using True by (auto simp: retire_camera_def stale_def retired_def cbind_def)
next
  case False
  then show ?thesis using ok by (intro exI[of _ "db_cameras d"]) (auto simp: retire_camera_def stale_def)
qed

lemma camera_view_id: "cams_ok (db_cameras d) \<Longrightarrow> camera_view (db_cameras d) s = Some c \<Longrightarrow> text_of (dget c ''camera_id'') = s"
  using camera_view_ok ditem_Inr_dget by (fastforce simp: camera_item_ok_def)

lemma retire_all_view:
  assumes "cams_ok (db_cameras d)" and "distinct (map (\<lambda>c. text_of (dget c ''camera_id'')) cs)"
    and "\<forall>c \<in> set cs. camera_view (db_cameras d) (text_of (dget c ''camera_id'')) = Some c"
  shows "\<exists>rows. each (retire_camera now ids) cs (idle d) = (Inr (), idle (d\<lparr>db_cameras := rows\<rparr>)) \<and> cams_ok rows \<and>
    (\<forall>t. camera_view rows t = (case camera_view (db_cameras d) t of
       None \<Rightarrow> None | Some c \<Rightarrow> Some (if c \<in> set cs \<and> stale ids c then retired c else c)))"
  using assms
proof (induction cs arbitrary: d)
  case Nil
  then show ?case by (intro exI[of _ "db_cameras d"]) (simp split: option.split)
next
  case (Cons c cs)
  let ?s = "text_of (dget c ''camera_id'')"
  have c: "camera_view (db_cameras d) ?s = Some c" using Cons.prems(3) by simp
  obtain rows1 where r1: "retire_camera now ids c (idle d) = (Inr (), idle (d\<lparr>db_cameras := rows1\<rparr>))" "cams_ok rows1"
      "\<forall>t. camera_view rows1 t = (if t = ?s \<and> stale ids c then Some (retired c) else camera_view (db_cameras d) t)"
    using retire_camera_view[OF Cons.prems(1) c] by blast
  have rest: "\<forall>e \<in> set cs. camera_view rows1 (text_of (dget e ''camera_id'')) = Some e"
    using Cons.prems(2,3) r1(3) by (auto simp: image_iff)
  obtain rows where r: "each (retire_camera now ids) cs (idle (d\<lparr>db_cameras := rows1\<rparr>)) = (Inr (), idle (d\<lparr>db_cameras := rows\<rparr>))"
      "cams_ok rows" "\<forall>t. camera_view rows t = (case camera_view rows1 t of
       None \<Rightarrow> None | Some c \<Rightarrow> Some (if c \<in> set cs \<and> stale ids c then retired c else c))"
    using Cons.IH[of "d\<lparr>db_cameras := rows1\<rparr>"] r1(2) rest Cons.prems(2) by auto
  have "camera_view rows t = (case camera_view (db_cameras d) t of
       None \<Rightarrow> None | Some e \<Rightarrow> Some (if e \<in> set (c # cs) \<and> stale ids e then retired e else e))" for t
  proof (cases "t = ?s")
    case True
    have idr: "text_of (dget (retired c) ''camera_id'') = ?s" by (simp add: retired_def)
    then have "retired c \<notin> set cs" "c \<notin> set cs" using Cons.prems(2) by (auto simp: image_iff dest: sym)
    then show ?thesis using r(3) r1(3) c True by auto
  next
    case False
    then have "camera_view (db_cameras d) t \<noteq> Some c" using camera_view_id[OF Cons.prems(1), of t c] by auto
    then show ?thesis using r(3) r1(3) False by (auto split: option.split)
  qed
  then show ?case using r(1,2) r1(1) by (intro exI[of _ rows]) (simp add: cbind_def)
qed

section \<open>Property\<close>

lemma list_cameras_idle:
  "list_cameras (idle d) = (Inr (map (\<lambda>r. as_dict (cr_payload r)) (sort_key (\<lambda>r. text_of (cr_camera_id r)) (db_cameras d))), idle d)"
  by (simp add: list_cameras_def)

lemma cams_ok_row:
  assumes "cams_ok rows" and "r \<in> set rows"
  shows "cr_camera_id r = JStr (text_of (dget (as_dict (cr_payload r)) ''camera_id''))"
  using assms ditem_Inr_dget by (fastforce simp: cams_ok_def camera_item_ok_def)

text \<open>The listed payloads have distinct ids and are the payloads the table holds for them.\<close>

lemma listed_payloads:
  assumes ok: "cams_ok (db_cameras d)"
  defines "cs \<equiv> map (\<lambda>r. as_dict (cr_payload r)) (sort_key (\<lambda>r. text_of (cr_camera_id r)) (db_cameras d))"
  shows "distinct (map (\<lambda>c. text_of (dget c ''camera_id'')) cs)"
    and "\<forall>c \<in> set cs. camera_view (db_cameras d) (text_of (dget c ''camera_id'')) = Some c"
    and "camera_view (db_cameras d) s = Some c \<Longrightarrow> c \<in> set cs"
proof -
  let ?sorted = "sort_key (\<lambda>r. text_of (cr_camera_id r)) (db_cameras d)"
  have "map JStr (map (\<lambda>c. text_of (dget c ''camera_id'')) cs) = map cr_camera_id ?sorted"
    unfolding cs_def map_map comp_def using cams_ok_row[OF ok] by (intro map_cong) simp_all
  moreover have "distinct (map cr_camera_id ?sorted)"
    using ok unfolding cams_ok_def by (simp add: distinct_map)
  ultimately show "distinct (map (\<lambda>c. text_of (dget c ''camera_id'')) cs)" by (metis distinct_map)
  show "\<forall>c \<in> set cs. camera_view (db_cameras d) (text_of (dget c ''camera_id'')) = Some c"
    using camera_view_mem[OF ok] cams_ok_row[OF ok] by (auto simp: cs_def)
  show "camera_view (db_cameras d) s = Some c \<Longrightarrow> c \<in> set cs"
    by (auto simp: camera_view_def cs_def dest: fetch_by_Some(1))
qed

text \<open>Property C15.  Booting reconciles the camera table with the mounted configuration, exactly and without
  failing: only the camera table changes; every mounted camera holds the payload of a mounted profile of
  its id; a camera that came from an earlier configuration and is not mounted any more keeps its
  payload except that it is inactive, disabled and marked as deactivated, so that the audio
  endpoint refuses it; and a camera that an operator registered is left as it was.\<close>

theorem boot_reconciles_cameras:
  assumes "cams_ok (db_cameras d)"
  shows "\<exists>rows. reconcile_cameras digest now profiles (idle d) = (Inr (), idle (d\<lparr>db_cameras := rows\<rparr>)) \<and> cams_ok rows \<and>
    (\<forall>t. if t \<in> cp_camera_id ` set profiles
       then \<exists>p \<in> set profiles. cp_camera_id p = t \<and> camera_view rows t = Some (mounted digest now p)
       else camera_view rows t = (case camera_view (db_cameras d) t of
         None \<Rightarrow> None
       | Some c \<Rightarrow> Some (if dget c ''managed_by_config'' = JBool True
           then dset (dset (dset c ''active'' (JBool False)) ''enabled'' (JBool False)) ''deactivated_by_config'' (JBool True)
           else c)))"
proof -
  let ?ids = "map cp_camera_id profiles"
  obtain rows1 where m: "each (mount_profile digest now) profiles (idle d) = (Inr (), idle (d\<lparr>db_cameras := rows1\<rparr>))" "cams_ok rows1"
      "\<forall>t. if t \<in> cp_camera_id ` set profiles
       then \<exists>p \<in> set profiles. cp_camera_id p = t \<and> camera_view rows1 t = Some (mounted digest now p)
       else camera_view rows1 t = camera_view (db_cameras d) t"
    using mount_all_view[OF assms] by blast
  let ?d1 = "d\<lparr>db_cameras := rows1\<rparr>"
  let ?cs = "map (\<lambda>r. as_dict (cr_payload r)) (sort_key (\<lambda>r. text_of (cr_camera_id r)) (db_cameras ?d1))"
  have ok1: "cams_ok (db_cameras ?d1)" using m(2) by simp
  note listed = listed_payloads[OF ok1]
  from retire_all_view[OF ok1 listed(1,2), of now ?ids] obtain rows where
    r: "each (retire_camera now ?ids) ?cs (idle ?d1) = (Inr (), idle (d\<lparr>db_cameras := rows\<rparr>))" "cams_ok rows"
      "\<forall>t. camera_view rows t = (case camera_view rows1 t of
        None \<Rightarrow> None | Some c \<Rightarrow> Some (if c \<in> set ?cs \<and> stale ?ids c then retired c else c))"
    by auto
  have run: "reconcile_cameras digest now profiles (idle d) = (Inr (), idle (d\<lparr>db_cameras := rows\<rparr>))"
    using m(1) r(1) by (simp add: reconcile_cameras_def cbind_def list_cameras_idle)
  have view: "camera_view rows t = (case camera_view rows1 t of
      None \<Rightarrow> None | Some c \<Rightarrow> Some (if t \<notin> set ?ids \<and> dget c ''managed_by_config'' = JBool True then retired c else c))" for t
    using r(3) listed(3)[of t] camera_view_id[OF ok1, of t] by (auto simp: stale_def split: option.split)
  have "if t \<in> cp_camera_id ` set profiles
       then \<exists>p \<in> set profiles. cp_camera_id p = t \<and> camera_view rows t = Some (mounted digest now p)
       else camera_view rows t = (case camera_view (db_cameras d) t of
         None \<Rightarrow> None | Some c \<Rightarrow> Some (if dget c ''managed_by_config'' = JBool True then retired c else c))" for t
    using m(3)[THEN spec, of t] view[of t] by (auto split: if_splits option.split)
  then show ?thesis using run r(2) unfolding retired_def by blast
qed

definition sample_profile :: CameraProfile where
  "sample_profile = \<lparr>cp_camera_id = ''a'', cp_zone_id = ''hall'', cp_enabled = True, cp_analysis_fps = 5,
     cp_roi = [\<lparr>pt_x = 0, pt_y = 0\<rparr>, \<lparr>pt_x = 1, pt_y = 0\<rparr>, \<lparr>pt_x = 1, pt_y = 1\<rparr>], cp_excluded_zones = [],
     cp_min_face_pixels = 32, cp_min_crop_pixels = 64, cp_day_night = ''auto''\<rparr>"

definition sample_cameras :: "camera_row list" where
  "sample_cameras = [\<lparr>cr_camera_id = JStr ''b'', cr_revision = JStr ''r'', cr_payload = JObj
     [(''camera_id'', JStr ''b''), (''revision'', JStr ''r''), (''active'', JBool True), (''managed_by_config'', JBool True),
      (''updated_at'', jtime 0)], cr_updated_at = jtime 0\<rparr>]"

theorem boot_reconciles_cameras_witness:
  "\<exists>rows. reconcile_cameras (\<lambda>_. ''hash'') 9 [sample_profile] (idle (empty_db\<lparr>db_cameras := sample_cameras\<rparr>)) =
      (Inr (), idle (empty_db\<lparr>db_cameras := rows\<rparr>)) \<and>
    camera_view rows ''a'' = Some (mounted (\<lambda>_. ''hash'') 9 sample_profile) \<and>
    map_option (\<lambda>c. dget c ''active'') (camera_view rows ''b'') = Some (JBool False)"
proof -
  have ok: "cams_ok (db_cameras (empty_db\<lparr>db_cameras := sample_cameras\<rparr>))"
    by (simp add: cams_ok_def sample_cameras_def camera_item_ok_def ditem_def)
  have b: "camera_view sample_cameras ''b'' = Some [(''camera_id'', JStr ''b''), (''revision'', JStr ''r''),
      (''active'', JBool True), (''managed_by_config'', JBool True), (''updated_at'', jtime 0)]"
    by (simp add: camera_view_def sample_cameras_def fetch_by_def sql_eq_def)
  let ?d = "empty_db\<lparr>db_cameras := sample_cameras\<rparr>"
  from boot_reconciles_cameras[OF ok, of "\<lambda>_. ''hash''" 9 "[sample_profile]"] obtain rows where
    run: "reconcile_cameras (\<lambda>_. ''hash'') 9 [sample_profile] (idle ?d) = (Inr (), idle (?d\<lparr>db_cameras := rows\<rparr>))"
    and view: "\<forall>t. if t \<in> cp_camera_id ` set [sample_profile]
       then \<exists>p \<in> set [sample_profile]. cp_camera_id p = t \<and> camera_view rows t = Some (mounted (\<lambda>_. ''hash'') 9 p)
       else camera_view rows t = (case camera_view (db_cameras ?d) t of
         None \<Rightarrow> None
       | Some c \<Rightarrow> Some (if dget c ''managed_by_config'' = JBool True
           then dset (dset (dset c ''active'' (JBool False)) ''enabled'' (JBool False)) ''deactivated_by_config'' (JBool True)
           else c))"
    by blast
  have id: "cp_camera_id sample_profile = ''a''" by (simp add: sample_profile_def)
  show ?thesis
    using run view[THEN spec, of "''a''"] view[THEN spec, of "''b''"] b
    by (intro exI[of _ rows]) (simp add: id, simp add: dget_def)
qed

end
