(* ===== verification/Candidates.thy ===== *)
theory Candidates
  imports Contracts Floats
begin

text \<open>
  The candidate envelope of \<open>src/tp_smoke_detect/contracts.py\<close> and the observation blocks it carries,
  with the field checks pydantic makes on the coerced values.  A score and a box side are rationals
  (a float in the unit interval), an unbounded float is a \<open>pyfloat\<close>.  A block that fails raises
  \<open>ValidationError\<close>, a \<open>ValueError\<close>.
\<close>

section \<open>Boxes and quality\<close>

record BoundingBox =
  bb_x :: rat
  bb_y :: rat
  bb_width :: rat
  bb_height :: rat
  bb_confidence :: rat

definition BoundingBox_new :: "BoundingBox \<Rightarrow> BoundingBox result" where
  "BoundingBox_new b =
    (if unit_score (bb_x b) \<and> unit_score (bb_y b) \<and> 0 < bb_width b \<and> bb_width b \<le> 1 \<and>
        0 < bb_height b \<and> bb_height b \<le> 1 \<and> unit_score (bb_confidence b)
     then ret b else raise (ValueError ''BoundingBox''))"

record Geometry =
  ge_person_box :: BoundingBox
  ge_roi_id :: "string option"
  ge_coverage_score :: rat

definition Geometry_new :: "Geometry \<Rightarrow> Geometry result" where
  "Geometry_new g =
    rbind (BoundingBox_new (ge_person_box g)) (\<lambda>_.
    if unit_score (ge_coverage_score g) then ret (g\<lparr>ge_roi_id := map_option str_strip (ge_roi_id g)\<rparr>)
    else raise (ValueError ''Geometry''))"

definition illumination_profiles :: "string list" where
  "illumination_profiles = [''day'', ''night'', ''mixed'', ''unknown'']"

record Quality =
  qu_source_width :: int
  qu_source_height :: int
  qu_face_pixels :: pyfloat
  qu_crop_pixels :: pyfloat
  qu_illumination_profile :: string
  qu_eligible :: bool
  qu_eligibility_reason :: string

definition Quality_new :: "Quality \<Rightarrow> Quality result" where
  "Quality_new q =
    (if 0 < qu_source_width q \<and> 0 < qu_source_height q \<and> pf_ge0 (qu_face_pixels q) \<and> pf_ge0 (qu_crop_pixels q) \<and>
        qu_illumination_profile q \<in> set illumination_profiles
     then ret (q\<lparr>qu_eligibility_reason := str_strip (qu_eligibility_reason q)\<rparr>) else raise (ValueError ''Quality''))"

section \<open>Observations\<close>

text \<open>A constraint on an optional field.\<close>

fun present :: "('a \<Rightarrow> bool) \<Rightarrow> 'a option \<Rightarrow> bool" where
  "present p None = True"
| "present p (Some x) = p x"

record PoseObservation =
  po_hand_to_mouth_distance :: "pyfloat option"
  po_mouth_dwell_ms :: "int option"
  po_confidence :: rat

definition PoseObservation_new :: "PoseObservation \<Rightarrow> PoseObservation result" where
  "PoseObservation_new p =
    (if present pf_ge0 (po_hand_to_mouth_distance p) \<and> present ((\<le>) 0) (po_mouth_dwell_ms p) \<and>
        unit_score (po_confidence p)
     then ret p else raise (ValueError ''PoseObservation''))"

definition object_labels :: "string list" where
  "object_labels = [''cigarette'', ''vape'', ''phone'', ''cup'', ''food'', ''pen_toothpick'', ''betel_quid'', ''background'', ''unknown'']"

record ObjectObservation =
  oo_label :: string
  oo_confidence :: rat

text \<open>The members of a \<open>Literal\<close> are compared as they are, with the white space of the input.\<close>

definition ObjectObservation_new :: "ObjectObservation \<Rightarrow> ObjectObservation result" where
  "ObjectObservation_new obs =
    (if oo_label obs \<in> set object_labels \<and> unit_score (oo_confidence obs) then ret obs else raise (ValueError ''ObjectObservation''))"

record SmokeObservation =
  so_smoke_score :: rat
  so_ember_score :: rat

definition SmokeObservation_new :: "SmokeObservation \<Rightarrow> SmokeObservation result" where
  "SmokeObservation_new s =
    (if unit_score (so_smoke_score s) \<and> unit_score (so_ember_score s) then ret s else raise (ValueError ''SmokeObservation''))"

record TemporalObservation =
  to_hand_retreat :: bool
  to_cycle_interval_ms :: "int option"
  to_persistence_ms :: int

definition TemporalObservation_new :: "TemporalObservation \<Rightarrow> TemporalObservation result" where
  "TemporalObservation_new t =
    (if present ((\<le>) 0) (to_cycle_interval_ms t) \<and> 0 \<le> to_persistence_ms t then ret t else raise (ValueError ''TemporalObservation''))"

record FrameObservations =
  fo_pose :: "PoseObservation option"
  fo_objects :: "ObjectObservation list"
  fo_smoke :: "SmokeObservation option"
  fo_temporal :: "TemporalObservation option"
  fo_independent_channels :: "string list"

definition optional_block :: "('a \<Rightarrow> 'a result) \<Rightarrow> 'a option \<Rightarrow> 'a option result" where
  "optional_block check x = (case x of None \<Rightarrow> ret None | Some v \<Rightarrow> rbind (check v) (\<lambda>v'. ret (Some v')))"

definition FrameObservations_new :: "FrameObservations \<Rightarrow> FrameObservations result" where
  "FrameObservations_new f =
    rbind (optional_block PoseObservation_new (fo_pose f)) (\<lambda>pose.
    rbind (rmap ObjectObservation_new (fo_objects f)) (\<lambda>objects.
    rbind (optional_block SmokeObservation_new (fo_smoke f)) (\<lambda>smoke.
    rbind (optional_block TemporalObservation_new (fo_temporal f)) (\<lambda>temporal.
    ret \<lparr>fo_pose = pose, fo_objects = objects, fo_smoke = smoke, fo_temporal = temporal,
      fo_independent_channels = map str_strip (fo_independent_channels f)\<rparr>))))"

section \<open>The envelope\<close>

record CandidateEnvelope =
  ce_event_id :: uuid
  ce_correlation_id :: uuid
  ce_producer :: string
  ce_occurred_at :: time_us
  ce_camera_id :: string
  ce_track_id :: string
  ce_camera_config_revision :: string
  ce_source_pts_ns :: int
  ce_capture_ts_ns :: int
  ce_received_ts_ns :: int
  ce_first_seen_at :: time_us
  ce_last_seen_at :: time_us
  ce_stage :: Stage
  ce_artifact_ids :: "string list"
  ce_geometry :: Geometry
  ce_quality :: Quality
  ce_observations :: FrameObservations

text \<open>Blocks that are already models are not validated again.\<close>

definition CandidateEnvelope_new :: "CandidateEnvelope \<Rightarrow> CandidateEnvelope result" where
  "CandidateEnvelope_new c =
    rbind (check_text 1 128 (ce_producer c)) (\<lambda>producer.
    rbind (check_text 1 128 (ce_camera_id c)) (\<lambda>camera.
    rbind (check_text 1 128 (ce_track_id c)) (\<lambda>track.
    rbind (check_text 1 128 (ce_camera_config_revision c)) (\<lambda>revision.
    if ce_source_pts_ns c < 0 \<or> ce_capture_ts_ns c < 0 \<or> ce_received_ts_ns c < 0 then raise (ValueError ''timestamp'')
    else ret (c\<lparr>ce_producer := producer, ce_camera_id := camera, ce_track_id := track,
      ce_camera_config_revision := revision, ce_artifact_ids := map str_strip (ce_artifact_ids c)\<rparr>)))))"

section \<open>Normal forms\<close>

text \<open>A check that succeeds returns a value that passes it again unchanged.\<close>

definition normalises :: "('a \<Rightarrow> 'a result) \<Rightarrow> bool" where
  "normalises check \<longleftrightarrow> (\<forall>x y. check x = Inr y \<longrightarrow> check y = Inr y)"

lemma normalisesI: "(\<And>x y. check x = Inr y \<Longrightarrow> check y = Inr y) \<Longrightarrow> normalises check"
  by (simp add: normalises_def)

lemma normalisesD: "normalises check \<Longrightarrow> check x = Inr y \<Longrightarrow> check y = Inr y"
  by (auto simp: normalises_def)

lemma check_text_normalises: "normalises (check_text lo hi)"
  by (rule normalisesI) (auto simp: check_text_def Let_def split: if_splits)

lemma optional_block_normalises: "normalises check \<Longrightarrow> normalises (optional_block check)"
  by (rule normalisesI) (auto simp: optional_block_def rbind_Inr dest: normalisesD split: option.splits)

lemma rmap_normalises: assumes "normalises check" shows "normalises (rmap check)"
proof (rule normalisesI)
  show "rmap check xs = Inr ys \<Longrightarrow> rmap check ys = Inr ys" for xs ys
    by (induction xs arbitrary: ys) (auto simp: rbind_Inr dest: normalisesD[OF assms])
qed

lemma block_normalises:
  "normalises BoundingBox_new" "normalises Geometry_new" "normalises Quality_new" "normalises PoseObservation_new"
  "normalises ObjectObservation_new" "normalises SmokeObservation_new" "normalises TemporalObservation_new"
  by (auto intro!: normalisesI simp: BoundingBox_new_def Geometry_new_def Quality_new_def PoseObservation_new_def
      ObjectObservation_new_def SmokeObservation_new_def TemporalObservation_new_def rbind_Inr option.map_comp o_def
      split: if_splits)

lemma FrameObservations_normalises: "normalises FrameObservations_new"
proof (rule normalisesI)
  note blocks = optional_block_normalises[OF block_normalises(4)] rmap_normalises[OF block_normalises(5)]
    optional_block_normalises[OF block_normalises(6)] optional_block_normalises[OF block_normalises(7)]
  fix x y assume "FrameObservations_new x = Inr y"
  then obtain pose objects smoke temporal where
    parts: "optional_block PoseObservation_new (fo_pose x) = Inr pose" "rmap ObjectObservation_new (fo_objects x) = Inr objects"
      "optional_block SmokeObservation_new (fo_smoke x) = Inr smoke"
      "optional_block TemporalObservation_new (fo_temporal x) = Inr temporal"
    and y: "y = \<lparr>fo_pose = pose, fo_objects = objects, fo_smoke = smoke, fo_temporal = temporal,
      fo_independent_channels = map str_strip (fo_independent_channels x)\<rparr>"
    by (auto simp: FrameObservations_new_def rbind_Inr)
  show "FrameObservations_new y = Inr y"
    using normalisesD[OF blocks(1) parts(1)] normalisesD[OF blocks(2) parts(2)] normalisesD[OF blocks(3) parts(3)]
      normalisesD[OF blocks(4) parts(4)]
    by (simp add: FrameObservations_new_def y o_def)
qed

lemma CandidateEnvelope_normalises: "normalises CandidateEnvelope_new"
proof (rule normalisesI)
  fix x y assume run: "CandidateEnvelope_new x = Inr y"
  obtain producer camera track revision where
    texts: "check_text 1 128 (ce_producer x) = Inr producer" "check_text 1 128 (ce_camera_id x) = Inr camera"
      "check_text 1 128 (ce_track_id x) = Inr track" "check_text 1 128 (ce_camera_config_revision x) = Inr revision"
    using run by (auto simp: CandidateEnvelope_new_def rbind_Inr)
  show "CandidateEnvelope_new y = Inr y"
    using run texts texts[THEN normalisesD[OF check_text_normalises]]
    by (auto simp: CandidateEnvelope_new_def o_def split: if_splits)
qed

text \<open>A valid envelope: it and its blocks pass their checks unchanged.\<close>

definition valid_envelope :: "CandidateEnvelope \<Rightarrow> bool" where
  "valid_envelope c \<longleftrightarrow> CandidateEnvelope_new c = Inr c \<and> Geometry_new (ce_geometry c) = Inr (ce_geometry c) \<and>
     Quality_new (ce_quality c) = Inr (ce_quality c) \<and> FrameObservations_new (ce_observations c) = Inr (ce_observations c)"

lemma CandidateEnvelope_valid:
  assumes "CandidateEnvelope_new c = Inr c'" "Geometry_new g = Inr (ce_geometry c)" "Quality_new q = Inr (ce_quality c)"
    "FrameObservations_new f = Inr (ce_observations c)"
  shows "valid_envelope c'"
proof -
  have "ce_geometry c' = ce_geometry c" "ce_quality c' = ce_quality c" "ce_observations c' = ce_observations c"
    using assms(1) by (auto simp: CandidateEnvelope_new_def rbind_Inr split: if_splits)
  then show ?thesis
    using normalisesD[OF CandidateEnvelope_normalises assms(1)] normalisesD[OF block_normalises(2) assms(2)]
      normalisesD[OF block_normalises(3) assms(3)] normalisesD[OF FrameObservations_normalises assms(4)]
    by (simp add: valid_envelope_def)
qed

end
