(* ===== verification/Replay.thy ===== *)
theory Replay
  imports Settings Paths Float_Json Candidates
begin

text \<open>
  The replay worker, \<open>src/tp_smoke_detect/application/replay.py\<close>, on a manifest of normalised frame
  descriptors (the theory Replay_Parser builds one from a mapping), and the bus it publishes to.
  Floats are rounded as in \<open>Floats\<close>.  Pydantic's coercion of the box and of the observations, the
  UUID of a URL name and the digests are fields of \<open>replay_env\<close>.  The members of the artifact
  error hierarchy are \<open>AdapterError\<close> values that name the class.
\<close>

section \<open>Manifests\<close>

record ReplayFrame =
  rf_frame_id :: string
  rf_artifact_id :: string
  rf_pts_ns :: int
  rf_track_id :: string
  rf_person_box :: dict
  rf_source_width :: int
  rf_source_height :: int
  rf_face_pixels :: "pyfloat option"
  rf_crop_pixels :: "pyfloat option"
  rf_illumination_profile :: string
  rf_observations :: dict

record ReplayManifest =
  rm_camera_id :: string
  rm_camera_config_revision :: string
  rm_frames :: "ReplayFrame list"
  rm_recording_id :: "string option"
  rm_source_fps :: rat
  rm_capture_start_ts_ns :: int

record ReplayError =
  re_frame_id :: string
  re_code :: string
  re_error :: error

record replay_env =
  rv_uuid5 :: "string \<Rightarrow> uuid"
  rv_box :: "dict \<Rightarrow> BoundingBox result"
  rv_observations :: "dict \<Rightarrow> FrameObservations result"
  rv_sha256 :: "string \<Rightarrow> string"
  rv_digest :: "json \<Rightarrow> string"

record worker =
  wk_camera :: CameraProfile
  wk_root :: path
  wk_sampling_fps :: rat
  wk_transport_delay_ns :: int

text \<open>\<open>sampling_fps or camera.analysis_fps\<close>, then the checks.\<close>

definition worker_new :: "CameraProfile \<Rightarrow> path \<Rightarrow> rat option \<Rightarrow> int \<Rightarrow> worker result" where
  "worker_new camera base fps delay =
    (let rate = (case fps of None \<Rightarrow> cp_analysis_fps camera | Some r \<Rightarrow> if r = 0 then cp_analysis_fps camera else r) in
     if rate \<le> 0 then raise (ValueError ''sampling_fps must be greater than zero'')
     else if delay < 0 then raise (ValueError ''transport_delay_ns must not be negative'')
     else ret \<lparr>wk_camera = camera, wk_root = base, wk_sampling_fps = rate, wk_transport_delay_ns = delay\<rparr>)"

section \<open>Geometry\<close>

text \<open>Coordinates lie between 0 and 1.5, so every intermediate value is in range.\<close>

abbreviation tolerance :: rat where
  "tolerance \<equiv> fl (1 / 10 ^ 9)"

definition on_segment :: "rat \<Rightarrow> rat \<Rightarrow> rat \<Rightarrow> rat \<Rightarrow> rat \<Rightarrow> rat \<Rightarrow> bool" where
  "on_segment x y x1 y1 x2 y2 =
    (let cross = fl (fl (fl (x - x1) * fl (y2 - y1)) - fl (fl (y - y1) * fl (x2 - x1))) in
     if tolerance < \<bar>cross\<bar> then False
     else fl (min x1 x2 - tolerance) \<le> x \<and> x \<le> fl (max x1 x2 + tolerance) \<and>
          fl (min y1 y2 - tolerance) \<le> y \<and> y \<le> fl (max y1 y2 + tolerance))"

fun polygon_scan :: "rat \<Rightarrow> rat \<Rightarrow> point \<Rightarrow> point list \<Rightarrow> bool \<Rightarrow> bool" where
  "polygon_scan x y previous [] inside = inside"
| "polygon_scan x y previous (current # rest) inside =
    (let x1 = pt_x previous; y1 = pt_y previous; x2 = pt_x current; y2 = pt_y current in
     if on_segment x y x1 y1 x2 y2 then True
     else polygon_scan x y current rest
       (if (y < y1) \<noteq> (y < y2) \<and> x < fl (fl (fl (fl (x2 - x1) * fl (y - y1)) / fl (y2 - y1)) + x1)
        then \<not> inside else inside))"

definition inside_polygon :: "rat \<Rightarrow> rat \<Rightarrow> point list \<Rightarrow> bool result" where
  "inside_polygon x y polygon =
    (if polygon = [] then raise (AdapterError ''IndexError'')
     else ret (polygon_scan x y (last polygon) polygon False))"

section \<open>Media checks\<close>

definition byte :: "nat \<Rightarrow> char" where
  "byte n = char_of n"

definition illumination :: "string \<Rightarrow> string" where
  "illumination v = (if v \<in> {''day'', ''night'', ''mixed'', ''unknown''} then v else ''unknown'')"

definition starts_with :: "string \<Rightarrow> string \<Rightarrow> bool" where
  "starts_with p s \<longleftrightarrow> take (length p) s = p"

definition ends_with :: "string \<Rightarrow> string \<Rightarrow> bool" where
  "ends_with p s \<longleftrightarrow> drop (length s - length p) s = p \<and> length p \<le> length s"

definition slice :: "nat \<Rightarrow> nat \<Rightarrow> string \<Rightarrow> string" where
  "slice i j s = take (j - i) (drop i s)"

definition valid_image_header :: "string \<Rightarrow> string \<Rightarrow> bool" where
  "valid_image_header artifact_id payload =
    (let suffix = map lower_char (path_suffix (path_parts artifact_id)) in
     if payload = [] then False
     else if suffix = ''.png'' then
       33 \<le> length payload \<and> starts_with ([byte 137] @ ''PNG'' @ map byte [13, 10, 26, 10]) payload \<and>
       slice 8 12 payload = map byte [0, 0, 0, 13] \<and> slice 12 16 payload = ''IHDR''
     else if suffix = ''.jpg'' \<or> suffix = ''.jpeg'' then
       starts_with (map byte [255, 216]) payload \<and> ends_with (map byte [255, 217]) payload
     else if suffix = ''.bmp'' then starts_with ''BM'' payload
     else if suffix = ''.webp'' then slice 0 4 payload = ''RIFF'' \<and> slice 8 12 payload = ''WEBP''
     else False)"

section \<open>Candidates\<close>

text \<open>\<open>datetime.fromtimestamp(n / 1_000_000_000, tz=UTC)\<close>: the quotient is rounded to a float, its
  fraction to microseconds; years after 9999 and seconds beyond 64 bits are refused.\<close>

definition fromtimestamp_ns :: "int \<Rightarrow> time_us result" where
  "fromtimestamp_ns n = (case round64 (of_int n / 10 ^ 9) of
     Fin t \<Rightarrow>
       (let whole = (if t < 0 then - \<lfloor>- t\<rfloor> else \<lfloor>t\<rfloor>) in
        if whole < - (2 ^ 63) \<or> 2 ^ 63 \<le> whole then raise (AdapterError ''OverflowError'')
        else
          (let us = whole * 1000000 + round_half_even (fl ((t - of_int whole) * 1000000)) in
           if us < - 62135596800 * 1000000 \<or> 253402300800 * 1000000 \<le> us then raise (ValueError ''year is out of range'')
           else ret us))
   | _ \<Rightarrow> raise (AdapterError ''OverflowError''))"

definition skip_candidate :: error where
  "skip_candidate = AdapterError ''_SkipCandidate''"

text \<open>The region gates: inside the region of interest and outside every excluded zone.\<close>

fun any_polygon :: "rat \<Rightarrow> rat \<Rightarrow> point list list \<Rightarrow> bool result" where
  "any_polygon x y [] = ret False"
| "any_polygon x y (p # ps) = rbind (inside_polygon x y p) (\<lambda>b. if b then ret True else any_polygon x y ps)"

definition region_gate :: "CameraProfile \<Rightarrow> BoundingBox \<Rightarrow> unit result" where
  "region_gate camera box =
    (let cx = fl (bb_x box + fl (bb_width box / 2)); cy = fl (bb_y box + fl (bb_height box / 2)) in
     rbind (inside_polygon cx cy (cp_roi camera)) (\<lambda>roi.
     if \<not> roi then raise skip_candidate
     else rbind (any_polygon cx cy (cp_excluded_zones camera)) (\<lambda>excluded.
       if excluded then raise skip_candidate else ret ())))"

definition frame_quality :: "CameraProfile \<Rightarrow> ReplayFrame \<Rightarrow> BoundingBox \<Rightarrow> Quality result" where
  "frame_quality camera frame box =
    rbind (case rf_face_pixels frame of Some v \<Rightarrow> ret v
      | None \<Rightarrow> rbind (int_to_float (rf_source_width frame)) (\<lambda>w. ret (fmul (Fin (bb_width box)) w))) (\<lambda>face.
    rbind (case rf_crop_pixels frame of Some v \<Rightarrow> ret v
      | None \<Rightarrow> rbind (int_to_float (rf_source_width frame)) (\<lambda>w. rbind (int_to_float (rf_source_height frame)) (\<lambda>h.
          ret (fmul (fmul (fmul (Fin (bb_width box)) w) (Fin (bb_height box))) h)))) (\<lambda>crop.
    let eligible = (pf_ge_int face (cp_min_face_pixels camera) \<and> pf_ge_int crop (cp_min_crop_pixels camera))
    in Quality_new \<lparr>qu_source_width = rf_source_width frame, qu_source_height = rf_source_height frame,
         qu_face_pixels = face, qu_crop_pixels = crop,
         qu_illumination_profile = illumination (rf_illumination_profile frame), qu_eligible = eligible,
         qu_eligibility_reason = (if eligible then ''within_camera_limits'' else ''below_optical_limits'')\<rparr>))"

text \<open>The names under which events and tracks get their identifiers.\<close>

definition correlation_name :: "ReplayManifest \<Rightarrow> ReplayFrame \<Rightarrow> string" where
  "correlation_name m f = ''tp-smoke-detect/replay/'' @ rm_camera_id m @ ''/'' @
     (case rm_recording_id m of None \<Rightarrow> ''None'' | Some r \<Rightarrow> r) @ ''/'' @ rf_track_id f"

definition event_name :: "ReplayManifest \<Rightarrow> ReplayFrame \<Rightarrow> string" where
  "event_name m f = correlation_name m f @ ''/'' @ rf_frame_id f @ ''/'' @ rf_artifact_id f @ ''/'' @
     show_int (rm_capture_start_ts_ns m + rf_pts_ns f)"

definition candidate ::
  "replay_env \<Rightarrow> worker \<Rightarrow> files \<Rightarrow> ReplayManifest \<Rightarrow> ReplayFrame \<Rightarrow> CandidateEnvelope result" where
  "candidate env w fs m f =
    rbind (read_bytes fs (wk_root w) (rf_artifact_id f) True) (\<lambda>payload.
    if \<not> valid_image_header (rf_artifact_id f) payload then raise (AdapterError ''CorruptMediaError'')
    else
      rbind (rbind (rv_box env (rf_person_box f)) BoundingBox_new) (\<lambda>box.
      rbind (region_gate (wk_camera w) box) (\<lambda>_.
      rbind (frame_quality (wk_camera w) f box) (\<lambda>quality.
      rbind (rbind (rv_observations env (rf_observations f)) FrameObservations_new) (\<lambda>observations.
      let capture = rm_capture_start_ts_ns m + rf_pts_ns f in
      rbind (fromtimestamp_ns capture) (\<lambda>occurred.
      rbind (Geometry_new \<lparr>ge_person_box = box, ge_roi_id = None, ge_coverage_score = 1\<rparr>) (\<lambda>geometry.
      CandidateEnvelope_new
        \<lparr>ce_event_id = rv_uuid5 env (event_name m f), ce_correlation_id = rv_uuid5 env (correlation_name m f),
         ce_producer = ''tp-smoke-detect.replay'', ce_occurred_at = occurred, ce_camera_id = rm_camera_id m,
         ce_track_id = rf_track_id f, ce_camera_config_revision = rm_camera_config_revision m,
         ce_source_pts_ns = rf_pts_ns f, ce_capture_ts_ns = capture,
         ce_received_ts_ns = capture + wk_transport_delay_ns w, ce_first_seen_at = occurred, ce_last_seen_at = occurred,
         ce_stage = DETECTED, ce_artifact_ids = [rf_artifact_id f], ce_geometry = geometry, ce_quality = quality,
         ce_observations = observations\<rparr>)))))))"

section \<open>Recording identity\<close>

definition required_text :: "string \<Rightarrow> string result" where
  "required_text s = (if str_strip s = [] then raise (ValueError ''manifest requires recording_id'') else ret (str_strip s))"

definition artifact_error :: "error \<Rightarrow> bool" where
  "artifact_error e \<longleftrightarrow> e \<in> {AdapterError ''ArtifactError'', AdapterError ''ArtifactNotFoundError'',
     AdapterError ''ArtifactOutsideRootError'', AdapterError ''UnsupportedArtifactError''}"

definition artifact_digest :: "replay_env \<Rightarrow> worker \<Rightarrow> files \<Rightarrow> string \<Rightarrow> string result" where
  "artifact_digest env w fs aid = (case read_bytes fs (wk_root w) aid False of
     Inr payload \<Rightarrow> ret (rv_sha256 env payload)
   | Inl e \<Rightarrow> if artifact_error e then ret ''unavailable'' else raise e)"

definition frame_identity :: "ReplayFrame \<Rightarrow> string \<Rightarrow> json" where
  "frame_identity f sha = JObj [(''frame_id'', JStr (rf_frame_id f)), (''artifact_id'', JStr (rf_artifact_id f)),
     (''artifact_sha256'', JStr sha), (''pts_ns'', JInt (rf_pts_ns f)), (''track_id'', JStr (rf_track_id f)),
     (''person_box'', JObj (rf_person_box f)), (''source_width'', JInt (rf_source_width f)),
     (''source_height'', JInt (rf_source_height f)), (''face_pixels'', json_float (rf_face_pixels f)),
     (''crop_pixels'', json_float (rf_crop_pixels f)), (''illumination_profile'', JStr (rf_illumination_profile f)),
     (''observations'', JObj (rf_observations f))]"

definition ensure_recording_identity ::
  "replay_env \<Rightarrow> worker \<Rightarrow> files \<Rightarrow> ReplayManifest \<Rightarrow> ReplayManifest result" where
  "ensure_recording_identity env w fs m = (case rm_recording_id m of
     Some r \<Rightarrow> rbind (required_text r) (\<lambda>r'. ret (m\<lparr>rm_recording_id := Some r'\<rparr>))
   | None \<Rightarrow>
       rbind (rmap (\<lambda>f. rbind (artifact_digest env w fs (rf_artifact_id f)) (\<lambda>sha. ret (frame_identity f sha)))
         (rm_frames m)) (\<lambda>frames.
       ret (m\<lparr>rm_recording_id := Some (''manifest-'' @ rv_digest env (JObj
         [(''camera_id'', JStr (rm_camera_id m)), (''camera_config_revision'', JStr (rm_camera_config_revision m)),
          (''source_fps'', JFloat (rm_source_fps m)), (''capture_start_ts_ns'', JInt (rm_capture_start_ts_ns m)),
          (''frames'', JList frames)]))\<rparr>)))"

section \<open>The replay loop\<close>

record 'p replay_state =
  rs_candidates :: "CandidateEnvelope list"
  rs_errors :: "ReplayError list"
  rs_sampled :: "string list"
  rs_skipped :: "string list"
  rs_next :: pyfloat
  rs_last :: "int option"
  rs_seen :: "string list"
  rs_bus :: 'p

type_synonym 'p publisher = "CandidateEnvelope \<Rightarrow> 'p \<Rightarrow> unit result \<times> 'p"

text \<open>The \<open>except\<close> clauses of the loop in order; \<open>None\<close> is an exception they do not catch.\<close>

datatype caught = Skipped | Failed string

definition except_clause :: "error \<Rightarrow> caught option" where
  "except_clause e =
    (if e = skip_candidate then Some Skipped
     else if e = AdapterError ''UnsupportedArtifactError'' then Some (Failed ''unsupported_media'')
     else if artifact_error e then Some (Failed ''media_error'')
     else if e = AdapterError ''CorruptMediaError'' then Some (Failed ''corrupt_media'')
     else (case e of ValueError _ \<Rightarrow> Some (Failed ''invalid_frame'') | TypeError _ \<Rightarrow> Some (Failed ''invalid_frame'') | _ \<Rightarrow> None))"

definition caught_frame :: "string \<Rightarrow> error \<Rightarrow> 'p replay_state \<Rightarrow> 'p replay_state result" where
  "caught_frame fid e st = (case except_clause e of
     None \<Rightarrow> raise e
   | Some Skipped \<Rightarrow> ret (st\<lparr>rs_skipped := rs_skipped st @ [fid]\<rparr>)
   | Some (Failed code) \<Rightarrow>
       ret (st\<lparr>rs_errors := rs_errors st @ [\<lparr>re_frame_id = fid, re_code = code, re_error = e\<rparr>]\<rparr>))"

text \<open>One sampled frame: the \<open>try\<close> block of the loop.\<close>

definition process_frame ::
  "'p publisher option \<Rightarrow> string \<Rightarrow> CandidateEnvelope result \<Rightarrow> 'p replay_state \<Rightarrow>
   'p replay_state result" where
  "process_frame publish fid x st = (case x of
     Inl e \<Rightarrow> caught_frame fid e st
   | Inr c \<Rightarrow>
       (let st1 = st\<lparr>rs_candidates := rs_candidates st @ [c]\<rparr> in
        case publish of
          None \<Rightarrow> ret st1
        | Some p \<Rightarrow> (case p c (rs_bus st1) of
            (Inr _, bus) \<Rightarrow> ret (st1\<lparr>rs_bus := bus\<rparr>)
          | (Inl e, bus) \<Rightarrow> caught_frame fid e (st1\<lparr>rs_bus := bus\<rparr>))))"

text \<open>\<open>period_ns\<close>, and the float \<open>frame.pts_ns + x\<close>.\<close>

definition period_ns :: "worker \<Rightarrow> pyfloat" where
  "period_ns w = round64 (10 ^ 9 / wk_sampling_fps w)"

definition sample_slack :: pyfloat where
  "sample_slack = round64 (1 / 10 ^ 6)"

definition pts_plus :: "ReplayFrame \<Rightarrow> pyfloat \<Rightarrow> pyfloat result" where
  "pts_plus f x = rbind (int_to_float (rf_pts_ns f)) (\<lambda>p. ret (fadd p x))"

definition replay_step ::
  "worker \<Rightarrow> 'p publisher option \<Rightarrow> (ReplayFrame \<Rightarrow> CandidateEnvelope result) \<Rightarrow> ReplayFrame \<Rightarrow>
   'p replay_state \<Rightarrow> 'p replay_state result" where
  "replay_step w publish cand f st =
    (if rf_frame_id f \<in> set (rs_seen st)
     then ret (st\<lparr>rs_errors := rs_errors st @
       [\<lparr>re_frame_id = rf_frame_id f, re_code = ''duplicate_frame_id'', re_error = ValueError ''frame ID repeated''\<rparr>]\<rparr>)
     else
       (let st1 = st\<lparr>rs_seen := rf_frame_id f # rs_seen st\<rparr> in
        rbind (pts_plus f sample_slack) (\<lambda>due.
        if flt due (rs_next st1) then ret (st1\<lparr>rs_skipped := rs_skipped st1 @ [rf_frame_id f]\<rparr>)
        else if rs_last st1 = Some (rf_pts_ns f) then ret (st1\<lparr>rs_skipped := rs_skipped st1 @ [rf_frame_id f]\<rparr>)
        else rbind (pts_plus f (period_ns w)) (\<lambda>next_due.
          process_frame publish (rf_frame_id f) (cand f)
            (st1\<lparr>rs_sampled := rs_sampled st1 @ [rf_frame_id f], rs_last := Some (rf_pts_ns f), rs_next := next_due\<rparr>)))))"

fun replay_frames ::
  "worker \<Rightarrow> 'p publisher option \<Rightarrow> (ReplayFrame \<Rightarrow> CandidateEnvelope result) \<Rightarrow> ReplayFrame list \<Rightarrow>
   'p replay_state \<Rightarrow> 'p replay_state result" where
  "replay_frames w publish cand [] st = ret st"
| "replay_frames w publish cand (f # fs) st =
    rbind (replay_step w publish cand f st) (replay_frames w publish cand fs)"

definition replay_start :: "'p \<Rightarrow> 'p replay_state" where
  "replay_start bus = \<lparr>rs_candidates = [], rs_errors = [], rs_sampled = [], rs_skipped = [], rs_next = Fin 0,
     rs_last = None, rs_seen = [], rs_bus = bus\<rparr>"

text \<open>\<open>replay\<close> of a loaded manifest; the errors of loading become one \<open>invalid_manifest\<close> entry.\<close>

definition load_error :: "error \<Rightarrow> bool" where
  "load_error e \<longleftrightarrow> artifact_error e \<or> e = AdapterError ''FileNotFoundError'' \<or>
     (case e of ValueError _ \<Rightarrow> True | TypeError _ \<Rightarrow> True | _ \<Rightarrow> False)"

definition replay_loaded ::
  "replay_env \<Rightarrow> worker \<Rightarrow> files \<Rightarrow> 'p publisher option \<Rightarrow> ReplayManifest result \<Rightarrow> 'p \<Rightarrow>
   'p replay_state result" where
  "replay_loaded env w fs publish loaded bus = (case loaded of
     Inl e \<Rightarrow> if load_error e
       then ret ((replay_start bus)\<lparr>rs_errors := [\<lparr>re_frame_id = ''manifest'', re_code = ''invalid_manifest'', re_error = e\<rparr>]\<rparr>)
       else raise e
   | Inr m \<Rightarrow> replay_frames w publish (candidate env w fs m)
       (sort_key (\<lambda>f. (rf_pts_ns f, rf_frame_id f)) (rm_frames m)) (replay_start bus))"

definition replay ::
  "replay_env \<Rightarrow> worker \<Rightarrow> files \<Rightarrow> 'p publisher option \<Rightarrow> ReplayManifest \<Rightarrow> 'p \<Rightarrow> 'p replay_state result" where
  "replay env w fs publish manifest bus = replay_loaded env w fs publish (ensure_recording_identity env w fs manifest) bus"

section \<open>What a candidate guarantees\<close>

text \<open>Every collected candidate is the candidate of a frame, whatever the publisher does.\<close>

lemma caught_frame_candidates: "caught_frame fid e st = Inr st' \<Longrightarrow> rs_candidates st' = rs_candidates st"
  by (auto simp: caught_frame_def split: option.splits caught.splits)

lemma process_frame_candidates:
  assumes "process_frame publish fid x st = Inr st'"
  shows "rs_candidates st' = rs_candidates st @ (case x of Inl e \<Rightarrow> [] | Inr c \<Rightarrow> [c])"
  using assms by (auto simp: process_frame_def Let_def split: sum.splits option.splits prod.splits dest!: caught_frame_candidates)

lemma replay_step_candidates:
  assumes "replay_step w publish cand f st = Inr st'" "c \<in> set (rs_candidates st')"
  shows "c \<in> set (rs_candidates st) \<or> cand f = Inr c"
  using assms by (auto simp: replay_step_def Let_def rbind_Inr split: if_splits sum.splits dest!: process_frame_candidates)

lemma replay_frames_candidates:
  "replay_frames w publish cand fs st = Inr st' \<Longrightarrow> c \<in> set (rs_candidates st') \<Longrightarrow>
    c \<in> set (rs_candidates st) \<or> (\<exists>f \<in> set fs. cand f = Inr c)"
proof (induction fs arbitrary: st)
  case (Cons f fs)
  then show ?case by (auto simp: rbind_Inr dest!: replay_step_candidates)
qed simp

lemma candidate_valid:
  assumes "candidate env w fs m f = Inr c" "0 \<le> wk_transport_delay_ns w"
  shows "valid_envelope c \<and> ce_capture_ts_ns c \<le> ce_received_ts_ns c \<and> ce_source_pts_ns c = rf_pts_ns f \<and>
    region_gate (wk_camera w) (ge_person_box (ce_geometry c)) = Inr () \<and>
    (\<exists>payload. read_bytes fs (wk_root w) (rf_artifact_id f) True = Inr payload \<and> valid_image_header (rf_artifact_id f) payload)"
proof -
  obtain payload box quality observations occurred geometry where
    media: "read_bytes fs (wk_root w) (rf_artifact_id f) True = Inr payload" "valid_image_header (rf_artifact_id f) payload"
    and gate: "region_gate (wk_camera w) box = Inr ()"
    and blocks: "frame_quality (wk_camera w) f box = Inr quality"
      "rbind (rv_observations env (rf_observations f)) FrameObservations_new = Inr observations"
      "Geometry_new \<lparr>ge_person_box = box, ge_roi_id = None, ge_coverage_score = 1\<rparr> = Inr geometry"
    and c: "CandidateEnvelope_new
        \<lparr>ce_event_id = rv_uuid5 env (event_name m f), ce_correlation_id = rv_uuid5 env (correlation_name m f),
         ce_producer = ''tp-smoke-detect.replay'', ce_occurred_at = occurred, ce_camera_id = rm_camera_id m,
         ce_track_id = rf_track_id f, ce_camera_config_revision = rm_camera_config_revision m,
         ce_source_pts_ns = rf_pts_ns f, ce_capture_ts_ns = rm_capture_start_ts_ns m + rf_pts_ns f,
         ce_received_ts_ns = rm_capture_start_ts_ns m + rf_pts_ns f + wk_transport_delay_ns w,
         ce_first_seen_at = occurred, ce_last_seen_at = occurred,
         ce_stage = DETECTED, ce_artifact_ids = [rf_artifact_id f], ce_geometry = geometry, ce_quality = quality,
         ce_observations = observations\<rparr> = Inr c" (is "CandidateEnvelope_new ?raw = _")
    using assms(1) by (auto simp: candidate_def Let_def rbind_Inr split: if_splits)
  obtain q where "Quality_new q = Inr quality"
    using blocks(1) by (auto simp: frame_quality_def rbind_Inr Let_def)
  moreover obtain raw_observations where "FrameObservations_new raw_observations = Inr observations"
    using blocks(2) by (auto simp: rbind_Inr)
  ultimately have valid: "valid_envelope c"
    using CandidateEnvelope_valid[OF c] blocks(3) by simp
  have "ge_person_box geometry = box"
    using blocks(3) by (auto simp: Geometry_new_def rbind_Inr split: if_splits)
  moreover have "ce_geometry c = geometry" "ce_capture_ts_ns c = ce_capture_ts_ns ?raw" "ce_received_ts_ns c = ce_received_ts_ns ?raw"
    "ce_source_pts_ns c = rf_pts_ns f"
    using c by (auto simp: CandidateEnvelope_new_def rbind_Inr split: if_splits)
  ultimately show ?thesis using valid media gate assms(2) by simp
qed

section \<open>The sampling plan\<close>

text \<open>What happens to each frame, from its time and id alone.\<close>

datatype fate = Repeated | Dropped | Taken

definition due :: "ReplayFrame \<Rightarrow> pyfloat" where
  "due f = fadd (round64 (of_int (rf_pts_ns f))) sample_slack"

definition next_due :: "worker \<Rightarrow> ReplayFrame \<Rightarrow> pyfloat" where
  "next_due w f = fadd (round64 (of_int (rf_pts_ns f))) (period_ns w)"

fun plan :: "worker \<Rightarrow> pyfloat \<Rightarrow> int option \<Rightarrow> string list \<Rightarrow> ReplayFrame list \<Rightarrow> (ReplayFrame \<times> fate) list" where
  "plan w nxt lst seen [] = []"
| "plan w nxt lst seen (f # fs) =
    (if rf_frame_id f \<in> set seen then (f, Repeated) # plan w nxt lst seen fs
     else if flt (due f) nxt \<or> lst = Some (rf_pts_ns f) then (f, Dropped) # plan w nxt lst (rf_frame_id f # seen) fs
     else (f, Taken) # plan w (next_due w f) (Some (rf_pts_ns f)) (rf_frame_id f # seen) fs)"

definition taken :: "(ReplayFrame \<times> fate) list \<Rightarrow> ReplayFrame list" where
  "taken ps = map fst (filter (\<lambda>p. snd p = Taken) ps)"

text \<open>What a frame contributes to the candidates, the skipped ids and the errors.\<close>

fun frame_candidates :: "(ReplayFrame \<Rightarrow> CandidateEnvelope result) \<Rightarrow> ReplayFrame \<times> fate \<Rightarrow> CandidateEnvelope list" where
  "frame_candidates cand (f, Taken) = (case cand f of Inr c \<Rightarrow> [c] | Inl _ \<Rightarrow> [])"
| "frame_candidates cand (f, _) = []"

fun frame_skips :: "(ReplayFrame \<Rightarrow> CandidateEnvelope result) \<Rightarrow> ReplayFrame \<times> fate \<Rightarrow> string list" where
  "frame_skips cand (f, Dropped) = [rf_frame_id f]"
| "frame_skips cand (f, Repeated) = []"
| "frame_skips cand (f, Taken) = (case cand f of
     Inl e \<Rightarrow> if except_clause e = Some Skipped then [rf_frame_id f] else [] | Inr _ \<Rightarrow> [])"

fun frame_errors :: "(ReplayFrame \<Rightarrow> CandidateEnvelope result) \<Rightarrow> ReplayFrame \<times> fate \<Rightarrow> (string \<times> string) list" where
  "frame_errors cand (f, Repeated) = [(rf_frame_id f, ''duplicate_frame_id'')]"
| "frame_errors cand (f, Dropped) = []"
| "frame_errors cand (f, Taken) = (case cand f of
     Inl e \<Rightarrow> (case except_clause e of Some (Failed code) \<Rightarrow> [(rf_frame_id f, code)] | _ \<Rightarrow> []) | Inr _ \<Rightarrow> [])"

definition error_entry :: "ReplayError \<Rightarrow> string \<times> string" where
  "error_entry e = (re_frame_id e, re_code e)"

text \<open>Frames whose time is a float and whose failures the loop catches; publishers that accept.\<close>

definition contained_frame :: "(ReplayFrame \<Rightarrow> CandidateEnvelope result) \<Rightarrow> ReplayFrame \<Rightarrow> bool" where
  "contained_frame cand f \<longleftrightarrow> isfinite (round64 (of_int (rf_pts_ns f))) \<and>
     (case cand f of Inl e \<Rightarrow> except_clause e \<noteq> None | Inr _ \<Rightarrow> True)"

fun publish_all :: "'p publisher option \<Rightarrow> CandidateEnvelope list \<Rightarrow> 'p \<Rightarrow> 'p" where
  "publish_all publish [] bus = bus"
| "publish_all publish (c # cs) bus =
    publish_all publish cs (case publish of None \<Rightarrow> bus | Some p \<Rightarrow> snd (p c bus))"

text \<open>A publisher that never raises, from a state of the bus on.\<close>

definition accepting :: "'p publisher option \<Rightarrow> 'p \<Rightarrow> bool" where
  "accepting publish bus \<longleftrightarrow> (case publish of None \<Rightarrow> True
     | Some p \<Rightarrow> \<forall>cs c. fst (p c (publish_all publish cs bus)) = Inr ())"

lemma pts_plus_finite:
  "isfinite (round64 (of_int (rf_pts_ns f))) \<Longrightarrow> pts_plus f x = Inr (fadd (round64 (of_int (rf_pts_ns f))) x)"
  by (cases "round64 (of_int (rf_pts_ns f))") (simp_all add: pts_plus_def int_to_float_def)

lemma publish_all_append: "publish_all publish (cs @ ds) bus = publish_all publish ds (publish_all publish cs bus)"
  by (induction cs arbitrary: bus) simp_all

lemma accepting_next: "accepting publish bus \<Longrightarrow> accepting publish (publish_all publish cs bus)"
  by (simp add: accepting_def publish_all_append[symmetric] split: option.splits)

text \<open>One sampled frame.\<close>

lemma process_frame_contained:
  assumes "accepting publish (rs_bus st)" and "case x of Inl e \<Rightarrow> except_clause e \<noteq> None | Inr _ \<Rightarrow> True"
  shows "\<exists>st'. process_frame publish fid x st = Inr st' \<and>
    rs_candidates st' = rs_candidates st @ (case x of Inr c \<Rightarrow> [c] | Inl _ \<Rightarrow> []) \<and>
    rs_skipped st' = rs_skipped st @ (case x of Inl e \<Rightarrow> if except_clause e = Some Skipped then [fid] else [] | Inr _ \<Rightarrow> []) \<and>
    map error_entry (rs_errors st') = map error_entry (rs_errors st) @
      (case x of Inl e \<Rightarrow> (case except_clause e of Some (Failed code) \<Rightarrow> [(fid, code)] | _ \<Rightarrow> []) | Inr _ \<Rightarrow> []) \<and>
    rs_bus st' = publish_all publish (case x of Inr c \<Rightarrow> [c] | Inl _ \<Rightarrow> []) (rs_bus st) \<and>
    rs_sampled st' = rs_sampled st \<and> rs_next st' = rs_next st \<and> rs_last st' = rs_last st \<and> rs_seen st' = rs_seen st"
proof (cases x)
  case (Inl e)
  then show ?thesis
    using assms(2) by (auto simp: process_frame_def caught_frame_def error_entry_def split: caught.split)
next
  case (Inr c)
  show ?thesis
  proof (cases publish)
    case None
    then show ?thesis by (simp add: process_frame_def Inr)
  next
    case (Some p)
    have "fst (p c (publish_all publish [] (rs_bus st))) = Inr ()" using assms(1) Some by (simp add: accepting_def del: publish_all.simps)
    then obtain bus where "p c (rs_bus st) = (Inr (), bus)" by (metis prod.collapse publish_all.simps(1))
    then show ?thesis by (simp add: process_frame_def Inr Some)
  qed
qed

lemma replay_frames_plan:
  assumes "accepting publish (rs_bus st)" and "\<forall>f \<in> set fs. contained_frame cand f"
  shows "\<exists>st'. replay_frames w publish cand fs st = Inr st' \<and>
    (let ps = plan w (rs_next st) (rs_last st) (rs_seen st) fs in
     rs_sampled st' = rs_sampled st @ map rf_frame_id (taken ps) \<and>
     rs_candidates st' = rs_candidates st @ concat (map (frame_candidates cand) ps) \<and>
     rs_skipped st' = rs_skipped st @ concat (map (frame_skips cand) ps) \<and>
     map error_entry (rs_errors st') = map error_entry (rs_errors st) @ concat (map (frame_errors cand) ps) \<and>
     rs_bus st' = publish_all publish (concat (map (frame_candidates cand) ps)) (rs_bus st))"
  using assms
proof (induction fs arbitrary: st)
  case Nil
  then show ?case by (simp add: taken_def Let_def)
next
  case (Cons f fs)
  have fin: "isfinite (round64 (of_int (rf_pts_ns f)))" using Cons.prems by (simp add: contained_frame_def)
  note pp = pts_plus_finite[OF fin] due_def[symmetric] next_due_def[symmetric]
  have rest: "\<forall>g \<in> set fs. contained_frame cand g" using Cons.prems by simp
  consider (rep) "rf_frame_id f \<in> set (rs_seen st)"
    | (drop) "rf_frame_id f \<notin> set (rs_seen st)" "flt (due f) (rs_next st) \<or> rs_last st = Some (rf_pts_ns f)"
    | (take) "rf_frame_id f \<notin> set (rs_seen st)" "\<not> flt (due f) (rs_next st)" "rs_last st \<noteq> Some (rf_pts_ns f)"
    by blast
  then show ?case
  proof cases
    case rep
    let ?st = "st\<lparr>rs_errors := rs_errors st @ [\<lparr>re_frame_id = rf_frame_id f, re_code = ''duplicate_frame_id'',
      re_error = ValueError ''frame ID repeated''\<rparr>]\<rparr>"
    have "replay_step w publish cand f st = Inr ?st" using rep by (simp add: replay_step_def)
    then show ?thesis
      using Cons.IH[OF _ rest, of ?st] Cons.prems(1) rep by (simp add: Let_def taken_def error_entry_def)
  next
    case drop
    let ?st = "st\<lparr>rs_seen := rf_frame_id f # rs_seen st, rs_skipped := rs_skipped st @ [rf_frame_id f]\<rparr>"
    have "replay_step w publish cand f st = Inr ?st" using drop by (auto simp: replay_step_def Let_def pp)
    then show ?thesis
      using Cons.IH[OF _ rest, of ?st] Cons.prems(1) drop by (auto simp: Let_def taken_def)
  next
    case take
    let ?st = "st\<lparr>rs_seen := rf_frame_id f # rs_seen st, rs_sampled := rs_sampled st @ [rf_frame_id f],
      rs_last := Some (rf_pts_ns f), rs_next := next_due w f\<rparr>"
    have step: "replay_step w publish cand f st = process_frame publish (rf_frame_id f) (cand f) ?st"
      using take by (simp add: replay_step_def Let_def pp)
    have "case cand f of Inl e \<Rightarrow> except_clause e \<noteq> None | Inr _ \<Rightarrow> True"
      using Cons.prems by (simp add: contained_frame_def)
    from process_frame_contained[OF _ this, of publish ?st "rf_frame_id f"] Cons.prems(1) obtain st1 where
      "replay_step w publish cand f st = Inr st1" and st1:
      "rs_candidates st1 = rs_candidates st @ frame_candidates cand (f, Taken)"
      "rs_skipped st1 = rs_skipped st @ frame_skips cand (f, Taken)"
      "map error_entry (rs_errors st1) = map error_entry (rs_errors st) @ frame_errors cand (f, Taken)"
      "rs_bus st1 = publish_all publish (frame_candidates cand (f, Taken)) (rs_bus st)"
      "rs_sampled st1 = rs_sampled st @ [rf_frame_id f]" "rs_next st1 = next_due w f" "rs_last st1 = Some (rf_pts_ns f)"
      "rs_seen st1 = rf_frame_id f # rs_seen st"
      unfolding step by auto
    then show ?thesis
      using Cons.IH[OF _ rest, of st1] accepting_next[OF Cons.prems(1)] take by (simp add: Let_def taken_def publish_all_append del: frame_candidates.simps
          frame_skips.simps frame_errors.simps)
  qed
qed

text \<open>The frames a plan takes have distinct ids, and each is due after the one before.\<close>

lemma taken_simps [simp]:
  "taken [] = []" "taken ((f, Taken) # ps) = f # taken ps" "taken ((f, Dropped) # ps) = taken ps"
  "taken ((f, Repeated) # ps) = taken ps"
  by (simp_all add: taken_def)

lemma taken_fresh: "g \<in> set (taken (plan w nxt lst seen fs)) \<Longrightarrow> rf_frame_id g \<notin> set seen"
  by (induction w nxt lst seen fs rule: plan.induct) (auto split: if_splits)

lemma taken_distinct: "distinct (map rf_frame_id (taken (plan w nxt lst seen fs)))"
proof (induction w nxt lst seen fs rule: plan.induct)
  case (2 w nxt lst seen f fs)
  have "rf_frame_id f \<notin> rf_frame_id ` set (taken (plan w nxt' lst' (rf_frame_id f # seen) fs))" for nxt' lst'
    using taken_fresh[of _ w nxt' lst' "rf_frame_id f # seen" fs] by force
  then show ?case using 2 by simp
qed simp

lemma taken_first:
  "taken (plan w nxt lst seen fs) = g # gs \<Longrightarrow> \<not> flt (due g) nxt \<and> lst \<noteq> Some (rf_pts_ns g)"
  by (induction w nxt lst seen fs rule: plan.induct) (auto split: if_splits)

lemma taken_spaced:
  "successively (\<lambda>f g. \<not> flt (due g) (next_due w f) \<and> rf_pts_ns f \<noteq> rf_pts_ns g) (taken (plan w nxt lst seen fs))"
proof (induction w nxt lst seen fs rule: plan.induct)
  case (2 w nxt lst seen f fs)
  let ?rest = "taken (plan w (next_due w f) (Some (rf_pts_ns f)) (rf_frame_id f # seen) fs)"
  have "?rest = g # gs \<Longrightarrow> \<not> flt (due g) (next_due w f) \<and> rf_pts_ns f \<noteq> rf_pts_ns g" for g gs
    using taken_first by fastforce
  then show ?case using 2 by (cases ?rest) auto
qed simp

text \<open>The loop over the frames of a loaded manifest, in the order of their times.\<close>

abbreviation frame_plan :: "worker \<Rightarrow> ReplayManifest \<Rightarrow> (ReplayFrame \<times> fate) list" where
  "frame_plan w m \<equiv> plan w (Fin 0) None [] (sort_key (\<lambda>f. (rf_pts_ns f, rf_frame_id f)) (rm_frames m))"

lemma replay_loaded_plan:
  assumes "accepting publish bus" and "\<forall>f \<in> set (rm_frames m). contained_frame (candidate env w fs m) f"
  shows "\<exists>st. replay_loaded env w fs publish (Inr m) bus = Inr st \<and>
    rs_sampled st = map rf_frame_id (taken (frame_plan w m)) \<and>
    rs_candidates st = concat (map (frame_candidates (candidate env w fs m)) (frame_plan w m)) \<and>
    rs_skipped st = concat (map (frame_skips (candidate env w fs m)) (frame_plan w m)) \<and>
    map error_entry (rs_errors st) = concat (map (frame_errors (candidate env w fs m)) (frame_plan w m)) \<and>
    rs_bus st = publish_all publish (rs_candidates st) bus"
proof -
  let ?fs = "sort_key (\<lambda>f. (rf_pts_ns f, rf_frame_id f)) (rm_frames m)"
  have "\<forall>f \<in> set ?fs. contained_frame (candidate env w fs m) f" using assms(2) by simp
  from replay_frames_plan[OF _ this, of publish "replay_start bus" w] assms(1) show ?thesis
    by (auto simp: Let_def replay_start_def replay_loaded_def)
qed

section \<open>Properties\<close>


text \<open>A bitmap, a missing artifact, and a camera that watches the whole image.\<close>

definition sample_worker :: worker where
  "sample_worker = \<lparr>wk_camera = \<lparr>cp_camera_id = ''cam'', cp_zone_id = ''hall'', cp_enabled = True, cp_analysis_fps = 5,
       cp_roi = [\<lparr>pt_x = 0, pt_y = 0\<rparr>, \<lparr>pt_x = 1, pt_y = 0\<rparr>, \<lparr>pt_x = 1, pt_y = 1\<rparr>, \<lparr>pt_x = 0, pt_y = 1\<rparr>],
       cp_excluded_zones = [], cp_min_face_pixels = 32, cp_min_crop_pixels = 64, cp_day_night = ''auto''\<rparr>,
     wk_root = [''media''], wk_sampling_fps = 5, wk_transport_delay_ns = 0\<rparr>"

definition sample_files :: files where
  "sample_files = \<lparr>fl_real = (\<lambda>p. p), fl_absolute = path_parts, fl_files = [([''media'', ''a.bmp''], ''BM'')],
     fl_dirs = [[''media'']], fl_protected = (\<lambda>_. False)\<rparr>"

definition sample_env :: "replay_env" where
  "sample_env = \<lparr>rv_uuid5 = (\<lambda>s. s), rv_box = (\<lambda>_. Inr \<lparr>bb_x = 1 / 4, bb_y = 1 / 4, bb_width = 1 / 4, bb_height = 1 / 2,
     bb_confidence = 1\<rparr>), rv_observations = (\<lambda>_. Inr \<lparr>fo_pose = None, fo_objects = [], fo_smoke = None, fo_temporal = None,
       fo_independent_channels = []\<rparr>), rv_sha256 = (\<lambda>s. s), rv_digest = (\<lambda>_. ''hash'')\<rparr>"

definition sample_frame :: "string \<Rightarrow> string \<Rightarrow> int \<Rightarrow> ReplayFrame" where
  "sample_frame fid aid pts = \<lparr>rf_frame_id = fid, rf_artifact_id = aid, rf_pts_ns = pts, rf_track_id = ''t'', rf_person_box = [],
     rf_source_width = 640, rf_source_height = 480, rf_face_pixels = None, rf_crop_pixels = None,
     rf_illumination_profile = ''day'', rf_observations = []\<rparr>"

definition sample_manifest :: ReplayManifest where
  "sample_manifest = \<lparr>rm_camera_id = ''cam'', rm_camera_config_revision = ''r1'',
     rm_frames = [sample_frame ''f2'' ''missing.png'' 200000000, sample_frame ''f1'' ''a.bmp'' 0],
     rm_recording_id = Some ''rec'', rm_source_fps = 10, rm_capture_start_ts_ns = 0\<rparr>"

definition sample_box :: BoundingBox where
  "sample_box = \<lparr>bb_x = 1 / 4, bb_y = 1 / 4, bb_width = 1 / 4, bb_height = 1 / 2, bb_confidence = 1\<rparr>"

lemma sample_media:
  "read_bytes sample_files (wk_root sample_worker) ''a.bmp'' True = Inr ''BM''"
  "read_bytes sample_files (wk_root sample_worker) ''missing.png'' True = Inl (AdapterError ''ArtifactNotFoundError'')"
  "valid_image_header ''a.bmp'' ''BM''"
  by code_simp+

lemma sample_gates:
  "rbind (rv_box sample_env []) BoundingBox_new = Inr sample_box"
  "region_gate (wk_camera sample_worker) sample_box = Inr ()"
  "\<exists>q. frame_quality (wk_camera sample_worker) (sample_frame ''f1'' ''a.bmp'' 0) sample_box = Inr q"
  "fromtimestamp_ns 0 = Inr 0" "rbind (rv_observations sample_env []) FrameObservations_new = rv_observations sample_env []"
  "\<exists>obs. rv_observations sample_env [] = Inr obs"
  "Geometry_new \<lparr>ge_person_box = sample_box, ge_roi_id = None, ge_coverage_score = 1\<rparr> =
    Inr \<lparr>ge_person_box = sample_box, ge_roi_id = None, ge_coverage_score = 1\<rparr>"
  "wk_transport_delay_ns sample_worker = 0"
proof -
  have "\<not> isl (frame_quality (wk_camera sample_worker) (sample_frame ''f1'' ''a.bmp'' 0) sample_box)" by code_simp
  then show "\<exists>q. frame_quality (wk_camera sample_worker) (sample_frame ''f1'' ''a.bmp'' 0) sample_box = Inr q"
    by (cases "frame_quality (wk_camera sample_worker) (sample_frame ''f1'' ''a.bmp'' 0) sample_box") simp_all
  show "\<exists>obs. rv_observations sample_env [] = Inr obs" by (simp add: sample_env_def)
qed code_simp+

lemma sample_texts:
  "check_text 1 128 ''tp-smoke-detect.replay'' = Inr ''tp-smoke-detect.replay''" "check_text 1 128 ''cam'' = Inr ''cam''"
  "check_text 1 128 ''t'' = Inr ''t''" "check_text 1 128 ''r1'' = Inr ''r1''"
  by code_simp+

lemma sample_candidate:
  "\<exists>c. candidate sample_env sample_worker sample_files sample_manifest (sample_frame ''f1'' ''a.bmp'' 0) = Inr c"
  "candidate sample_env sample_worker sample_files sample_manifest (sample_frame ''f2'' ''missing.png'' 200000000) =
    Inl (AdapterError ''ArtifactNotFoundError'')"
  using sample_media sample_gates sample_texts
  by (auto simp: candidate_def CandidateEnvelope_new_def sample_frame_def sample_manifest_def Let_def)

lemma sample_plan:
  "plan sample_worker (Fin 0) None [] (sort_key (\<lambda>f. (rf_pts_ns f, rf_frame_id f)) (rm_frames sample_manifest)) =
    [(sample_frame ''f1'' ''a.bmp'' 0, Taken), (sample_frame ''f2'' ''missing.png'' 200000000, Taken)]"
  by code_simp

lemma sample_contained:
  "list_all (contained_frame (candidate sample_env sample_worker sample_files sample_manifest)) (rm_frames sample_manifest)"
proof -
    have "isfinite (round64 (of_int (rf_pts_ns (sample_frame ''f1'' ''a.bmp'' 0))))"
      "isfinite (round64 (of_int (rf_pts_ns (sample_frame ''f2'' ''missing.png'' 200000000))))" by code_simp+
    moreover have "rm_frames sample_manifest = [sample_frame ''f2'' ''missing.png'' 200000000, sample_frame ''f1'' ''a.bmp'' 0]"
      by (simp add: sample_manifest_def)
    ultimately show ?thesis
      using sample_candidate by (auto simp: contained_frame_def except_clause_def artifact_error_def skip_candidate_def)
qed


section \<open>The in-memory bus\<close>

text \<open>\<open>InMemoryMessageBus\<close> of \<open>src/tp_smoke_detect/adapters/messaging/in_memory.py\<close>; \<open>uuid4\<close> numbers its calls
  and \<open>mb_world\<close> is what the subscribers act on.\<close>

type_synonym 's subscriber = "CandidateEnvelope \<Rightarrow> 's \<Rightarrow> unit result \<times> 's"

record 's message_bus =
  mb_messages :: "(uuid \<times> CandidateEnvelope) list"
  mb_subscribers :: "(string \<times> 's subscriber list) list"
  mb_draws :: nat
  mb_world :: 's

definition bus_topic :: string where
  "bus_topic = ''track.candidate.v1''"

definition bus_new :: "'s \<Rightarrow> 's message_bus" where
  "bus_new s = \<lparr>mb_messages = [], mb_subscribers = [], mb_draws = 0, mb_world = s\<rparr>"

definition topic_subscribers :: "string \<Rightarrow> 's message_bus \<Rightarrow> 's subscriber list" where
  "topic_subscribers topic b = (case map_of (mb_subscribers b) topic of None \<Rightarrow> [] | Some xs \<Rightarrow> xs)"

definition bus_subscribe :: "'s subscriber \<Rightarrow> string \<Rightarrow> 's message_bus \<Rightarrow> 's message_bus" where
  "bus_subscribe callback topic b =
    b\<lparr>mb_subscribers := AList.update topic (topic_subscribers topic b @ [callback]) (mb_subscribers b)\<rparr>"

definition bus_candidates :: "'s message_bus \<Rightarrow> CandidateEnvelope list" where
  "bus_candidates b = map snd (mb_messages b)"

fun notify :: "'s subscriber list \<Rightarrow> CandidateEnvelope \<Rightarrow> 's \<Rightarrow> unit result \<times> 's" where
  "notify [] c s = (ret (), s)"
| "notify (f # fs) c s = (case f c s of (Inl e, s') \<Rightarrow> (raise e, s') | (Inr _, s') \<Rightarrow> notify fs c s')"

definition bus_publish ::
  "(nat \<Rightarrow> uuid) \<Rightarrow> string \<Rightarrow> CandidateEnvelope \<Rightarrow> 's message_bus \<Rightarrow>
   (uuid \<times> CandidateEnvelope) result \<times> 's message_bus" where
  "bus_publish uuid4 topic c b =
    (let receipt = (uuid4 (mb_draws b), c);
         b1 = b\<lparr>mb_messages := mb_messages b @ [receipt], mb_draws := Suc (mb_draws b)\<rparr> in
     case notify (topic_subscribers topic b1) c (mb_world b1) of
       (Inl e, s) \<Rightarrow> (raise e, b1\<lparr>mb_world := s\<rparr>)
     | (Inr _, s) \<Rightarrow> (ret receipt, b1\<lparr>mb_world := s\<rparr>))"

text \<open>The bus as the publisher of a replay, which ignores the receipt.\<close>

definition bus_publisher :: "(nat \<Rightarrow> uuid) \<Rightarrow> 's message_bus publisher" where
  "bus_publisher uuid4 c b = (case bus_publish uuid4 bus_topic c b of (r, b') \<Rightarrow> (rbind r (\<lambda>_. ret ()), b'))"

definition bus_drain :: "'s message_bus \<Rightarrow> (uuid \<times> CandidateEnvelope) list \<times> 's message_bus" where
  "bus_drain b = (mb_messages b, b\<lparr>mb_messages := []\<rparr>)"

text \<open>The bus keeps what was published, in order, whatever its subscribers do.\<close>

lemma bus_publish_candidates: "bus_candidates (snd (bus_publish uuid4 topic c b)) = bus_candidates b @ [c]"
  by (simp add: bus_publish_def bus_candidates_def Let_def split: prod.split sum.split)

lemma bus_collects:
  "bus_candidates (publish_all (Some (bus_publisher uuid4)) cs b) = bus_candidates b @ cs"
proof (induction cs arbitrary: b)
  case (Cons c cs)
  have "snd (bus_publisher uuid4 c b) = snd (bus_publish uuid4 bus_topic c b)"
    by (simp add: bus_publisher_def split: prod.split)
  then show ?case using Cons by (simp add: bus_publish_candidates)
qed simp

text \<open>A bus without subscribers never raises.\<close>

lemma bus_publisher_silent:
  "mb_subscribers b = [] \<Longrightarrow> fst (bus_publisher uuid4 c b) = Inr () \<and> mb_subscribers (snd (bus_publisher uuid4 c b)) = []"
  by (simp add: bus_publisher_def bus_publish_def topic_subscribers_def Let_def)

lemma bus_accepts:
  assumes "mb_subscribers b = []"
  shows "accepting (Some (bus_publisher uuid4)) b"
proof -
  have "mb_subscribers (publish_all (Some (bus_publisher uuid4)) cs b) = []" for cs
    using assms by (induction cs arbitrary: b) (simp_all add: bus_publisher_silent)
  then show ?thesis by (simp add: accepting_def bus_publisher_silent)
qed

end
