(* ===== verification/Replay_Parser.thy ===== *)
theory Replay_Parser
  imports Replay Py_Convert
begin

text \<open>
  The parser of replay manifests, \<open>from_mapping\<close> of \<open>src/tp_smoke_detect/application/replay.py\<close>, and replay from
  a mapping or from a manifest file of the artifact store.  Conversions of values are those of
  Py_Convert.
\<close>

section \<open>Field checks\<close>

text \<open>\<open>f"{index:06d}"\<close>.\<close>

definition pad6 :: "nat \<Rightarrow> string" where
  "pad6 n = (let s = show_nat n in replicate (6 - length s) (CHR ''0'') @ s)"

definition required_field :: "parsers \<Rightarrow> json \<Rightarrow> string \<Rightarrow> string result" where
  "required_field pa v key = (if is_str v \<and> str_strip (py_str pa v) \<noteq> [] then ret (str_strip (py_str pa v))
     else raise (ValueError (''manifest requires '' @ key)))"

definition positive_number :: "parsers \<Rightarrow> json \<Rightarrow> string \<Rightarrow> rat result" where
  "positive_number pa v key = rbind (py_float pa v) (\<lambda>x. case x of
     Fin r \<Rightarrow> if r \<le> 0 then raise (ValueError (key @ '' must be greater than zero'')) else ret r
   | _ \<Rightarrow> raise (ValueError (key @ '' must be greater than zero'')))"

definition non_negative_int :: "parsers \<Rightarrow> json \<Rightarrow> string \<Rightarrow> int result" where
  "non_negative_int pa v key = (case v of
     JBool _ \<Rightarrow> raise (ValueError (key @ '' must be an integer''))
   | _ \<Rightarrow> rbind (py_int pa v) (\<lambda>n.
       if n < 0 then raise (ValueError (key @ '' must be a non-negative integer''))
       else rbind (py_float pa v) (\<lambda>x.
         if x \<noteq> Fin (of_int n) then raise (ValueError (key @ '' must be a non-negative integer'')) else ret n)))"

definition positive_int :: "parsers \<Rightarrow> json \<Rightarrow> string \<Rightarrow> int result" where
  "positive_int pa v key = rbind (non_negative_int pa v key) (\<lambda>n.
     if n = 0 then raise (ValueError (key @ '' must be greater than zero'')) else ret n)"

definition optional_number :: "parsers \<Rightarrow> json \<Rightarrow> pyfloat option result" where
  "optional_number pa v = (if v = JNull then ret None
     else rbind (py_float pa v) (\<lambda>x. case x of
       Fin r \<Rightarrow> if r < 0 then raise (ValueError ''pixel counts must be non-negative finite numbers'') else ret (Some x)
     | _ \<Rightarrow> raise (ValueError ''pixel counts must be non-negative finite numbers'')))"

section \<open>Manifests\<close>

text \<open>The box: \<open>person_box\<close> or \<open>geometry\<close>, which may wrap it.\<close>

definition frame_box :: "dict \<Rightarrow> json" where
  "frame_box raw = (let box = dget_or raw ''person_box'' (dget raw ''geometry'') in
     case box of JObj d \<Rightarrow> if map_of d ''person_box'' \<noteq> None then dget d ''person_box'' else box | _ \<Rightarrow> box)"

definition parse_frame :: "parsers \<Rightarrow> dict \<Rightarrow> rat \<Rightarrow> nat \<Rightarrow> json \<Rightarrow> ReplayFrame result" where
  "parse_frame pa value source_fps index v = (case v of
     JObj raw \<Rightarrow>
       (let fid = py_str pa (dget_or raw ''frame_id'' (JStr (''frame-'' @ pad6 index)));
            aid = dget_or raw ''artifact_id'' (dget raw ''path'') in
        if \<not> is_str aid \<or> py_str pa aid = [] then raise (ValueError ''frame requires artifact_id'')
        else
          rbind (if dget raw ''pts_ns'' = JNull
            then rbind (rbind (int_to_float (int index * 1000000000)) (\<lambda>x. case x of
                Fin r \<Rightarrow> int_of_float (round64 (r / source_fps)) | _ \<Rightarrow> raise (AdapterError ''OverflowError'')))
              (\<lambda>n. ret (JInt n))
            else ret (dget raw ''pts_ns'')) (\<lambda>pts.
          case frame_box raw of
            JObj box \<Rightarrow> (case dget_or raw ''observations'' (JObj []) of
              JObj observations \<Rightarrow>
                rbind (non_negative_int pa pts ''pts_ns'') (\<lambda>pts_ns.
                rbind (positive_int pa (dget_or raw ''source_width'' (dget_or value ''source_width'' (JInt 1920))) ''source_width'')
                  (\<lambda>width.
                rbind (positive_int pa (dget_or raw ''source_height'' (dget_or value ''source_height'' (JInt 1080))) ''source_height'')
                  (\<lambda>height.
                rbind (optional_number pa (dget raw ''face_pixels'')) (\<lambda>face.
                rbind (optional_number pa (dget raw ''crop_pixels'')) (\<lambda>crop.
                ret \<lparr>rf_frame_id = fid, rf_artifact_id = py_str pa aid, rf_pts_ns = pts_ns,
                  rf_track_id = py_str pa (dget_or raw ''track_id'' (JStr ''track-1'')), rf_person_box = box,
                  rf_source_width = width, rf_source_height = height, rf_face_pixels = face, rf_crop_pixels = crop,
                  rf_illumination_profile = py_str pa
                    (dget_or raw ''illumination_profile'' (dget_or value ''illumination_profile'' (JStr ''unknown''))),
                  rf_observations = observations\<rparr>)))))
            | _ \<Rightarrow> raise (ValueError ''observations must be an object''))
          | _ \<Rightarrow> raise (ValueError ''frame requires person_box'')))
   | _ \<Rightarrow> raise (ValueError ''frame must be an object''))"

fun parse_frames :: "parsers \<Rightarrow> dict \<Rightarrow> rat \<Rightarrow> nat \<Rightarrow> json list \<Rightarrow> ReplayFrame list result" where
  "parse_frames pa value fps i [] = ret []"
| "parse_frames pa value fps i (v # vs) =
    rbind (parse_frame pa value fps i v) (\<lambda>f. rbind (parse_frames pa value fps (Suc i) vs) (\<lambda>fs. ret (f # fs)))"

text \<open>\<open>recording_id\<close>, else \<open>manifest_id\<close>, else \<open>source_id\<close>.\<close>

definition explicit_recording_id :: "dict \<Rightarrow> json" where
  "explicit_recording_id value =
    (let v = dget_or value ''recording_id'' (dget value ''manifest_id'') in
     if v = JNull then dget value ''source_id'' else v)"

definition from_mapping :: "parsers \<Rightarrow> dict \<Rightarrow> ReplayManifest result" where
  "from_mapping pa value =
    rbind (required_field pa (dget value ''camera_id'') ''camera_id'') (\<lambda>camera_id.
    let revision = py_str pa (dget_or value ''camera_config_revision'' (JStr (camera_id @ ''-r1''))) in
    rbind (positive_number pa (dget_or value ''source_fps'' (JFloat 30)) ''source_fps'') (\<lambda>source_fps.
    rbind (non_negative_int pa (dget_or value ''capture_start_ts_ns'' (JInt 0)) ''capture_start_ts_ns'') (\<lambda>start_ns.
    rbind (if explicit_recording_id value = JNull then ret None
      else rbind (required_field pa (explicit_recording_id value) ''recording_id'') (\<lambda>r. ret (Some r))) (\<lambda>recording_id.
    case dget value ''frames'' of
      JList raw_frames \<Rightarrow> rbind (parse_frames pa value source_fps 0 raw_frames) (\<lambda>frames.
        ret \<lparr>rm_camera_id = camera_id, rm_camera_config_revision = revision, rm_frames = frames,
          rm_recording_id = recording_id, rm_source_fps = source_fps, rm_capture_start_ts_ns = start_ns\<rparr>)
    | _ \<Rightarrow> raise (ValueError ''manifest frames must be a list'')))))"

definition from_json :: "parsers \<Rightarrow> string \<Rightarrow> ReplayManifest result" where
  "from_json pa payload = rbind (pa_loads pa payload) (\<lambda>v. case v of
     JObj value \<Rightarrow> from_mapping pa value
   | _ \<Rightarrow> raise (ValueError ''manifest root must be an object''))"

datatype source = Manifest ReplayManifest | Mapping dict | Stored string

definition load_manifest :: "parsers \<Rightarrow> replay_env \<Rightarrow> worker \<Rightarrow> files \<Rightarrow> source \<Rightarrow> ReplayManifest result" where
  "load_manifest pa env w fs s = (case s of
     Manifest m \<Rightarrow> ensure_recording_identity env w fs m
   | Mapping value \<Rightarrow> rbind (from_mapping pa value) (ensure_recording_identity env w fs)
   | Stored path \<Rightarrow> rbind (rbind (read_bytes fs (wk_root w) path False) (from_json pa)) (ensure_recording_identity env w fs))"

definition replay_source ::
  "parsers \<Rightarrow> replay_env \<Rightarrow> worker \<Rightarrow> files \<Rightarrow> 'p publisher option \<Rightarrow> source \<Rightarrow> 'p \<Rightarrow> 'p replay_state result" where
  "replay_source pa env w fs publish s bus = replay_loaded env w fs publish (load_manifest pa env w fs s) bus"

section \<open>What the parser guarantees\<close>

text \<open>The type invariant of a normalised manifest.\<close>

definition normal_frame :: "ReplayFrame \<Rightarrow> bool" where
  "normal_frame f \<longleftrightarrow> rf_artifact_id f \<noteq> [] \<and> 0 \<le> rf_pts_ns f \<and> 0 < rf_source_width f \<and> 0 < rf_source_height f \<and>
     (\<forall>x \<in> set_option (rf_face_pixels f) \<union> set_option (rf_crop_pixels f). isfinite x \<and> pf_ge0 x)"

definition normal_manifest :: "ReplayManifest \<Rightarrow> bool" where
  "normal_manifest m \<longleftrightarrow> rm_camera_id m \<noteq> [] \<and> 0 < rm_source_fps m \<and> 0 \<le> rm_capture_start_ts_ns m \<and>
     rm_recording_id m \<noteq> Some [] \<and> list_all normal_frame (rm_frames m)"

text \<open>An integer field accepts exactly the integers that are floats.\<close>

lemma non_negative_int_JInt:
  "non_negative_int pa (JInt n) key = Inr m \<longleftrightarrow> m = n \<and> 0 \<le> n \<and> round64 (of_int n) = Fin (of_int n)"
  by (cases "round64 (of_int n)") (auto simp: non_negative_int_def py_int_def py_float_def int_to_float_def)

lemma non_negative_int_Inr:
  assumes "non_negative_int pa v key = Inr n"
  shows "0 \<le> n" and "py_float pa v = Inr (Fin (of_int n))"
  using assms by (auto simp: non_negative_int_def rbind_Inr split: json.splits if_splits)

lemma positive_int_Inr: "positive_int pa v key = Inr n \<Longrightarrow> 0 < n"
  by (auto simp: positive_int_def rbind_Inr dest!: non_negative_int_Inr(1) split: if_splits)

lemma optional_number_Inr:
  assumes "optional_number pa v = Inr x" and "y \<in> set_option x"
  shows "isfinite y \<and> pf_ge0 y"
proof (cases "py_float pa v")
  case (Inr r)
  then show ?thesis using assms by (cases r) (auto simp: optional_number_def split: if_splits)
qed (use assms in \<open>auto simp: optional_number_def split: if_splits\<close>)

lemma required_field_Inr: "required_field pa v key = Inr s \<Longrightarrow> s \<noteq> []"
  by (auto simp: required_field_def split: if_splits)

lemma positive_number_Inr:
  assumes "positive_number pa v key = Inr x"
  shows "0 < x"
proof (cases "py_float pa v")
  case (Inr r)
  then show ?thesis using assms by (cases r) (auto simp: positive_number_def split: if_splits)
qed (use assms in \<open>auto simp: positive_number_def split: if_splits\<close>)

lemma parse_frame_normal:
  assumes "parse_frame pa value fps i v = Inr f"
  shows "normal_frame f"
proof -
  obtain raw where v: "v = JObj raw" using assms by (auto simp: parse_frame_def split: json.splits)
  obtain box obs where b: "frame_box raw = JObj box" and o: "dget_or raw ''observations'' (JObj []) = JObj obs"
    using assms by (cases "frame_box raw"; cases "dget_or raw ''observations'' (JObj [])")
      (auto simp: parse_frame_def v Let_def rbind_Inr split: if_splits)
  note * = non_negative_int_Inr(1) positive_int_Inr optional_number_Inr
  show ?thesis
    using assms by (auto simp: parse_frame_def v b o Let_def rbind_Inr normal_frame_def dest: * split: if_splits)
qed

lemma parse_frames_normal:
  "parse_frames pa value fps i vs = Inr fs \<Longrightarrow> length fs = length vs \<and> list_all normal_frame fs"
  by (induction vs arbitrary: i fs) (auto simp: rbind_Inr parse_frame_normal)

section \<open>Properties\<close>

text \<open>Property C39.  A mapping that parses gives a normalised manifest: identifiers are not blank, times are not
  negative, the frame rate and the image sizes are positive, pixel counts are finite and not
  negative, and there is one frame for every entry of the list of frames.\<close>

theorem parsed_manifest_is_normal:
  assumes "from_mapping pa value = Inr m"
  shows "normal_manifest m \<and> (\<exists>raw. dget value ''frames'' = JList raw \<and> length (rm_frames m) = length raw)"
proof -
  obtain raw where raw: "dget value ''frames'' = JList raw"
    using assms by (cases "dget value ''frames''") (auto simp: from_mapping_def rbind_Inr Let_def)
  note * = required_field_Inr positive_number_Inr non_negative_int_Inr(1) parse_frames_normal
  show ?thesis
    using assms by (auto simp: from_mapping_def rbind_Inr Let_def raw normal_manifest_def dest: * split: if_splits)
qed

definition sample_parsers :: parsers where
  "sample_parsers = \<lparr>pa_str = (\<lambda>_. ''?''), pa_int = (\<lambda>_. raise (ValueError ''int'')), pa_float = (\<lambda>_. raise (ValueError ''float'')),
     pa_loads = (\<lambda>_. raise (ValueError ''json''))\<rparr>"

definition sample_mapping :: dict where
  "sample_mapping = [(''camera_id'', JStr '' cam ''), (''source_fps'', JInt 10),
     (''frames'', JList [JObj [(''path'', JStr ''a.png''), (''geometry'', JObj [(''person_box'', JObj [])])],
       JObj [(''artifact_id'', JStr ''b.png''), (''person_box'', JObj []), (''face_pixels'', JInt 40)]])]"

theorem parsed_manifest_is_normal_witness:
  "\<exists>m. from_mapping sample_parsers sample_mapping = Inr m \<and> normal_manifest m \<and> rm_camera_id m = ''cam'' \<and>
    map rf_frame_id (rm_frames m) = [''frame-000000'', ''frame-000001''] \<and> map rf_pts_ns (rm_frames m) = [0, 100000000]"
proof -
  have ok: "\<not> isl (from_mapping sample_parsers sample_mapping)"
    and facts: "rm_camera_id (projr (from_mapping sample_parsers sample_mapping)) = ''cam''"
      "map rf_frame_id (rm_frames (projr (from_mapping sample_parsers sample_mapping))) = [''frame-000000'', ''frame-000001'']"
      "map rf_pts_ns (rm_frames (projr (from_mapping sample_parsers sample_mapping))) = [0, 100000000]"
    by code_simp+
  then obtain m where m: "from_mapping sample_parsers sample_mapping = Inr m" by (cases "from_mapping sample_parsers sample_mapping") auto
  from parsed_manifest_is_normal[OF m] m facts show ?thesis by simp
qed

text \<open>An integer field of a manifest accepts exactly the non-negative integers that a float holds: every integer up to
  2 to the 53, and beyond that only some, so that a nanosecond clock of the year 2023 is refused.\<close>

theorem manifest_integers_are_floats:
  "(non_negative_int pa (JInt n) key = Inr k \<longleftrightarrow> k = n \<and> 0 \<le> n \<and> round64 (of_int n) = Fin (of_int n)) \<and>
   (0 \<le> n \<longrightarrow> n \<le> 2 ^ 53 \<longrightarrow> non_negative_int pa (JInt n) key = Inr n) \<and>
   isl (non_negative_int pa (JInt 1700000000123456789) key)"
proof (intro conjI impI)
  have "round64 (of_int 1700000000123456789) \<noteq> Fin (of_int 1700000000123456789)" by code_simp
  then show "isl (non_negative_int pa (JInt 1700000000123456789) key)"
    using non_negative_int_JInt[of pa 1700000000123456789 key]
    by (cases "non_negative_int pa (JInt 1700000000123456789) key") auto
qed (auto simp: non_negative_int_JInt intro!: round64_int)

theorem manifest_integers_are_floats_witness:
  "non_negative_int sample_parsers (JInt (2 ^ 53)) ''pts_ns'' = Inr (2 ^ 53) \<and>
   \<not> non_negative_int sample_parsers (JInt (-1)) ''pts_ns'' = Inr (-1)"
  using manifest_integers_are_floats[of sample_parsers "2 ^ 53" "''pts_ns''" 0]
    manifest_integers_are_floats[of sample_parsers "-1" "''pts_ns''" "-1"] by simp

text \<open>Property C26.  Whatever is replayed and whatever the publisher does, every candidate that a replay collects comes from a frame
  of the loaded manifest whose artifact is readable image media below the root, its box lies in the region of interest and
  in no excluded zone, it is a valid envelope (it and its blocks pass the contract's checks unchanged), and it was received no
  earlier than it was captured.\<close>

theorem replayed_candidates_are_admitted:
  assumes "replay_source pa env w fs publish s bus = Inr st" and "0 \<le> wk_transport_delay_ns w"
    and "c \<in> set (rs_candidates st)"
  shows "\<exists>m f. load_manifest pa env w fs s = Inr m \<and> f \<in> set (rm_frames m) \<and> candidate env w fs m f = Inr c \<and>
    valid_envelope c \<and> ce_capture_ts_ns c \<le> ce_received_ts_ns c \<and> ce_source_pts_ns c = rf_pts_ns f \<and>
    region_gate (wk_camera w) (ge_person_box (ce_geometry c)) = Inr () \<and>
    (\<exists>payload. read_bytes fs (wk_root w) (rf_artifact_id f) True = Inr payload \<and> valid_image_header (rf_artifact_id f) payload)"
proof (cases "load_manifest pa env w fs s")
  case (Inl e)
  then show ?thesis using assms(1,3) by (auto simp: replay_source_def replay_loaded_def replay_start_def split: if_splits)
next
  case (Inr m)
  have "\<exists>f \<in> set (rm_frames m). candidate env w fs m f = Inr c"
    using assms(1,3) Inr by (auto simp: replay_source_def replay_loaded_def replay_start_def dest!: replay_frames_candidates)
  then show ?thesis using Inr candidate_valid[OF _ assms(2)] by blast
qed

theorem replayed_candidates_are_admitted_witness:
  "\<exists>st c. replay_source sample_parsers sample_env sample_worker sample_files (None :: unit publisher option)
      (Manifest sample_manifest) () = Inr st \<and> rs_candidates st = [c] \<and> valid_envelope c"
proof -
  have identity: "load_manifest sample_parsers sample_env sample_worker sample_files (Manifest sample_manifest) = Inr sample_manifest"
    by code_simp
  obtain st where run: "replay_source sample_parsers sample_env sample_worker sample_files (None :: unit publisher option)
      (Manifest sample_manifest) () = Inr st"
    and cands: "rs_candidates st = concat (map (frame_candidates (candidate sample_env sample_worker sample_files sample_manifest))
      (frame_plan sample_worker sample_manifest))"
    using replay_loaded_plan[where publish = "None :: unit publisher option" and bus = "()", OF _ sample_contained[unfolded list_all_iff]]
    by (auto simp: replay_source_def identity accepting_def)
  obtain c where c: "rs_candidates st = [c]"
    using cands sample_candidate by (auto simp: sample_plan)
  have "0 \<le> wk_transport_delay_ns sample_worker" by (simp add: sample_worker_def)
  from replayed_candidates_are_admitted[OF run this, of c] c run show ?thesis by auto
qed

end
