(* ===== verification/Cli.thy ===== *)
theory Cli
  imports Replay_Parser "HOL-Library.AList"
begin

text \<open>
  The command line, \<open>src/tp_smoke_detect/cli.py\<close>, the schema export \<open>src/tp_smoke_detect/schema.py\<close> and the synthetic
  fixture of \<open>application/replay.py\<close> that the demo replays.  A command returns the lines it prints and its exit code; an
  exception is an \<open>Inl\<close>.  Argument parsing and the printing of JSON documents are outside the model.
\<close>

section \<open>The synthetic fixture\<close>

definition synthetic_box :: dict where
  "synthetic_box = [(''x'', JFloat (fl (1 / 5))), (''y'', JFloat (fl (1 / 5))), (''width'', JFloat (1 / 4)), (''height'', JFloat (1 / 2)),
     (''confidence'', JFloat (fl (99 / 100)))]"

definition synthetic_observations :: dict where
  "synthetic_observations = [(''pose'', JObj [(''confidence'', JFloat (fl (9 / 10)))])]"

definition synthetic_frame :: "string \<Rightarrow> string \<Rightarrow> int \<Rightarrow> json" where
  "synthetic_frame fid aid pts = JObj [(''frame_id'', JStr fid), (''artifact_id'', JStr aid), (''pts_ns'', JInt pts),
     (''track_id'', JStr ''track-synthetic-1''), (''person_box'', JObj synthetic_box), (''observations'', JObj synthetic_observations)]"

definition synthetic_manifest :: dict where
  "synthetic_manifest =
    [(''camera_id'', JStr ''synthetic-camera''), (''camera_config_revision'', JStr ''synthetic-camera-r1''),
     (''source_fps'', JInt 10), (''source_width'', JInt 640), (''source_height'', JInt 480),
     (''frames'', JList [synthetic_frame ''synthetic-000'' ''synthetic/frame-000.png'' 0,
        synthetic_frame ''synthetic-005'' ''synthetic/frame-005.png'' 500000000])]"

definition synthetic_camera :: "CameraProfile result" where
  "synthetic_camera = CameraProfile_new \<lparr>cp_camera_id = ''synthetic-camera'', cp_zone_id = ''synthetic-zone'', cp_enabled = True,
     cp_analysis_fps = 5,
     cp_roi = [\<lparr>pt_x = 0, pt_y = 0\<rparr>, \<lparr>pt_x = 1, pt_y = 0\<rparr>, \<lparr>pt_x = 1, pt_y = 1\<rparr>, \<lparr>pt_x = 0, pt_y = 1\<rparr>],
     cp_excluded_zones = [], cp_min_face_pixels = 32, cp_min_crop_pixels = 64, cp_day_night = ''auto''\<rparr>"

section \<open>Schema export\<close>

text \<open>\<open>CONTRACTS\<close>: the names of the contracts; \<open>schema\<close> is the JSON schema of the model of a name, \<open>dumps\<close> the printer.\<close>

definition CONTRACTS :: "string list" where
  "CONTRACTS = [''track.candidate.v1'', ''decision.completed.v1'', ''audio.command.v1'']"

definition schema_documents :: "(string \<Rightarrow> json) \<Rightarrow> (string \<times> json) list" where
  "schema_documents schema = map (\<lambda>name. (name, schema name)) CONTRACTS"

definition write_schemas ::
  "(json \<Rightarrow> string) \<Rightarrow> (string \<Rightarrow> json) \<Rightarrow> path \<Rightarrow> (path \<times> string) list \<Rightarrow> path list \<times> (path \<times> string) list" where
  "write_schemas dumps schema destination files =
    fold (\<lambda>(name, document) (written, files).
        let p = destination @ [name @ ''.json''] in
        (written @ [p], AList.update p (dumps document @ [CHR 0x0A]) files))
      (schema_documents schema) ([], files)"

section \<open>Commands\<close>

text \<open>The bytes of \<open>png\<close>: the signature, the header of the first chunk and 17 zeros.\<close>

definition demo_png :: string where
  "demo_png = map byte [137, 80, 78, 71, 13, 10, 26, 10, 0, 0, 0, 13, 73, 72, 68, 82] @ replicate 17 (byte 0)"

text \<open>The temporary directory \<open>tmp\<close> of the demo, without symbolic links.\<close>

definition demo_files :: "path \<Rightarrow> files" where
  "demo_files tmp = \<lparr>fl_real = (\<lambda>p. p), fl_absolute = path_parts,
     fl_files = map (\<lambda>name. (tmp @ [''synthetic'', name], demo_png)) [''frame-000.png'', ''frame-005.png''],
     fl_dirs = [tmp, tmp @ [''synthetic'']], fl_protected = (\<lambda>_. False)\<rparr>"

definition demo :: "parsers \<Rightarrow> replay_env \<Rightarrow> (nat \<Rightarrow> uuid) \<Rightarrow> path \<Rightarrow> (string list \<times> int) result" where
  "demo pa env uuid4 tmp =
    rbind synthetic_camera (\<lambda>camera.
    rbind (worker_new camera tmp None 0) (\<lambda>w.
    rbind (replay_source pa env w (demo_files tmp) (Some (bus_publisher uuid4)) (Mapping synthetic_manifest) (bus_new ())) (\<lambda>st.
    ret ([''CPU fixture ready: synthetic candidates='' @ show_nat (length (rs_candidates st)) @
        '' errors='' @ show_nat (length (rs_errors st))],
      if rs_errors st = [] then 0 else 1))))"

text \<open>\<open>main\<close> on parsed arguments.  \<open>load\<close> is \<open>load_settings\<close> with the service name and the number of cameras of its result,
  \<open>str_path\<close> prints a path.\<close>

datatype command = Schema path | ValidateConfig string | Demo

definition cli_main ::
  "parsers \<Rightarrow> replay_env \<Rightarrow> (nat \<Rightarrow> uuid) \<Rightarrow> path \<Rightarrow> (json \<Rightarrow> string) \<Rightarrow> (string \<Rightarrow> json) \<Rightarrow> (path \<Rightarrow> string) \<Rightarrow>
   (string \<Rightarrow> (string \<times> nat) result) \<Rightarrow> command \<Rightarrow> (path \<times> string) list \<Rightarrow> (string list \<times> int) result \<times> (path \<times> string) list" where
  "cli_main pa env uuid4 tmp dumps schema str_path load c files = (case c of
     Schema output \<Rightarrow> (case write_schemas dumps schema output files of
       (written, files') \<Rightarrow> (ret (map str_path written, 0), files'))
   | ValidateConfig p \<Rightarrow>
       (rbind (load p) (\<lambda>(service_name, cameras).
          ret ([''validated '' @ service_name @ '' ('' @ show_nat cameras @ '' cameras)''], 0)), files)
   | Demo \<Rightarrow> (demo pa env uuid4 tmp, files))"

text \<open>The export writes one document per contract.\<close>

lemma write_schemas_exact:
  assumes "write_schemas dumps schema destination files = (written, files')"
  shows "written = map (\<lambda>name. destination @ [name @ ''.json'']) CONTRACTS \<and>
    (\<forall>name \<in> set CONTRACTS. map_of files' (destination @ [name @ ''.json'']) = Some (dumps (schema name) @ [CHR 0x0A])) \<and>
    (\<forall>p. p \<notin> set written \<longrightarrow> map_of files' p = map_of files p)"
  using assms by (auto simp: write_schemas_def schema_documents_def CONTRACTS_def Let_def update_conv')

section \<open>The demo\<close>

definition demo_camera :: CameraProfile where
  "demo_camera = \<lparr>cp_camera_id = ''synthetic-camera'', cp_zone_id = ''synthetic-zone'', cp_enabled = True, cp_analysis_fps = 5,
     cp_roi = [\<lparr>pt_x = 0, pt_y = 0\<rparr>, \<lparr>pt_x = 1, pt_y = 0\<rparr>, \<lparr>pt_x = 1, pt_y = 1\<rparr>, \<lparr>pt_x = 0, pt_y = 1\<rparr>],
     cp_excluded_zones = [], cp_min_face_pixels = 32, cp_min_crop_pixels = 64, cp_day_night = ''auto''\<rparr>"

definition demo_worker :: "path \<Rightarrow> worker" where
  "demo_worker tmp = \<lparr>wk_camera = demo_camera, wk_root = tmp, wk_sampling_fps = 5, wk_transport_delay_ns = 0\<rparr>"

definition demo_frame :: "string \<Rightarrow> string \<Rightarrow> int \<Rightarrow> ReplayFrame" where
  "demo_frame fid aid pts = \<lparr>rf_frame_id = fid, rf_artifact_id = aid, rf_pts_ns = pts, rf_track_id = ''track-synthetic-1'',
     rf_person_box = synthetic_box, rf_source_width = 640, rf_source_height = 480, rf_face_pixels = None, rf_crop_pixels = None,
     rf_illumination_profile = ''unknown'', rf_observations = synthetic_observations\<rparr>"

definition demo_manifest :: "string option \<Rightarrow> ReplayManifest" where
  "demo_manifest recording = \<lparr>rm_camera_id = ''synthetic-camera'', rm_camera_config_revision = ''synthetic-camera-r1'',
     rm_frames = [demo_frame ''synthetic-000'' ''synthetic/frame-000.png'' 0, demo_frame ''synthetic-005'' ''synthetic/frame-005.png'' 500000000],
     rm_recording_id = recording, rm_source_fps = 10, rm_capture_start_ts_ns = 0\<rparr>"

definition demo_box :: BoundingBox where
  "demo_box = \<lparr>bb_x = fl (1 / 5), bb_y = fl (1 / 5), bb_width = 1 / 4, bb_height = 1 / 2, bb_confidence = fl (99 / 100)\<rparr>"

lemma demo_camera_valid: "synthetic_camera = Inr demo_camera" "worker_new demo_camera tmp None 0 = Inr (demo_worker tmp)"
proof -
  show "synthetic_camera = Inr demo_camera" by code_simp
qed (simp add: worker_new_def demo_camera_def demo_worker_def)

lemma demo_parse: "from_mapping pa synthetic_manifest = Inr (demo_manifest None)"
  by code_simp

lemma demo_media:
  assumes "\<not> list_ex (\<lambda>c. CHR 0x00 \<in> set c) tmp" "aid \<in> {''synthetic/frame-000.png'', ''synthetic/frame-005.png''}"
  shows "read_bytes (demo_files tmp) tmp aid img = Inr demo_png"
proof -
  have parts: "path_parts ''synthetic/frame-000.png'' = [''synthetic'', ''frame-000.png'']"
    "path_parts ''synthetic/frame-005.png'' = [''synthetic'', ''frame-005.png'']"
    "\<not> is_absolute ''synthetic/frame-000.png''" "\<not> is_absolute ''synthetic/frame-005.png''"
    "map lower_char (name_suffix ''frame-000.png'') = ''.png''" "map lower_char (name_suffix ''frame-005.png'') = ''.png''"
    by code_simp+
  have png: "''.png'' \<in> set SUPPORTED_IMAGE_SUFFIXES" by code_simp
  show ?thesis
    using assms png
    by (auto simp: read_bytes_def locate_def store_resolve_def resolve_def join_path_def parts relative_to_def demo_files_def
        is_file_def path_suffix_def)
qed

lemma demo_header: "valid_image_header ''synthetic/frame-000.png'' demo_png" "valid_image_header ''synthetic/frame-005.png'' demo_png"
  by code_simp+

lemma demo_gates:
  "BoundingBox_new demo_box = Inr demo_box" "region_gate demo_camera demo_box = Inr ()"
  "fromtimestamp_ns 0 = Inr 0" "fromtimestamp_ns 500000000 = Inr 500000"
  "Geometry_new \<lparr>ge_person_box = demo_box, ge_roi_id = None, ge_coverage_score = 1\<rparr> =
    Inr \<lparr>ge_person_box = demo_box, ge_roi_id = None, ge_coverage_score = 1\<rparr>"
  "\<not> isl (frame_quality demo_camera (demo_frame fid aid pts) demo_box)"
  "check_text 1 128 ''tp-smoke-detect.replay'' = Inr ''tp-smoke-detect.replay''"
  "check_text 1 128 ''synthetic-camera'' = Inr ''synthetic-camera''"
  "check_text 1 128 ''synthetic-camera-r1'' = Inr ''synthetic-camera-r1''"
  "check_text 1 128 ''track-synthetic-1'' = Inr ''track-synthetic-1''"
  by code_simp+

lemma demo_candidate:
  assumes "\<not> list_ex (\<lambda>c. CHR 0x00 \<in> set c) tmp" and "rv_box env synthetic_box = Inr demo_box"
    and "rbind (rv_observations env synthetic_observations) FrameObservations_new = Inr observations"
    and "(aid, pts) \<in> {(''synthetic/frame-000.png'', 0), (''synthetic/frame-005.png'', 500000000)}"
  shows "\<exists>c. candidate env (demo_worker tmp) (demo_files tmp) (demo_manifest recording) (demo_frame fid aid pts) = Inr c"
proof -
  obtain q where q: "frame_quality demo_camera (demo_frame fid aid pts) demo_box = Inr q"
    using demo_gates(6)[of fid aid pts] by (cases "frame_quality demo_camera (demo_frame fid aid pts) demo_box") auto
  have media: "read_bytes (demo_files tmp) tmp aid True = Inr demo_png" "valid_image_header aid demo_png"
    using assms(4) demo_header by (auto intro: demo_media[OF assms(1)])
  show ?thesis
    using assms(2-4) media q demo_gates
    by (auto simp: candidate_def CandidateEnvelope_new_def Let_def demo_worker_def demo_manifest_def demo_frame_def[of fid])
qed

lemma demo_identity:
  assumes "\<not> list_ex (\<lambda>c. CHR 0x00 \<in> set c) tmp"
  shows "\<exists>r. ensure_recording_identity env (demo_worker tmp) (demo_files tmp) (demo_manifest None) = Inr (demo_manifest (Some r))"
  using demo_media[OF assms, of _ False]
  by (auto simp: ensure_recording_identity_def demo_manifest_def artifact_digest_def demo_worker_def demo_frame_def)

lemma demo_plan:
  "frame_plan (demo_worker tmp) (demo_manifest recording) =
    [(demo_frame ''synthetic-000'' ''synthetic/frame-000.png'' 0, Taken),
     (demo_frame ''synthetic-005'' ''synthetic/frame-005.png'' 500000000, Taken)]"
  by code_simp

lemma demo_contained:
  assumes "\<And>f. f \<in> set (rm_frames (demo_manifest recording)) \<Longrightarrow> \<exists>c. cand f = Inr c"
  shows "\<forall>f \<in> set (rm_frames (demo_manifest recording)). contained_frame cand f"
proof -
  have "isfinite (round64 (of_int 0))" "isfinite (round64 (of_int 500000000))" by code_simp+
  then show ?thesis
    using assms by (force simp: contained_frame_def demo_manifest_def demo_frame_def)
qed

text \<open>The demo command runs the whole replay path on its fixture: with any readers, any identifiers and any temporary
  directory, given that pydantic reads the box and the observations of the fixture, it replays both frames without an error,
  announces two candidates and exits with code 0.\<close>

theorem demo_replays_its_fixture:
  assumes "\<not> list_ex (\<lambda>c. CHR 0x00 \<in> set c) tmp" and "rv_box env synthetic_box = Inr demo_box"
    and "rbind (rv_observations env synthetic_observations) FrameObservations_new = Inr observations"
  shows "cli_main pa env uuid4 tmp dumps schema str_path load Demo files =
    (Inr ([''CPU fixture ready: synthetic candidates=2 errors=0''], 0), files)"
proof -
  obtain r where load: "ensure_recording_identity env (demo_worker tmp) (demo_files tmp) (demo_manifest None) = Inr (demo_manifest (Some r))"
    using demo_identity[OF assms(1)] by blast
  let ?cand = "candidate env (demo_worker tmp) (demo_files tmp) (demo_manifest (Some r))"
  note cand = demo_candidate[OF assms, of _ _ "Some r"]
  have contained: "\<forall>f \<in> set (rm_frames (demo_manifest (Some r))). contained_frame ?cand f"
    by (rule demo_contained) (use cand in \<open>auto simp: demo_manifest_def\<close>)
  have acc: "accepting (Some (bus_publisher uuid4)) (bus_new ())"
    by (rule bus_accepts) (simp add: bus_new_def)
  have counts: "show_nat (Suc (Suc 0)) = ''2''" "show_nat 0 = ''0''" by code_simp+
  obtain c1 c2 where frames:
    "?cand (demo_frame ''synthetic-000'' ''synthetic/frame-000.png'' 0) = Inr c1"
    "?cand (demo_frame ''synthetic-005'' ''synthetic/frame-005.png'' 500000000) = Inr c2"
    using cand by fastforce
  obtain st where "replay_loaded env (demo_worker tmp) (demo_files tmp) (Some (bus_publisher uuid4)) (Inr (demo_manifest (Some r)))
      (bus_new ()) = Inr st" "rs_candidates st = [c1, c2]" "rs_errors st = []"
    using replay_loaded_plan[OF acc contained] by (auto simp: demo_plan frames)
  then show ?thesis
    by (simp add: cli_main_def demo_def demo_camera_valid replay_source_def load_manifest_def demo_parse load counts)
qed

definition demo_env :: replay_env where
  "demo_env = \<lparr>rv_uuid5 = (\<lambda>s. s), rv_box = (\<lambda>_. Inr demo_box), rv_observations = (\<lambda>_. Inr \<lparr>fo_pose = Some
     \<lparr>po_hand_to_mouth_distance = None, po_mouth_dwell_ms = None, po_confidence = fl (9 / 10)\<rparr>, fo_objects = [], fo_smoke = None,
     fo_temporal = None, fo_independent_channels = []\<rparr>), rv_sha256 = (\<lambda>s. s), rv_digest = (\<lambda>_. ''hash'')\<rparr>"

theorem demo_replays_its_fixture_witness:
  "cli_main sample_parsers demo_env (\<lambda>_. ''id'') [''tmp'', ''d''] (\<lambda>_. []) (\<lambda>_. JNull) join_slash (\<lambda>_. Inr (''svc'', 0)) Demo [] =
    (Inr ([''CPU fixture ready: synthetic candidates=2 errors=0''], 0), [])"
proof -
  have "\<not> isl (rbind (rv_observations demo_env synthetic_observations) FrameObservations_new)" by code_simp
  then obtain obs where "rbind (rv_observations demo_env synthetic_observations) FrameObservations_new = Inr obs"
    by (cases "rbind (rv_observations demo_env synthetic_observations) FrameObservations_new") auto
  then show ?thesis by (intro demo_replays_its_fixture) (simp_all add: demo_env_def)
qed

end
