(* ===== verification/Operations.thy ===== *)
theory Operations
  imports Cli Contracts Metrics
begin

text \<open>
  What operators meet: the structured log of \<open>observability/structured.py\<close> and the scripts \<open>healthcheck.py\<close>,
  \<open>replay_fixture.py\<close> and \<open>qualify_cpu.py\<close>.  The JSON printer and reader, \<open>str\<close> of a value, the HTTP client and the process that
  runs the tests are parameters; argument parsing is not modelled.
\<close>

section \<open>Structured logging\<close>

text \<open>A log record: \<open>getMessage\<close> may raise, \<open>extra\<close> fields are attributes, \<open>lg_exception\<close> is the formatted \<open>exc_info\<close>.\<close>

record log_record =
  lg_levelname :: string
  lg_name :: string
  lg_message :: "string result"
  lg_attrs :: dict
  lg_exception :: "string option"

definition LOG_KEYS :: "string list" where
  "LOG_KEYS = [''component'', ''camera_id'', ''operation'', ''status'']"

definition log_format :: "parsers \<Rightarrow> string \<Rightarrow> string option \<Rightarrow> log_record \<Rightarrow> dict result" where
  "log_format pa now correlation r =
    rbind (lg_message r) (\<lambda>message. ret (
      [(''ts'', JStr now), (''level'', JStr (map lower_char (lg_levelname r))), (''logger'', JStr (lg_name r)), (''message'', JStr message)] @
      (case correlation of None \<Rightarrow> [] | Some bound \<Rightarrow> if bound = [] then [] else [(''correlation_id'', JStr bound)]) @
      map (\<lambda>key. (key, JStr (py_str pa (dget (lg_attrs r) key)))) (filter (\<lambda>key. dget (lg_attrs r) key \<noteq> JNull) LOG_KEYS) @
      (case lg_exception r of None \<Rightarrow> [] | Some e \<Rightarrow> [(''exception'', JStr e)])))"

text \<open>The context manager \<open>correlation_id\<close> around a body, which may raise; \<open>uuid4\<close> is drawn when no value is given.\<close>

definition with_correlation ::
  "string option \<Rightarrow> string \<Rightarrow> (string \<Rightarrow> 's \<times> string option \<Rightarrow> 'a result \<times> 's \<times> string option) \<Rightarrow>
   's \<times> string option \<Rightarrow> 'a result \<times> 's \<times> string option" where
  "with_correlation v uuid4 body = (\<lambda>(s, old).
    let bound = (case v of None \<Rightarrow> uuid4 | Some x \<Rightarrow> if x = [] then uuid4 else x) in
    case body bound (s, Some bound) of (r, s', _) \<Rightarrow> (r, s', old))"

datatype log_handler = StreamHandler bool | OtherHandler

record logger =
  lo_level :: int
  lo_handlers :: "log_handler list"
  lo_propagate :: bool

definition get_logger :: "int \<Rightarrow> string \<Rightarrow> (string \<Rightarrow> logger) \<Rightarrow> logger \<times> (string \<Rightarrow> logger)" where
  "get_logger level name loggers =
    (let l = (loggers name)\<lparr>lo_level := level\<rparr>;
         l' = (if list_ex (\<lambda>h. h \<noteq> OtherHandler) (lo_handlers l) then l
               else l\<lparr>lo_handlers := lo_handlers l @ [StreamHandler True], lo_propagate := False\<rparr>) in
     (l', loggers(name := l')))"

text \<open>No field of a record but the listed ones reaches the log, and every key occurs once.\<close>

lemma log_format_keys:
  assumes "log_format pa now correlation r = Inr d"
  shows "distinct (map fst d)" and "set (map fst d) \<subseteq> {''ts'', ''level'', ''logger'', ''message'', ''correlation_id'', ''exception''} \<union> set LOG_KEYS"
  using assms by (auto simp: log_format_def rbind_Inr LOG_KEYS_def split: option.splits if_splits)

lemma log_format_drops_payloads:
  assumes "\<forall>key \<in> set LOG_KEYS. dget (lg_attrs r) key = dget attrs key"
  shows "log_format pa now correlation (r\<lparr>lg_attrs := attrs\<rparr>) = log_format pa now correlation r"
  using assms by (simp add: log_format_def LOG_KEYS_def)

text \<open>Inside a scope every record carries the bound identifier; outside, the former one is back, whatever the body does.\<close>

lemma scope_is_correlated:
  assumes "uuid4 \<noteq> []" and "\<And>bound s. body bound (s, Some bound) = (log_format pa now (Some bound) r, s, ctx)"
  shows "with_correlation v uuid4 body (s, old) = (x, s', ctx') \<Longrightarrow> ctx' = old \<and>
    (\<forall>d. x = Inr d \<longrightarrow> dget d ''correlation_id'' = JStr (case v of None \<Rightarrow> uuid4 | Some y \<Rightarrow> if y = [] then uuid4 else y))"
  using assms by (auto simp: with_correlation_def Let_def log_format_def rbind_Inr dget_def split: option.splits if_splits)

lemma get_logger_once:
  "lo_handlers (fst (get_logger level' name (snd (get_logger level name loggers)))) = lo_handlers (fst (get_logger level name loggers))"
  by (simp add: get_logger_def Let_def)

section \<open>Constant endpoints\<close>

text \<open>\<open>/health/live\<close>, \<open>/v1/capabilities\<close> and \<open>/metrics\<close> of \<open>api/app.py\<close>; \<open>show_g\<close> and \<open>show_float\<close> print numbers.\<close>

definition live :: dict where
  "live = [(''status'', JStr ''ok'')]"

definition capabilities :: dict where
  "capabilities =
    [(''api_version'', JStr ''v1''),
     (''schemas'', JList (map JStr [''track.candidate.v1'', ''decision.completed.v1'', ''audio.command.v1''])),
     (''modes'', JList (map (\<lambda>m. JStr (mode_value m)) run_modes)),
     (''stages'', JList (map JStr [''detected'', ''quality'', ''pose'', ''object'', ''temporal'', ''review'', ''completed''])),
     (''model_roles'', JList [])]"

definition metrics_endpoint ::
  "(pyfloat \<Rightarrow> string) \<Rightarrow> (rat \<Rightarrow> string) \<Rightarrow> string \<Rightarrow> registry \<times> string option \<Rightarrow>
   (string \<times> string) result \<times> registry \<times> string option" where
  "metrics_endpoint show_g show_float uuid4 =
    with_correlation None uuid4 (\<lambda>_ (reg, ctx). (ret (render show_g show_float reg, ''text/plain; version=0.0.4; charset=utf-8''), reg, ctx))"

text \<open>A client may ask for every contract that the export writes.\<close>

lemma capabilities_name_contracts: "dget capabilities ''schemas'' = JList (map JStr CONTRACTS)"
  by (simp add: capabilities_def dget_def CONTRACTS_def)

section \<open>Health probe\<close>

text \<open>\<open>except (HTTPError, URLError, TimeoutError, ValueError, OSError)\<close>.\<close>

fun probe_caught :: "error \<Rightarrow> bool" where
  "probe_caught (ValueError _) = True"
| "probe_caught (AdapterError name) = (name \<in> {''HTTPError'', ''URLError'', ''TimeoutError'', ''OSError''})"
| "probe_caught _ = False"

text \<open>The status and the body of the response, or what \<open>urlopen\<close> raises; the result is the exit code.\<close>

definition probe_payload :: "parsers \<Rightarrow> (int \<times> string result) result \<Rightarrow> json option result" where
  "probe_payload pa response = rbind response (\<lambda>(status, body).
    if status \<noteq> 200 then ret None else rbind body (\<lambda>b. rbind (pa_loads pa b) (\<lambda>payload. ret (Some payload))))"

definition healthcheck_main :: "parsers \<Rightarrow> (int \<times> string result) result \<Rightarrow> int result" where
  "healthcheck_main pa response = (case probe_payload pa response of
     Inl e \<Rightarrow> if probe_caught e then ret 1 else raise e
   | Inr None \<Rightarrow> ret 1
   | Inr (Some payload) \<Rightarrow> (case payload of
       JObj d \<Rightarrow> if dget d ''status'' \<noteq> JStr ''ok'' then ret 1 else ret 0
     | _ \<Rightarrow> ret 1))"

lemma healthcheck_passes_iff:
  "healthcheck_main pa response = Inr 0 \<longleftrightarrow>
    (\<exists>b d. response = Inr (200, Inr b) \<and> pa_loads pa b = Inr (JObj d) \<and> dget d ''status'' = JStr ''ok'')"
  by (auto simp: healthcheck_main_def probe_payload_def rbind_def split: sum.splits prod.splits if_splits option.splits json.splits)

text \<open>The probe accepts what the service answers, whenever the printed document reads back.\<close>

lemma probe_meets_live:
  assumes "pa_loads pa (dumps (JObj live)) = Inr (JObj live)"
  shows "healthcheck_main pa (Inr (200, Inr (dumps (JObj live)))) = Inr 0"
  using assms by (auto simp: healthcheck_passes_iff live_def dget_def)

section \<open>Replay of a stored manifest\<close>

text \<open>\<open>str_error\<close> is \<open>str(exc)\<close>, the message that the worker keeps of an error.\<close>

definition fixture_report :: "(error \<Rightarrow> string) \<Rightarrow> 'p replay_state \<Rightarrow> dict" where
  "fixture_report str_error st =
    [(''candidates'', JInt (int (length (rs_candidates st)))),
     (''errors'', JList (map (\<lambda>e. JObj [(''code'', JStr (re_code e)), (''frame_id'', JStr (re_frame_id e)), (''message'', JStr (str_error (re_error e)))]) (rs_errors st))),
     (''sampled_frame_ids'', JList (map JStr (rs_sampled st))), (''skipped_frame_ids'', JList (map JStr (rs_skipped st)))]"

definition replay_fixture_main ::
  "parsers \<Rightarrow> (error \<Rightarrow> string) \<Rightarrow> replay_env \<Rightarrow> (nat \<Rightarrow> uuid) \<Rightarrow> path \<Rightarrow> files \<Rightarrow> rat option \<Rightarrow> string \<Rightarrow> (dict \<times> int) result" where
  "replay_fixture_main pa str_error env uuid4 base fs fps manifest =
    rbind synthetic_camera (\<lambda>camera.
    rbind (worker_new camera base fps 0) (\<lambda>w.
    rbind (replay_source pa env w fs (Some (bus_publisher uuid4)) (Stored manifest) (bus_new ())) (\<lambda>st.
    ret (fixture_report str_error st, if rs_errors st = [] then 0 else 1))))"

section \<open>The qualification receipt\<close>

definition UNRUN_GATES :: "string list" where
  "UNRUN_GATES =
    [''GPU/DeepStream/Triton one-stream qualification'', ''20-camera 1080p capacity and p95 latency'',
     ''24-hour soak and restart/fault-isolation run'', ''PostgreSQL and external MQTT deployment smoke test'',
     ''Model provenance, sealed accuracy, and confusion-class evaluation'',
     ''Physical/site audio adapter and automatic-mode approval'']"

definition str_rstrip :: "string \<Rightarrow> string" where
  "str_rstrip s = rev (dropWhile py_space (rev s))"

definition qualification_lines :: "string \<Rightarrow> int \<Rightarrow> string \<Rightarrow> string \<Rightarrow> string list" where
  "qualification_lines now returncode out err =
    [''# INT-701 CPU qualification receipt'', [], ''Generated (UTC): '' @ now,
     ''CPU end-to-end gate: **'' @ (if returncode = 0 then ''PASS'' else ''FAIL'') @ ''**'', [], ''## Executed'', [],
     ''`uv run pytest tests/e2e -q`'', [], ''```text'', str_rstrip out, str_rstrip err, ''```'', [],
     ''The executed gate covers synthetic replay, metadata-only bus delivery, '' @
       ''deterministic cascade decision, SQLite append-only audit, shadow-mode '' @
       ''`would_announce`, fake-audio automatic policy, and operator review.'',
     [], ''## Explicitly unrun gates'', []] @
    map (\<lambda>item. ''- UNRUN: '' @ item) UNRUN_GATES @
    [[], ''## Conclusion'', [],
     ''This is an MVP-0 CPU/reference receipt. It is not evidence of '' @
       ''20-camera throughput, model quality, GPU compatibility, 24-hour '' @
       ''availability, or automatic public audio approval.'', []]"

text \<open>The printed lines, the file written (none under \<open>--check\<close>) and the exit code; \<open>today\<close> is the date of the default path.\<close>

fun join_lines :: "string list \<Rightarrow> string" where
  "join_lines [] = []"
| "join_lines [l] = l"
| "join_lines (l # ls) = l @ CHR 0x0A # join_lines ls"

definition qualify_main ::
  "string \<Rightarrow> string \<Rightarrow> (int \<times> string \<times> string) result \<Rightarrow> string option \<Rightarrow> bool \<Rightarrow> (string list \<times> (string \<times> string) option \<times> int) result" where
  "qualify_main today now completed output check =
    (let target = (case output of Some p \<Rightarrow> p | None \<Rightarrow> ''docs/dev_artifacts/qualification/'' @ today @ ''-int-701-cpu.md'') in
     rbind completed (\<lambda>(returncode, out, err).
       let receipt = join_lines (qualification_lines now returncode out err) in
       ret (if check then ([receipt, target], None, returncode) else ([target], Some (target, receipt), returncode))))"

text \<open>The receipt says PASS exactly when the tests pass, and names every gate that was not run.\<close>

lemma qualification_honest:
  "qualification_lines now returncode out err ! 3 = ''CPU end-to-end gate: **PASS**'' \<longleftrightarrow> returncode = 0"
  "\<forall>gate \<in> set UNRUN_GATES. ''- UNRUN: '' @ gate \<in> set (qualification_lines now returncode out err)"
  by (simp_all add: qualification_lines_def)

end
