(* ===== verification/Event_Metrics.thy ===== *)
theory Event_Metrics
  imports Float_Json
begin

text \<open>
  The event metrics of \<open>ml/evaluation/metrics.py\<close>: sessions, counts, rates and calibration bins.  The
  supported interpreters sum floats differently (3.12 compensates), so \<open>sum\<close> on floats is the argument \<open>fsum\<close>;
  the digest of a document is the argument \<open>digest\<close>.
\<close>

section \<open>Events\<close>

record EvaluationEvent =
  ee_event_id :: string
  ee_camera_id :: string
  ee_track_id :: string
  ee_true_label :: string
  ee_predicted_label :: string
  ee_score :: pyfloat
  ee_eligible :: bool
  ee_triggered :: "bool option"
  ee_latency_ms :: pyfloat
  ee_start_ns :: int
  ee_end_ns :: int

definition did_trigger :: "EvaluationEvent \<Rightarrow> bool" where
  "did_trigger e = (case ee_triggered e of Some b \<Rightarrow> b | None \<Rightarrow> ee_predicted_label e = ''smoking'')"

record CalibrationBin =
  cb_lower :: rat
  cb_upper :: rat
  cb_count :: nat
  cb_mean_score :: "pyfloat option"
  cb_empirical_rate :: "rat option"

definition bin_to_dict :: "CalibrationBin \<Rightarrow> json" where
  "bin_to_dict b = JObj [(''lower'', JFloat (cb_lower b)), (''upper'', JFloat (cb_upper b)), (''count'', JInt (int (cb_count b))),
     (''mean_score'', json_float (cb_mean_score b)), (''empirical_rate'', json_rat (cb_empirical_rate b))]"

record EventMetricReport =
  mr_total_events :: nat
  mr_eligible_events :: nat
  mr_excluded_events :: nat
  mr_true_positives :: nat
  mr_false_positives :: nat
  mr_false_negatives :: nat
  mr_precision :: "rat option"
  mr_recall :: "rat option"
  mr_f1 :: "rat option"
  mr_metric_state :: string
  mr_confusion_trigger_rates :: "(string \<times> rat option) list"
  mr_confusion_states :: "(string \<times> string) list"
  mr_calibration :: "CalibrationBin list"
  mr_mean_latency_ms :: "pyfloat option"

definition report_payload :: "EventMetricReport \<Rightarrow> dict" where
  "report_payload r =
    [(''total_events'', JInt (int (mr_total_events r))), (''eligible_events'', JInt (int (mr_eligible_events r))),
     (''excluded_events'', JInt (int (mr_excluded_events r))), (''true_positives'', JInt (int (mr_true_positives r))),
     (''false_positives'', JInt (int (mr_false_positives r))), (''false_negatives'', JInt (int (mr_false_negatives r))),
     (''precision'', json_rat (mr_precision r)), (''recall'', json_rat (mr_recall r)), (''f1'', json_rat (mr_f1 r)),
     (''metric_state'', JStr (mr_metric_state r)),
     (''confusion_trigger_rates'', JObj (map (\<lambda>(k, x). (k, json_rat x)) (sort_key fst (mr_confusion_trigger_rates r)))),
     (''confusion_states'', JObj (map (\<lambda>(k, x). (k, JStr x)) (sort_key fst (mr_confusion_states r)))),
     (''calibration'', JList (map bin_to_dict (mr_calibration r))),
     (''mean_latency_ms'', json_float (mr_mean_latency_ms r))]"

definition report_to_dict :: "(json \<Rightarrow> string) \<Rightarrow> EventMetricReport \<Rightarrow> dict" where
  "report_to_dict digest r = dset (report_payload r) ''report_sha256'' (JStr (digest (JObj (report_payload r))))"

section \<open>Sessions\<close>

definition session_key :: "EvaluationEvent \<Rightarrow> string \<times> string" where
  "session_key e = (ee_camera_id e, ee_track_id e)"

definition event_order :: "EvaluationEvent \<Rightarrow> (string \<times> string) \<times> int \<times> string" where
  "event_order e = (session_key e, ee_start_ns e, ee_event_id e)"

text \<open>\<open>event.end_ns or event.start_ns\<close>.\<close>

definition event_end :: "EvaluationEvent \<Rightarrow> int" where
  "event_end e = (if ee_end_ns e = 0 then ee_start_ns e else ee_end_ns e)"

text \<open>Python's \<open>max\<close> with a float key: the first element that no later one exceeds.\<close>

definition max_by :: "('a \<Rightarrow> pyfloat) \<Rightarrow> 'a \<Rightarrow> 'a list \<Rightarrow> 'a" where
  "max_by f x xs = fold (\<lambda>y best. if flt (f best) (f y) then y else best) xs x"

definition merge_events :: "EvaluationEvent list \<Rightarrow> EvaluationEvent" where
  "merge_events events =
    (let first = hd events; best = max_by ee_score first (tl events) in
     \<lparr>ee_event_id = ee_event_id first, ee_camera_id = ee_camera_id first, ee_track_id = ee_track_id first,
      ee_true_label = ee_true_label first, ee_predicted_label = ee_predicted_label best, ee_score = ee_score best,
      ee_eligible = list_all ee_eligible events, ee_triggered = Some (list_ex did_trigger events),
      ee_latency_ms = max_by (\<lambda>x. x) (ee_latency_ms first) (map ee_latency_ms (tl events)),
      ee_start_ns = fold min (map ee_start_ns (tl events)) (ee_start_ns first),
      ee_end_ns = fold max (map ee_end_ns (tl events)) (ee_end_ns first)\<rparr>)"

text \<open>The loop of \<open>aggregate_events\<close>, with the sessions it hands to \<open>_merge\<close>: \<open>current\<close>, \<open>key\<close> and
  \<open>previous_end\<close> are its variables.\<close>

fun sessions ::
  "int \<Rightarrow> EvaluationEvent list \<Rightarrow> (string \<times> string) option \<Rightarrow> int \<Rightarrow> EvaluationEvent list \<Rightarrow> EvaluationEvent list list" where
  "sessions gap_ms current key previous_end [] = (if current = [] then [] else [current])"
| "sessions gap_ms current key previous_end (e # es) =
    (if current \<noteq> [] \<and> (Some (session_key e) \<noteq> key \<or> gap_ms * 1000000 < ee_start_ns e - previous_end)
     then current # sessions gap_ms [e] (Some (session_key e)) (max previous_end (event_end e)) es
     else sessions gap_ms (current @ [e]) (Some (session_key e)) (max previous_end (event_end e)) es)"

definition aggregate_events :: "int \<Rightarrow> EvaluationEvent list \<Rightarrow> EvaluationEvent list result" where
  "aggregate_events gap_ms events =
    (if gap_ms < 0 then raise (ValueError ''gap_ms must be non-negative'')
     else ret (map merge_events (sessions gap_ms [] None (- 1) (sort_key event_order events))))"

section \<open>Metrics\<close>

definition NAMED_CLASSES :: "string list" where
  "NAMED_CLASSES = [''smoking'', ''betel_quid'', ''phone'', ''drink'', ''food'', ''nose_touch'', ''pen_toothpick'', ''steam'', ''vape'',
     ''heated_tobacco'', ''background'', ''unknown'']"

abbreviation count_if :: "('a \<Rightarrow> bool) \<Rightarrow> 'a list \<Rightarrow> nat" where
  "count_if P xs \<equiv> length (filter P xs)"

definition in_bin :: "nat \<Rightarrow> nat \<Rightarrow> EvaluationEvent \<Rightarrow> bool" where
  "in_bin bins index e \<longleftrightarrow> fle (Fin (ratio index bins)) (ee_score e) \<and> fle (ee_score e) (Fin 1) \<and>
     (index = bins - 1 \<or> flt (ee_score e) (Fin (ratio (index + 1) bins)))"

definition calibration_bin :: "(pyfloat list \<Rightarrow> pyfloat) \<Rightarrow> EvaluationEvent list \<Rightarrow> nat \<Rightarrow> nat \<Rightarrow> CalibrationBin" where
  "calibration_bin fsum events bins index =
    (let bucket = filter (in_bin bins index) events in
     \<lparr>cb_lower = ratio index bins, cb_upper = ratio (index + 1) bins, cb_count = length bucket,
      cb_mean_score = (if bucket = [] then None else Some (fdivn (fsum (map ee_score bucket)) (length bucket))),
      cb_empirical_rate = (if bucket = [] then None else Some (ratio (count_if did_trigger bucket) (length bucket)))\<rparr>)"

definition calibration :: "(pyfloat list \<Rightarrow> pyfloat) \<Rightarrow> EvaluationEvent list \<Rightarrow> int \<Rightarrow> CalibrationBin list result" where
  "calibration fsum events bins =
    (if bins \<le> 0 then raise (ValueError ''bins must be positive'')
     else ret (map (calibration_bin fsum events (nat bins)) [0..<nat bins]))"

text \<open>\<open>2 * precision * recall / (precision + recall)\<close>.\<close>

definition harmonic :: "rat \<Rightarrow> rat \<Rightarrow> rat" where
  "harmonic p r = fl (fl (fl (2 * p) * r) / fl (p + r))"

definition precision_of :: "nat \<Rightarrow> nat \<Rightarrow> rat option" where
  "precision_of tp fp = (if tp + fp = 0 then None else Some (ratio tp (tp + fp)))"

definition f1_of :: "rat option \<Rightarrow> rat option \<Rightarrow> rat option" where
  "f1_of precision recall = (case (precision, recall) of
     (Some p, Some r) \<Rightarrow> if fl (p + r) = 0 then None else Some (harmonic p r)
   | _ \<Rightarrow> None)"

definition is_smoking :: "EvaluationEvent \<Rightarrow> bool" where
  "is_smoking e \<longleftrightarrow> ee_true_label e = ''smoking''"

definition class_rate :: "EvaluationEvent list \<Rightarrow> string \<Rightarrow> rat option" where
  "class_rate eligible label =
    (let class_events = filter (\<lambda>e. ee_true_label e = label) eligible in
     if class_events = [] then None else Some (ratio (count_if did_trigger class_events) (length class_events)))"

definition class_state :: "EvaluationEvent list \<Rightarrow> string \<Rightarrow> string" where
  "class_state eligible label = (if filter (\<lambda>e. ee_true_label e = label) eligible = [] then ''not_applicable'' else ''ok'')"

definition evaluate_events ::
  "(pyfloat list \<Rightarrow> pyfloat) \<Rightarrow> string list \<Rightarrow> int \<Rightarrow> bool \<Rightarrow> EvaluationEvent list \<Rightarrow> EventMetricReport result" where
  "evaluate_events fsum confusion_classes calibration_bins aggregate events =
    rbind (if aggregate then aggregate_events 120000 events else ret events) (\<lambda>rows.
    let eligible = filter ee_eligible rows;
        positives = filter is_smoking eligible;
        tp = count_if (\<lambda>e. is_smoking e \<and> did_trigger e) eligible;
        fp = count_if (\<lambda>e. \<not> is_smoking e \<and> did_trigger e) eligible;
        fn = count_if (\<lambda>e. is_smoking e \<and> \<not> did_trigger e) eligible;
        precision = precision_of tp fp;
        recall = (if positives = [] then None else Some (ratio tp (tp + fn)))
    in rbind (calibration fsum eligible calibration_bins) (\<lambda>bins.
       ret \<lparr>mr_total_events = length rows, mr_eligible_events = length eligible,
         mr_excluded_events = length rows - length eligible, mr_true_positives = tp, mr_false_positives = fp,
         mr_false_negatives = fn, mr_precision = precision, mr_recall = recall, mr_f1 = f1_of precision recall,
         mr_metric_state = (if positives = [] then ''not_applicable'' else ''ok''),
         mr_confusion_trigger_rates = fold (\<lambda>l. AList.update l (class_rate eligible l)) confusion_classes [],
         mr_confusion_states = fold (\<lambda>l. AList.update l (class_state eligible l)) confusion_classes [],
         mr_calibration = bins,
         mr_mean_latency_ms = (if eligible = [] then None
           else Some (fdivn (fsum (map ee_latency_ms eligible)) (length eligible)))\<rparr>))"

section \<open>Sessions are complete and maximal\<close>

lemma concat_sessions: "concat (sessions g cur key prev es) = cur @ es"
  by (induction g cur key prev es rule: sessions.induct) auto

lemma sessions_nonempty: "s \<in> set (sessions g cur key prev es) \<Longrightarrow> s \<noteq> []"
  by (induction g cur key prev es rule: sessions.induct) (auto split: if_splits)

lemma sessions_uniform:
  "s \<in> set (sessions g cur key prev es) \<Longrightarrow> \<forall>a \<in> set cur. Some (session_key a) = key \<Longrightarrow>
    \<exists>k. \<forall>a \<in> set s. session_key a = k"
proof (induction g cur key prev es rule: sessions.induct)
  case (1 g cur key prev)
  then show ?case by (cases key) (auto split: if_splits)
next
  case (2 g cur key prev e es)
  show ?case
  proof (cases "cur \<noteq> [] \<and> (Some (session_key e) \<noteq> key \<or> g * 1000000 < ee_start_ns e - prev)")
    case True
    then consider "s = cur" | "s \<in> set (sessions g [e] (Some (session_key e)) (max prev (event_end e)) es)"
      using 2(3) by auto
    then show ?thesis
    proof cases
      case 1
      then show ?thesis using 2(4) by (cases key) auto
    next
      case r: 2
      show ?thesis using 2(1)[OF True r] by simp
    qed
  next
    case False
    have "\<forall>a \<in> set (cur @ [e]). Some (session_key a) = Some (session_key e)" using False 2(4) by force
    moreover have "s \<in> set (sessions g (cur @ [e]) (Some (session_key e)) (max prev (event_end e)) es)" using False 2(3) by auto
    ultimately show ?thesis using 2(2)[OF False] by blast
  qed
qed

definition separated :: "int \<Rightarrow> EvaluationEvent list \<Rightarrow> EvaluationEvent list \<Rightarrow> bool" where
  "separated gap_ms s t \<longleftrightarrow> (\<forall>a \<in> set s. \<forall>b \<in> set t.
     session_key a = session_key b \<longrightarrow> gap_ms * 1000000 < ee_start_ns b - event_end a)"

lemma event_order_le:
  "event_order a \<le> event_order b \<Longrightarrow>
    session_key a \<le> session_key b \<and> (session_key a = session_key b \<longrightarrow> ee_start_ns a \<le> ee_start_ns b)"
  by (auto simp: event_order_def)

lemma sessions_separated:
  assumes "sorted (map event_order (cur @ es))"
    and "\<forall>a \<in> set cur. event_end a \<le> prev \<and> Some (session_key a) = key"
  shows "sorted_wrt (separated g) (sessions g cur key prev es)"
  using assms
proof (induction g cur key prev es rule: sessions.induct)
  case (2 g cur key prev e es)
  note srt = 2(3) and cur = 2(4)
  show ?case
  proof (cases "cur \<noteq> [] \<and> (Some (session_key e) \<noteq> key \<or> g * 1000000 < ee_start_ns e - prev)")
    case True
    have "sorted_wrt (separated g) (sessions g [e] (Some (session_key e)) (max prev (event_end e)) es)"
      using 2(1)[OF True] srt by (simp add: sorted_append)
    moreover have "separated g cur t" if t: "t \<in> set (sessions g [e] (Some (session_key e)) (max prev (event_end e)) es)" for t
      unfolding separated_def
    proof (intro ballI impI)
      fix a b assume a: "a \<in> set cur" and b: "b \<in> set t" and k: "session_key a = session_key b"
      have "b \<in> set (e # es)" using b t concat_sessions[of g "[e]"] by (metis UN_I append_Cons append_Nil set_concat)
      then have eb: "event_order e \<le> event_order b" and ae: "event_order a \<le> event_order e"
        using srt a by (auto simp: sorted_append)
      then have "session_key e = session_key a" using k event_order_le[of e b] event_order_le[of a e] by (auto intro: order_antisym)
      then have "g * 1000000 < ee_start_ns e - prev" "ee_start_ns e \<le> ee_start_ns b"
        using True cur a k event_order_le[OF eb] by auto
      then show "g * 1000000 < ee_start_ns b - event_end a" using cur a by fastforce
    qed
    ultimately show ?thesis using True by simp
  next
    case False
    have "\<forall>a \<in> set (cur @ [e]). event_end a \<le> max prev (event_end e) \<and> Some (session_key a) = Some (session_key e)"
      using cur False by (auto simp: le_max_iff_disj)
    then show ?thesis using 2(2)[OF False] srt False by auto
  qed
qed auto


definition sample_event :: "string \<Rightarrow> string \<Rightarrow> int \<Rightarrow> int \<Rightarrow> EvaluationEvent" where
  "sample_event eid track start stop = \<lparr>ee_event_id = eid, ee_camera_id = ''cam'', ee_track_id = track, ee_true_label = ''smoking'',
     ee_predicted_label = ''smoking'', ee_score = Fin 1, ee_eligible = True, ee_triggered = None, ee_latency_ms = Fin 0,
     ee_start_ns = start, ee_end_ns = stop\<rparr>"


text \<open>The other direction fails: \<open>previous_end\<close> is carried from one track to the next, so two sightings of one track
  an hour apart are one event after a longer track of the same camera, and two events without it.\<close>

lemma gap_is_measured_across_tracks:
  "map length (sessions 120000 [] None (- 1) (sort_key event_order
     [sample_event ''a'' ''t1'' 1 7200000000000, sample_event ''b'' ''t2'' 1 2, sample_event ''c'' ''t2'' 3600000000000 0])) = [1, 2]"
  "map length (sessions 120000 [] None (- 1) (sort_key event_order
     [sample_event ''b'' ''t2'' 1 2, sample_event ''c'' ''t2'' 3600000000000 0])) = [1, 1]"
  by code_simp+

section \<open>Counts, rates and bins\<close>

lemma count_split: "count_if P xs = count_if (\<lambda>x. P x \<and> Q x) xs + count_if (\<lambda>x. P x \<and> \<not> Q x) xs"
  by (induction xs) auto

lemma harmonic_unit:
  assumes p: "0 \<le> p" "p \<le> 1" "rnd p = p" and r: "0 \<le> r" "r \<le> 1"
  shows "0 \<le> harmonic p r \<and> harmonic p r \<le> 1"
proof -
  have d: "fl (2 * p) = 2 * p" using rnd_double[of p] p by (simp add: fl_small)
  have pr: "p * r \<le> p" "p * r \<le> r" using p r by (simp_all add: mult_left_le mult_left_le_one_le)
  have "2 * p * r \<le> p + r" "0 \<le> 2 * p * r" using pr p r by simp_all
  from rnd_mono[OF this(1)] rnd_nonneg[OF this(2)]
  have n: "0 \<le> rnd (2 * p * r)" "rnd (2 * p * r) \<le> rnd (p + r)" by simp_all
  have "fl (fl (2 * p) * r) = rnd (2 * p * r)" using d pr p r by (intro trans[OF fl_small]) auto
  moreover have "fl (p + r) = rnd (p + r)" using p r by (intro fl_small) simp
  moreover have "0 \<le> rnd (2 * p * r) / rnd (p + r)" "rnd (2 * p * r) / rnd (p + r) \<le> 1"
    using n by (cases "rnd (p + r) = 0"; simp add: divide_le_eq)+
  ultimately show ?thesis
    using rnd_unit[of "rnd (2 * p * r) / rnd (p + r)"] by (simp add: harmonic_def fl_small)
qed

lemma ratio_float: "m \<le> n \<Longrightarrow> rnd (ratio m n) = ratio m n"
proof -
  assume "m \<le> n"
  then have "\<bar>of_nat m / of_nat n :: rat\<bar> \<le> 2 ^ 100" by (simp add: divide_le_eq)
  then show ?thesis by (simp add: ratio_def fl_small)
qed

abbreviation unit_or_none :: "rat option \<Rightarrow> bool" where
  "unit_or_none x \<equiv> (\<forall>v \<in> set_option x. 0 \<le> v \<and> v \<le> 1)"

lemma class_rate_unit: "unit_or_none (class_rate eligible label)"
  using ratio_unit[OF length_filter_le[of did_trigger]] by (simp add: class_rate_def Let_def del: filter_filter)

lemma update_fold_values:
  "(k, v) \<in> set (fold (\<lambda>l. AList.update l (f l)) ls al) \<Longrightarrow> (k, v) \<in> set al \<or> v = f k"
proof (induction ls arbitrary: al)
  case (Cons l ls)
  have "(k, v) \<in> set (AList.update l (f l) al) \<Longrightarrow> (k, v) \<in> set al \<or> v = f k"
    by (induction al) (auto split: if_splits)
  then show ?case using Cons by fastforce
qed simp

text \<open>The fields of a report in terms of the rows it evaluates.\<close>

lemma evaluate_events_fields:
  assumes "evaluate_events fsum classes bins agg events = Inr r"
    and "(if agg then aggregate_events 120000 events else ret events) = Inr rows"
  shows "mr_total_events r = length rows" "mr_eligible_events r = count_if ee_eligible rows"
    "mr_excluded_events r = length rows - count_if ee_eligible rows"
    "mr_true_positives r = count_if (\<lambda>e. is_smoking e \<and> did_trigger e) (filter ee_eligible rows)"
    "mr_false_positives r = count_if (\<lambda>e. \<not> is_smoking e \<and> did_trigger e) (filter ee_eligible rows)"
    "mr_false_negatives r = count_if (\<lambda>e. is_smoking e \<and> \<not> did_trigger e) (filter ee_eligible rows)"
    "mr_precision r = precision_of (mr_true_positives r) (mr_false_positives r)"
    "mr_recall r = (if filter is_smoking (filter ee_eligible rows) = [] then None
       else Some (ratio (mr_true_positives r) (mr_true_positives r + mr_false_negatives r)))"
    "mr_f1 r = f1_of (mr_precision r) (mr_recall r)"
    "mr_metric_state r = (if filter is_smoking (filter ee_eligible rows) = [] then ''not_applicable'' else ''ok'')"
    "mr_confusion_trigger_rates r = fold (\<lambda>l. AList.update l (class_rate (filter ee_eligible rows) l)) classes []"
  using assms by (auto simp: evaluate_events_def rbind_Inr Let_def simp del: filter_filter)

text \<open>A report is consistent: events are eligible or excluded, every eligible positive is a true
  positive or a false negative, precision exists exactly when something was triggered and recall exactly when there are
  positives, and precision, recall, F1 and the trigger rate of every class lie between 0 and 1 in binary64 arithmetic.\<close>

theorem metric_report_consistent:
  assumes "evaluate_events fsum classes bins agg events = Inr r"
  shows "mr_total_events r = mr_eligible_events r + mr_excluded_events r \<and>
    (mr_precision r = None \<longleftrightarrow> mr_true_positives r + mr_false_positives r = 0) \<and>
    (mr_recall r = None \<longleftrightarrow> mr_true_positives r + mr_false_negatives r = 0) \<and>
    (mr_metric_state r = ''ok'' \<longleftrightarrow> mr_recall r \<noteq> None) \<and>
    mr_true_positives r + mr_false_positives r + mr_false_negatives r \<le> mr_eligible_events r \<and>
    unit_or_none (mr_precision r) \<and> unit_or_none (mr_recall r) \<and> unit_or_none (mr_f1 r) \<and>
    (\<forall>(k, rate) \<in> set (mr_confusion_trigger_rates r). unit_or_none rate)"
proof -
  obtain rows where rows: "(if agg then aggregate_events 120000 events else ret events) = Inr rows"
    using assms by (auto simp: evaluate_events_def rbind_Inr)
  define el where "el = filter ee_eligible rows"
  define tp where "tp = count_if (\<lambda>e. is_smoking e \<and> did_trigger e) el"
  define fp where "fp = count_if (\<lambda>e. \<not> is_smoking e \<and> did_trigger e) el"
  define fn where "fn = count_if (\<lambda>e. is_smoking e \<and> \<not> did_trigger e) el"
  define precision where "precision = precision_of tp fp"
  define recall where "recall = (if filter is_smoking el = [] then None else Some (ratio tp (tp + fn)))"
  note r = evaluate_events_fields[OF assms rows, folded el_def, folded tp_def fp_def fn_def]
  have r': "mr_precision r = precision" "mr_recall r = recall" "mr_f1 r = f1_of precision recall"
    using r by (simp_all add: precision_def recall_def)
  have pos: "count_if is_smoking el = tp + fn" unfolding tp_def fn_def by (rule count_split)
  have "count_if (\<lambda>e. \<not> is_smoking e) el = fp + count_if (\<lambda>e. \<not> is_smoking e \<and> \<not> did_trigger e) el"
    unfolding fp_def by (rule count_split)
  then have sum: "tp + fp + fn \<le> length el" using pos sum_length_filter_compl[of is_smoking el] by linarith
  have p: "unit_or_none precision" "\<forall>v \<in> set_option precision. rnd v = v"
    using ratio_unit[of tp "tp + fp"] ratio_float[of tp "tp + fp"] by (auto simp: precision_def precision_of_def)
  have rc: "unit_or_none recall" using ratio_unit[of tp "tp + fn"] by (auto simp: recall_def)
  have f1: "unit_or_none (f1_of precision recall)"
    using p rc harmonic_unit by (auto simp: f1_of_def split: option.splits if_splits)
  have rates: "\<forall>(k, rate) \<in> set (mr_confusion_trigger_rates r). unit_or_none rate"
    using update_fold_values[of _ _ "class_rate el" classes "[]"] class_rate_unit by (fastforce simp: r(11))
  have "filter is_smoking el = [] \<longleftrightarrow> tp + fn = 0" using pos by (metis length_0_conv)
  then show ?thesis
    using p(1) rc f1 rates sum length_filter_le[of ee_eligible rows]
    by (auto simp: r(1-6,10) r' recall_def precision_def precision_of_def el_def)
qed

theorem metric_report_consistent_witness:
  "\<exists>r. evaluate_events (\<lambda>xs. Fin (of_nat (length xs))) (take 9 (tl NAMED_CLASSES)) 10 True [sample_event ''a'' ''t'' 1 2] = Inr r \<and>
    mr_total_events r = mr_eligible_events r + mr_excluded_events r \<and> mr_precision r \<noteq> None \<and> unit_or_none (mr_f1 r)"
proof -
  let ?x = "evaluate_events (\<lambda>xs. Fin (of_nat (length xs))) (take 9 (tl NAMED_CLASSES)) 10 True [sample_event ''a'' ''t'' 1 2]"
  obtain r where r: "?x = Inr r" "mr_true_positives r = 1"
    by (simp add: evaluate_events_def aggregate_events_def calibration_def merge_events_def Let_def sample_event_def is_smoking_def
        did_trigger_def max_by_def del: upt_rec_numeral)
  from metric_report_consistent[OF r(1)] r show ?thesis by auto
qed

text \<open>The boundaries of the bins increase from 0 to 1, so a score lies in exactly one bin.\<close>

lemma ratio_mono: "i \<le> j \<Longrightarrow> j \<le> n \<Longrightarrow> ratio i n \<le> ratio j n"
proof -
  assume ij: "i \<le> j" "j \<le> n"
  have b: "\<bar>of_nat k / of_nat n :: rat\<bar> \<le> 2 ^ 100" if "k \<le> n" for k using that by (simp add: divide_le_eq)
  have "of_nat i / of_nat n \<le> (of_nat j / of_nat n :: rat)" using ij by (simp add: divide_right_mono)
  then show ?thesis using rnd_mono b ij by (simp add: ratio_def fl_small)
qed

lemma ratio_ends: "ratio 0 n = 0" "0 < n \<Longrightarrow> ratio n n = 1"
  by (simp_all add: ratio_def fl_small)

lemma in_one_bin:
  assumes "0 < n" and "0 \<le> x" and "x \<le> 1" and "ee_score e = Fin x"
  shows "\<exists>!i. i < n \<and> in_bin n i e"
proof -
  define i where "i = Max {i. i < n \<and> ratio i n \<le> x}"
  have ne: "0 \<in> {i. i < n \<and> ratio i n \<le> x}" using assms by (simp add: ratio_ends)
  have "i \<in> {i. i < n \<and> ratio i n \<le> x}" unfolding i_def using ne by (intro Max_in) auto
  then have i: "i < n" "ratio i n \<le> x" by simp_all
  have top: "j \<le> i" if "j < n" "ratio j n \<le> x" for j
    using that Max_ge[of "{i. i < n \<and> ratio i n \<le> x}" j] by (simp add: i_def)
  have bin: "in_bin n j e \<longleftrightarrow> ratio j n \<le> x \<and> (j = n - 1 \<or> x < ratio (j + 1) n)" for j
    using assms by (simp add: in_bin_def)
  show ?thesis
  proof (rule ex1I[of _ i])
    show "i < n \<and> in_bin n i e" using i top[of "i + 1"] by (fastforce simp: bin)
    fix j assume j: "j < n \<and> in_bin n j e"
    show "j = i"
    proof (rule ccontr)
      assume "j \<noteq> i"
      then have "j < i" using top[of j] j by (fastforce simp: bin)
      then have "ratio (j + 1) n \<le> ratio i n" using i(1) by (intro ratio_mono) auto
      then show False using j i \<open>j < i\<close> by (auto simp: bin)
    qed
  qed
qed

definition binned :: "EvaluationEvent \<Rightarrow> bool" where
  "binned e \<longleftrightarrow> fle (Fin 0) (ee_score e) \<and> fle (ee_score e) (Fin 1)"

lemma bins_of_event:
  assumes "0 < n"
  shows "count_if (\<lambda>i. in_bin n i e) [0..<n] = (if binned e then 1 else 0)"
proof (cases "binned e")
  case True
  then obtain x where "ee_score e = Fin x" "0 \<le> x" "x \<le> 1" by (cases "ee_score e") (auto simp: binned_def)
  from in_one_bin[OF assms this(2,3,1)] obtain i where "i < n \<and> in_bin n i e"
    and "\<And>j. j < n \<and> in_bin n j e \<Longrightarrow> j = i" by blast
  then have "{i. i < n \<and> in_bin n i e} = {i}" by blast
  then have "card {i. i < n \<and> in_bin n i e} = 1" by simp
  moreover have "count_if (\<lambda>i. in_bin n i e) [0..<n] = card {i. i < n \<and> in_bin n i e}"
    by (subst distinct_card[symmetric]) (auto intro: arg_cong[where f = card])
  ultimately show ?thesis using True by simp
next
  case False
  have "\<not> in_bin n i e" if "i < n" for i
    using False ratio_unit(1)[of i n] that by (cases "ee_score e") (auto simp: in_bin_def binned_def)
  then show ?thesis using False by simp
qed

lemma bins_count:
  assumes "0 < n"
  shows "sum_list (map (\<lambda>i. count_if (in_bin n i) es) [0..<n]) = count_if binned es"
proof (induction es)
  case (Cons e es)
  have "sum_list (map (\<lambda>i. count_if (in_bin n i) (e # es)) is) =
    count_if (\<lambda>i. in_bin n i e) is + sum_list (map (\<lambda>i. count_if (in_bin n i) es) is)" for "is"
    by (induction "is") auto
  then show ?case using Cons bins_of_event[OF assms, of e] by simp
qed simp

text \<open>The calibration bins partition the scores: their boundaries run from 0 to 1 without a gap, a score between 0 and
  1 is in exactly one of them, and their counts add up to the number of such scores.\<close>

theorem calibration_bins_partition:
  assumes "calibration fsum events bins = Inr bs"
  shows "int (length bs) = bins \<and> bins > 0 \<and> cb_lower (hd bs) = 0 \<and> cb_upper (last bs) = 1 \<and>
    successively (\<lambda>b c. cb_upper b = cb_lower c) bs \<and>
    sum_list (map cb_count bs) = count_if binned events \<and>
    (\<forall>e. binned e \<longrightarrow> (\<exists>!i. i < nat bins \<and> in_bin (nat bins) i e))"
proof -
  have b: "0 < bins" and bs: "bs = map (calibration_bin fsum events (nat bins)) [0..<nat bins]"
    using assms by (auto simp: calibration_def split: if_splits)
  have hd: "hd [0..<nat bins] = 0" "last [0..<nat bins] = nat bins - 1" "[0..<nat bins] \<noteq> []" using b by simp_all
  have "sum_list (map cb_count bs) = count_if binned events"
    using bins_count[of "nat bins" events] b by (simp add: bs calibration_bin_def Let_def o_def)
  moreover have "cb_lower (hd bs) = 0" "cb_upper (last bs) = 1"
    using hd b by (simp_all add: bs hd_map last_map calibration_bin_def Let_def ratio_ends)
  moreover have "successively (\<lambda>b c. cb_upper b = cb_lower c) bs"
    by (auto simp: bs successively_conv_nth calibration_bin_def Let_def)
  moreover have "\<exists>!i. i < nat bins \<and> in_bin (nat bins) i e" if e: "binned e" for e
  proof -
    obtain x where "ee_score e = Fin x" "0 \<le> x" "x \<le> 1" using e by (cases "ee_score e") (auto simp: binned_def)
    then show ?thesis using in_one_bin[of "nat bins" x e] b by simp
  qed
  ultimately show ?thesis using b by (simp add: bs)
qed

theorem calibration_bins_partition_witness:
  "\<exists>bs. calibration (\<lambda>xs. Fin 1) [sample_event ''a'' ''t'' 1 2] 4 = Inr bs \<and> length bs = 4 \<and> sum_list (map cb_count bs) = 1"
proof -
  obtain bs where bs: "calibration (\<lambda>xs. Fin 1) [sample_event ''a'' ''t'' 1 2] 4 = Inr bs" by (simp add: calibration_def)
  from calibration_bins_partition[OF this] bs show ?thesis by (auto simp: binned_def sample_event_def)
qed

end
