(* ===== verification/Ablation.thy ===== *)
theory Ablation
  imports Event_Metrics Contracts
begin

text \<open>
  Calibration and ablation, \<open>ml/evaluation/ablation.py\<close>: Wilson intervals, the choice of a threshold, the
  evaluation of profiles with and without the vision-language model, and their reports.  Numbers are binary64
  as in \<open>Floats\<close>; counts are far below the largest float.
\<close>

section \<open>Intervals\<close>

record ConfidenceInterval =
  ci_estimate :: "rat option"
  ci_lower :: "rat option"
  ci_upper :: "rat option"
  ci_level :: rat
  ci_method :: string

definition interval_to_dict :: "ConfidenceInterval \<Rightarrow> json" where
  "interval_to_dict c = JObj [(''estimate'', json_rat (ci_estimate c)), (''lower'', json_rat (ci_lower c)),
     (''upper'', json_rat (ci_upper c)), (''level'', JFloat (ci_level c)), (''method'', JStr (ci_method c))]"

text \<open>\<open>math.sqrt\<close>, correctly rounded: the integer square root on a grid of at least 53 bits, and the nearer
  neighbour.\<close>

fun isqrt :: "nat \<Rightarrow> nat" where
  "isqrt n = (if n = 0 then 0 else let r = 2 * isqrt (n div 4) in if (r + 1) * (r + 1) \<le> n then r + 1 else r)"

declare isqrt.simps [simp del]

definition fsqrt :: "rat \<Rightarrow> rat" where
  "fsqrt x = (if x \<le> 0 then 0 else
     let e = exponent_of x div 2 - 52; r = x / pow2 (2 * e); k = isqrt (nat \<lfloor>r\<rfloor>);
         h = of_nat k + 1 / 2
     in of_nat (if h * h < r \<or> h * h = r \<and> odd k then k + 1 else k) * pow2 e)"

text \<open>\<open>math.isclose\<close> with its default tolerances.\<close>

definition isclose :: "rat \<Rightarrow> rat \<Rightarrow> bool" where
  "isclose a b \<longleftrightarrow> a = b \<or> (let diff = fl \<bar>b - a\<bar>; rel = fl (1 / 10 ^ 9) in
     diff \<le> \<bar>fl (rel * b)\<bar> \<or> diff \<le> \<bar>fl (rel * a)\<bar> \<or> diff \<le> 0)"

definition quantiles :: "(rat \<times> rat) list" where
  "quantiles = [(fl (90 / 100), fl (16448536269514722 / 10 ^ 16)), (fl (95 / 100), fl (1959963984540054 / 10 ^ 15)),
     (fl (99 / 100), fl (25758293035489004 / 10 ^ 16))]"

definition wilson :: "rat \<Rightarrow> nat \<Rightarrow> nat \<Rightarrow> rat \<Rightarrow> ConfidenceInterval" where
  "wilson z successes trials level =
    (let estimate = ratio successes trials;
         denominator = fl (1 + fl (fl (z * z) / fl (of_nat trials)));
         centre = fl (fl (estimate + fl (fl (z * z) / fl (of_nat (2 * trials)))) / denominator);
         margin = fl (fl (z * fsqrt (fl (fl (fl (estimate * fl (1 - estimate)) / fl (of_nat trials)) +
           fl (fl (z * z) / fl (of_nat (4 * trials * trials)))))) / denominator)
     in \<lparr>ci_estimate = Some estimate, ci_lower = Some (max 0 (fl (centre - margin))),
         ci_upper = Some (min 1 (fl (centre + margin))), ci_level = level, ci_method = ''wilson''\<rparr>)"

definition no_interval :: "rat \<Rightarrow> ConfidenceInterval" where
  "no_interval level = \<lparr>ci_estimate = None, ci_lower = None, ci_upper = None, ci_level = level, ci_method = ''wilson''\<rparr>"

definition proportion_interval :: "int \<Rightarrow> int \<Rightarrow> rat \<Rightarrow> ConfidenceInterval result" where
  "proportion_interval successes trials level =
    (if trials < 0 \<or> successes < 0 \<or> trials < successes then raise (ValueError ''successes must be between zero and trials'')
     else if \<not> (0 < level \<and> level < 1) then raise (ValueError ''level must be between zero and one'')
     else if trials = 0 then ret (no_interval level)
     else (case find (\<lambda>(key, value). isclose level key) quantiles of
       None \<Rightarrow> raise (ValueError ''level must be one of 0.90, 0.95, or 0.99'')
     | Some (key, z) \<Rightarrow> ret (wilson z (nat successes) (nat trials) level)))"

section \<open>Threshold calibration\<close>

record CalibrationResult =
  cr_threshold :: rat
  cr_method :: string
  cr_source_event_count :: nat
  cr_source_digest :: string
  cr_target_precision :: "pyfloat option"
  cr_calibration_state :: string

definition calibration_to_dict :: "CalibrationResult \<Rightarrow> json" where
  "calibration_to_dict c = JObj [(''threshold'', JFloat (cr_threshold c)), (''method'', JStr (cr_method c)),
     (''source_event_count'', JInt (int (cr_source_event_count c))), (''source_digest'', JStr (cr_source_digest c)),
     (''target_precision'', json_float (cr_target_precision c)), (''calibration_state'', JStr (cr_calibration_state c))]"

text \<open>\<open>round(c / 100, 2)\<close> is the float nearest to the decimal.\<close>

definition DEFAULT_CANDIDATES :: "pyfloat list" where
  "DEFAULT_CANDIDATES = map (\<lambda>c. Fin (ratio c 100)) [0..<101]"

definition event_row :: "EvaluationEvent \<Rightarrow> json" where
  "event_row e = JObj [(''event_id'', JStr (ee_event_id e)), (''camera_id'', JStr (ee_camera_id e)),
     (''track_id'', JStr (ee_track_id e)), (''true_label'', JStr (ee_true_label e)),
     (''predicted_label'', JStr (ee_predicted_label e)), (''score'', json_float (Some (ee_score e))),
     (''eligible'', JBool (ee_eligible e))]"

definition event_digest :: "(json \<Rightarrow> string) \<Rightarrow> EvaluationEvent list \<Rightarrow> string" where
  "event_digest digest events = digest (JList (map event_row (sort_key ee_event_id events)))"

text \<open>The precision and F1 of a threshold on the calibration rows.\<close>

definition selected_tp :: "EvaluationEvent list \<Rightarrow> rat \<Rightarrow> nat" where
  "selected_tp rows t = count_if (\<lambda>e. fle (Fin t) (ee_score e) \<and> is_smoking e) rows"

definition selected_fp :: "EvaluationEvent list \<Rightarrow> rat \<Rightarrow> nat" where
  "selected_fp rows t = count_if (\<lambda>e. fle (Fin t) (ee_score e) \<and> \<not> is_smoking e) rows"

definition threshold_precision :: "EvaluationEvent list \<Rightarrow> rat \<Rightarrow> rat" where
  "threshold_precision rows t =
    (let tp = selected_tp rows t; fp = selected_fp rows t in if tp + fp = 0 then 0 else ratio tp (tp + fp))"

definition threshold_f1 :: "EvaluationEvent list \<Rightarrow> rat \<Rightarrow> rat" where
  "threshold_f1 rows t =
    (let precision = threshold_precision rows t;
         positives = count_if is_smoking rows;
         recall = (if positives = 0 then 0 else ratio (selected_tp rows t) positives)
     in if fl (precision + recall) = 0 then 0 else harmonic precision recall)"

definition threshold_rank :: "EvaluationEvent list \<Rightarrow> rat \<Rightarrow> rat \<times> rat \<times> rat" where
  "threshold_rank rows t = (threshold_f1 rows t, threshold_precision rows t, - t)"

definition meets_target :: "EvaluationEvent list \<Rightarrow> pyfloat option \<Rightarrow> rat \<Rightarrow> bool" where
  "meets_target rows target t \<longleftrightarrow> (case target of None \<Rightarrow> True | Some p \<Rightarrow> \<not> flt (Fin (threshold_precision rows t)) p)"

definition better :: "EvaluationEvent list \<Rightarrow> pyfloat option \<Rightarrow> rat \<Rightarrow> (rat \<times> rat \<times> rat) option \<Rightarrow> (rat \<times> rat \<times> rat) option" where
  "better rows target t best =
    (if \<not> meets_target rows target t then best
     else (case best of
       None \<Rightarrow> Some (threshold_rank rows t)
     | Some b \<Rightarrow> if b < threshold_rank rows t then Some (threshold_rank rows t) else best))"

definition float_value :: "pyfloat \<Rightarrow> rat" where
  "float_value x = (case x of Fin v \<Rightarrow> v | _ \<Rightarrow> 0)"

definition calibrate_threshold ::
  "(json \<Rightarrow> string) \<Rightarrow> pyfloat option \<Rightarrow> pyfloat list \<Rightarrow> EvaluationEvent list \<Rightarrow> CalibrationResult result" where
  "calibrate_threshold digest target candidates rows =
    (if candidates = [] \<or> list_ex (\<lambda>v. \<not> (fle (Fin 0) v \<and> fle v (Fin 1))) candidates
     then raise (ValueError ''candidates must contain scores in [0, 1]'')
     else
       (let ordered = sort (remdups (map float_value candidates)); d = event_digest digest rows in
        if rows = [] then ret \<lparr>cr_threshold = 1 / 2, cr_method = ''f1'', cr_source_event_count = 0, cr_source_digest = d,
          cr_target_precision = target, cr_calibration_state = ''not_applicable''\<rparr>
        else (case fold (better rows target) ordered None of
          None \<Rightarrow> ret \<lparr>cr_threshold = last ordered, cr_method = ''target_precision'', cr_source_event_count = length rows,
            cr_source_digest = d, cr_target_precision = target, cr_calibration_state = ''target_unmet''\<rparr>
        | Some (f1, precision, minus_threshold) \<Rightarrow> ret \<lparr>cr_threshold = - minus_threshold,
            cr_method = (if target \<noteq> None then ''target_precision'' else ''f1''), cr_source_event_count = length rows,
            cr_source_digest = d, cr_target_precision = target, cr_calibration_state = ''ok''\<rparr>)))"

section \<open>Profiles and sealed events\<close>

datatype CropStrategy = FULL_FRAME | PERSON | HEAD_SHOULDER | HAND_FACE

fun crop_value :: "CropStrategy \<Rightarrow> string" where
  "crop_value FULL_FRAME = ''full_frame''"
| "crop_value PERSON = ''person_crop''"
| "crop_value HEAD_SHOULDER = ''head_shoulder_crop''"
| "crop_value HAND_FACE = ''hand_face_crop''"

datatype VLMStatus = VLM_DISABLED | VLM_OK | VLM_TIMEOUT | VLM_MALFORMED | VLM_UNCLEAR

record AblationEvent =
  ae_event :: EvaluationEvent
  ae_vlm_label :: "string option"
  ae_vlm_score :: "pyfloat option"
  ae_vlm_status :: VLMStatus
  ae_vlm_revision :: "string option"

definition AblationEvent_new :: "AblationEvent \<Rightarrow> AblationEvent result" where
  "AblationEvent_new a =
    (if (case ae_vlm_score a of None \<Rightarrow> False | Some v \<Rightarrow> \<not> (fle (Fin 0) v \<and> fle v (Fin 1)))
     then raise (ValueError ''vlm_score must be in [0, 1]'')
     else if ae_vlm_status a = VLM_OK \<and> ae_vlm_label a = None
     then raise (ValueError ''successful VLM evidence requires a label'')
     else ret a)"

record AblationConfig =
  ac_profile_id :: string
  ac_crop_strategy :: CropStrategy
  ac_use_vlm :: bool
  ac_threshold :: rat
  ac_vlm_revision :: "string option"
  ac_calibration :: "CalibrationResult option"

definition AblationConfig_new :: "AblationConfig \<Rightarrow> AblationConfig result" where
  "AblationConfig_new c =
    (if str_strip (ac_profile_id c) = [] then raise (ValueError ''profile_id must not be empty'')
     else if \<not> (0 \<le> ac_threshold c \<and> ac_threshold c \<le> 1) then raise (ValueError ''threshold must be in [0, 1]'')
     else if ac_use_vlm c \<and> ac_vlm_revision c \<in> {None, Some []} then raise (ValueError ''VLM profiles require a revision'')
     else ret c)"

record MetricIntervals =
  mi_precision :: ConfidenceInterval
  mi_recall :: ConfidenceInterval
  mi_f1 :: ConfidenceInterval

definition intervals_to_dict :: "MetricIntervals \<Rightarrow> json" where
  "intervals_to_dict m = JObj [(''precision'', interval_to_dict (mi_precision m)), (''recall'', interval_to_dict (mi_recall m)),
     (''f1'', interval_to_dict (mi_f1 m))]"

definition harmonic_or_zero :: "rat \<Rightarrow> rat \<Rightarrow> rat" where
  "harmonic_or_zero p r = (if fl (p + r) = 0 then 0 else harmonic p r)"

definition report_intervals :: "EventMetricReport \<Rightarrow> rat \<Rightarrow> MetricIntervals result" where
  "report_intervals r level =
    rbind (proportion_interval (int (mr_true_positives r)) (int (mr_true_positives r + mr_false_positives r)) level) (\<lambda>precision.
    rbind (proportion_interval (int (mr_true_positives r)) (int (mr_true_positives r + mr_false_negatives r)) level) (\<lambda>recall.
    ret \<lparr>mi_precision = precision, mi_recall = recall, mi_f1 =
      (case (ci_lower precision, ci_upper precision, ci_lower recall, ci_upper recall) of
        (Some pl, Some pu, Some rl, Some ru) \<Rightarrow>
          \<lparr>ci_estimate = mr_f1 r, ci_lower = Some (harmonic_or_zero pl rl), ci_upper = Some (harmonic_or_zero pu ru),
           ci_level = level, ci_method = ''wilson''\<rparr>
      | _ \<Rightarrow> no_interval level)\<rparr>))"

section \<open>Ablation\<close>

record AblationResult =
  ar_config :: AblationConfig
  ar_report :: EventMetricReport
  ar_intervals :: MetricIntervals
  ar_sealed_event_ids :: "string list"
  ar_source_digest :: string

definition result_payload :: "(json \<Rightarrow> string) \<Rightarrow> AblationResult \<Rightarrow> dict" where
  "result_payload digest a =
    [(''profile_id'', JStr (ac_profile_id (ar_config a))), (''crop_strategy'', JStr (crop_value (ac_crop_strategy (ar_config a)))),
     (''use_vlm'', JBool (ac_use_vlm (ar_config a))), (''threshold'', JFloat (ac_threshold (ar_config a))),
     (''vlm_revision'', json_opt (ac_vlm_revision (ar_config a))), (''report'', JObj (report_to_dict digest (ar_report a))),
     (''confidence_intervals'', intervals_to_dict (ar_intervals a)),
     (''sealed_event_ids'', JList (map JStr (ar_sealed_event_ids a))), (''source_digest'', JStr (ar_source_digest a))]"

definition result_to_dict :: "(json \<Rightarrow> string) \<Rightarrow> AblationResult \<Rightarrow> dict" where
  "result_to_dict digest a = dset (result_payload digest a) ''result_sha256'' (JStr (digest (JObj (result_payload digest a))))"

record AblationReport =
  ab_results :: "AblationResult list"
  ab_sealed_event_ids :: "string list"
  ab_source_digest :: string

definition ablation_to_dict :: "(json \<Rightarrow> string) \<Rightarrow> AblationReport \<Rightarrow> dict" where
  "ablation_to_dict digest r =
    (let payload = [(''schema_version'', JStr ''ml.ablation.v1''), (''sealed_event_ids'', JList (map JStr (ab_sealed_event_ids r))),
           (''source_digest'', JStr (ab_source_digest r)),
           (''results'', JList (map (\<lambda>a. JObj (result_to_dict digest a)) (ab_results r)))]
     in dset payload ''report_sha256'' (JStr (digest (JObj payload))))"

definition profile_trigger :: "AblationConfig \<Rightarrow> AblationEvent \<Rightarrow> bool" where
  "profile_trigger c a \<longleftrightarrow>
     (ee_predicted_label (ae_event a) = ''smoking'' \<and> fle (Fin (ac_threshold c)) (ee_score (ae_event a))) \<and>
     (\<not> ac_use_vlm c \<or>
       (ae_vlm_status a = VLM_OK \<and> ae_vlm_label a = Some ''smoking'' \<and> ae_vlm_revision a = ac_vlm_revision c))"

definition project :: "AblationConfig \<Rightarrow> AblationEvent \<Rightarrow> EvaluationEvent" where
  "project c a = (ae_event a)\<lparr>ee_predicted_label := (if profile_trigger c a then ''smoking'' else ''background''),
     ee_triggered := Some (profile_trigger c a)\<rparr>"

definition evaluate_default :: "(pyfloat list \<Rightarrow> pyfloat) \<Rightarrow> EvaluationEvent list \<Rightarrow> EventMetricReport result" where
  "evaluate_default fsum = evaluate_events fsum (take 9 (tl NAMED_CLASSES)) 10 True"

definition run_profile ::
  "(json \<Rightarrow> string) \<Rightarrow> (pyfloat list \<Rightarrow> pyfloat) \<Rightarrow> rat \<Rightarrow> AblationEvent list \<Rightarrow> AblationConfig \<Rightarrow> AblationResult result" where
  "run_profile digest fsum level rows c =
    rbind (evaluate_default fsum (map (project c) rows)) (\<lambda>report.
    rbind (report_intervals report level) (\<lambda>ivs.
    ret \<lparr>ar_config = c, ar_report = report, ar_intervals = ivs, ar_sealed_event_ids = sort (map (\<lambda>a. ee_event_id (ae_event a)) rows),
      ar_source_digest = event_digest digest (map ae_event rows)\<rparr>))"

definition run_ablation ::
  "(json \<Rightarrow> string) \<Rightarrow> (pyfloat list \<Rightarrow> pyfloat) \<Rightarrow> rat \<Rightarrow> AblationEvent list \<Rightarrow> AblationConfig list \<Rightarrow> AblationReport result" where
  "run_ablation digest fsum level rows profiles =
    (if profiles = [] then raise (ValueError ''at least one ablation profile is required'')
     else
       (let event_ids = sort (map (\<lambda>a. ee_event_id (ae_event a)) rows) in
        if \<not> distinct event_ids then raise (ValueError ''sealed event IDs must be unique'')
        else rbind (rmap (run_profile digest fsum level rows) profiles) (\<lambda>results.
          ret \<lparr>ab_results = results, ab_sealed_event_ids = event_ids,
            ab_source_digest = event_digest digest (map ae_event rows)\<rparr>)))"

text \<open>The comparison of crops: strategies in the order of their values.\<close>

definition compare_crop_strategies ::
  "(json \<Rightarrow> string) \<Rightarrow> (pyfloat list \<Rightarrow> pyfloat) \<Rightarrow> rat \<Rightarrow> rat \<Rightarrow> (CropStrategy \<times> AblationEvent list) list \<Rightarrow> AblationResult list result" where
  "compare_crop_strategies digest fsum threshold level by_strategy =
    rbind (rmap (\<lambda>(strategy, rows).
        rbind (AblationConfig_new \<lparr>ac_profile_id = ''crop-'' @ crop_value strategy, ac_crop_strategy = strategy, ac_use_vlm = False,
          ac_threshold = threshold, ac_vlm_revision = None, ac_calibration = None\<rparr>) (\<lambda>config.
        rbind (run_ablation digest fsum level rows [config]) (\<lambda>r. ret (ab_results r))))
      (sort_key (\<lambda>(strategy, rows). crop_value strategy) by_strategy)) (\<lambda>parts.
    let results = concat parts in
    if \<not> distinct (map (\<lambda>a. ac_crop_strategy (ar_config a)) results) then raise (ValueError ''crop strategies must be unique'')
    else ret results)"

definition crop_report_to_dict :: "(json \<Rightarrow> string) \<Rightarrow> AblationResult list \<Rightarrow> dict" where
  "crop_report_to_dict digest results =
    [(''schema_version'', JStr ''ml.crop-comparison.v1''), (''strategies'', JList (map (\<lambda>a. JObj (result_to_dict digest a)) results))]"

section \<open>Wilson intervals\<close>

lemma isqrt_bounds: "isqrt n * isqrt n \<le> n \<and> n < (isqrt n + 1) * (isqrt n + 1)"
proof (induction n rule: isqrt.induct)
  case (1 n)
  show ?case
  proof (cases "n = 0")
    case False
    define r where "r = isqrt (n div 4)"
    have ih: "r * r \<le> n div 4" "n div 4 < (r + 1) * (r + 1)" using 1 False by (simp_all add: r_def)
    have n: "4 * (n div 4) \<le> n" "n < 4 * (n div 4) + 4" by simp_all
    have "4 * (r * r) \<le> n" using ih(1) n(1) by linarith
    moreover have "n < 4 * ((r + 1) * (r + 1))" using ih(2) n(2) by linarith
    ultimately show ?thesis
      using False by (subst (1 2 3 4) isqrt.simps) (simp add: Let_def r_def[symmetric] algebra_simps)
  qed (simp add: isqrt.simps)
qed

lemma fsqrt_nonneg: "0 \<le> fsqrt x"
  by (simp add: fsqrt_def Let_def)

lemma wilson_ordered:
  assumes z: "0 \<le> z" and m: "m \<le> n" and n: "0 < n"
  shows "\<exists>l u. ci_lower (wilson z m n level) = Some l \<and> ci_upper (wilson z m n level) = Some u \<and> 0 \<le> l \<and> l \<le> u \<and> u \<le> 1"
proof -
  define est where "est = ratio m n"
  define zz where "zz = fl (z * z)"
  define b where "b = fl (zz / fl (of_nat n))"
  define a where "a = fl (zz / fl (of_nat (2 * n)))"
  define den where "den = fl (1 + b)"
  define c where "c = fl (fl (est + a) / den)"
  define s where "s = fsqrt (fl (fl (fl (est * fl (1 - est)) / fl (of_nat n)) + fl (zz / fl (of_nat (4 * n * n)))))"
  define margin where "margin = fl (fl (z * s) / den)"
  have est: "0 \<le> est" "est \<le> 1" unfolding est_def by (rule ratio_unit[OF m])+
  have zz: "0 \<le> zz" unfolding zz_def using z by (intro fl_nonneg) simp
  have t1: "1 \<le> fl (of_nat n)" using fl_mono[of 1 "of_nat n"] n by simp
  have t2: "fl (of_nat n) \<le> fl (of_nat (2 * n))" by (rule fl_mono) simp
  have "zz / fl (of_nat (2 * n)) \<le> zz / fl (of_nat n)" using zz t1 t2 by (intro divide_left_mono) auto
  then have ab: "a \<le> b" unfolding a_def b_def by (rule fl_mono)
  have "0 \<le> zz / fl (of_nat (2 * n))" using zz t1 t2 by (intro divide_nonneg_nonneg) linarith+
  then have a0: "0 \<le> a" unfolding a_def by (rule fl_nonneg)
  have den: "1 \<le> den" unfolding den_def using fl_mono[of 1 "1 + b"] a0 ab by simp
  have "fl (est + a) \<le> den" unfolding den_def using est ab by (intro fl_mono) linarith
  moreover have num: "0 \<le> fl (est + a)" using est a0 by (intro fl_nonneg) linarith
  ultimately have q: "0 \<le> fl (est + a) / den" "fl (est + a) / den \<le> 1" using den by (simp_all add: divide_le_eq)
  then have c: "0 \<le> c" "c \<le> 1" unfolding c_def using fl_unit by blast+
  have cc: "fl c = c" unfolding c_def using q by (intro fl_idem) simp
  have margin: "0 \<le> margin"
    unfolding margin_def s_def using den z by (intro fl_nonneg divide_nonneg_nonneg mult_nonneg_nonneg fsqrt_nonneg) linarith+
  have lo: "fl (c - margin) \<le> c" using fl_mono[of "c - margin" c] margin cc by simp
  have hi: "c \<le> fl (c + margin)" using fl_mono[of c "c + margin"] margin cc by simp
  have l: "ci_lower (wilson z m n level) = Some (max 0 (fl (c - margin)))"
    and u: "ci_upper (wilson z m n level) = Some (min 1 (fl (c + margin)))"
    unfolding wilson_def Let_def margin_def c_def den_def s_def a_def b_def zz_def est_def by simp_all
  show ?thesis unfolding l u using lo hi c by (auto simp: max_def min_def)
qed

lemma wilson_level: "ci_level (wilson z m n level) = level"
  by (simp add: wilson_def Let_def)

lemma quantiles_pos: "(k, z) \<in> set quantiles \<Longrightarrow> 0 \<le> z"
  by (auto simp: quantiles_def intro!: fl_nonneg)

text \<open>A confidence interval is an interval: for every count of successes among the trials and every accepted
  level the bounds exist as soon as there is a trial, are ordered and lie between 0 and 1, rounding included.\<close>

theorem wilson_interval_ordered:
  assumes "proportion_interval successes trials level = Inr ci"
  shows "0 \<le> successes \<and> successes \<le> trials \<and> 0 < level \<and> level < 1 \<and> ci_level ci = level \<and>
    (if trials = 0 then ci_lower ci = None \<and> ci_upper ci = None \<and> ci_estimate ci = None
     else \<exists>l u. ci_lower ci = Some l \<and> ci_upper ci = Some u \<and> 0 \<le> l \<and> l \<le> u \<and> u \<le> 1)"
proof (cases "trials = 0")
  case True
  then show ?thesis using assms by (auto simp: proportion_interval_def no_interval_def split: if_splits)
next
  case False
  then obtain k z where kz: "find (\<lambda>(key, value). isclose level key) quantiles = Some (k, z)"
    and ci: "ci = wilson z (nat successes) (nat trials) level"
    using assms by (auto simp: proportion_interval_def split: if_splits option.splits)
  have "0 \<le> z" using kz quantiles_pos by (force simp: find_Some_iff in_set_conv_nth)
  moreover have range: "0 \<le> successes" "successes \<le> trials" "0 < trials" "0 < level" "level < 1"
    using assms False by (auto simp: proportion_interval_def split: if_splits)
  ultimately show ?thesis
    using wilson_ordered[of z "nat successes" "nat trials" level] wilson_level False unfolding ci by simp
qed

theorem wilson_interval_ordered_witness:
  "\<exists>ci l u. proportion_interval 3 4 (fl (95 / 100)) = Inr ci \<and> ci_lower ci = Some l \<and> ci_upper ci = Some u \<and> 0 \<le> l \<and> l \<le> u \<and> u \<le> 1"
proof -
  have lv: "0 < fl (95 / 100)" "fl (95 / 100) < 1" "\<not> isclose (fl (95 / 100)) (fl (90 / 100))" by code_simp+
  have "isclose x x" for x by (simp add: isclose_def)
  then obtain ci where ci: "proportion_interval 3 4 (fl (95 / 100)) = Inr ci"
    using lv by (auto simp: proportion_interval_def quantiles_def)
  from wilson_interval_ordered[OF ci] ci show ?thesis by auto
qed

section \<open>Calibration\<close>

lemma sorted_le_last: "sorted xs \<Longrightarrow> t \<in> set xs \<Longrightarrow> t \<le> last xs"
  by (induction xs) auto

text \<open>Keeping the best of the admissible elements, for any ranking.\<close>

definition keep_best :: "('a \<Rightarrow> bool) \<Rightarrow> ('a \<Rightarrow> 'b :: linorder) \<Rightarrow> 'a \<Rightarrow> 'b option \<Rightarrow> 'b option" where
  "keep_best ok rank t best = (if \<not> ok t then best
     else (case best of None \<Rightarrow> Some (rank t) | Some b \<Rightarrow> if b < rank t then Some (rank t) else best))"

lemma better_keep_best: "better rows target = keep_best (meets_target rows target) (threshold_rank rows)"
  by (simp add: fun_eq_iff better_def keep_best_def)

lemma keep_best_Some:
  "fold (keep_best ok rank) ts best = Some b \<Longrightarrow>
    (best = Some b \<or> (\<exists>t \<in> set ts. ok t \<and> b = rank t)) \<and>
    (\<forall>b'. best = Some b' \<longrightarrow> b' \<le> b) \<and> (\<forall>t \<in> set ts. ok t \<longrightarrow> rank t \<le> b)"
proof (induction ts arbitrary: best)
  case (Cons t ts)
  from Cons.IH[of "keep_best ok rank t best"] Cons.prems show ?case
    by (auto simp: keep_best_def split: if_splits option.splits)
qed simp

lemma keep_best_None:
  "fold (keep_best ok rank) ts best = None \<longleftrightarrow> best = None \<and> (\<forall>t \<in> set ts. \<not> ok t)"
  by (induction ts arbitrary: best) (auto simp: keep_best_def split: option.splits)

text \<open>Property C35.  Calibration picks the best threshold: among the candidates that reach the target precision it returns one whose
  F1, then precision, is largest, and the smallest such threshold; when no candidate reaches the target it says so
  and returns the largest candidate.\<close>

theorem calibration_picks_best:
  assumes "calibrate_threshold digest target candidates rows = Inr r" and "rows \<noteq> []"
  shows "cr_source_event_count r = length rows \<and> cr_threshold r \<in> float_value ` set candidates \<and>
    (if \<exists>t \<in> float_value ` set candidates. meets_target rows target t
     then cr_calibration_state r = ''ok'' \<and> meets_target rows target (cr_threshold r) \<and>
       (\<forall>t \<in> float_value ` set candidates. meets_target rows target t \<longrightarrow>
          threshold_rank rows t \<le> threshold_rank rows (cr_threshold r))
     else cr_calibration_state r = ''target_unmet'' \<and> (\<forall>t \<in> float_value ` set candidates. t \<le> cr_threshold r))"
proof -
  let ?ts = "sort (remdups (map float_value candidates))"
  have set: "set ?ts = float_value ` set candidates" by simp
  have ok: "candidates \<noteq> []" "\<not> list_ex (\<lambda>v. \<not> (fle (Fin 0) v \<and> fle v (Fin 1))) candidates"
    using assms(1) by (auto simp: calibrate_threshold_def)
  then have ne: "?ts \<noteq> []" using set by (metis image_is_empty set_empty)
  have r: "Inr r = (case fold (better rows target) ?ts None of
      None \<Rightarrow> ret \<lparr>cr_threshold = last ?ts, cr_method = ''target_precision'', cr_source_event_count = length rows,
        cr_source_digest = event_digest digest rows, cr_target_precision = target, cr_calibration_state = ''target_unmet''\<rparr>
    | Some (f1, precision, m) \<Rightarrow> ret \<lparr>cr_threshold = - m, cr_method = (if target \<noteq> None then ''target_precision'' else ''f1''),
        cr_source_event_count = length rows, cr_source_digest = event_digest digest rows, cr_target_precision = target,
        cr_calibration_state = ''ok''\<rparr>)"
    using assms ok by (simp add: calibrate_threshold_def Let_def)
  show ?thesis
  proof (cases "fold (better rows target) ?ts None")
    case None
    have "t \<le> last ?ts" if "t \<in> set ?ts" for t
      using sorted_le_last[OF sorted_sort that] .
    moreover have "cr_threshold r = last ?ts" "cr_source_event_count r = length rows" "cr_calibration_state r = ''target_unmet''"
      using r None by simp_all
    moreover have "\<forall>t \<in> set ?ts. \<not> meets_target rows target t"
      using None keep_best_None[of "meets_target rows target" "threshold_rank rows" ?ts None] by (simp add: better_keep_best)
    ultimately show ?thesis using last_in_set[OF ne] unfolding set by auto
  next
    case (Some b)
    then obtain t where t: "t \<in> set ?ts" "meets_target rows target t" "b = threshold_rank rows t"
      "\<forall>t' \<in> set ?ts. meets_target rows target t' \<longrightarrow> threshold_rank rows t' \<le> b"
      using keep_best_Some[OF Some[unfolded better_keep_best]] by blast
    then have "cr_threshold r = t" "cr_calibration_state r = ''ok''" "cr_source_event_count r = length rows"
      using r Some by (auto simp: threshold_rank_def)
    then show ?thesis using t unfolding set by auto
  qed
qed

theorem calibration_picks_best_witness:
  "\<exists>r. calibrate_threshold (\<lambda>_. ''hash'') None [Fin 1, Fin 0] [sample_event ''a'' ''t'' 1 2] = Inr r \<and>
    cr_calibration_state r = ''ok'' \<and> cr_threshold r = 0"
proof -
  let ?x = "calibrate_threshold (\<lambda>_. ''hash'') None [Fin 1, Fin 0] [sample_event ''a'' ''t'' 1 2]"
  have "\<not> isl ?x" "cr_threshold (projr ?x) = 0" by code_simp+
  then obtain r where r: "?x = Inr r" "cr_threshold r = 0" by (cases ?x) auto
  from calibration_picks_best[OF r(1)] r show ?thesis by (auto simp: meets_target_def split: if_splits)
qed

section \<open>A stricter profile\<close>

text \<open>Events that differ in the prediction only, where the second triggers whenever the first does.\<close>

definition weaker :: "EvaluationEvent \<Rightarrow> EvaluationEvent \<Rightarrow> bool" where
  "weaker e e' \<longleftrightarrow> event_order e = event_order e' \<and> event_end e = event_end e' \<and> ee_true_label e = ee_true_label e' \<and>
     ee_eligible e = ee_eligible e' \<and> (did_trigger e \<longrightarrow> did_trigger e')"

lemma weaker_key: "weaker e e' \<Longrightarrow> session_key e = session_key e' \<and> ee_start_ns e = ee_start_ns e'"
  by (simp add: weaker_def event_order_def)

lemma weaker_order: "weaker e e' \<Longrightarrow> event_order e = event_order e'"
  by (simp add: weaker_def)

lemma weaker_sort:
  assumes "list_all2 weaker xs ys"
  shows "list_all2 weaker (sort_key event_order xs) (sort_key event_order ys)"
proof -
  have ins: "list_all2 weaker as bs \<Longrightarrow> weaker x y \<Longrightarrow>
      list_all2 weaker (insort_key event_order x as) (insort_key event_order y bs)" for as bs x y
  proof (induction as bs rule: list_all2_induct)
    case (Cons a as b bs)
    have "event_order a = event_order b" "event_order x = event_order y" using Cons weaker_order by blast+
    then show ?case using Cons by simp
  qed simp
  show ?thesis using assms by (induction xs ys rule: list_all2_induct) (auto intro: ins)
qed

lemma weaker_sessions:
  "list_all2 weaker es es' \<Longrightarrow> list_all2 weaker cur cur' \<Longrightarrow>
    list_all2 (list_all2 weaker) (sessions g cur key prev es) (sessions g cur' key prev es')"
proof (induction es es' arbitrary: cur cur' key prev rule: list_all2_induct)
  case (Cons e es e' es')
  have eq: "session_key e = session_key e'" "ee_start_ns e = ee_start_ns e'" "event_end e = event_end e'"
    using Cons(1) weaker_key by (auto simp: weaker_def)
  have cur: "cur = [] \<longleftrightarrow> cur' = []" using Cons(4) by (cases cur; cases cur') auto
  have "list_all2 weaker (cur @ [e]) (cur' @ [e'])" using Cons(1,4) by (simp add: list_all2_appendI)
  then have ext: "list_all2 (list_all2 weaker) (sessions g (cur @ [e]) k p es) (sessions g (cur' @ [e']) k p es')" for k p
    by (rule Cons(3))
  have new: "list_all2 (list_all2 weaker) (sessions g [e] k p es) (sessions g [e'] k p es')" for k p
    using Cons(1) by (intro Cons(3)) simp
  show ?case
  proof (cases "cur = []")
    case True
    then have "cur' = []" using cur by blast
    then show ?thesis using True new by (simp add: eq)
  next
    case False
    then have "cur' \<noteq> []" using cur by blast
    then show ?thesis using False new ext Cons(4) by (simp add: eq)
  qed
qed auto

definition fewer_triggers :: "EvaluationEvent \<Rightarrow> EvaluationEvent \<Rightarrow> bool" where
  "fewer_triggers e e' \<longleftrightarrow> ee_true_label e = ee_true_label e' \<and> ee_eligible e = ee_eligible e' \<and> (did_trigger e \<longrightarrow> did_trigger e')"

lemma weaker_merge:
  assumes "list_all2 weaker s s'" and "s \<noteq> []"
  shows "fewer_triggers (merge_events s) (merge_events s')"
proof -
  have "list_all ee_eligible s = list_all ee_eligible s'" "list_ex did_trigger s \<Longrightarrow> list_ex did_trigger s'"
    using assms(1) by (induction s s' rule: list_all2_induct) (auto simp: weaker_def)
  moreover have "ee_true_label (hd s) = ee_true_label (hd s')"
    using assms by (cases s; cases s') (auto simp: weaker_def)
  ultimately show ?thesis by (simp add: fewer_triggers_def merge_events_def Let_def did_trigger_def)
qed

lemma fewer_counts:
  assumes "list_all2 fewer_triggers rows rows'"
  shows "length rows = length rows'" and "count_if ee_eligible rows = count_if ee_eligible rows'"
    and "count_if (\<lambda>e. is_smoking e \<and> did_trigger e) (filter ee_eligible rows) \<le>
      count_if (\<lambda>e. is_smoking e \<and> did_trigger e) (filter ee_eligible rows')"
    and "count_if (\<lambda>e. \<not> is_smoking e \<and> did_trigger e) (filter ee_eligible rows) \<le>
      count_if (\<lambda>e. \<not> is_smoking e \<and> did_trigger e) (filter ee_eligible rows')"
    and "count_if (\<lambda>e. is_smoking e \<and> \<not> did_trigger e) (filter ee_eligible rows') \<le>
      count_if (\<lambda>e. is_smoking e \<and> \<not> did_trigger e) (filter ee_eligible rows)"
  using assms by (induction rows rows' rule: list_all2_induct) (auto simp: fewer_triggers_def is_smoking_def)

definition stricter :: "AblationConfig \<Rightarrow> AblationConfig \<Rightarrow> bool" where
  "stricter c d \<longleftrightarrow> ac_threshold d \<le> ac_threshold c \<and>
     (ac_use_vlm d \<longrightarrow> ac_use_vlm c \<and> ac_vlm_revision c = ac_vlm_revision d)"

lemma stricter_trigger: "stricter c d \<Longrightarrow> profile_trigger c a \<Longrightarrow> profile_trigger d a"
  by (cases "ee_score (ae_event a)") (auto simp: stricter_def profile_trigger_def)

lemma stricter_weaker: "stricter c d \<Longrightarrow> list_all2 weaker (map (project c) rows) (map (project d) rows)"
  using stricter_trigger[of c d]
  by (auto simp: list_all2_conv_all_nth weaker_def project_def event_order_def session_key_def event_end_def did_trigger_def)

lemma stricter_rows:
  assumes "stricter c d"
  shows "\<exists>rows' rows''. aggregate_events 120000 (map (project c) rows) = Inr rows' \<and>
    aggregate_events 120000 (map (project d) rows) = Inr rows'' \<and> list_all2 fewer_triggers rows' rows''"
proof -
  let ?ss = "\<lambda>c. sessions 120000 [] None (- 1) (sort_key event_order (map (project c) rows))"
  have "list_all2 (list_all2 weaker) (?ss c) (?ss d)"
    using stricter_weaker[OF assms] by (intro weaker_sessions weaker_sort) auto
  then have "list_all2 fewer_triggers (map merge_events (?ss c)) (map merge_events (?ss d))"
    using sessions_nonempty[OF nth_mem] by (simp add: list_all2_conv_all_nth[of _ "?ss c"] list_all2_conv_all_nth[of _ "map _ _"] weaker_merge)
  then show ?thesis by (simp add: aggregate_events_def)
qed

lemma rmap_members: "rmap f xs = Inr ys \<Longrightarrow> y \<in> set ys \<Longrightarrow> \<exists>x \<in> set xs. f x = Inr y"
  by (induction xs arbitrary: ys) (auto simp: rbind_Inr)

text \<open>Property C34.  In one ablation, a profile with a higher threshold, or with the vision-language model where the other has none,
  sees the same sessions and the same eligible ones, and never has more true positives or more false positives, nor fewer
  false negatives.\<close>

theorem stricter_profile_only_removes_triggers:
  assumes "run_ablation digest fsum level rows profiles = Inr rep"
    and "a \<in> set (ab_results rep)" and "b \<in> set (ab_results rep)" and "stricter (ar_config a) (ar_config b)"
  shows "mr_total_events (ar_report a) = mr_total_events (ar_report b) \<and>
    mr_eligible_events (ar_report a) = mr_eligible_events (ar_report b) \<and>
    mr_true_positives (ar_report a) \<le> mr_true_positives (ar_report b) \<and>
    mr_false_positives (ar_report a) \<le> mr_false_positives (ar_report b) \<and>
    mr_false_negatives (ar_report b) \<le> mr_false_negatives (ar_report a)"
proof -
  have run: "\<exists>c. run_profile digest fsum level rows c = Inr x" if "x \<in> set (ab_results rep)" for x
    using assms(1) that rmap_members by (fastforce simp: run_ablation_def Let_def rbind_Inr split: if_splits)
  have ev: "evaluate_default fsum (map (project (ar_config x)) rows) = Inr (ar_report x)" if "x \<in> set (ab_results rep)" for x
    using run[OF that] by (auto simp: run_profile_def rbind_Inr)
  obtain rows' rows'' where agg: "aggregate_events 120000 (map (project (ar_config a)) rows) = Inr rows'"
    "aggregate_events 120000 (map (project (ar_config b)) rows) = Inr rows''" and f: "list_all2 fewer_triggers rows' rows''"
    using stricter_rows[OF assms(4)] by blast
  show ?thesis
    using ev[OF assms(2)] ev[OF assms(3)] fewer_counts[OF f]
    evaluate_events_fields[of fsum "take 9 (tl NAMED_CLASSES)" 10 True "map (project (ar_config a)) rows" _ rows']
    evaluate_events_fields[of fsum "take 9 (tl NAMED_CLASSES)" 10 True "map (project (ar_config b)) rows" _ rows'']
    by (simp add: evaluate_default_def agg)
qed

definition sample_profile :: "bool \<Rightarrow> AblationConfig" where
  "sample_profile vlm = \<lparr>ac_profile_id = ''p'', ac_crop_strategy = PERSON, ac_use_vlm = vlm, ac_threshold = 1 / 2,
     ac_vlm_revision = Some ''v1'', ac_calibration = None\<rparr>"

definition sample_row :: AblationEvent where
  "sample_row = \<lparr>ae_event = sample_event ''a'' ''t'' 1 2, ae_vlm_label = None, ae_vlm_score = None, ae_vlm_status = VLM_TIMEOUT,
     ae_vlm_revision = None\<rparr>"

theorem stricter_profile_only_removes_triggers_witness:
  "\<exists>rep a b. run_ablation (\<lambda>_. ''hash'') (\<lambda>_. Fin 1) (fl (95 / 100)) [sample_row] [sample_profile True, sample_profile False] = Inr rep \<and>
    ab_results rep = [a, b] \<and> mr_true_positives (ar_report a) \<le> mr_true_positives (ar_report b)"
proof -
  let ?run = "run_ablation (\<lambda>_. ''hash'') (\<lambda>_. Fin 1) (fl (95 / 100)) [sample_row] [sample_profile True, sample_profile False]"
  have lv: "0 < fl (95 / 100)" "fl (95 / 100) < 1" "\<not> isclose (fl (95 / 100)) (fl (90 / 100))" by code_simp+
  have close: "isclose x x" for x by (simp add: isclose_def)
  have iv: "\<exists>ci. proportion_interval (int m) (int (m + k)) (fl (95 / 100)) = Inr ci" for m k
    using lv close by (auto simp: proportion_interval_def quantiles_def)
  have ri: "\<exists>ivs. report_intervals r (fl (95 / 100)) = Inr ivs" for r
    using iv[of "mr_true_positives r" "mr_false_positives r"] iv[of "mr_true_positives r" "mr_false_negatives r"]
    by (auto simp: report_intervals_def)
  have "\<exists>r. evaluate_default (\<lambda>_. Fin 1) xs = Inr r" for xs
    by (simp add: evaluate_default_def evaluate_events_def aggregate_events_def calibration_def Let_def del: upt_rec_numeral)
  note ev = this
  have rp: "\<exists>x. run_profile (\<lambda>_. ''hash'') (\<lambda>_. Fin 1) (fl (95 / 100)) [sample_row] c = Inr x \<and> ar_config x = c" for c
  proof -
    obtain r where r: "evaluate_default (\<lambda>_. Fin 1) (map (project c) [sample_row]) = Inr r" using ev by blast
    obtain ivs where "report_intervals r (fl (95 / 100)) = Inr ivs" using ri by blast
    then show ?thesis using r by (simp add: run_profile_def)
  qed
  obtain a b where ab: "run_profile (\<lambda>_. ''hash'') (\<lambda>_. Fin 1) (fl (95 / 100)) [sample_row] (sample_profile True) = Inr a"
    "run_profile (\<lambda>_. ''hash'') (\<lambda>_. Fin 1) (fl (95 / 100)) [sample_row] (sample_profile False) = Inr b"
    "ar_config a = sample_profile True" "ar_config b = sample_profile False"
    using rp by metis
  then obtain rep where rep: "?run = Inr rep" "ab_results rep = [a, b]" by (simp add: run_ablation_def)
  from stricter_profile_only_removes_triggers[OF rep(1), of a b] rep ab show ?thesis
    by (simp add: stricter_def sample_profile_def)
qed

end
