(* ===== verification/Datasets.thy ===== *)
theory Datasets
  imports Float_Json Contracts
begin

text \<open>
  Dataset manifests and camera-grouped splits, \<open>ml/datasets/manifest.py\<close>.  The digest of a document, the sum of
  floats (which the supported interpreters compute differently) and the first 64 bits of a SHA-256 digest are arguments.
  Items are given with their fields; \<open>build_manifest\<close> passes each of them through the constructor.
\<close>

section \<open>Items and manifests\<close>

record DatasetItem =
  di_item_id :: string
  di_event_id :: string
  di_camera_id :: string
  di_track_id :: string
  di_label :: string
  di_source_hash :: string
  di_license :: string
  di_source :: string
  di_timestamp_ns :: int
  di_duration_ms :: int
  di_eligible :: bool
  di_metadata :: "(string \<times> string) list"

definition hex_digit :: "char \<Rightarrow> bool" where
  "hex_digit c \<longleftrightarrow> c \<in> set ''0123456789abcdef''"

definition DatasetItem_new :: "DatasetItem \<Rightarrow> DatasetItem result" where
  "DatasetItem_new i =
    (if list_ex (\<lambda>field. str_strip (field i) = [])
       [di_item_id, di_event_id, di_camera_id, di_track_id, di_source_hash, di_license, di_source]
     then raise (ValueError ''must not be empty'')
     else if length (di_source_hash i) \<noteq> 64 \<or> list_ex (\<lambda>c. \<not> hex_digit c) (map lower_char (di_source_hash i))
     then raise (ValueError ''source_hash must be a SHA-256 hex digest'')
     else if di_timestamp_ns i < 0 \<or> di_duration_ms i < 0
     then raise (ValueError ''timestamps and durations must be non-negative'')
     else ret i)"

definition item_to_dict :: "DatasetItem \<Rightarrow> json" where
  "item_to_dict i = JObj [(''item_id'', JStr (di_item_id i)), (''event_id'', JStr (di_event_id i)),
     (''camera_id'', JStr (di_camera_id i)), (''track_id'', JStr (di_track_id i)), (''label'', JStr (di_label i)),
     (''source_hash'', JStr (di_source_hash i)), (''license'', JStr (di_license i)), (''source'', JStr (di_source i)),
     (''timestamp_ns'', JInt (di_timestamp_ns i)), (''duration_ms'', JInt (di_duration_ms i)),
     (''eligible'', JBool (di_eligible i)),
     (''metadata'', JObj (map (\<lambda>(k, v). (k, JStr v)) (sort_key fst (di_metadata i))))]"

record DatasetSplit =
  ds_name :: string
  ds_item_ids :: "string list"
  ds_camera_ids :: "string list"

definition split_to_dict :: "DatasetSplit \<Rightarrow> json" where
  "split_to_dict s = JObj [(''name'', JStr (ds_name s)), (''item_ids'', JList (map JStr (ds_item_ids s))),
     (''camera_ids'', JList (map JStr (ds_camera_ids s)))]"

record DatasetManifest =
  dm_dataset_id :: string
  dm_version :: string
  dm_items :: "DatasetItem list"
  dm_classes :: "string list"
  dm_splits :: "DatasetSplit list"

definition DatasetManifest_new :: "DatasetManifest \<Rightarrow> DatasetManifest result" where
  "DatasetManifest_new m =
    (if str_strip (dm_dataset_id m) = [] \<or> str_strip (dm_version m) = []
     then raise (ValueError ''dataset_id and version must not be empty'')
     else if \<not> distinct (map di_item_id (dm_items m)) then raise (ValueError ''item_id values must be unique'')
     else if list_ex (\<lambda>i. di_label i \<notin> set (dm_classes m)) (dm_items m)
     then raise (ValueError ''item label is not in the manifest classes'')
     else ret m)"

definition manifest_payload :: "DatasetManifest \<Rightarrow> dict" where
  "manifest_payload m =
    [(''dataset_id'', JStr (dm_dataset_id m)), (''version'', JStr (dm_version m)), (''classes'', JList (map JStr (dm_classes m))),
     (''items'', JList (map item_to_dict (sort_key di_item_id (dm_items m)))),
     (''splits'', JList (map split_to_dict (sort_key ds_name (dm_splits m))))]"

definition manifest_to_dict :: "(json \<Rightarrow> string) \<Rightarrow> DatasetManifest \<Rightarrow> dict" where
  "manifest_to_dict digest m = dset (manifest_payload m) ''manifest_sha256'' (JStr (digest (JObj (manifest_payload m))))"

definition build_manifest :: "string \<Rightarrow> string \<Rightarrow> DatasetItem list \<Rightarrow> string list \<Rightarrow> DatasetManifest result" where
  "build_manifest dataset_id version records classes =
    rbind (rmap DatasetItem_new records) (\<lambda>items.
    DatasetManifest_new \<lparr>dm_dataset_id = dataset_id, dm_version = version, dm_items = items, dm_classes = classes, dm_splits = []\<rparr>)"

section \<open>Splits\<close>

fun fneg :: "pyfloat \<Rightarrow> pyfloat" where
  "fneg (Fin x) = Fin (- x)"
| "fneg PosInf = NegInf"
| "fneg NegInf = PosInf"
| "fneg NaN = NaN"

definition fabs :: "pyfloat \<Rightarrow> pyfloat" where
  "fabs x = (if flt x (Fin 0) then fneg x else x)"

definition default_ratios :: "(string \<times> pyfloat) list" where
  "default_ratios = [(''train'', Fin (fl (7 / 10))), (''validation'', Fin (fl (15 / 100))), (''sealed_test'', Fin (fl (15 / 100)))]"

text \<open>The running thresholds.\<close>

fun cumulative :: "pyfloat \<Rightarrow> (string \<times> pyfloat) list \<Rightarrow> (string \<times> pyfloat) list" where
  "cumulative cursor [] = []"
| "cumulative cursor ((name, share) # rest) = (let c = fadd cursor share in (name, c) # cumulative c rest)"

text \<open>\<open>int(digest[:16], 16) / 2**64\<close> and the first threshold above it; \<open>next\<close> raises when there is none.\<close>

definition camera_unit :: "(string \<Rightarrow> int) \<Rightarrow> int \<Rightarrow> string \<Rightarrow> string \<Rightarrow> rat" where
  "camera_unit hash64 seed dataset camera = fl (of_int (hash64 (show_int seed @ '':'' @ dataset @ '':'' @ camera)) / 2 ^ 64)"

definition split_name :: "(string \<Rightarrow> int) \<Rightarrow> (string \<times> pyfloat) list \<Rightarrow> int \<Rightarrow> string \<Rightarrow> string \<Rightarrow> string result" where
  "split_name hash64 thresholds seed dataset camera =
    (case find (\<lambda>(name, threshold). flt (Fin (camera_unit hash64 seed dataset camera)) threshold) thresholds of
       None \<Rightarrow> raise (AdapterError ''StopIteration'')
     | Some (name, threshold) \<Rightarrow> ret name)"

definition group_of :: "DatasetItem list \<Rightarrow> string \<Rightarrow> DatasetItem list" where
  "group_of items camera = filter (\<lambda>i. di_camera_id i = camera) items"

fun assign_cameras ::
  "(string \<Rightarrow> string result) \<Rightarrow> DatasetItem list \<Rightarrow> string list \<Rightarrow> (string \<times> DatasetItem list) list \<Rightarrow>
   (string \<times> DatasetItem list) list result" where
  "assign_cameras pick items [] grouped = ret grouped"
| "assign_cameras pick items (camera # cameras) grouped =
    rbind (pick camera) (\<lambda>name.
    assign_cameras pick items cameras
      (map (\<lambda>(n, xs). (n, if n = name then xs @ group_of items camera else xs)) grouped))"

definition sorted_set :: "string list \<Rightarrow> string list" where
  "sorted_set xs = sort (remdups xs)"

definition split_manifest ::
  "(string \<Rightarrow> int) \<Rightarrow> (pyfloat list \<Rightarrow> pyfloat) \<Rightarrow> (string \<times> pyfloat) list \<Rightarrow> int \<Rightarrow> DatasetManifest \<Rightarrow> DatasetManifest result" where
  "split_manifest hash64 fsum ratios seed m =
    (let selected = (if ratios = [] then default_ratios else ratios) in
     if list_ex (\<lambda>(name, value). fle value (Fin 0)) selected then raise (ValueError ''split ratios must be positive'')
     else if flt (Fin (fl (1 / 10 ^ 9))) (fabs (fadd (fsum (map snd selected)) (Fin (- 1))))
     then raise (ValueError ''split ratios must sum to 1'')
     else
       (let cameras = sorted_set (map di_camera_id (dm_items m));
            thresholds = cumulative (Fin 0) selected in
        rbind (assign_cameras (split_name hash64 thresholds seed (dm_dataset_id m)) (dm_items m) cameras
          (map (\<lambda>(name, value). (name, [])) selected)) (\<lambda>grouped.
        DatasetManifest_new (m\<lparr>dm_splits := map (\<lambda>(name, items). \<lparr>ds_name = name, ds_item_ids = sort (map di_item_id items),
          ds_camera_ids = sorted_set (map di_camera_id items)\<rparr>) grouped\<rparr>))))"

section \<open>What a split is\<close>

lemma mset_group:
  "distinct ks \<Longrightarrow> \<forall>x \<in> set xs. f x \<in> set ks \<Longrightarrow> mset (concat (map (\<lambda>k. filter (\<lambda>x. f x = k) xs) ks)) = mset xs"
proof (induction ks arbitrary: xs)
  case (Cons k ks)
  have "mset (concat (map (\<lambda>k'. filter (\<lambda>x. f x = k') (filter (\<lambda>x. f x \<noteq> k) xs)) ks)) = mset (filter (\<lambda>x. f x \<noteq> k) xs)"
    using Cons.prems by (intro Cons.IH) auto
  moreover have "filter (\<lambda>x. f x = k') (filter (\<lambda>x. f x \<noteq> k) xs) = filter (\<lambda>x. f x = k') xs" if "k' \<in> set ks" for k'
    using that Cons.prems(1) by (auto intro!: filter_cong)
  ultimately have "mset (concat (map (\<lambda>k'. filter (\<lambda>x. f x = k') xs) ks)) = mset (filter (\<lambda>x. f x \<noteq> k) xs)"
    by (simp cong: map_cong)
  then show ?case using multiset_partition[of "mset xs" "\<lambda>x. f x = k"] by simp
qed simp

lemma concat_groups: "concat (map (\<lambda>n. concat (map g (h n))) ns) = concat (map g (concat (map h ns)))"
  by (induction ns) simp_all

lemma mset_concat_cong:
  assumes "mset xs = mset ys"
  shows "mset (concat (map g xs)) = mset (concat (map g ys))"
proof -
  have "mset (concat (map g zs)) = sum_mset (image_mset (mset \<circ> g) (mset zs))" for zs
    by (induction zs) simp_all
  then show ?thesis using assms by simp
qed

lemma assign_cameras_Inr:
  assumes "assign_cameras pick items cameras grouped = Inr out"
  shows "(\<forall>c \<in> set cameras. \<exists>n. pick c = Inr n) \<and>
    out = map (\<lambda>(n, xs). (n, xs @ concat (map (group_of items) (filter (\<lambda>c. pick c = Inr n) cameras)))) grouped"
  using assms
proof (induction cameras arbitrary: grouped)
  case (Cons camera cameras)
  obtain name where name: "pick camera = Inr name"
    and rest: "assign_cameras pick items cameras (map (\<lambda>(n, xs). (n, if n = name then xs @ group_of items camera else xs)) grouped) = Inr out"
    using Cons.prems by (auto simp: rbind_Inr)
  from Cons.IH[OF rest] name show ?case by (auto simp: o_def)
qed auto

lemma split_name_in: "split_name h thresholds seed d c = Inr n \<Longrightarrow> n \<in> fst ` set thresholds"
  by (force simp: split_name_def find_Some_iff in_set_conv_nth split: option.splits)

lemma cumulative_names [simp]: "map fst (cumulative c rs) = map fst rs"
  by (induction c rs rule: cumulative.induct) (auto simp: Let_def)

lemma set_sorted_set [simp]: "set (sorted_set xs) = set xs" and distinct_sorted_set [simp]: "distinct (sorted_set xs)"
  by (simp_all add: sorted_set_def)

text \<open>The items of the split with a given name.\<close>

definition split_items ::
  "(string \<Rightarrow> int) \<Rightarrow> (string \<times> pyfloat) list \<Rightarrow> int \<Rightarrow> DatasetManifest \<Rightarrow> string \<Rightarrow> DatasetItem list" where
  "split_items hash64 thresholds seed m name =
    concat (map (group_of (dm_items m)) (filter (\<lambda>c. split_name hash64 thresholds seed (dm_dataset_id m) c = Inr name)
      (sorted_set (map di_camera_id (dm_items m)))))"

definition selected_ratios :: "(string \<times> pyfloat) list \<Rightarrow> (string \<times> pyfloat) list" where
  "selected_ratios ratios = (if ratios = [] then default_ratios else ratios)"

lemma split_manifest_Inr:
  assumes "split_manifest hash64 fsum ratios seed m = Inr m'"
  defines "thresholds \<equiv> cumulative (Fin 0) (selected_ratios ratios)"
  shows "m' = m\<lparr>dm_splits := map (\<lambda>name. \<lparr>ds_name = name, ds_item_ids = sort (map di_item_id (split_items hash64 thresholds seed m name)),
      ds_camera_ids = sorted_set (map di_camera_id (split_items hash64 thresholds seed m name))\<rparr>) (map fst (selected_ratios ratios))\<rparr>"
    and "\<forall>i \<in> set (dm_items m). \<exists>n \<in> set (map fst (selected_ratios ratios)).
      split_name hash64 thresholds seed (dm_dataset_id m) (di_camera_id i) = Inr n"
proof -
  let ?cs = "sorted_set (map di_camera_id (dm_items m))"
  let ?pick = "split_name hash64 thresholds seed (dm_dataset_id m)"
  obtain grouped where g: "assign_cameras ?pick (dm_items m) ?cs (map (\<lambda>(name, value). (name, [])) (selected_ratios ratios)) = Inr grouped"
    and m': "DatasetManifest_new (m\<lparr>dm_splits := map (\<lambda>(name, items). \<lparr>ds_name = name, ds_item_ids = sort (map di_item_id items),
          ds_camera_ids = sorted_set (map di_camera_id items)\<rparr>) grouped\<rparr>) = Inr m'"
    using assms(1) unfolding split_manifest_def thresholds_def
    by (simp only: Let_def selected_ratios_def[symmetric] rbind_Inr split: if_splits) (blast | simp)+
  note a = assign_cameras_Inr[OF g]
  have "m\<lparr>dm_splits := map (\<lambda>(name, items). \<lparr>ds_name = name, ds_item_ids = sort (map di_item_id items),
          ds_camera_ids = sorted_set (map di_camera_id items)\<rparr>) grouped\<rparr> = m'"
    using m' by (auto simp: DatasetManifest_new_def split: if_splits)
  then show "m' = m\<lparr>dm_splits := map (\<lambda>name. \<lparr>ds_name = name, ds_item_ids = sort (map di_item_id (split_items hash64 thresholds seed m name)),
      ds_camera_ids = sorted_set (map di_camera_id (split_items hash64 thresholds seed m name))\<rparr>) (map fst (selected_ratios ratios))\<rparr>"
    using a by (auto simp: split_items_def o_def case_prod_beta)
  show "\<forall>i \<in> set (dm_items m). \<exists>n \<in> set (map fst (selected_ratios ratios)). ?pick (di_camera_id i) = Inr n"
  proof
    fix i assume "i \<in> set (dm_items m)"
    then obtain n where n: "?pick (di_camera_id i) = Inr n" using a by auto
    from split_name_in[OF this] have "n \<in> set (map fst thresholds)" by simp
    then show "\<exists>n \<in> set (map fst (selected_ratios ratios)). ?pick (di_camera_id i) = Inr n"
      using n unfolding thresholds_def cumulative_names by blast
  qed
qed

lemma set_split_items:
  "i \<in> set (split_items h ts seed m name) \<longleftrightarrow>
    i \<in> set (dm_items m) \<and> split_name h ts seed (dm_dataset_id m) (di_camera_id i) = Inr name"
  by (auto simp: split_items_def group_of_def)

lemma mset_split_items:
  assumes "distinct names" and "\<forall>i \<in> set (dm_items m). \<exists>n \<in> set names. split_name h ts seed (dm_dataset_id m) (di_camera_id i) = Inr n"
  shows "mset (concat (map (split_items h ts seed m) names)) = mset (dm_items m)"
proof -
  let ?cs = "sorted_set (map di_camera_id (dm_items m))"
  let ?f = "\<lambda>c. projr (split_name h ts seed (dm_dataset_id m) c)"
  have pick: "split_name h ts seed (dm_dataset_id m) c = Inr (?f c)" "?f c \<in> set names" if "c \<in> set ?cs" for c
    using that assms(2) by auto
  have f: "filter (\<lambda>c. split_name h ts seed (dm_dataset_id m) c = Inr n) ?cs = filter (\<lambda>c. ?f c = n) ?cs" for n
  proof (rule filter_cong[OF refl])
    fix c assume "c \<in> set ?cs"
    then show "(split_name h ts seed (dm_dataset_id m) c = Inr n) = (?f c = n)" by (subst pick(1)) auto
  qed
  have eq: "concat (map (split_items h ts seed m) names) =
      concat (map (group_of (dm_items m)) (concat (map (\<lambda>n. filter (\<lambda>c. ?f c = n) ?cs) names)))"
    unfolding split_items_def[abs_def] f by (rule concat_groups)
  have "mset (concat (map (\<lambda>n. filter (\<lambda>c. ?f c = n) ?cs) names)) = mset ?cs" using pick(2) by (intro mset_group assms(1)) blast
  then have "mset (concat (map (split_items h ts seed m) names)) = mset (concat (map (group_of (dm_items m)) ?cs))"
    unfolding eq by (rule mset_concat_cong)
  also have "\<dots> = mset (dm_items m)" unfolding group_of_def by (intro mset_group) auto
  finally show ?thesis .
qed

section \<open>Properties\<close>

text \<open>Property C36.  A split is a partition by camera: the items are unchanged, every item is in exactly one split, all items
  of a camera are in the same split, and the split of a camera depends on the seed, the dataset id, the camera id and the
  ratios alone, so other records never move it.\<close>

theorem split_partitions_by_camera:
  assumes "split_manifest hash64 fsum ratios seed m = Inr m'" and "distinct (map fst ratios)"
  shows "dm_items m' = dm_items m \<and> map ds_name (dm_splits m') = map fst (selected_ratios ratios) \<and>
    mset (concat (map ds_item_ids (dm_splits m'))) = mset (map di_item_id (dm_items m)) \<and>
    distinct (concat (map ds_camera_ids (dm_splits m'))) \<and>
    (\<forall>i \<in> set (dm_items m). \<forall>s \<in> set (dm_splits m'). di_camera_id i \<in> set (ds_camera_ids s) \<longleftrightarrow>
       split_name hash64 (cumulative (Fin 0) (selected_ratios ratios)) seed (dm_dataset_id m) (di_camera_id i) = Inr (ds_name s))"
proof -
  let ?names = "map fst (selected_ratios ratios)"
  let ?ts = "cumulative (Fin 0) (selected_ratios ratios)"
  note inr = split_manifest_Inr[OF assms(1)]
  have d: "distinct ?names" using assms(2) by (auto simp: selected_ratios_def default_ratios_def)
  have sp: "dm_splits m' = map (\<lambda>name. \<lparr>ds_name = name, ds_item_ids = sort (map di_item_id (split_items hash64 ?ts seed m name)),
      ds_camera_ids = sorted_set (map di_camera_id (split_items hash64 ?ts seed m name))\<rparr>) ?names"
    by (subst inr(1)) simp
  have cams: "c \<in> set (map di_camera_id (split_items hash64 ?ts seed m n)) \<longleftrightarrow>
      c \<in> di_camera_id ` set (dm_items m) \<and> split_name hash64 ?ts seed (dm_dataset_id m) c = Inr n" for c n
    by (auto simp: set_split_items)
  have "mset (concat (map ds_item_ids (dm_splits m'))) = image_mset di_item_id (mset (concat (map (split_items hash64 ?ts seed m) ?names)))"
  proof -
    have "mset (concat (map (\<lambda>n. sort (map di_item_id (f n))) ns)) = image_mset di_item_id (mset (concat (map f ns)))"
      for f :: "'a \<Rightarrow> DatasetItem list" and ns by (induction ns) simp_all
    then show ?thesis unfolding sp by (simp add: o_def)
  qed
  also have "\<dots> = mset (map di_item_id (dm_items m))" using mset_split_items[OF d inr(2)] by simp
  finally have ids: "mset (concat (map ds_item_ids (dm_splits m'))) = mset (map di_item_id (dm_items m))" .
  have "distinct (concat (map (\<lambda>n. sorted_set (map di_camera_id (split_items hash64 ?ts seed m n))) ns))" if "distinct ns" for ns
    using that by (induction ns) (auto simp: set_split_items)
  from this[OF d] have dc: "distinct (concat (map ds_camera_ids (dm_splits m')))" by (simp add: sp o_def)
  have "dm_items m' = dm_items m" by (subst inr(1)) simp
  moreover have "map ds_name (dm_splits m') = ?names" by (simp add: sp o_def)
  moreover have "\<forall>i \<in> set (dm_items m). \<forall>s \<in> set (dm_splits m'). di_camera_id i \<in> set (ds_camera_ids s) \<longleftrightarrow>
       split_name hash64 ?ts seed (dm_dataset_id m) (di_camera_id i) = Inr (ds_name s)"
    using cams by (auto simp: sp)
  ultimately show ?thesis using ids dc by blast
qed

definition sample_item :: "string \<Rightarrow> string \<Rightarrow> DatasetItem" where
  "sample_item iid camera = \<lparr>di_item_id = iid, di_event_id = ''e'', di_camera_id = camera, di_track_id = ''t'', di_label = ''smoking'',
     di_source_hash = replicate 64 (CHR ''0''), di_license = ''l'', di_source = ''s'', di_timestamp_ns = 0, di_duration_ms = 0,
     di_eligible = True, di_metadata = []\<rparr>"

definition sample_dataset :: DatasetManifest where
  "sample_dataset = \<lparr>dm_dataset_id = ''d'', dm_version = ''1'', dm_items = [sample_item ''a'' ''c1'', sample_item ''b'' ''c2'', sample_item ''c'' ''c1''],
     dm_classes = [''smoking''], dm_splits = []\<rparr>"

definition sample_hash :: "string \<Rightarrow> int" where
  "sample_hash s = (if s = ''0:d:c1'' then 0 else 9223372036854775808)"

definition sample_ratios :: "(string \<times> pyfloat) list" where
  "sample_ratios = [(''train'', Fin (1 / 2)), (''test'', Fin (1 / 2))]"

theorem split_partitions_by_camera_witness:
  "\<exists>m'. split_manifest sample_hash (\<lambda>_. Fin 1) sample_ratios 0 sample_dataset = Inr m' \<and>
    map ds_item_ids (dm_splits m') = [[''a'', ''c''], [''b'']] \<and>
    mset (concat (map ds_item_ids (dm_splits m'))) = mset [''a'', ''b'', ''c'']"
proof -
  let ?x = "split_manifest sample_hash (\<lambda>_. Fin 1) sample_ratios 0 sample_dataset"
  have "\<not> isl ?x" "map ds_item_ids (dm_splits (projr ?x)) = [[''a'', ''c''], [''b'']]" by code_simp+
  then obtain m' where m': "?x = Inr m'" "map ds_item_ids (dm_splits m') = [[''a'', ''c''], [''b'']]" by (cases ?x) auto
  have "distinct (map fst sample_ratios)" by code_simp
  from split_partitions_by_camera[OF m'(1) this] m' show ?thesis
    by (simp add: sample_dataset_def sample_item_def)
qed

text \<open>The largest digests round to 1, which is below no threshold of a partition of 1: such a camera has no split.\<close>

lemma unit_rounds_to_one: "fl (of_int 18446744073709551615 / 2 ^ 64) = 1"
  by code_simp

end
