(* ===== verification/Releases.thy ===== *)
theory Releases
  imports Ablation Datasets
begin

text \<open>
  The release contracts of \<open>ml/registry/release.py\<close>, which gate the promotion of a model, and the model card and
  provenance receipt of \<open>ml/registry/model_card.py\<close>.  The digest of a document is an argument.
\<close>

section \<open>Provenance and release manifests\<close>

record Provenance =
  pr_origin :: string
  pr_license :: string
  pr_decision :: string
  pr_source_hash :: string
  pr_dependencies :: "string list"

text \<open>The pattern of 64 lower-case hexadecimal digits.\<close>

definition is_sha256 :: "string \<Rightarrow> bool" where
  "is_sha256 s \<longleftrightarrow> length s = 64 \<and> list_all hex_digit s"

definition provenance_validate :: "Provenance \<Rightarrow> string list" where
  "provenance_validate p =
    (if str_strip (pr_origin p) = [] then [''provenance.origin is required''] else []) @
    (if str_strip (pr_license p) = [] \<or> map lower_char (pr_license p) \<in> {''unknown'', ''proprietary-unknown''}
     then [''provenance.license must be documented''] else []) @
    (if pr_decision p \<notin> {''approved'', ''conditional'', ''rejected''}
     then [''provenance.decision must be approved, conditional, or rejected''] else []) @
    (if \<not> is_sha256 (pr_source_hash p) then [''provenance.source_hash must be a SHA-256 digest''] else [])"

definition provenance_to_dict :: "Provenance \<Rightarrow> json" where
  "provenance_to_dict p = JObj [(''origin'', JStr (pr_origin p)), (''license'', JStr (pr_license p)), (''decision'', JStr (pr_decision p)),
     (''source_hash'', JStr (pr_source_hash p)), (''dependencies'', JList (map JStr (pr_dependencies p)))]"

record ModelReleaseManifest =
  rl_model_id :: string
  rl_version :: string
  rl_model_sha256 :: string
  rl_dataset_manifest_sha256 :: string
  rl_evaluation_report_sha256 :: string
  rl_calibration_report_sha256 :: string
  rl_runtime_profile :: string
  rl_provenance :: Provenance
  rl_rollback_target :: "string option"
  rl_parent_checkpoint :: "string option"
  rl_sbom_sha256 :: "string option"
  rl_aliases :: "string list"
  rl_metadata :: "(string \<times> string) list"

definition release_payload :: "ModelReleaseManifest \<Rightarrow> dict" where
  "release_payload m =
    [(''schema_version'', JStr ''model.release.v1''), (''model_id'', JStr (rl_model_id m)), (''version'', JStr (rl_version m)),
     (''model_sha256'', JStr (rl_model_sha256 m)), (''dataset_manifest_sha256'', JStr (rl_dataset_manifest_sha256 m)),
     (''evaluation_report_sha256'', JStr (rl_evaluation_report_sha256 m)),
     (''calibration_report_sha256'', JStr (rl_calibration_report_sha256 m)), (''runtime_profile'', JStr (rl_runtime_profile m)),
     (''provenance'', provenance_to_dict (rl_provenance m)), (''rollback_target'', json_opt (rl_rollback_target m)),
     (''parent_checkpoint'', json_opt (rl_parent_checkpoint m)), (''sbom_sha256'', json_opt (rl_sbom_sha256 m)),
     (''aliases'', JList (map JStr (sort (rl_aliases m)))),
     (''metadata'', JObj (map (\<lambda>(k, v). (k, JStr v)) (sort_key fst (rl_metadata m))))]"

definition release_sha256 :: "(json \<Rightarrow> string) \<Rightarrow> ModelReleaseManifest \<Rightarrow> string" where
  "release_sha256 digest m = digest (JObj (release_payload m))"

definition release_to_dict :: "(json \<Rightarrow> string) \<Rightarrow> ModelReleaseManifest \<Rightarrow> dict" where
  "release_to_dict digest m = dset (release_payload m) ''release_sha256'' (JStr (release_sha256 digest m))"

section \<open>Promotion\<close>

record PromotionResult =
  pm_allowed :: bool
  pm_errors :: "string list"
  pm_release_sha256 :: string

text \<open>\<open>tuple(dict.fromkeys(errors))\<close> keeps the first of equal messages.\<close>

definition dedup :: "string list \<Rightarrow> string list" where
  "dedup xs = rev (remdups (rev xs))"

text \<open>\<open>not manifest.rollback_target\<close>.\<close>

definition no_rollback :: "ModelReleaseManifest \<Rightarrow> bool" where
  "no_rollback m \<longleftrightarrow> rl_rollback_target m \<in> {None, Some []}"

definition validate_release_manifest :: "ModelReleaseManifest \<Rightarrow> string list" where
  "validate_release_manifest m = dedup (
    concat (map (\<lambda>(name, field). if is_sha256 (field m) then [] else [name @ '' must be a SHA-256 digest''])
      [(''model_sha256'', rl_model_sha256), (''dataset_manifest_sha256'', rl_dataset_manifest_sha256),
       (''evaluation_report_sha256'', rl_evaluation_report_sha256), (''calibration_report_sha256'', rl_calibration_report_sha256)]) @
    (case rl_sbom_sha256 m of None \<Rightarrow> [] | Some s \<Rightarrow> if is_sha256 s then [] else [''sbom_sha256 must be a SHA-256 digest'']) @
    (if str_strip (rl_model_id m) = [] \<or> str_strip (rl_version m) = [] \<or> str_strip (rl_runtime_profile m) = []
     then [''model_id, version, and runtime_profile are required''] else []) @
    (if pr_decision (rl_provenance m) \<noteq> ''approved'' then [''provenance decision must be approved for promotion''] else []) @
    provenance_validate (rl_provenance m) @
    (if no_rollback m then [''rollback_target is required''] else []) @
    (if ''champion'' \<in> set (rl_aliases m) \<and> no_rollback m then [''champion release requires rollback_target''] else []))"

definition collision :: "(json \<Rightarrow> string) \<Rightarrow> ModelReleaseManifest \<Rightarrow> ModelReleaseManifest \<Rightarrow> string list" where
  "collision digest m existing =
    (if rl_model_id existing = rl_model_id m \<and> rl_version existing = rl_version m
     then (if release_sha256 digest existing \<noteq> release_sha256 digest m
           then [''release version already exists with different content'']
           else [''release version already exists; releases are immutable''])
     else [])"

definition validate_promotion ::
  "(json \<Rightarrow> string) \<Rightarrow> ModelReleaseManifest list \<Rightarrow> ModelReleaseManifest \<Rightarrow> PromotionResult" where
  "validate_promotion digest existing m =
    (let errors = validate_release_manifest m @ concat (map (collision digest m) existing) in
     \<lparr>pm_allowed = (errors = []), pm_errors = dedup errors, pm_release_sha256 = release_sha256 digest m\<rparr>)"

section \<open>Model cards\<close>

record ModelCard =
  mc_model_id :: string
  mc_version :: string
  mc_intended_use :: string
  mc_limitations :: "string list"
  mc_release :: dict
  mc_evaluation :: dict
  mc_calibration :: json
  mc_evidence_level :: string

definition card_payload :: "ModelCard \<Rightarrow> dict" where
  "card_payload c =
    [(''schema_version'', JStr ''ml.model-card.v1''), (''model_id'', JStr (mc_model_id c)), (''version'', JStr (mc_version c)),
     (''intended_use'', JStr (mc_intended_use c)), (''limitations'', JList (map JStr (mc_limitations c))),
     (''release'', JObj (mc_release c)), (''evaluation'', JObj (mc_evaluation c)), (''calibration'', mc_calibration c),
     (''evidence_level'', JStr (mc_evidence_level c))]"

definition report_sha256 :: "(json \<Rightarrow> string) \<Rightarrow> ModelCard \<Rightarrow> string" where
  "report_sha256 digest c = digest (JObj (card_payload c))"

definition card_to_dict :: "(json \<Rightarrow> string) \<Rightarrow> ModelCard \<Rightarrow> dict" where
  "card_to_dict digest c = dset (card_payload c) ''report_sha256'' (JStr (report_sha256 digest c))"

definition build_model_card ::
  "(json \<Rightarrow> string) \<Rightarrow> string \<Rightarrow> string list \<Rightarrow> ModelReleaseManifest \<Rightarrow> AblationReport \<Rightarrow> CalibrationResult \<Rightarrow> ModelCard" where
  "build_model_card digest intended_use limitations release evaluation calibrated =
    \<lparr>mc_model_id = rl_model_id release, mc_version = rl_version release, mc_intended_use = intended_use,
     mc_limitations = limitations, mc_release = release_to_dict digest release, mc_evaluation = ablation_to_dict digest evaluation,
     mc_calibration = calibration_to_dict calibrated, mc_evidence_level = ''fixture_only''\<rparr>"

definition build_provenance_report :: "(json \<Rightarrow> string) \<Rightarrow> ModelReleaseManifest \<Rightarrow> ModelCard \<Rightarrow> dict" where
  "build_provenance_report digest release model_card =
    [(''schema_version'', JStr ''ml.provenance-report.v1''), (''release_sha256'', JStr (release_sha256 digest release)),
     (''model_card_sha256'', JStr (report_sha256 digest model_card)), (''model_id'', JStr (rl_model_id release)),
     (''version'', JStr (rl_version release)), (''origin'', JStr (pr_origin (rl_provenance release))),
     (''license'', JStr (pr_license (rl_provenance release))), (''decision'', JStr (pr_decision (rl_provenance release))),
     (''source_hash'', JStr (pr_source_hash (rl_provenance release))), (''parent_checkpoint'', json_opt (rl_parent_checkpoint release)),
     (''dependencies'', JList (map JStr (pr_dependencies (rl_provenance release)))),
     (''runtime_profile'', JStr (rl_runtime_profile release)), (''evidence_level'', JStr (mc_evidence_level model_card)),
     (''qualification_state'', JStr ''lab_required'')]"

section \<open>Properties\<close>

lemma set_dedup [simp]: "set (dedup xs) = set xs" and dedup_Nil [simp]: "dedup xs = [] \<longleftrightarrow> xs = []"
  and distinct_dedup [simp]: "distinct (dedup xs)"
  by (simp_all add: dedup_def)

text \<open>The gate, written out.\<close>

definition releasable :: "ModelReleaseManifest \<Rightarrow> bool" where
  "releasable m \<longleftrightarrow>
     is_sha256 (rl_model_sha256 m) \<and> is_sha256 (rl_dataset_manifest_sha256 m) \<and> is_sha256 (rl_evaluation_report_sha256 m) \<and>
     is_sha256 (rl_calibration_report_sha256 m) \<and> (\<forall>s \<in> set_option (rl_sbom_sha256 m). is_sha256 s) \<and>
     str_strip (rl_model_id m) \<noteq> [] \<and> str_strip (rl_version m) \<noteq> [] \<and> str_strip (rl_runtime_profile m) \<noteq> [] \<and>
     pr_decision (rl_provenance m) = ''approved'' \<and> str_strip (pr_origin (rl_provenance m)) \<noteq> [] \<and>
     str_strip (pr_license (rl_provenance m)) \<noteq> [] \<and>
     map lower_char (pr_license (rl_provenance m)) \<notin> {''unknown'', ''proprietary-unknown''} \<and>
     is_sha256 (pr_source_hash (rl_provenance m)) \<and> (\<exists>t. rl_rollback_target m = Some t \<and> t \<noteq> [])"

lemma validate_release_manifest_ok: "validate_release_manifest m = [] \<longleftrightarrow> releasable m"
  by (auto simp: validate_release_manifest_def provenance_validate_def releasable_def no_rollback_def split: option.splits)

text \<open>A registry that stores what the gate allows.\<close>

definition promote :: "(json \<Rightarrow> string) \<Rightarrow> ModelReleaseManifest list \<Rightarrow> ModelReleaseManifest \<Rightarrow> ModelReleaseManifest list" where
  "promote digest releases m = (if pm_allowed (validate_promotion digest releases m) then releases @ [m] else releases)"

definition release_id :: "ModelReleaseManifest \<Rightarrow> string \<times> string" where
  "release_id m = (rl_model_id m, rl_version m)"

lemma collision_Nil: "collision digest m e = [] \<longleftrightarrow> release_id m \<noteq> release_id e"
  by (auto simp: collision_def release_id_def)

lemma validate_promotion_allowed:
  "pm_allowed (validate_promotion digest existing m) \<longleftrightarrow> releasable m \<and> release_id m \<notin> release_id ` set existing"
proof -
  have "concat (map (collision digest m) existing) = [] \<longleftrightarrow> release_id m \<notin> release_id ` set existing"
    by (auto simp: collision_Nil)
  then show ?thesis by (simp add: validate_promotion_def validate_release_manifest_ok)
qed

lemma validate_promotion_errors:
  "pm_errors (validate_promotion digest existing m) = [] \<longleftrightarrow> pm_allowed (validate_promotion digest existing m)"
  "distinct (pm_errors (validate_promotion digest existing m))"
  by (simp_all add: validate_promotion_def Let_def)

text \<open>Property C37.  A promotion is allowed exactly for a releasable manifest (digests, identifiers, an approved and documented
  provenance, a rollback target) whose model and version are not released yet, whatever its digest; it is refused with a
  duplicate-free, non-empty list of reasons.  A registry that stores what is allowed therefore never changes a
  release, and holds one manifest for a model and version.\<close>

theorem promotion_gate_exact:
  "(pm_allowed (validate_promotion digest existing m) \<longleftrightarrow> releasable m \<and> release_id m \<notin> release_id ` set existing) \<and>
   (pm_errors (validate_promotion digest existing m) = [] \<longleftrightarrow> pm_allowed (validate_promotion digest existing m)) \<and>
   distinct (pm_errors (validate_promotion digest existing m)) \<and>
   (let registry = foldl (promote digest) [] ms in
      distinct (map release_id registry) \<and> list_all releasable registry \<and> set registry \<subseteq> set ms)"
proof -
  have "distinct (map release_id (foldl (promote digest) rs ms)) \<and> list_all releasable (foldl (promote digest) rs ms) \<and>
      set (foldl (promote digest) rs ms) \<subseteq> set rs \<union> set ms"
    if "distinct (map release_id rs)" "list_all releasable rs" for rs
    using that
  proof (induction ms arbitrary: rs)
    case (Cons m ms)
    have "distinct (map release_id (promote digest rs m))" "list_all releasable (promote digest rs m)"
      "set (promote digest rs m) \<subseteq> set rs \<union> {m}"
      using Cons.prems by (auto simp: promote_def validate_promotion_allowed)
    from Cons.IH[OF this(1,2)] this(3) show ?case by auto
  qed simp
  from this[of "[]"] show ?thesis by (simp add: validate_promotion_errors validate_promotion_allowed)
qed

end
