(* ===== verification/Baseline.thy ===== *)
theory Baseline
  imports Py_Convert Event_Metrics Contracts
begin

text \<open>
  The frozen-feature baseline of \<open>ml/training/baseline.py\<close>: building, predicting, exporting and loading.  An exported file
  holds the JSON value that was written; the digest of a document and the first byte of the SHA-256 digest of a text are
  arguments.
\<close>

section \<open>Artifacts\<close>

record BaselineConfig =
  bc_model_id :: string
  bc_version :: string
  bc_embedding_revision :: string
  bc_crop_strategy :: string
  bc_classes :: "string list"

definition BaselineConfig_new :: "BaselineConfig \<Rightarrow> BaselineConfig result" where
  "BaselineConfig_new c =
    (if str_strip (bc_model_id c) = [] \<or> str_strip (bc_version c) = [] \<or> str_strip (bc_embedding_revision c) = []
     then raise (ValueError ''model_id, version, and embedding_revision are required'')
     else if bc_classes c = [] then raise (ValueError ''classes must not be empty'')
     else ret c)"

definition default_config :: BaselineConfig where
  "default_config = \<lparr>bc_model_id = ''frozen-named-class-head'', bc_version = ''0.1.0'', bc_embedding_revision = ''fixture-embedding-v1'',
     bc_crop_strategy = ''person_crop'', bc_classes = NAMED_CLASSES\<rparr>"

record BaselineArtifact =
  ba_config :: BaselineConfig
  ba_weights :: "(string \<times> pyfloat) list"

definition weights_dict :: "(string \<times> pyfloat) list \<Rightarrow> dict" where
  "weights_dict ws = fold (\<lambda>(key, value) d. dset d key (json_float (Some value))) ws []"

definition artifact_payload :: "BaselineArtifact \<Rightarrow> dict" where
  "artifact_payload a =
    [(''schema_version'', JStr ''ml.baseline-artifact.v1''), (''model_id'', JStr (bc_model_id (ba_config a))),
     (''version'', JStr (bc_version (ba_config a))), (''embedding_revision'', JStr (bc_embedding_revision (ba_config a))),
     (''crop_strategy'', JStr (bc_crop_strategy (ba_config a))), (''classes'', JList (map JStr (bc_classes (ba_config a)))),
     (''weights'', JObj (weights_dict (ba_weights a)))]"

definition artifact_sha256 :: "(json \<Rightarrow> string) \<Rightarrow> BaselineArtifact \<Rightarrow> string" where
  "artifact_sha256 digest a = digest (JObj (artifact_payload a))"

definition artifact_to_dict :: "(json \<Rightarrow> string) \<Rightarrow> BaselineArtifact \<Rightarrow> dict" where
  "artifact_to_dict digest a = dset (artifact_payload a) ''artifact_sha256'' (JStr (artifact_sha256 digest a))"

section \<open>Prediction\<close>

definition feature_ok :: "pyfloat \<Rightarrow> bool" where
  "feature_ok v \<longleftrightarrow> fle (Fin 0) v \<and> fle v (Fin 1)"

text \<open>\<open>(digest[0] / 255 - 0.5) * float(value) * 0.1\<close>.\<close>

definition contribution :: "(string \<Rightarrow> nat) \<Rightarrow> string \<Rightarrow> string \<Rightarrow> pyfloat \<Rightarrow> pyfloat" where
  "contribution byte0 label name v =
    fmul (fmul (fadd (Fin (ratio (byte0 (label @ '':'' @ name)) 255)) (Fin (- 1 / 2))) v) (Fin (fl (1 / 10)))"

fun label_score :: "(string \<Rightarrow> nat) \<Rightarrow> string \<Rightarrow> (string \<times> pyfloat) list \<Rightarrow> pyfloat \<Rightarrow> pyfloat result" where
  "label_score byte0 label [] score = ret score"
| "label_score byte0 label ((name, value) # rest) score =
    (if \<not> feature_ok value then raise (ValueError ''feature must be a finite score in [0, 1]'')
     else label_score byte0 label rest (fadd score (contribution byte0 label name value)))"

text \<open>\<open>min(1.0, max(0.0, score))\<close> and \<open>round(x, 8)\<close>.\<close>

definition clamp :: "pyfloat \<Rightarrow> rat" where
  "clamp score = (case pf_max0 score of Fin x \<Rightarrow> if x < 1 then x else 1 | _ \<Rightarrow> 1)"

definition round8 :: "rat \<Rightarrow> rat" where
  "round8 x = fl (of_int (round_half_even (x * 10 ^ 8)) / 10 ^ 8)"

fun predict_labels ::
  "(string \<Rightarrow> nat) \<Rightarrow> (string \<times> pyfloat) list \<Rightarrow> (string \<times> pyfloat) list \<Rightarrow> (string \<times> rat) list \<Rightarrow> (string \<times> rat) list result" where
  "predict_labels byte0 features [] outputs = ret outputs"
| "predict_labels byte0 features ((label, bias) # rest) outputs =
    rbind (label_score byte0 label features bias) (\<lambda>score.
    predict_labels byte0 features rest (AList.update label (round8 (clamp score)) outputs))"

definition predict :: "(string \<Rightarrow> nat) \<Rightarrow> BaselineArtifact \<Rightarrow> (string \<times> pyfloat) list \<Rightarrow> (string \<times> rat) list result" where
  "predict byte0 a features = predict_labels byte0 (sort_key fst features) (ba_weights a) []"

section \<open>Building, exporting and loading\<close>

text \<open>\<open>dict(weights or {label: 0.5 for label in selected.classes})\<close>.\<close>

definition selected_weights :: "BaselineConfig \<Rightarrow> (string \<times> pyfloat) list \<Rightarrow> (string \<times> pyfloat) list" where
  "selected_weights config weights =
    (if weights = [] then map (\<lambda>label. (label, Fin (1 / 2))) (rev (remdups (rev (bc_classes config)))) else weights)"

definition build_baseline :: "BaselineConfig \<Rightarrow> (string \<times> pyfloat) list \<Rightarrow> BaselineArtifact result" where
  "build_baseline config weights =
    (let values = selected_weights config weights in
     if set (map fst values) \<noteq> set (bc_classes config) then raise (ValueError ''weights must contain exactly the configured classes'')
     else if list_ex (\<lambda>(key, value). \<not> (fle (Fin 0) value \<and> fle value (Fin 1))) values then raise (ValueError ''weights must be in [0, 1]'')
     else ret \<lparr>ba_config = config, ba_weights = sort_key fst values\<rparr>)"

text \<open>\<open>export_baseline\<close> returns the artifact and writes its document.\<close>

definition export_baseline ::
  "(json \<Rightarrow> string) \<Rightarrow> BaselineConfig \<Rightarrow> (string \<times> pyfloat) list \<Rightarrow> (BaselineArtifact \<times> json) result" where
  "export_baseline digest config weights =
    rbind (build_baseline config weights) (\<lambda>a. ret (a, JObj (artifact_to_dict digest a)))"

text \<open>Iterating over a value: a list, the characters of a string, the keys of an object.\<close>

definition iterate :: "parsers \<Rightarrow> json \<Rightarrow> json list result" where
  "iterate pa v = (case v of
     JList xs \<Rightarrow> ret xs
   | JStr s \<Rightarrow> ret (map (\<lambda>c. JStr [c]) s)
   | JTime _ \<Rightarrow> ret (map (\<lambda>c. JStr [c]) (py_str pa v))
   | JObj d \<Rightarrow> ret (map (\<lambda>(k, _). JStr k) d)
   | _ \<Rightarrow> raise (TypeError ''object is not iterable''))"

definition load_config :: "parsers \<Rightarrow> dict \<Rightarrow> BaselineConfig result" where
  "load_config pa raw =
    rbind (ditem raw ''model_id'') (\<lambda>model_id.
    rbind (ditem raw ''version'') (\<lambda>version.
    rbind (ditem raw ''embedding_revision'') (\<lambda>revision.
    rbind (ditem raw ''crop_strategy'') (\<lambda>crop.
    rbind (ditem raw ''classes'') (\<lambda>classes.
    rbind (iterate pa classes) (\<lambda>names.
    BaselineConfig_new \<lparr>bc_model_id = py_str pa model_id, bc_version = py_str pa version, bc_embedding_revision = py_str pa revision,
      bc_crop_strategy = py_str pa crop, bc_classes = map (py_str pa) names\<rparr>))))))"

definition load_weights :: "parsers \<Rightarrow> dict \<Rightarrow> (string \<times> pyfloat) list result" where
  "load_weights pa raw = rbind (ditem raw ''weights'') (\<lambda>v. case v of
     JObj d \<Rightarrow> rbind (rmap (\<lambda>(key, value). rbind (py_float pa value) (\<lambda>x. ret (key, x))) d) (\<lambda>ws. ret (sort_key fst ws))
   | _ \<Rightarrow> raise (ValueError ''baseline weights must be an object''))"

definition load_baseline :: "parsers \<Rightarrow> (json \<Rightarrow> string) \<Rightarrow> json \<Rightarrow> BaselineArtifact result" where
  "load_baseline pa digest doc = (case doc of
     JObj raw \<Rightarrow>
       if dget raw ''schema_version'' \<noteq> JStr ''ml.baseline-artifact.v1'' then raise (ValueError ''unsupported baseline artifact'')
       else
         (let expected = dget raw ''artifact_sha256''; rest = AList.delete ''artifact_sha256'' raw in
          rbind (load_config pa rest) (\<lambda>config.
          rbind (load_weights pa rest) (\<lambda>weights.
          let artifact = \<lparr>ba_config = config, ba_weights = weights\<rparr> in
          if expected \<noteq> JStr (artifact_sha256 digest artifact) then raise (ValueError ''baseline artifact checksum mismatch'')
          else ret artifact)))
   | _ \<Rightarrow> raise (ValueError ''unsupported baseline artifact''))"

fun same_predictions ::
  "(string \<Rightarrow> nat) \<Rightarrow> BaselineArtifact \<Rightarrow> BaselineArtifact \<Rightarrow> (string \<times> pyfloat) list list \<Rightarrow> bool result" where
  "same_predictions byte0 a b [] = ret True"
| "same_predictions byte0 a b (sample # samples) =
    rbind (predict byte0 a sample) (\<lambda>x. rbind (predict byte0 b sample) (\<lambda>y.
    if x = y then same_predictions byte0 a b samples else ret False))"

definition verify_export_load ::
  "parsers \<Rightarrow> (json \<Rightarrow> string) \<Rightarrow> (string \<Rightarrow> nat) \<Rightarrow> BaselineArtifact \<Rightarrow> (string \<times> pyfloat) list list \<Rightarrow> bool result" where
  "verify_export_load pa digest byte0 a samples =
    rbind (load_baseline pa digest (JObj (artifact_to_dict digest a))) (\<lambda>loaded. same_predictions byte0 a loaded samples)"

section \<open>Round trip\<close>

lemma weights_dict_fresh:
  "distinct (map fst ws) \<Longrightarrow> set (map fst ws) \<inter> set (map fst d) = {} \<Longrightarrow>
    fold (\<lambda>(key, value) d. dset d key (json_float (Some value))) ws d = d @ map (\<lambda>(k, v). (k, json_float (Some v))) ws"
proof (induction ws arbitrary: d)
  case (Cons w ws)
  obtain k v where w: "w = (k, v)" by force
  have "AList.update k x d = d @ [(k, x)]" if "k \<notin> set (map fst d)" for x
    using that by (induction d) auto
  then have "dset d k (json_float (Some v)) = d @ [(k, json_float (Some v))]"
    using Cons.prems by (simp add: dset_def w)
  then show ?case using Cons.IH[of "d @ [(k, json_float (Some v))]"] Cons.prems by (auto simp: w)
qed simp

lemma weights_dict_map: "distinct (map fst ws) \<Longrightarrow> weights_dict ws = map (\<lambda>(k, v). (k, json_float (Some v))) ws"
  using weights_dict_fresh[of ws "[]"] by (simp add: weights_dict_def)

lemma py_float_json: "isfinite v \<Longrightarrow> py_float pa (json_float (Some v)) = Inr v"
  by (cases v) (simp_all add: py_float_def json_float_def)

text \<open>The invariant of a built artifact: weights in the order of their names, one for a name, finite.\<close>

definition good_weights :: "(string \<times> pyfloat) list \<Rightarrow> bool" where
  "good_weights ws \<longleftrightarrow> sorted (map fst ws) \<and> distinct (map fst ws) \<and> list_all (\<lambda>(k, v). isfinite v) ws"

lemma load_weights_of:
  assumes "good_weights ws" and "map_of raw ''weights'' = Some (JObj (weights_dict ws))"
  shows "load_weights pa raw = Inr ws"
proof -
  have "rmap (\<lambda>(key, value). rbind (py_float pa value) (\<lambda>x. ret (key, x))) (map (\<lambda>(k, v). (k, json_float (Some v))) ws) = Inr ws"
    if "list_all (\<lambda>(k, v). isfinite v) ws"
    using that by (induction ws) (auto simp: py_float_json)
  moreover have "sort_key fst ws = ws" using assms(1) by (simp add: good_weights_def sorted_sort_id sort_key_id_if_sorted)
  ultimately show ?thesis
    using assms by (simp add: load_weights_def ditem_def weights_dict_map good_weights_def)
qed

lemma load_config_of:
  assumes "BaselineConfig_new (ba_config a) = Inr (ba_config a)"
  shows "load_config pa (artifact_payload a) = Inr (ba_config a)"
proof -
  obtain mid ver rev crop cls where "ba_config a = \<lparr>bc_model_id = mid, bc_version = ver, bc_embedding_revision = rev,
      bc_crop_strategy = crop, bc_classes = cls\<rparr>" by (cases "ba_config a") simp
  then show ?thesis
    using assms by (simp add: load_config_def artifact_payload_def ditem_def iterate_def py_str_def o_def)
qed

lemma build_baseline_Inr:
  assumes "build_baseline config weights = Inr a"
  shows "a = \<lparr>ba_config = config, ba_weights = sort_key fst (selected_weights config weights)\<rparr>"
    and "set (map fst (selected_weights config weights)) = set (bc_classes config)"
    and "\<forall>(k, v) \<in> set (selected_weights config weights). fle (Fin 0) v \<and> fle v (Fin 1)"
  using assms by (simp_all add: build_baseline_def Let_def list_ex_iff case_prod_beta split: if_splits)

lemma built_weights:
  assumes "build_baseline config weights = Inr a" and "distinct (map fst weights)"
  shows "ba_config a = config" and "good_weights (ba_weights a)"
proof -
  note b = build_baseline_Inr[OF assms(1)]
  show "ba_config a = config" by (simp add: b(1))
  have "distinct (map fst (selected_weights config weights))" using assms(2) by (simp add: selected_weights_def o_def)
  then have "distinct (map fst (sort_key fst (selected_weights config weights)))" by (simp add: distinct_map)
  moreover have "isfinite v" if "(k, v) \<in> set (selected_weights config weights)" for k v
    using b(3) that by (cases v) auto
  ultimately show "good_weights (ba_weights a)" by (auto simp: good_weights_def b(1) list_all_iff)
qed

text \<open>Property C38.  Exporting and loading a built baseline gives the same artifact, so that the export check succeeds on every sample
  it can predict; and whatever a file contains, a loaded artifact has the digest the file records.\<close>

theorem baseline_export_round_trip:
  assumes "BaselineConfig_new config = Inr config" and "distinct (map fst weights)" and "build_baseline config weights = Inr a"
  shows "load_baseline pa digest (JObj (artifact_to_dict digest a)) = Inr a \<and>
    (list_all (\<lambda>s. \<not> isl (predict byte0 a s)) samples \<longrightarrow> verify_export_load pa digest byte0 a samples = Inr True) \<and>
    (\<forall>raw b. load_baseline pa digest (JObj raw) = Inr b \<longrightarrow> dget raw ''artifact_sha256'' = JStr (artifact_sha256 digest b))"
proof -
  note b = built_weights[OF assms(3,2)]
  have eta: "\<lparr>ba_config = ba_config a, ba_weights = ba_weights a\<rparr> = a" by (cases a) simp
  have del: "AList.delete ''artifact_sha256'' (artifact_to_dict digest a) = artifact_payload a"
    by (simp add: artifact_to_dict_def dset_def artifact_payload_def)
  have "load_config pa (artifact_payload a) = Inr (ba_config a)" using assms(1) b(1) by (intro load_config_of) simp
  moreover have "load_weights pa (artifact_payload a) = Inr (ba_weights a)"
    by (rule load_weights_of[OF b(2)]) (simp add: artifact_payload_def)
  moreover have "dget (artifact_to_dict digest a) ''schema_version'' = JStr ''ml.baseline-artifact.v1''"
    by (simp add: artifact_to_dict_def artifact_payload_def dget_def)
  moreover have "dget (artifact_to_dict digest a) ''artifact_sha256'' = JStr (artifact_sha256 digest a)"
    by (simp add: artifact_to_dict_def)
  ultimately have load: "load_baseline pa digest (JObj (artifact_to_dict digest a)) = Inr a"
    by (simp add: load_baseline_def del Let_def eta)
  have "same_predictions byte0 a a samples = Inr True" if "list_all (\<lambda>s. \<not> isl (predict byte0 a s)) samples" for samples
    using that
  proof (induction samples)
    case (Cons s samples)
    then obtain x where "predict byte0 a s = Inr x" by (cases "predict byte0 a s") auto
    then show ?case using Cons by simp
  qed simp
  moreover have "dget raw ''artifact_sha256'' = JStr (artifact_sha256 digest b)" if "load_baseline pa digest (JObj raw) = Inr b" for raw b
    using that by (auto simp: load_baseline_def Let_def rbind_Inr split: if_splits)
  ultimately show ?thesis using load by (simp add: verify_export_load_def)
qed

section \<open>Bounded predictions\<close>

lemma clamp_unit: "0 \<le> clamp s \<and> clamp s \<le> 1"
  by (cases s) (auto simp: clamp_def)

lemma round8_unit:
  assumes "0 \<le> x" and "x \<le> 1"
  shows "0 \<le> round8 x \<and> round8 x \<le> 1"
proof -
  have "0 \<le> x * 10 ^ 8" "x * 10 ^ 8 \<le> of_int (10 ^ 8)" using assms by simp_all
  from round_half_even_mono[OF this(1)] round_half_even_mono[OF this(2)]
  have "0 \<le> round_half_even (x * 10 ^ 8)" "round_half_even (x * 10 ^ 8) \<le> 10 ^ 8"
    using round_half_even_int[of 0] by (simp_all only: round_half_even_int of_int_0)
  then have "0 \<le> (of_int (round_half_even (x * 10 ^ 8)) :: rat)" "(of_int (round_half_even (x * 10 ^ 8)) :: rat) \<le> of_int (10 ^ 8)"
    by (simp_all only: of_int_0_le_iff of_int_le_iff)
  then show ?thesis unfolding round8_def by (intro fl_unit) (simp_all add: divide_le_eq)
qed

lemma update_entries: "(k, v) \<in> set (AList.update l x al) \<Longrightarrow> (k, v) \<in> set al \<or> (k = l \<and> v = x)"
  by (induction al) (auto split: if_splits)

lemma predict_labels_unit:
  "predict_labels byte0 features ws outputs = Inr out \<Longrightarrow> \<forall>(k, v) \<in> set outputs. 0 \<le> v \<and> v \<le> 1 \<Longrightarrow>
    fst ` set out = fst ` set outputs \<union> fst ` set ws \<and> (\<forall>(k, v) \<in> set out. 0 \<le> v \<and> v \<le> 1)"
proof (induction byte0 features ws outputs rule: predict_labels.induct)
  case (2 byte0 features label bias rest outputs)
  then obtain score where s: "label_score byte0 label features bias = Inr score"
    and r: "predict_labels byte0 features rest (AList.update label (round8 (clamp score)) outputs) = Inr out"
    by (auto simp: rbind_Inr)
  have "0 \<le> round8 (clamp score) \<and> round8 (clamp score) \<le> 1" using clamp_unit by (intro round8_unit) blast+
  then have "\<forall>(k, v) \<in> set (AList.update label (round8 (clamp score)) outputs). 0 \<le> v \<and> v \<le> 1"
    using 2(3) update_entries by fastforce
  from 2(1)[OF r this] show ?case by (auto simp: dom_update)
qed auto

text \<open>A prediction has one score for every class of the artifact, between 0 and 1 after rounding to eight digits, for every
  legal feature mapping.\<close>

theorem predictions_bounded:
  assumes "build_baseline config weights = Inr a" and "predict byte0 a features = Inr out"
  shows "fst ` set out = set (bc_classes config) \<and> (\<forall>(label, score) \<in> set out. 0 \<le> score \<and> score \<le> 1)"
proof -
  note b = build_baseline_Inr[OF assms(1)]
  have "fst ` set (ba_weights a) = set (bc_classes config)" using b(2) by (simp add: b(1))
  then show ?thesis
    using predict_labels_unit[of byte0 "sort_key fst features" "ba_weights a" "[]" out] assms(2) by (simp add: predict_def)
qed

section \<open>Witnesses\<close>

definition sample_config :: BaselineConfig where
  "sample_config = default_config\<lparr>bc_classes := [''smoking'', ''phone'']\<rparr>"

definition sample_reader :: parsers where
  "sample_reader = \<lparr>pa_str = (\<lambda>_. ''?''), pa_int = (\<lambda>_. raise (ValueError ''int'')), pa_float = (\<lambda>_. raise (ValueError ''float'')),
     pa_loads = (\<lambda>_. raise (ValueError ''json''))\<rparr>"

definition sample_artifact :: BaselineArtifact where
  "sample_artifact = \<lparr>ba_config = sample_config, ba_weights = [(''phone'', Fin (1 / 2)), (''smoking'', Fin 1)]\<rparr>"

lemma sample_artifact_built:
  "BaselineConfig_new sample_config = Inr sample_config" "distinct (map fst [(''smoking'', Fin 1), (''phone'', Fin (1 / 2))])"
  "build_baseline sample_config [(''smoking'', Fin 1), (''phone'', Fin (1 / 2))] = Inr sample_artifact"
  by code_simp+

theorem baseline_export_round_trip_witness:
  "load_baseline sample_reader (\<lambda>_. ''hash'') (JObj (artifact_to_dict (\<lambda>_. ''hash'') sample_artifact)) = Inr sample_artifact \<and>
   verify_export_load sample_reader (\<lambda>_. ''hash'') (\<lambda>_. 0) sample_artifact [[]] = Inr True"
proof -
  have "list_all (\<lambda>s. \<not> isl (predict (\<lambda>_. 0) sample_artifact s)) [[]]"
    by (simp add: predict_def sample_artifact_def)
  then show ?thesis using baseline_export_round_trip[OF sample_artifact_built] by blast
qed

theorem predictions_bounded_witness:
  "\<exists>out. predict (\<lambda>_. 255) sample_artifact [(''hand'', Fin 1)] = Inr out \<and> fst ` set out = {''smoking'', ''phone''} \<and>
    (\<forall>(label, score) \<in> set out. 0 \<le> score \<and> score \<le> 1)"
proof -
  obtain out where out: "predict (\<lambda>_. 255) sample_artifact [(''hand'', Fin 1)] = Inr out"
    by (simp add: predict_def sample_artifact_def feature_ok_def)
  from predictions_bounded[OF sample_artifact_built(3) out] out show ?thesis by (simp add: sample_config_def)
qed

end
