(* ===== verification/Backup.thy ===== *)
theory Backup
  imports Paths Json
begin

text \<open>
  Backup archives, \<open>scripts/backup_restore.py\<close>: the inventory of a backup, the checks of a restore and the swap of
  directories with its rollback.  A directory tree is the list of its regular files with content and mode; an archive is the
  list of its members.  Operations of the file system may fail: \<open>ev_fault n\<close> says that the n-th one raises \<open>OSError\<close>,
  and \<open>ev_left\<close> what an interrupted \<open>rmtree\<close> leaves of a tree.  SHA-256 and the JSON reader and writer are fields of the
  same record; the reader gives every string as \<open>JStr\<close>.
\<close>

section \<open>Names\<close>

type_synonym tree = "(path \<times> string \<times> nat) list"

definition MEDIA_NAMES :: "string list" where
  "MEDIA_NAMES = [''artifacts'', ''media'', ''clips'', ''raw_media'', ''event_clip'']"

definition MANIFEST_NAME :: string where
  "MANIFEST_NAME = ''backup-manifest.json''"

definition excluded :: "path \<Rightarrow> bool" where
  "excluded relative \<longleftrightarrow> list_ex (\<lambda>part. part \<in> set MEDIA_NAMES) relative"

record member =
  tm_name :: string
  tm_regular :: bool
  tm_mode :: nat
  tm_data :: string

definition safe_member :: "string \<Rightarrow> bool \<Rightarrow> unit result" where
  "safe_member name regular =
    (if is_absolute name \<or> ''..'' \<in> set (path_parts name) \<or> \<not> regular then raise (ValueError ''unsafe backup member'')
     else if excluded (path_parts name) then raise (ValueError ''media member is forbidden in a deployment restore'')
     else ret ())"

section \<open>Creating a backup\<close>

text \<open>What \<open>rglob\<close> finds below the source.\<close>

datatype node = RegularFile string nat | Symlink | Directory

fun backup_files :: "(path \<times> node) list \<Rightarrow> (path \<times> string \<times> nat) list" where
  "backup_files [] = []"
| "backup_files ((relative, node) # rest) = (case node of
     RegularFile content mode \<Rightarrow> if excluded relative then backup_files rest else (relative, content, mode) # backup_files rest
   | _ \<Rightarrow> backup_files rest)"

definition iter_files :: "(path \<times> node) list \<Rightarrow> (path \<times> string \<times> nat) list" where
  "iter_files nodes = backup_files (sort_key fst nodes)"

record env =
  ev_sha256 :: "string \<Rightarrow> string"
  ev_dumps :: "json \<Rightarrow> string"
  ev_loads :: "string \<Rightarrow> json result"
  ev_fault :: "nat \<Rightarrow> bool"
  ev_left :: "nat \<Rightarrow> tree option \<Rightarrow> tree option"
  ev_cut :: "nat \<Rightarrow> string \<Rightarrow> string"

definition file_entry :: "env \<Rightarrow> path \<times> string \<times> nat \<Rightarrow> json" where
  "file_entry env = (\<lambda>(relative, content, mode). JObj [(''path'', JStr (as_posix relative)), (''sha256'', JStr (ev_sha256 env content)),
     (''size'', JInt (int (length content)))])"

definition backup_manifest :: "env \<Rightarrow> string \<Rightarrow> string \<Rightarrow> (path \<times> node) list \<Rightarrow> dict" where
  "backup_manifest env created_at source nodes =
    [(''schema_version'', JStr ''smoke-detect-backup.v1''), (''created_at'', JStr created_at), (''source'', JStr source),
     (''files'', JList (map (file_entry env) (iter_files nodes))),
     (''excluded'', JStr ''raw media and event clips (metadata remains in the database dump)'')]"

definition create_backup :: "env \<Rightarrow> string \<Rightarrow> string \<Rightarrow> (path \<times> node) list \<Rightarrow> member list" where
  "create_backup env created_at source nodes =
    map (\<lambda>(relative, content, mode). \<lparr>tm_name = as_posix relative, tm_regular = True, tm_mode = mode, tm_data = content\<rparr>)
      (iter_files nodes) @
    [\<lparr>tm_name = MANIFEST_NAME, tm_regular = True, tm_mode = 420,
      tm_data = ev_dumps env (JObj (backup_manifest env created_at source nodes))\<rparr>]"

section \<open>Checking an archive\<close>

text \<open>\<open>isinstance(size, int)\<close> holds for booleans too.\<close>

definition int_of :: "json \<Rightarrow> int option" where
  "int_of v = (case v of JInt n \<Rightarrow> Some n | JBool b \<Rightarrow> Some (if b then 1 else 0) | _ \<Rightarrow> None)"

fun inventory :: "json list \<Rightarrow> (string \<times> int \<times> string) list \<Rightarrow> (string \<times> int \<times> string) list result" where
  "inventory [] expected = ret expected"
| "inventory (entry # entries) expected = (case entry of
     JObj d \<Rightarrow> (case (dget d ''path'', dget d ''sha256'', int_of (dget d ''size'')) of
       (JStr name, JStr digest, Some sz) \<Rightarrow>
         if name = MANIFEST_NAME \<or> length digest \<noteq> 64 \<or> sz < 0
         then raise (ValueError ''backup manifest contains invalid inventory metadata'')
         else if map_of expected name \<noteq> None then raise (ValueError ''backup manifest contains duplicate file'')
         else rbind (safe_member name True) (\<lambda>_. inventory entries (expected @ [(name, sz, digest)]))
     | _ \<Rightarrow> raise (ValueError ''backup manifest contains invalid inventory metadata''))
   | _ \<Rightarrow> raise (ValueError ''backup manifest contains an invalid file entry''))"

fun all_safe :: "member list \<Rightarrow> unit result" where
  "all_safe [] = ret ()"
| "all_safe (m # ms) = rbind (safe_member (tm_name m) (tm_regular m)) (\<lambda>_. all_safe ms)"

definition check_archive :: "env \<Rightarrow> member list \<Rightarrow> (dict \<times> (string \<times> int \<times> string) list) result" where
  "check_archive env members =
    rbind (all_safe members) (\<lambda>_.
    let names = map tm_name members in
    if \<not> distinct names then raise (ValueError ''backup contains duplicate members'')
    else (case find (\<lambda>m. tm_name m = MANIFEST_NAME) members of
      None \<Rightarrow> raise (ValueError ''backup manifest is missing'')
    | Some mm \<Rightarrow> rbind (ev_loads env (tm_data mm)) (\<lambda>manifest. case manifest of
        JObj d \<Rightarrow>
          if dget d ''schema_version'' \<noteq> JStr ''smoke-detect-backup.v1'' then raise (ValueError ''unsupported backup manifest'')
          else (case dget d ''files'' of
            JList entries \<Rightarrow> rbind (inventory entries []) (\<lambda>expected.
              if set (filter (\<lambda>n. n \<noteq> MANIFEST_NAME) names) \<noteq> set (map fst expected)
              then raise (ValueError ''backup inventory mismatch'')
              else ret (d, expected))
          | _ \<Rightarrow> raise (ValueError ''backup manifest files must be a list''))
      | _ \<Rightarrow> raise (ValueError ''unsupported backup manifest''))))"

section \<open>Restoring\<close>

text \<open>The directories next to the destination, with the variables of \<open>restore_backup\<close>: \<open>dk_old\<close> is \<open>old_destination is not None\<close>,
  \<open>dk_owned\<close> is \<open>staging != Path()\<close>; \<open>dk_ops\<close> counts operations.\<close>

record disk =
  dk_dest :: "tree option"
  dk_prev :: "tree option"
  dk_staging :: "tree option"
  dk_old :: bool
  dk_owned :: bool
  dk_ops :: nat

type_synonym 'a io = "disk \<Rightarrow> 'a result \<times> disk"

definition iret :: "'a \<Rightarrow> 'a io" where
  "iret x d = (ret x, d)"

definition iraise :: "error \<Rightarrow> 'a io" where
  "iraise e d = (raise e, d)"

definition ibind :: "'a io \<Rightarrow> ('a \<Rightarrow> 'b io) \<Rightarrow> 'b io" where
  "ibind m f d = (case m d of (Inl e, d') \<Rightarrow> (raise e, d') | (Inr x, d') \<Rightarrow> f x d')"

definition os_error :: error where
  "os_error = AdapterError ''OSError''"

definition tick :: "disk \<Rightarrow> disk" where
  "tick d = d\<lparr>dk_ops := Suc (dk_ops d)\<rparr>"

text \<open>An atomic operation, and \<open>shutil.rmtree\<close>, which may stop half way.\<close>

definition act :: "env \<Rightarrow> (disk \<Rightarrow> disk) \<Rightarrow> unit io" where
  "act env f d = (if ev_fault env (dk_ops d) then (raise os_error, tick d) else (ret (), f (tick d)))"

definition rmtree :: "env \<Rightarrow> (disk \<Rightarrow> tree option) \<Rightarrow> (tree option \<Rightarrow> disk \<Rightarrow> disk) \<Rightarrow> unit io" where
  "rmtree env get put d =
    (if ev_fault env (dk_ops d) then (raise os_error, put (ev_left env (dk_ops d) (get d)) (tick d)) else (ret (), put None (tick d)))"

definition put_dest :: "tree option \<Rightarrow> disk \<Rightarrow> disk" where "put_dest t d = d\<lparr>dk_dest := t\<rparr>"
definition put_prev :: "tree option \<Rightarrow> disk \<Rightarrow> disk" where "put_prev t d = d\<lparr>dk_prev := t\<rparr>"
definition put_staging :: "tree option \<Rightarrow> disk \<Rightarrow> disk" where "put_staging t d = d\<lparr>dk_staging := t\<rparr>"

definition staged_tree :: "disk \<Rightarrow> tree" where
  "staged_tree d = (case dk_staging d of None \<Rightarrow> [] | Some t \<Rightarrow> t)"

definition is_prefix :: "path \<Rightarrow> path \<Rightarrow> bool" where
  "is_prefix p q \<longleftrightarrow> take (length p) q = p \<and> length p < length q"

text \<open>A file where a directory is needed, or the other way round.\<close>

definition blocked_path :: "tree \<Rightarrow> path \<Rightarrow> bool" where
  "blocked_path t p \<longleftrightarrow> p = [] \<or> list_ex (\<lambda>(q, _). is_prefix q p \<or> is_prefix p q) t"

definition write_file :: "env \<Rightarrow> path \<Rightarrow> string \<Rightarrow> unit io" where
  "write_file env p content d =
    (let old_mode = (case map_of (staged_tree d) p of None \<Rightarrow> 420 | Some (_, mode) \<Rightarrow> mode) in
     if ev_fault env (dk_ops d)
     then (raise os_error, put_staging (Some (AList.update p (ev_cut env (dk_ops d) content, old_mode) (staged_tree d))) (tick d))
     else (ret (), put_staging (Some (AList.update p (content, old_mode) (staged_tree d))) (tick d)))"

definition chmod_file :: "path \<Rightarrow> nat \<Rightarrow> disk \<Rightarrow> disk" where
  "chmod_file p mode d = put_staging (Some (case map_of (staged_tree d) p of
     None \<Rightarrow> staged_tree d | Some (content, _) \<Rightarrow> AList.update p (content, mode) (staged_tree d))) d"

definition extract_member :: "env \<Rightarrow> (string \<times> int \<times> string) list \<Rightarrow> member \<Rightarrow> unit io" where
  "extract_member env expected m d =
    (let p = path_parts (tm_name m) in
     if CHR 0x00 \<in> set (tm_name m) then (raise (ValueError ''embedded null byte''), d)
     else if blocked_path (staged_tree d) p then (raise os_error, d)
     else
       ibind (act env (\<lambda>d. d)) (\<lambda>_.
       ibind (write_file env p (tm_data m)) (\<lambda>_.
       if map_of expected (tm_name m) \<noteq> Some (int (length (tm_data m)), ev_sha256 env (tm_data m))
       then iraise (ValueError ''backup integrity check failed'')
       else act env (chmod_file p (tm_mode m mod 512)))) d)"

fun extract_all :: "env \<Rightarrow> (string \<times> int \<times> string) list \<Rightarrow> member list \<Rightarrow> unit io" where
  "extract_all env expected [] = iret ()"
| "extract_all env expected (m # ms) =
    (if tm_name m = MANIFEST_NAME then extract_all env expected ms
     else ibind (extract_member env expected m) (\<lambda>_. extract_all env expected ms))"

text \<open>The end of \<open>restore_backup\<close>: the old directory is renamed, the staged one takes its place, the old one is removed.\<close>

definition move_old :: "env \<Rightarrow> unit io" where
  "move_old env d =
    (if dk_dest d = None then (ret (), d)
     else
       ibind (if dk_prev d = None then iret () else rmtree env dk_prev put_prev) (\<lambda>_.
       act env (\<lambda>d. d\<lparr>dk_prev := dk_dest d, dk_dest := None, dk_old := True\<rparr>)) d)"

definition swap_in :: "env \<Rightarrow> unit io" where
  "swap_in env =
    ibind (move_old env) (\<lambda>_.
    ibind (act env (\<lambda>d. d\<lparr>dk_dest := dk_staging d, dk_staging := None, dk_owned := False\<rparr>)) (\<lambda>_ d.
    if dk_old d then rmtree env dk_prev put_prev d else (ret (), d)))"

text \<open>The \<open>except\<close> and \<open>finally\<close> blocks.\<close>

definition roll_back :: "env \<Rightarrow> error \<Rightarrow> 'a io" where
  "roll_back env e =
    ibind (\<lambda>d. if dk_dest d \<noteq> None \<and> dk_old d then rmtree env dk_dest put_dest d else (ret (), d)) (\<lambda>_.
    ibind (\<lambda>d. if dk_old d \<and> dk_prev d \<noteq> None then act env (\<lambda>d. d\<lparr>dk_dest := dk_prev d, dk_prev := None\<rparr>) d else (ret (), d)) (\<lambda>_.
    iraise e))"

definition clean_up :: "env \<Rightarrow> 'a result \<times> disk \<Rightarrow> 'a result \<times> disk" where
  "clean_up env = (\<lambda>(r, d).
    if dk_owned d \<and> dk_staging d \<noteq> None
    then (case rmtree env dk_staging put_staging d of (Inl e, d') \<Rightarrow> (raise e, d') | (Inr _, d') \<Rightarrow> (r, d'))
    else (r, d))"

definition try_restore :: "env \<Rightarrow> member list \<Rightarrow> dict io" where
  "try_restore env members d = (case check_archive env members of
     Inl e \<Rightarrow> (raise e, d)
   | Inr (manifest, expected) \<Rightarrow>
       ibind (extract_all env expected members) (\<lambda>_. ibind (swap_in env) (\<lambda>_. iret manifest)) d)"

definition restore_backup :: "env \<Rightarrow> member list result \<Rightarrow> dict io" where
  "restore_backup env archive =
    ibind (act env (\<lambda>d. d\<lparr>dk_staging := Some [], dk_old := False, dk_owned := True\<rparr>)) (\<lambda>_ d.
    clean_up env (case (case archive of Inl e \<Rightarrow> (raise e, d) | Inr members \<Rightarrow> try_restore env members d) of
      (Inr manifest, d') \<Rightarrow> (ret manifest, d')
    | (Inl e, d') \<Rightarrow> roll_back env e d'))"

section \<open>Atomicity\<close>

lemma ibind_Inr: "ibind m f d = (Inr y, d') \<longleftrightarrow> (\<exists>x d1. m d = (Inr x, d1) \<and> f x d1 = (Inr y, d'))"
  by (auto simp: ibind_def split: prod.splits sum.splits)

lemma ibind_Inl: "ibind m f d = (Inl e, d') \<longleftrightarrow> m d = (Inl e, d') \<or> (\<exists>x d1. m d = (Inr x, d1) \<and> f x d1 = (Inl e, d'))"
  by (auto simp: ibind_def split: prod.splits sum.splits)

text \<open>Extraction touches the staging directory only, and the counter never goes back.\<close>

definition staged_only :: "disk \<Rightarrow> disk \<Rightarrow> bool" where
  "staged_only d d' \<longleftrightarrow> dk_dest d' = dk_dest d \<and> dk_prev d' = dk_prev d \<and> dk_old d' = dk_old d \<and> dk_owned d' = dk_owned d \<and>
     (dk_staging d \<noteq> None \<longrightarrow> dk_staging d' \<noteq> None) \<and> dk_ops d \<le> dk_ops d'"

lemma staged_only_refl [simp]: "staged_only d d"
  and staged_only_trans: "staged_only d d1 \<Longrightarrow> staged_only d1 d2 \<Longrightarrow> staged_only d d2"
  by (auto simp: staged_only_def)

lemma staged_only_tick [simp]: "staged_only d (tick d)"
  by (simp add: staged_only_def tick_def)

lemma ibind_staged:
  assumes "\<And>d. staged_only d (snd (m d))" and "\<And>x d. staged_only d (snd (f x d))"
  shows "staged_only d (snd (ibind m f d))"
  using assms(1)[of d] assms(2) staged_only_trans by (fastforce simp: ibind_def split: prod.splits sum.splits)

lemma extract_member_staged: "staged_only d (snd (extract_member env expected m d))"
proof -
  have a: "staged_only d (snd (act env f d))" if "\<And>d. staged_only d (f d)" for f d
    using that staged_only_trans[OF staged_only_tick] by (simp add: act_def)
  have w: "staged_only d (snd (write_file env p c d))" for p c d
    by (simp add: write_file_def Let_def put_staging_def staged_only_def tick_def)
  have c: "staged_only d (chmod_file p mode d)" for p mode d
    by (simp add: chmod_file_def put_staging_def staged_only_def)
  show ?thesis
    by (auto simp: extract_member_def Let_def iraise_def intro!: ibind_staged a w c)
qed

lemma extract_all_staged: "staged_only d (snd (extract_all env expected ms d))"
  by (induction ms arbitrary: d) (auto simp: iret_def intro!: ibind_staged extract_member_staged)

text \<open>Operations fail at their own numbers, and with a single fault at most one of them fails.\<close>

definition one_fault :: "env \<Rightarrow> bool" where
  "one_fault env \<longleftrightarrow> (\<forall>i j. ev_fault env i \<longrightarrow> ev_fault env j \<longrightarrow> i = j)"

text \<open>How the swap ends: every failure leaves the old directory where the roll-back finds it, except that the removal of the old directory
  may have taken a part of it.\<close>

definition spoiled :: "env \<Rightarrow> tree option \<Rightarrow> tree option \<Rightarrow> bool" where
  "spoiled env t t' \<longleftrightarrow> t \<noteq> None \<and> (\<exists>k. ev_fault env k \<and> t' = ev_left env k t)"

lemma swap_in_Inl:
  assumes "swap_in env d = (Inl e, d')" and "\<not> dk_old d"
  shows "(\<not> dk_old d' \<and> dk_dest d' = dk_dest d) \<or> (dk_old d' \<and> dk_prev d' = dk_dest d \<and> dk_dest d' = None) \<or>
    (dk_old d' \<and> spoiled env (dk_dest d) (dk_prev d'))"
    and "\<exists>k < dk_ops d'. ev_fault env k"
  using assms
  by (auto simp: swap_in_def move_old_def ibind_Inl ibind_Inr act_def rmtree_def iret_def tick_def put_prev_def spoiled_def split: if_splits)

lemma swap_in_Inr:
  assumes "swap_in env d = (Inr (), d')" and "\<not> dk_old d"
  shows "dk_dest d' = dk_staging d \<and> dk_staging d' = None \<and> \<not> dk_owned d'"
  using assms
  by (auto simp: swap_in_def move_old_def ibind_Inr act_def rmtree_def iret_def tick_def put_prev_def split: if_splits)

text \<open>The tree an archive describes.\<close>

definition place :: "member \<Rightarrow> tree \<Rightarrow> tree" where
  "place m t = AList.update (path_parts (tm_name m)) (tm_data m, tm_mode m mod 512) t"

definition extracted :: "member list \<Rightarrow> tree" where
  "extracted ms = fold place (filter (\<lambda>m. tm_name m \<noteq> MANIFEST_NAME) ms) []"

lemma update_twice: "AList.update k v (AList.update k w al) = AList.update k v al"
  by (induction al) auto

lemma extract_member_Inr:
  assumes "extract_member env expected m d = (Inr (), d')" and "dk_staging d = Some t"
  shows "dk_staging d' = Some (place m t) \<and> map_of expected (tm_name m) = Some (int (length (tm_data m)), ev_sha256 env (tm_data m))"
  using assms
  by (auto simp: extract_member_def Let_def ibind_Inr act_def iraise_def write_file_def chmod_file_def staged_tree_def put_staging_def
      tick_def place_def update_twice update_conv' split: if_splits)

lemma extract_all_Inr:
  "extract_all env expected ms d = (Inr (), d') \<Longrightarrow> dk_staging d = Some t \<Longrightarrow>
    dk_staging d' = Some (fold place (filter (\<lambda>m. tm_name m \<noteq> MANIFEST_NAME) ms) t) \<and>
    (\<forall>m \<in> set ms. tm_name m \<noteq> MANIFEST_NAME \<longrightarrow>
       map_of expected (tm_name m) = Some (int (length (tm_data m)), ev_sha256 env (tm_data m)))"
proof (induction ms arbitrary: d t)
  case (Cons m ms)
  show ?case
  proof (cases "tm_name m = MANIFEST_NAME")
    case True
    then show ?thesis using Cons by simp
  next
    case False
    then obtain d1 where d1: "extract_member env expected m d = (Inr (), d1)" "extract_all env expected ms d1 = (Inr (), d')"
      using Cons.prems(1) by (auto simp: ibind_Inr)
    note e = extract_member_Inr[OF d1(1) Cons.prems(2)]
    from Cons.IH[OF d1(2)] e False show ?thesis by simp
  qed
qed (simp add: iret_def)

text \<open>The rollback of each kind of failure, with the only fault already spent.\<close>

lemma roll_back_idle: "\<not> dk_old d \<Longrightarrow> roll_back env e d = (Inl e, d)"
  by (simp add: roll_back_def ibind_def iraise_def)

lemma roll_back_restores:
  assumes "one_fault env" and "\<exists>k < dk_ops d. ev_fault env k" and "dk_old d"
  shows "\<exists>d'. roll_back env e d = (Inl e, d') \<and> dk_dest d' = dk_prev d"
proof -
  obtain k where "k < dk_ops d" "ev_fault env k" using assms(2) by blast
  then have "\<not> ev_fault env n" if "dk_ops d \<le> n" for n
    using assms(1) that unfolding one_fault_def by (metis leD)
  from this[of "dk_ops d"] this[of "Suc (dk_ops d)"] show ?thesis
    using assms(3) by (cases "dk_dest d"; cases "dk_prev d")
      (simp_all add: roll_back_def ibind_def iraise_def rmtree_def act_def tick_def put_dest_def)
qed

lemma clean_up_dest: "dk_dest (snd (clean_up env (r, d))) = dk_dest d"
  by (auto simp: clean_up_def rmtree_def put_staging_def tick_def)

lemma clean_up_Inr: "clean_up env (r, d) = (Inr x, d') \<Longrightarrow> r = Inr x"
  by (auto simp: clean_up_def rmtree_def split: if_splits)

lemma try_restore_Inl:
  assumes "one_fault env" and "try_restore env members d = (Inl e, d1)" and "\<not> dk_old d"
  shows "\<exists>d2. roll_back env e d1 = (Inl e, d2) \<and> (dk_dest d2 = dk_dest d \<or> spoiled env (dk_dest d) (dk_dest d2))"
proof (cases "check_archive env members")
  case (Inl e')
  then show ?thesis using assms roll_back_idle[of d1 env e] by (auto simp: try_restore_def)
next
  case (Inr x)
  obtain manifest expected where x: "x = (manifest, expected)" by force
  consider (unpack) "extract_all env expected members d = (Inl e, d1)"
    | (swap) dx where "extract_all env expected members d = (Inr (), dx)" "swap_in env dx = (Inl e, d1)"
    using assms(2) by (auto simp: try_restore_def Inr x ibind_Inl ibind_Inr iret_def)
  then show ?thesis
  proof cases
    case unpack
    then have "staged_only d d1" using extract_all_staged[of d env expected members] by simp
    then show ?thesis using assms(3) roll_back_idle[of d1 env e] by (auto simp: staged_only_def)
  next
    case swap
    then have so: "staged_only d dx" using extract_all_staged[of d env expected members] by simp
    then have "\<not> dk_old dx" using assms(3) by (simp add: staged_only_def)
    note s = swap_in_Inl[OF swap(2) this]
    have dest: "dk_dest dx = dk_dest d" using so by (simp add: staged_only_def)
    show ?thesis
    proof (cases "dk_old d1")
      case True
      from roll_back_restores[OF assms(1) s(2) True] s(1) dest True show ?thesis by fastforce
    next
      case False
      then show ?thesis using s(1) dest roll_back_idle[of d1 env e] by auto
    qed
  qed
qed

lemma try_restore_Inr:
  assumes "try_restore env members d = (Inr manifest, d1)" and "\<not> dk_old d" and "dk_staging d = Some []"
  shows "\<exists>expected. check_archive env members = Inr (manifest, expected) \<and> dk_dest d1 = Some (extracted members) \<and> \<not> dk_owned d1 \<and>
    (\<forall>m \<in> set members. tm_name m \<noteq> MANIFEST_NAME \<longrightarrow>
       map_of expected (tm_name m) = Some (int (length (tm_data m)), ev_sha256 env (tm_data m)))"
proof -
  obtain expected dx where c: "check_archive env members = Inr (manifest, expected)"
    and ex: "extract_all env expected members d = (Inr (), dx)" and sw: "swap_in env dx = (Inr (), d1)"
    using assms(1) by (auto simp: try_restore_def ibind_Inr iret_def split: sum.splits)
  note e = extract_all_Inr[OF ex assms(3)]
  have "\<not> dk_old dx" using extract_all_staged[of d env expected members] assms(2) ex by (simp add: staged_only_def)
  from swap_in_Inr[OF sw this] e c show ?thesis by (auto simp: extracted_def)
qed

section \<open>Properties\<close>

text \<open>Property C27.  A restore is all or nothing: if one file-system operation fails at any point, or the archive is refused at
  any point, the destination is exactly what it was before; if the restore returns, the destination is exactly the
  tree the archive describes.  The one exception is a failure while the old directory is removed at
  the end: the new directory is then deleted, and what is left of the old one takes its place.\<close>

theorem restore_is_all_or_nothing:
  assumes "one_fault env" and "restore_backup env archive d = (r, d')"
  shows "case r of
      Inl _ \<Rightarrow> dk_dest d' = dk_dest d \<or> spoiled env (dk_dest d) (dk_dest d')
    | Inr _ \<Rightarrow> \<exists>members. archive = Inr members \<and> dk_dest d' = Some (extracted members)"
proof (cases "ev_fault env (dk_ops d)")
  case True
  then show ?thesis using assms(2) by (auto simp: restore_backup_def ibind_def act_def tick_def)
next
  case False
  define d0 where "d0 = (tick d)\<lparr>dk_staging := Some [], dk_old := False, dk_owned := True\<rparr>"
  have d0: "\<not> dk_old d0" "dk_staging d0 = Some []" "dk_dest d0 = dk_dest d" by (simp_all add: d0_def tick_def)
  let ?body = "case archive of Inl e \<Rightarrow> (raise e, d0) | Inr members \<Rightarrow> try_restore env members d0"
  have "restore_backup env archive d = clean_up env (case ?body of (Inr manifest, x) \<Rightarrow> (ret manifest, x) | (Inl e, x) \<Rightarrow> roll_back env e x)"
    unfolding d0_def using False by (simp add: restore_backup_def ibind_def act_def)
  then have res: "(r, d') = clean_up env (case ?body of (Inr manifest, x) \<Rightarrow> (ret manifest, x) | (Inl e, x) \<Rightarrow> roll_back env e x)"
    using assms(2) by simp
  show ?thesis
  proof (cases "fst ?body")
    case (Inr manifest)
    then obtain members x where a: "archive = Inr members" "try_restore env members d0 = (Inr manifest, x)"
      by (cases archive) (auto simp: prod_eq_iff)
    from try_restore_Inr[OF a(2) d0(1,2)] have x: "dk_dest x = Some (extracted members)" "\<not> dk_owned x" by blast+
    have "(r, d') = (Inr manifest, x)" using res a x(2) by (simp add: clean_up_def)
    then show ?thesis using a x by simp
  next
    case (Inl e)
    obtain x d2 where "?body = (Inl e, x)" "roll_back env e x = (Inl e :: dict result, d2)"
      and dest: "dk_dest d2 = dk_dest d \<or> spoiled env (dk_dest d) (dk_dest d2)"
    proof (cases archive)
      case l: (Inl e')
      then show ?thesis using that[of d0 d0] Inl d0 roll_back_idle[of d0 env e] by simp
    next
      case (Inr members)
      then obtain x where x: "try_restore env members d0 = (Inl e, x)" using Inl by (metis prod.collapse sum.case(2))
      from try_restore_Inl[OF assms(1) x d0(1)] that[of x] Inr x d0(3) show ?thesis by auto
    qed
    then have rd: "clean_up env (Inl e, d2) = (r, d')" using res by simp
    then have "dk_dest d' = dk_dest d2" using clean_up_dest[of env "Inl e :: dict result" d2] by simp
    moreover have "isl r" using rd clean_up_Inr[of env "Inl e" d2 _ d'] by (cases r) auto
    ultimately show ?thesis using dest by (cases r) auto
  qed
qed

definition restore_env :: "(nat \<Rightarrow> bool) \<Rightarrow> json \<Rightarrow> env" where
  "restore_env fault doc = \<lparr>ev_sha256 = (\<lambda>_. replicate 64 (CHR ''0'')), ev_dumps = (\<lambda>_. ''{}''), ev_loads = (\<lambda>_. ret doc),
     ev_fault = fault, ev_left = (\<lambda>_ t. map_option (drop 1) t), ev_cut = (\<lambda>_ s. take 1 s)\<rparr>"

definition sample_doc :: json where
  "sample_doc = JObj [(''schema_version'', JStr ''smoke-detect-backup.v1''),
     (''files'', JList [JObj [(''path'', JStr ''state/db''), (''sha256'', JStr (replicate 64 (CHR ''0''))), (''size'', JInt 3)]])]"

definition sample_members :: "member list" where
  "sample_members = [\<lparr>tm_name = ''state/db'', tm_regular = True, tm_mode = 384, tm_data = ''new''\<rparr>,
     \<lparr>tm_name = MANIFEST_NAME, tm_regular = True, tm_mode = 420, tm_data = ''{}''\<rparr>]"

definition sample_disk :: disk where
  "sample_disk = \<lparr>dk_dest = Some [([''db''], ''old'', 384), ([''policy''], ''p'', 420)], dk_prev = None, dk_staging = None, dk_old = False,
     dk_owned = False, dk_ops = 0\<rparr>"

theorem restore_is_all_or_nothing_witness:
  "\<exists>e d'. restore_backup (restore_env (\<lambda>n. n = 5) sample_doc) (Inr sample_members) sample_disk = (Inl e, d') \<and>
    dk_dest d' = dk_dest sample_disk"
proof -
  let ?x = "restore_backup (restore_env (\<lambda>n. n = 5) sample_doc) (Inr sample_members) sample_disk"
  have ok: "one_fault (restore_env (\<lambda>n. n = 5) sample_doc)" by (simp add: one_fault_def restore_env_def)
  have facts: "isl (fst ?x)" "dk_dest (snd ?x) \<noteq> map_option (drop 1) (dk_dest sample_disk)" by code_simp+
  obtain e d' where x: "?x = (Inl e, d')" using facts(1) by (cases ?x; cases "fst ?x") auto
  from restore_is_all_or_nothing[OF ok x] x facts(2) show ?thesis by (auto simp: spoiled_def restore_env_def)
qed

text \<open>The exception is real: when the last removal stops half way, neither the new nor the old directory survives.\<close>

lemma interrupted_cleanup_loses_files:
  "let x = restore_backup (restore_env (\<lambda>n. n = 6) sample_doc) (Inr sample_members) sample_disk in
    isl (fst x) \<and> dk_dest (snd x) = Some [([''policy''], ''p'', 420)] \<and> dk_prev (snd x) = None"
  by code_simp

section \<open>What a successful restore guarantees\<close>

lemma safe_member_Inr:
  "safe_member name regular = Inr u \<longleftrightarrow>
    \<not> is_absolute name \<and> ''..'' \<notin> set (path_parts name) \<and> regular \<and> \<not> excluded (path_parts name)"
  by (simp add: safe_member_def)

lemma all_safe_Inr: "all_safe ms = Inr u \<longleftrightarrow> (\<forall>m \<in> set ms. safe_member (tm_name m) (tm_regular m) = Inr ())"
  by (induction ms) (auto simp: rbind_Inr)

definition entry_of :: "string \<times> int \<times> string \<Rightarrow> json \<Rightarrow> bool" where
  "entry_of x v \<longleftrightarrow> (case v of JObj d \<Rightarrow> dget d ''path'' = JStr (fst x) \<and> int_of (dget d ''size'') = Some (fst (snd x)) \<and>
     dget d ''sha256'' = JStr (snd (snd x)) | _ \<Rightarrow> False)"

lemma inventory_Inr:
  "inventory entries acc = Inr expected \<Longrightarrow> (\<exists>new. expected = acc @ new \<and> list_all2 entry_of new entries) \<and>
    (distinct (map fst acc) \<longrightarrow> distinct (map fst expected))"
proof (induction entries arbitrary: acc)
  case (Cons v entries)
  obtain d where v: "v = JObj d" using Cons.prems by (cases v) auto
  obtain name digest sz where f: "dget d ''path'' = JStr name" "dget d ''sha256'' = JStr digest" "int_of (dget d ''size'') = Some sz"
    using Cons.prems by (cases "dget d ''path''"; cases "dget d ''sha256''"; cases "int_of (dget d ''size'')") (auto simp: v)
  then have rest: "inventory entries (acc @ [(name, sz, digest)]) = Inr expected" and fresh: "map_of acc name = None"
    using Cons.prems by (cases "map_of acc name"; auto simp: v rbind_Inr split: if_splits)+
  have "distinct (map fst acc) \<longrightarrow> distinct (map fst expected)"
    using Cons.IH[OF rest] fresh by (auto simp: map_of_eq_None_iff)
  moreover from Cons.IH[OF rest] obtain new where "expected = acc @ (name, sz, digest) # new" "list_all2 entry_of new entries" by auto
  moreover have "entry_of (name, sz, digest) v" using f by (simp add: entry_of_def v)
  ultimately show ?case by (intro conjI exI[of _ "(name, sz, digest) # new"]) simp_all
qed simp

lemma check_archive_Inr:
  assumes "check_archive env members = Inr (manifest, expected)"
  shows "\<forall>m \<in> set members. safe_member (tm_name m) (tm_regular m) = Inr ()" and "distinct (map tm_name members)"
    and "set (filter (\<lambda>n. n \<noteq> MANIFEST_NAME) (map tm_name members)) = set (map fst expected)"
    and "\<exists>entries. dget manifest ''files'' = JList entries \<and> list_all2 entry_of expected entries" and "distinct (map fst expected)"
proof -
  obtain mm where mm: "find (\<lambda>m. tm_name m = MANIFEST_NAME) members = Some mm"
    using assms by (auto simp: check_archive_def rbind_Inr Let_def split: if_splits option.splits)
  have ok: "all_safe members = Inr ()" "distinct (map tm_name members)"
    using assms by (auto simp: check_archive_def rbind_Inr Let_def split: if_splits)
  obtain v where v: "ev_loads env (tm_data mm) = Inr v"
    using assms by (auto simp: check_archive_def rbind_Inr Let_def mm split: if_splits)
  obtain d where d: "v = JObj d" using assms by (cases v) (auto simp: check_archive_def Let_def mm v ok)
  obtain entries where en': "dget d ''files'' = JList entries"
    using assms by (cases "dget d ''files''") (auto simp: check_archive_def Let_def mm v d ok split: if_splits)
  have dm: "d = manifest" using assms by (auto simp: check_archive_def rbind_Inr Let_def mm v d en' ok split: if_splits)
  note ld = ok v[unfolded d dm] and en = en'[unfolded dm]
  have "inventory entries [] = Inr expected" and names: "set (filter (\<lambda>n. n \<noteq> MANIFEST_NAME) (map tm_name members)) = set (map fst expected)"
    using assms by (auto simp: check_archive_def rbind_Inr Let_def mm ld en simp del: set_filter split: if_splits)
  from inventory_Inr[OF this(1)] en show "\<exists>entries. dget manifest ''files'' = JList entries \<and> list_all2 entry_of expected entries"
    "distinct (map fst expected)" by auto
  show "\<forall>m \<in> set members. safe_member (tm_name m) (tm_regular m) = Inr ()" "distinct (map tm_name members)"
    "set (filter (\<lambda>n. n \<noteq> MANIFEST_NAME) (map tm_name members)) = set (map fst expected)"
    using ld names by (auto simp: all_safe_Inr)
qed

lemma place_set: "x \<in> set (fold place ms t) \<Longrightarrow> x \<in> set t \<or> (\<exists>m \<in> set ms. x = (path_parts (tm_name m), tm_data m, tm_mode m mod 512))"
proof (induction ms arbitrary: t)
  case (Cons m ms)
  have "x \<in> set (AList.update k v al) \<Longrightarrow> x \<in> set al \<or> x = (k, v)" for k v and al :: tree
    by (induction al) (auto split: if_splits)
  from this[of "path_parts (tm_name m)" "(tm_data m, tm_mode m mod 512)" t] show ?case
    using Cons.IH[of "place m t"] Cons.prems by (auto simp: place_def)
qed simp

lemma list_all2_matches:
  "list_all2 P xs ys \<Longrightarrow> (\<forall>x \<in> set xs. \<exists>y \<in> set ys. P x y) \<and> (\<forall>y \<in> set ys. \<exists>x \<in> set xs. P x y)"
  by (induction xs ys rule: list_all2_induct) auto

lemma roll_back_raises: "roll_back env e x \<noteq> (Inr y, z)"
  by (auto simp: roll_back_def ibind_Inr iraise_def)

lemma restore_backup_Inr:
  assumes "restore_backup env archive d = (Inr manifest, d')"
  shows "\<exists>members expected. archive = Inr members \<and> check_archive env members = Inr (manifest, expected) \<and>
    dk_dest d' = Some (extracted members) \<and>
    (\<forall>m \<in> set members. tm_name m \<noteq> MANIFEST_NAME \<longrightarrow>
       map_of expected (tm_name m) = Some (int (length (tm_data m)), ev_sha256 env (tm_data m)))"
proof -
  define d0 where "d0 = (tick d)\<lparr>dk_staging := Some [], dk_old := False, dk_owned := True\<rparr>"
  let ?body = "case archive of Inl e \<Rightarrow> (raise e, d0) | Inr members \<Rightarrow> try_restore env members d0"
  have "\<not> ev_fault env (dk_ops d)" using assms by (auto simp: restore_backup_def ibind_def act_def)
  then have res: "clean_up env (case ?body of (Inr manifest, x) \<Rightarrow> (ret manifest, x) | (Inl e, x) \<Rightarrow> roll_back env e x) = (Inr manifest, d')"
    unfolding d0_def using assms by (simp add: restore_backup_def ibind_def act_def)
  obtain x where x: "?body = (Inr manifest, x)"
  proof (cases ?body)
    case (Pair r x)
    show ?thesis
    proof (cases r)
      case (Inl e)
      obtain r' z where rb: "roll_back env e x = (r' :: dict result, z)" by force
      then have "clean_up env (r', z) = (Inr manifest, d')" using res Pair Inl by simp
      then show ?thesis using clean_up_Inr[of env r' z manifest d'] rb roll_back_raises[of env e x manifest z] by simp
    next
      case (Inr mf)
      then have "clean_up env (Inr mf, x) = (Inr manifest, d')" using res Pair by simp
      then show ?thesis using that Pair Inr clean_up_Inr[of env "Inr mf" x manifest d'] by simp
    qed
  qed
  then obtain members where a: "archive = Inr members" "try_restore env members d0 = (Inr manifest, x)" by (cases archive) auto
  have "\<not> dk_old d0" "dk_staging d0 = Some []" by (simp_all add: d0_def)
  from try_restore_Inr[OF a(2) this] res x a show ?thesis by (auto simp: clean_up_def)
qed



text \<open>A source whose regular files can be stored: distinct clean names, no file where another needs a directory, and no file of
  the name of the manifest.\<close>

definition storable :: "(path \<times> node) list \<Rightarrow> bool" where
  "storable nodes \<longleftrightarrow> distinct (map fst (iter_files nodes)) \<and>
     (\<forall>(p, x) \<in> set (iter_files nodes). p \<noteq> [] \<and> list_all clean_part p \<and> ''..'' \<notin> set p \<and> p \<noteq> [MANIFEST_NAME] \<and>
        (\<forall>(q, y) \<in> set (iter_files nodes). \<not> is_prefix p q))"

lemma iter_files_included: "(p, x) \<in> set (iter_files nodes) \<Longrightarrow> \<not> excluded p"
proof -
  have "(p, x) \<in> set (backup_files ns) \<Longrightarrow> \<not> excluded p" for ns
    by (induction ns rule: backup_files.induct) (auto split: node.splits if_splits)
  then show "(p, x) \<in> set (iter_files nodes) \<Longrightarrow> \<not> excluded p" by (simp add: iter_files_def)
qed

definition file_member :: "path \<times> string \<times> nat \<Rightarrow> member" where
  "file_member = (\<lambda>(p, content, mode). \<lparr>tm_name = as_posix p, tm_regular = True, tm_mode = mode, tm_data = content\<rparr>)"

definition file_record :: "env \<Rightarrow> path \<times> string \<times> nat \<Rightarrow> string \<times> int \<times> string" where
  "file_record env = (\<lambda>(p, content, mode). (as_posix p, int (length content), ev_sha256 env content))"

definition placed :: "path \<times> string \<times> nat \<Rightarrow> path \<times> string \<times> nat" where
  "placed = (\<lambda>(p, content, mode). (p, content, mode mod 512))"

text \<open>The files of a storable source, as a list.\<close>

definition storable_files :: "(path \<times> string \<times> nat) list \<Rightarrow> bool" where
  "storable_files files \<longleftrightarrow> distinct (map fst files) \<and>
     (\<forall>(p, x) \<in> set files. p \<noteq> [] \<and> list_all clean_part p \<and> ''..'' \<notin> set p \<and> p \<noteq> [MANIFEST_NAME] \<and> \<not> excluded p \<and>
        (\<forall>(q, y) \<in> set files. \<not> is_prefix p q))"

lemma storable_iter: "storable nodes \<Longrightarrow> storable_files (iter_files nodes)"
  using iter_files_included by (fastforce simp: storable_def storable_files_def)

lemma clean_name:
  assumes "list_all clean_part p"
  shows "path_parts (as_posix p) = p" and "\<not> is_absolute (as_posix p)" and "CHR 0x00 \<notin> set (as_posix p)"
proof -
  show "path_parts (as_posix p) = p" "\<not> is_absolute (as_posix p)" using assms by (rule parts_as_posix, rule as_posix_relative)
  show "CHR 0x00 \<notin> set (as_posix p)"
  proof (cases "p = []")
    case False
    have "p \<noteq> [] \<Longrightarrow> list_all clean_part p \<Longrightarrow> CHR 0x00 \<notin> set (join_slash p)" for p
      by (induction p rule: join_slash.induct) (auto simp: clean_part_def)
    then show ?thesis using assms False by (simp add: as_posix_def)
  qed (simp add: as_posix_def)
qed

lemma storable_names:
  assumes "storable_files files"
  shows "distinct (map (\<lambda>f. as_posix (fst f)) files)" and "f \<in> set files \<Longrightarrow> as_posix (fst f) \<noteq> MANIFEST_NAME"
    and "f \<in> set files \<Longrightarrow> safe_member (as_posix (fst f)) True = Inr ()"
proof -
  have clean: "list_all clean_part (fst f)" if "f \<in> set files" for f using assms that by (auto simp: storable_files_def)
  have "inj_on as_posix (fst ` set files)" using clean parts_as_posix by (intro inj_onI) (metis (no_types) imageE)
  then show "distinct (map (\<lambda>f. as_posix (fst f)) files)"
    using assms by (auto simp: storable_files_def distinct_map inj_on_def)
  have "path_parts MANIFEST_NAME = [MANIFEST_NAME]" by code_simp
  then show "as_posix (fst f) \<noteq> MANIFEST_NAME" if "f \<in> set files"
    using clean_name(1)[OF clean[OF that]] assms that by (auto simp: storable_files_def)
  show "safe_member (as_posix (fst f)) True = Inr ()" if "f \<in> set files"
    using clean_name[OF clean[OF that]] assms that by (auto simp: safe_member_Inr storable_files_def)
qed

lemma inventory_files:
  assumes "\<forall>s. length (ev_sha256 env s) = 64"
  shows "distinct (map fst (acc @ map (file_record env) files)) \<Longrightarrow>
    \<forall>f \<in> set files. as_posix (fst f) \<noteq> MANIFEST_NAME \<and> safe_member (as_posix (fst f)) True = Inr () \<Longrightarrow>
    inventory (map (file_entry env) files) acc = Inr (acc @ map (file_record env) files)"
proof (induction files arbitrary: acc)
  case (Cons f files)
  obtain p c m where f: "f = (p, c, m)" by (cases f)
  have "map_of acc (as_posix p) = None" using Cons.prems(1) by (auto simp: f file_record_def map_of_eq_None_iff)
  moreover have "inventory (map (file_entry env) files) (acc @ [file_record env f]) = Inr (acc @ map (file_record env) (f # files))"
    using Cons.prems by (subst Cons.IH) (auto simp: f)
  ultimately show ?case
    using Cons.prems(2) assms by (simp add: f file_entry_def file_record_def dget_def int_of_def)
qed simp

lemma extract_files:
  assumes "\<And>n. \<not> ev_fault env n"
  shows "storable_files (done @ files) \<Longrightarrow> dk_staging d = Some (map placed done) \<Longrightarrow>
    \<forall>f \<in> set files. map_of expected (as_posix (fst f)) = Some (snd (file_record env f)) \<Longrightarrow>
    \<exists>d'. extract_all env expected (map file_member files) d = (Inr (), d')"
proof (induction files arbitrary: "done" d)
  case (Cons f files)
  obtain p c m where f: "f = (p, c, m)" by (cases f)
  have st: "list_all clean_part p" "p \<noteq> []" "\<forall>(q, y) \<in> set done. \<not> is_prefix p q \<and> \<not> is_prefix q p" "p \<notin> fst ` set done"
    using Cons.prems(1) by (auto simp: storable_files_def f)
  note cn = clean_name[OF st(1)]
  have nb: "\<not> blocked_path (map placed done) p"
    using st(2,3) by (auto simp: blocked_path_def list_ex_iff placed_def)
  have "as_posix p \<noteq> MANIFEST_NAME" using storable_names(2)[OF Cons.prems(1), of f] by (simp add: f)
  moreover obtain d1 where d1: "extract_member env expected (file_member f) d = (Inr (), d1)"
    using assms cn nb Cons.prems(2,3)
    by (simp add: extract_member_def Let_def file_member_def f ibind_def act_def write_file_def staged_tree_def tick_def
        put_staging_def file_record_def)
  moreover have "AList.update p (c, m mod 512) (map placed done) = map placed (done @ [f])"
  proof -
    have "k \<notin> fst ` set al \<Longrightarrow> AList.update k v al = al @ [(k, v)]" for k v and al :: tree by (induction al) auto
    moreover have "p \<notin> fst ` set (map placed done)" using st(4) by (force simp: placed_def)
    ultimately show ?thesis by (simp add: f placed_def)
  qed
  then have "dk_staging d1 = Some (map placed (done @ [f]))"
    using extract_member_Inr[OF d1 Cons.prems(2)] cn by (simp add: place_def file_member_def f)
  then have "\<exists>d'. extract_all env expected (map file_member files) d1 = (Inr (), d')"
    using Cons.IH[of "done @ [f]" d1] Cons.prems by simp
  ultimately show ?case by (auto simp: ibind_def file_member_def f)
qed (simp add: iret_def)

lemma extract_all_manifest:
  assumes "tm_name mm = MANIFEST_NAME"
  shows "extract_all env expected (ms @ [mm]) d = extract_all env expected ms d"
  using assms by (induction ms arbitrary: d) (simp_all add: ibind_def split: prod.split sum.split)

lemma check_created:
  assumes "storable nodes" and sha: "\<forall>s. length (ev_sha256 env s) = 64" and rt: "ev_loads env (ev_dumps env (JObj (backup_manifest env created_at source nodes))) =
      Inr (JObj (backup_manifest env created_at source nodes))"
  shows "check_archive env (create_backup env created_at source nodes) =
    Inr (backup_manifest env created_at source nodes, map (file_record env) (iter_files nodes))"
proof -
  let ?files = "iter_files nodes"
  let ?mm = "\<lparr>tm_name = MANIFEST_NAME, tm_regular = True, tm_mode = 420,
      tm_data = ev_dumps env (JObj (backup_manifest env created_at source nodes))\<rparr>"
  have cb: "create_backup env created_at source nodes = map file_member ?files @ [?mm]"
    by (simp add: create_backup_def file_member_def)
  note st = storable_names[OF storable_iter[OF assms(1)]]
  have nm: "tm_name (file_member f) = as_posix (fst f)" "tm_regular (file_member f)" for f by (simp_all add: file_member_def split: prod.split)
  have names: "map tm_name (map file_member ?files) = map (\<lambda>f. as_posix (fst f)) ?files" by (simp add: nm)
  have "safe_member MANIFEST_NAME True = Inr ()" by code_simp
  then have safe: "all_safe (map file_member ?files @ [?mm]) = Inr ()" using st(3) by (auto simp: all_safe_Inr nm)
  have dist: "distinct (map tm_name (map file_member ?files @ [?mm]))"
    using st(1) st(2)[symmetric] by (auto simp: nm o_def)
  have "find (\<lambda>m. tm_name m = MANIFEST_NAME) (map file_member fs @ [?mm]) = Some ?mm"
    if "\<forall>f \<in> set fs. as_posix (fst f) \<noteq> MANIFEST_NAME" for fs using that by (induction fs) (auto simp: nm)
  then have fnd: "find (\<lambda>m. tm_name m = MANIFEST_NAME) (map file_member ?files @ [?mm]) = Some ?mm" using st(2) by blast
  have rec: "fst (file_record env f) = as_posix (fst f)" for f by (simp add: file_record_def split: prod.split)
  have "inventory (map (file_entry env) ?files) [] = Inr (map (file_record env) ?files)"
    using inventory_files[OF sha, of "[]" ?files] st by (simp add: rec o_def)
  moreover have "set (filter (\<lambda>n. n \<noteq> MANIFEST_NAME) (map tm_name (map file_member ?files @ [?mm]))) = set (map fst (map (file_record env) ?files))"
    using st(2) by (auto simp: nm rec)
  moreover have "dget (backup_manifest env created_at source nodes) ''files'' = JList (map (file_entry env) ?files)"
    "dget (backup_manifest env created_at source nodes) ''schema_version'' = JStr ''smoke-detect-backup.v1''"
    by (simp_all add: backup_manifest_def dget_def)
  ultimately show ?thesis
    using safe dist fnd rt by (simp add: check_archive_def cb Let_def del: map_append set_map set_filter)
qed

lemma update_new: "k \<notin> fst ` set al \<Longrightarrow> AList.update k v al = al @ [(k, v)]"
  by (induction al) auto

text \<open>What the archive of a storable source describes, and that a restore without faults goes through.\<close>

lemma fold_place:
  fixes t :: tree
  assumes "distinct (map fst (t @ fs))" and "\<forall>f \<in> set fs. list_all clean_part (fst f)"
  shows "fold place (map file_member fs) t = t @ map placed fs"
  using assms
proof (induction fs arbitrary: t)
  case (Cons f fs)
  obtain p c m where f: "f = (p, c, m)" by (cases f)
  have "place (file_member f) t = t @ [placed f]"
    using Cons.prems clean_name(1)[of p] update_new[of p t] by (simp add: place_def file_member_def placed_def f)
  moreover have "distinct (map fst ((t @ [placed f]) @ fs))" using Cons.prems(1) by (simp add: f placed_def)
  ultimately show ?case using Cons.IH[of "t @ [placed f]"] Cons.prems(2) by simp
qed simp

lemma extracted_created:
  assumes "storable nodes"
  shows "extracted (create_backup env created_at source nodes) = map placed (iter_files nodes)"
proof -
  note st = storable_iter[OF assms]
  have "fold place (map file_member (iter_files nodes)) [] = map placed (iter_files nodes)"
    using fold_place[of "[]" "iter_files nodes"] st by (auto simp: storable_files_def split_beta)
  moreover have "filter (\<lambda>m. tm_name m \<noteq> MANIFEST_NAME) (map file_member (iter_files nodes)) = map file_member (iter_files nodes)"
    using storable_names(2)[OF st] by (auto simp: file_member_def intro!: filter_True)
  ultimately show ?thesis by (simp add: extracted_def create_backup_def file_member_def)
qed

lemma file_records:
  assumes "storable_files files" and "f \<in> set files"
  shows "map_of (map (file_record env) files) (as_posix (fst f)) = Some (snd (file_record env f))"
proof -
  have rec: "fst (file_record env f) = as_posix (fst f)" for f by (simp add: file_record_def split: prod.split)
  have "distinct (map fst (map (file_record env) files))" using storable_names(1)[OF assms(1)] by (simp add: o_def rec)
  then show ?thesis using assms(2) by (intro map_of_is_SomeI) (auto simp: rec intro!: image_eqI[of _ _ f] prod_eqI)
qed

definition faultless :: "env \<Rightarrow> bool" where
  "faultless env \<longleftrightarrow> (\<forall>n. \<not> ev_fault env n)"

definition reads_back :: "env \<Rightarrow> string \<Rightarrow> string \<Rightarrow> (path \<times> node) list \<Rightarrow> bool" where
  "reads_back env created_at source nodes \<longleftrightarrow>
    ev_loads env (ev_dumps env (JObj (backup_manifest env created_at source nodes))) = Inr (JObj (backup_manifest env created_at source nodes))"

lemma restore_created:
  assumes "storable nodes" and "\<forall>s. length (ev_sha256 env s) = 64" and "reads_back env created_at source nodes" and "faultless env"
  shows "\<exists>d'. restore_backup env (Inr (create_backup env created_at source nodes)) d = (Inr (backup_manifest env created_at source nodes), d')"
proof -
  let ?files = "iter_files nodes" and ?ms = "create_backup env created_at source nodes"
  define d0 where "d0 = (tick d)\<lparr>dk_staging := Some [], dk_old := False, dk_owned := True\<rparr>"
  note st = storable_iter[OF assms(1)] and nf = assms(4)[unfolded faultless_def, rule_format]
  obtain dx where "extract_all env (map (file_record env) ?files) (map file_member ?files) d0 = (Inr (), dx)"
    using extract_files[of env "[]" ?files d0 "map (file_record env) ?files"] nf st file_records[OF st] by (auto simp: d0_def)
  then have ex: "extract_all env (map (file_record env) ?files) ?ms d0 = (Inr (), dx)"
    using extract_all_manifest[of "last ?ms" env "map (file_record env) ?files" "map file_member ?files" d0]
    by (simp add: create_backup_def file_member_def)
  have "fst (swap_in env dx) = Inr ()" using nf by (simp add: swap_in_def move_old_def ibind_def act_def rmtree_def iret_def)
  then obtain d1 where sw: "swap_in env dx = (Inr (), d1)" by (metis prod.collapse)
  have try1: "try_restore env ?ms d0 = (Inr (backup_manifest env created_at source nodes), d1)"
    using check_created[OF assms(1,2) assms(3)[unfolded reads_back_def]] ex sw by (simp add: try_restore_def ibind_def iret_def)
  have "\<not> dk_old d0" "dk_staging d0 = Some []" by (simp_all add: d0_def)
  from try_restore_Inr[OF try1 this] have "\<not> dk_owned d1" by blast
  then show ?thesis using try1 nf by (simp add: restore_backup_def ibind_def act_def d0_def clean_up_def)
qed


definition sample_nodes :: "(path \<times> node) list" where
  "sample_nodes = [([''state''], Directory), ([''state'', ''db''], RegularFile ''new'' 896), ([''media'', ''a''], RegularFile ''m'' 420),
     ([''link''], Symlink)]"

definition sample_backup_env :: env where
  "sample_backup_env = restore_env (\<lambda>_. False) (JObj (backup_manifest (restore_env (\<lambda>_. False) JNull) ''now'' ''src'' sample_nodes))"

lemma sample_backup_files: "iter_files sample_nodes = [([''state'', ''db''], ''new'', 896)]"
  by code_simp


text \<open>A file of the source that has the name of the manifest makes an archive that no restore accepts.\<close>

lemma manifest_name_clash:
  "([MANIFEST_NAME], RegularFile content mode) \<in> set nodes \<Longrightarrow>
    fst (restore_backup env (Inr (create_backup env created_at source nodes)) d) \<noteq> Inr manifest"
proof
  assume src: "([MANIFEST_NAME], RegularFile content mode) \<in> set nodes"
    and "fst (restore_backup env (Inr (create_backup env created_at source nodes)) d) = Inr manifest"
  then obtain d' where "restore_backup env (Inr (create_backup env created_at source nodes)) d = (Inr manifest, d')"
    by (metis prod.collapse)
  then have dist: "distinct (map tm_name (create_backup env created_at source nodes))"
    using restore_backup_Inr check_archive_Inr(2) by blast
  have "\<not> excluded [MANIFEST_NAME]" by code_simp
  then have "([MANIFEST_NAME], content, mode) \<in> set (backup_files ns)" if "([MANIFEST_NAME], RegularFile content mode) \<in> set ns" for ns
    using that by (induction ns rule: backup_files.induct) (auto split: node.splits)
  then have "([MANIFEST_NAME], content, mode) \<in> set (iter_files nodes)" using src by (simp add: iter_files_def)
  moreover have "as_posix [MANIFEST_NAME] = MANIFEST_NAME" by (simp add: as_posix_def)
  ultimately have "MANIFEST_NAME \<in> (\<lambda>f. as_posix (fst f)) ` set (iter_files nodes)" by force
  then show False using dist by (auto simp: create_backup_def image_iff split_beta)
qed

end
