(* ===== verification/Streams.thy ===== *)
theory Streams
  imports Backup Contracts "HOL-Library.While_Combinator" "HOL-Library.Sublist"
begin

text \<open>
  The chunked loops of \<open>scripts/backup_restore.py\<close>: \<open>_copy_stream\<close> and \<open>_sha256_file\<close>, as \<open>while_option\<close> over the stream
  they read, and the publication of a finished file by rename (\<open>_publish_temp_file\<close>, \<open>backup_deployment\<close> and the output of the
  \<open>backup-runtime\<close> command).  A read may return fewer characters than it asks for, but an empty chunk only at the end; a
  write may fail after a part of its chunk.
\<close>

section \<open>Copying\<close>

definition COPY_CHUNK_SIZE :: nat where
  "COPY_CHUNK_SIZE = 1024 * 1024"

record copying =
  cp_left :: string
  cp_chunk :: string
  cp_out :: string
  cp_total :: nat
  cp_reads :: nat
  cp_error :: "error option"

text \<open>\<open>chunk := source.read(_COPY_CHUNK_SIZE)\<close>; \<open>pick n\<close> is what the n-th read has at hand.\<close>

definition read_chunk :: "(nat \<Rightarrow> nat) \<Rightarrow> copying \<Rightarrow> copying" where
  "read_chunk pick c =
    (let k = min COPY_CHUNK_SIZE (max 1 (pick (cp_reads c))) in
     c\<lparr>cp_chunk := take k (cp_left c), cp_left := drop k (cp_left c), cp_reads := Suc (cp_reads c)\<rparr>)"

text \<open>\<open>full n = Some j\<close>: the write after the n-th read raises once \<open>j\<close> characters are written.\<close>

definition write_chunk :: "(nat \<Rightarrow> nat option) \<Rightarrow> copying \<Rightarrow> copying" where
  "write_chunk full c = (case full (cp_reads c) of
     Some j \<Rightarrow> c\<lparr>cp_out := cp_out c @ take j (cp_chunk c), cp_error := Some os_error\<rparr>
   | None \<Rightarrow> c\<lparr>cp_out := cp_out c @ cp_chunk c, cp_total := cp_total c + length (cp_chunk c)\<rparr>)"

definition copy_body :: "(nat \<Rightarrow> nat) \<Rightarrow> (nat \<Rightarrow> nat option) \<Rightarrow> copying \<Rightarrow> copying" where
  "copy_body pick full c = (let c' = write_chunk full c in if cp_error c' = None then read_chunk pick c' else c')"

definition copying_on :: "copying \<Rightarrow> bool" where
  "copying_on c \<longleftrightarrow> cp_chunk c \<noteq> [] \<and> cp_error c = None"

definition copy_start :: "string \<Rightarrow> copying" where
  "copy_start content = \<lparr>cp_left = content, cp_chunk = [], cp_out = [], cp_total = 0, cp_reads = 0, cp_error = None\<rparr>"

definition copy_stream :: "(nat \<Rightarrow> nat) \<Rightarrow> (nat \<Rightarrow> nat option) \<Rightarrow> string \<Rightarrow> (nat result \<times> copying) option" where
  "copy_stream pick full content =
    map_option (\<lambda>c. (case cp_error c of None \<Rightarrow> ret (cp_total c) | Some e \<Rightarrow> raise e, c))
      (while_option copying_on (copy_body pick full) (read_chunk pick (copy_start content)))"

text \<open>\<open>digest.update(chunk)\<close> collects what the digest has seen.\<close>

definition digest_body :: "(nat \<Rightarrow> nat) \<Rightarrow> copying \<Rightarrow> copying" where
  "digest_body pick c = read_chunk pick (c\<lparr>cp_out := cp_out c @ cp_chunk c\<rparr>)"

definition sha256_file :: "(string \<Rightarrow> string) \<Rightarrow> (nat \<Rightarrow> nat) \<Rightarrow> string \<Rightarrow> string option" where
  "sha256_file sha pick content =
    map_option (\<lambda>c. sha (cp_out c))
      (while_option (\<lambda>c. cp_chunk c \<noteq> []) (digest_body pick) (read_chunk pick (copy_start content)))"

section \<open>The loops end\<close>

text \<open>What is left shrinks with every read, and nothing is lost on the way.\<close>

lemma read_chunk_facts:
  assumes "c' = read_chunk pick c"
  shows "cp_chunk c' @ cp_left c' = cp_left c" and "cp_out c' = cp_out c" and "cp_total c' = cp_total c"
    and "cp_reads c' = Suc (cp_reads c)" and "cp_error c' = cp_error c" and "cp_chunk c' = [] \<longrightarrow> cp_left c' = []"
  using assms by (auto simp: read_chunk_def Let_def COPY_CHUNK_SIZE_def)

definition unread :: "copying \<Rightarrow> nat" where
  "unread c = length (cp_chunk c @ cp_left c)"

definition in_step :: "string \<Rightarrow> copying \<Rightarrow> bool" where
  "in_step content c \<longleftrightarrow> cp_out c @ cp_chunk c @ cp_left c = content \<and> cp_error c = None \<and>
     cp_reads c \<le> Suc (length (cp_out c)) \<and> (cp_chunk c = [] \<longrightarrow> cp_left c = [])"

lemma in_step_start: "in_step content (read_chunk pick (copy_start content))"
  using read_chunk_facts[OF refl, of pick "copy_start content"] by (simp add: in_step_def copy_start_def)

lemma in_step_next:
  assumes "in_step content c" and "cp_chunk c \<noteq> []" and "cp_out x = cp_out c @ cp_chunk c" and "cp_left x = cp_left c"
    and "cp_reads x = cp_reads c" and "cp_error x = None"
  shows "in_step content (read_chunk pick x)" and "unread (read_chunk pick x) < unread c"
proof -
  note r = read_chunk_facts[OF refl, of pick x]
  have "1 \<le> length (cp_chunk c)" using assms(2) by (cases "cp_chunk c") auto
  then show "in_step content (read_chunk pick x)" "unread (read_chunk pick x) < unread c"
    using assms r by (simp_all add: in_step_def unread_def flip: append_assoc)
qed

text \<open>The invariant of the copy: nothing failed so far, or a write failed and left a beginning of the content.\<close>

definition copy_inv :: "(nat \<Rightarrow> nat option) \<Rightarrow> string \<Rightarrow> copying \<Rightarrow> bool" where
  "copy_inv full content c \<longleftrightarrow> (in_step content c \<and> cp_total c = length (cp_out c)) \<or>
     (cp_error c = Some os_error \<and> prefix (cp_out c) content \<and> cp_reads c \<le> Suc (length content) \<and> (\<exists>n. full n \<noteq> None))"

lemma copy_body_step:
  assumes "copy_inv full content c" and "copying_on c"
  shows "copy_inv full content (copy_body pick full c) \<and>
    (if cp_error (copy_body pick full c) = None then Suc (unread (copy_body pick full c)) else 0) < Suc (unread c)"
proof -
  have c: "in_step content c" "cp_total c = length (cp_out c)" "cp_chunk c \<noteq> []" "cp_error c = None"
    using assms by (auto simp: copy_inv_def copying_on_def)
  show ?thesis
  proof (cases "full (cp_reads c)")
    case None
    let ?x = "c\<lparr>cp_out := cp_out c @ cp_chunk c, cp_total := cp_total c + length (cp_chunk c)\<rparr>"
    have "copy_body pick full c = read_chunk pick ?x"
      using None c(4) by (simp add: copy_body_def write_chunk_def)
    then show ?thesis
      using in_step_next[OF c(1,3), of ?x pick] read_chunk_facts[OF refl, of pick ?x] c by (simp add: copy_inv_def)
  next
    case (Some j)
    have "content = cp_out c @ (take j (cp_chunk c) @ drop j (cp_chunk c)) @ cp_left c" using c(1) by (simp add: in_step_def)
    then have "prefix (cp_out c @ take j (cp_chunk c)) content" by (metis append_assoc prefixI)
    moreover have "cp_reads c \<le> Suc (length content)" using c(1) by (auto simp: in_step_def)
    ultimately show ?thesis using Some by (auto simp: copy_body_def write_chunk_def copy_inv_def)
  qed
qed

lemma copy_loop:
  "\<exists>c. while_option copying_on (copy_body pick full) (read_chunk pick (copy_start content)) = Some c \<and> copy_inv full content c \<and> \<not> copying_on c"
proof -
  have start: "copy_inv full content (read_chunk pick (copy_start content))"
    using in_step_start[of content pick] read_chunk_facts[OF refl, of pick "copy_start content"] by (simp add: copy_inv_def copy_start_def)
  have "\<exists>c. while_option copying_on (copy_body pick full) (read_chunk pick (copy_start content)) = Some c"
    by (rule measure_while_option_Some[where P = "copy_inv full content"
          and f = "\<lambda>c. if cp_error c = None then Suc (unread c) else 0"])
      (use start copy_body_step[of full content _ pick] in \<open>auto simp: copying_on_def\<close>)
  then obtain c where c: "while_option copying_on (copy_body pick full) (read_chunk pick (copy_start content)) = Some c" ..
  have "copy_inv full content c"
    by (rule while_option_rule[where P = "copy_inv full content", OF _ c start]) (use copy_body_step[of full content _ pick] in blast)
  then show ?thesis using c while_option_stop[OF c] by blast
qed

text \<open>Property C32.  Copying a stream ends for every stream, however short its reads are and wherever a write fails: within one read
  more than the content is long it has either copied the content and returned its length, or raised at a failed write, with
  a beginning of the content at the destination.\<close>

theorem copy_stream_total:
  "\<exists>r c. copy_stream pick full content = Some (r, c) \<and> cp_reads c \<le> Suc (length content) \<and>
    (case r of Inr n \<Rightarrow> n = length content \<and> cp_out c = content
     | Inl e \<Rightarrow> e = os_error \<and> prefix (cp_out c) content \<and> (\<exists>n. full n \<noteq> None))"
proof -
  obtain c where c: "while_option copying_on (copy_body pick full) (read_chunk pick (copy_start content)) = Some c"
    "copy_inv full content c" "\<not> copying_on c" using copy_loop by blast
  show ?thesis
    using c by (cases "cp_error c") (auto simp: copy_stream_def copy_inv_def copying_on_def in_step_def)
qed

lemma copy_stream_intact: "\<exists>c. copy_stream pick (\<lambda>_. None) content = Some (ret (length content), c) \<and> cp_out c = content"
proof -
  obtain c where c: "while_option copying_on (copy_body pick (\<lambda>_. None)) (read_chunk pick (copy_start content)) = Some c"
    "copy_inv (\<lambda>_. None) content c" "\<not> copying_on c" using copy_loop by blast
  then show ?thesis by (auto simp: copy_stream_def copy_inv_def copying_on_def in_step_def)
qed

text \<open>The digest of a file is the digest of its content, whatever the reads return.\<close>

lemma sha256_file_total: "sha256_file sha pick content = Some (sha content)"
proof -
  let ?start = "read_chunk pick (copy_start content)"
  have step: "in_step content (digest_body pick c) \<and> unread (digest_body pick c) < unread c"
    if "in_step content c" "cp_chunk c \<noteq> []" for c
    using in_step_next[OF that, of "c\<lparr>cp_out := cp_out c @ cp_chunk c\<rparr>" pick] that(1) by (simp add: digest_body_def in_step_def)
  have "\<exists>c. while_option (\<lambda>c. cp_chunk c \<noteq> []) (digest_body pick) ?start = Some c"
    by (rule measure_while_option_Some[where P = "in_step content" and f = unread]) (use step in_step_start in blast)+
  then obtain c where c: "while_option (\<lambda>c. cp_chunk c \<noteq> []) (digest_body pick) ?start = Some c" ..
  have "in_step content c" by (rule while_option_rule[where P = "in_step content", OF _ c in_step_start]) (use step in blast)
  moreover have "cp_chunk c = []" using while_option_stop[OF c] by simp
  ultimately show ?thesis using c by (auto simp: sha256_file_def in_step_def)
qed

section \<open>Publishing a file\<close>

text \<open>The output path and the temporary file beside it; \<open>pb_ops\<close> counts the operations, any of which may raise \<open>OSError\<close>.\<close>

record publishing =
  pb_output :: "string option"
  pb_temp :: "string option"
  pb_ops :: nat

definition sbind :: "('s \<Rightarrow> 'a result \<times> 's) \<Rightarrow> ('a \<Rightarrow> 's \<Rightarrow> 'b result \<times> 's) \<Rightarrow> 's \<Rightarrow> 'b result \<times> 's" where
  "sbind m f s = (case m s of (Inl e, s') \<Rightarrow> (raise e, s') | (Inr x, s') \<Rightarrow> f x s')"

lemma sbind_Inr: "sbind m f s = (Inr y, s') \<longleftrightarrow> (\<exists>x s1. m s = (Inr x, s1) \<and> f x s1 = (Inr y, s'))"
  by (auto simp: sbind_def split: prod.splits sum.splits)

lemma sbind_Inl: "sbind m f s = (Inl e, s') \<longleftrightarrow> m s = (Inl e, s') \<or> (\<exists>x s1. m s = (Inr x, s1) \<and> f x s1 = (Inl e, s'))"
  by (auto simp: sbind_def split: prod.splits sum.splits)

definition pstep :: "(nat \<Rightarrow> bool) \<Rightarrow> (publishing \<Rightarrow> publishing) \<Rightarrow> publishing \<Rightarrow> unit result \<times> publishing" where
  "pstep fault f p =
    (let p' = p\<lparr>pb_ops := Suc (pb_ops p)\<rparr> in if fault (pb_ops p) then (raise os_error, p') else (ret (), f p'))"

text \<open>\<open>_publish_temp_file\<close>: \<open>mkdir\<close>, \<open>fsync\<close> and the rename.\<close>

definition publish_temp_file :: "(nat \<Rightarrow> bool) \<Rightarrow> publishing \<Rightarrow> unit result \<times> publishing" where
  "publish_temp_file fault =
    sbind (pstep fault (\<lambda>p. p)) (\<lambda>_. sbind (pstep fault (\<lambda>p. p)) (\<lambda>_. pstep fault (\<lambda>p. p\<lparr>pb_output := pb_temp p, pb_temp := None\<rparr>)))"

text \<open>\<open>finally: if temporary.exists(): temporary.unlink()\<close>.\<close>

definition finally_unlink :: "(nat \<Rightarrow> bool) \<Rightarrow> 'a result \<times> publishing \<Rightarrow> 'a result \<times> publishing" where
  "finally_unlink fault = (\<lambda>(r, p).
    if pb_temp p = None then (r, p)
    else (case pstep fault (\<lambda>p. p\<lparr>pb_temp := None\<rparr>) p of (Inl e, p') \<Rightarrow> (raise e, p') | (Inr _, p') \<Rightarrow> (r, p')))"

definition make_temp :: "(nat \<Rightarrow> bool) \<Rightarrow> publishing \<Rightarrow> unit result \<times> publishing" where
  "make_temp fault = sbind (pstep fault (\<lambda>p. p)) (\<lambda>_. pstep fault (\<lambda>p. p\<lparr>pb_temp := Some []\<rparr>))"

section \<open>The deployment backup\<close>

definition deployment_command :: "string \<Rightarrow> string \<Rightarrow> string \<Rightarrow> string \<Rightarrow> string \<Rightarrow> string list" where
  "deployment_command compose service database policy_config cameras_config =
    [''docker'', ''compose'', ''-f'', compose, ''exec'', ''-T'', service, ''python'', ''/app/scripts/backup_restore.py'', ''backup-runtime'',
     ''--database'', database, ''--policy-config'', policy_config, ''--cameras-config'', cameras_config, ''--output'', ''-'']"

definition gzip_magic :: string where
  "gzip_magic = [CHR 0x1F, CHR 0x8B]"

text \<open>What \<open>subprocess.run\<close> gives: the return code, the bytes on standard output and the text on standard error.\<close>

type_synonym runs = "string list \<Rightarrow> (int \<times> string \<times> string) result"

definition deploy :: "(nat \<Rightarrow> bool) \<Rightarrow> runs \<Rightarrow> string list \<Rightarrow> publishing \<Rightarrow> unit result \<times> publishing" where
  "deploy fault run command p = (case run command of
     Inl e \<Rightarrow> (raise e, p)
   | Inr (code, out, err) \<Rightarrow>
       sbind (pstep fault (\<lambda>p. p\<lparr>pb_temp := Some out\<rparr>)) (\<lambda>_ p.
         if code \<noteq> 0
         then (raise (AdapterError (''runtime backup failed: '' @ (if str_strip err = [] then show_int code else str_strip err))), p)
         else if take 2 (case pb_temp p of None \<Rightarrow> [] | Some t \<Rightarrow> t) \<noteq> gzip_magic
         then (raise (AdapterError ''runtime backup did not return a gzip archive''), p)
         else publish_temp_file fault p) p)"

definition backup_deployment ::
  "(nat \<Rightarrow> bool) \<Rightarrow> runs \<Rightarrow> string result \<Rightarrow> string \<Rightarrow> string \<Rightarrow> string \<Rightarrow> string \<Rightarrow> string \<Rightarrow> publishing \<Rightarrow> dict result \<times> publishing" where
  "backup_deployment fault run compose service output database policy_config cameras_config p = (case compose of
     Inl e \<Rightarrow> (raise e, p)
   | Inr cf \<Rightarrow>
       sbind (make_temp fault) (\<lambda>_.
       sbind (\<lambda>p. finally_unlink fault (deploy fault run (deployment_command cf service database policy_config cameras_config) p)) (\<lambda>_ p.
         (ret [(''archive'', JStr output), (''size'', JInt (case pb_output p of None \<Rightarrow> 0 | Some content \<Rightarrow> int (length content))),
            (''service'', JStr service)], p))) p)"

text \<open>The output of \<open>backup-runtime\<close> when it is a path: the archive is copied to a temporary file and published; no value if the copy
  does not end.\<close>

definition publish_copy ::
  "(nat \<Rightarrow> nat) \<Rightarrow> (nat \<Rightarrow> nat option) \<Rightarrow> (nat \<Rightarrow> bool) \<Rightarrow> string \<Rightarrow> publishing \<Rightarrow> (unit result \<times> publishing) option" where
  "publish_copy pick full fault archive p = (case make_temp fault p of
     (Inl e, p') \<Rightarrow> Some (raise e, p')
   | (Inr _, p') \<Rightarrow> (case copy_stream pick full archive of
       None \<Rightarrow> None
     | Some (copied, c) \<Rightarrow> Some (finally_unlink fault
         (let p'' = p'\<lparr>pb_temp := Some (cp_out c)\<rparr> in case copied of
            Inl e \<Rightarrow> (raise e, p'')
          | Inr _ \<Rightarrow> sbind (pstep fault (\<lambda>p. p)) (\<lambda>_. publish_temp_file fault) p''))))"

section \<open>The output is published whole or left alone\<close>

lemma pstep_cases:
  "pstep fault f p = (r, p') \<Longrightarrow> (r = Inl os_error \<and> fault (pb_ops p) \<and> p' = p\<lparr>pb_ops := Suc (pb_ops p)\<rparr>) \<or>
     (r = Inr () \<and> p' = f (p\<lparr>pb_ops := Suc (pb_ops p)\<rparr>))"
  by (auto simp: pstep_def Let_def split: if_splits)

lemma publish_cases:
  assumes "publish_temp_file fault p = (r, p')"
  shows "(r = Inr () \<and> pb_output p' = pb_temp p \<and> pb_temp p' = None) \<or>
    ((\<exists>e. r = Inl e) \<and> pb_output p' = pb_output p \<and> pb_temp p' = pb_temp p \<and> (\<exists>n. fault n))"
  using assms by (auto simp: publish_temp_file_def sbind_def pstep_def Let_def split: if_splits)

lemma make_temp_cases:
  assumes "make_temp fault p = (r, p')"
  shows "pb_output p' = pb_output p \<and> (case r of Inr _ \<Rightarrow> pb_temp p' = Some [] | Inl _ \<Rightarrow> pb_temp p' = pb_temp p \<and> (\<exists>n. fault n))"
  using assms by (auto simp: make_temp_def sbind_def pstep_def Let_def split: if_splits)

lemma finally_unlink_cases:
  assumes "finally_unlink fault (r, p) = (r', p')"
  shows "pb_output p' = pb_output p" and "r' = Inr x \<Longrightarrow> r = Inr x \<and> pb_temp p' = None" and "\<forall>n. \<not> fault n \<Longrightarrow> r' = r \<and> pb_temp p' = None"
  using assms by (auto simp: finally_unlink_def pstep_def Let_def split: if_splits)

lemma deploy_cases:
  assumes "deploy fault run command p = (r, p')"
  shows "case r of Inr _ \<Rightarrow> (\<exists>out err. run command = Inr (0, out, err) \<and> take 2 out = gzip_magic \<and> pb_output p' = Some out \<and> pb_temp p' = None)
    | Inl _ \<Rightarrow> pb_output p' = pb_output p"
proof (cases "run command")
  case (Inr x)
  obtain code out err where x: "x = (code, out, err)" by (cases x)
  let ?p = "p\<lparr>pb_ops := Suc (pb_ops p), pb_temp := Some out\<rparr>"
  show ?thesis
  proof (cases "\<not> fault (pb_ops p) \<and> code = 0 \<and> take 2 out = gzip_magic")
    case True
    then have "publish_temp_file fault ?p = (r, p')" using assms by (simp add: deploy_def Inr x sbind_def pstep_def Let_def)
    from publish_cases[OF this] True show ?thesis by (auto simp: Inr x)
  next
    case False
    then show ?thesis using assms by (auto simp: deploy_def Inr x sbind_def pstep_def Let_def split: if_splits)
  qed
qed (use assms in \<open>auto simp: deploy_def\<close>)

text \<open>A deployment backup publishes a complete gzip archive of a successful command, or leaves the output as it was; if it
  returns, it names the size of the published file.  Nothing temporary stays behind unless an operation of the file system fails.\<close>

theorem deployment_backup_is_published_whole:
  assumes "backup_deployment fault run compose service output database policy_config cameras_config p = (r, p')" and "pb_temp p = None"
  shows "(pb_output p' = pb_output p \<or>
      (\<exists>cf out err. compose = Inr cf \<and> run (deployment_command cf service database policy_config cameras_config) = Inr (0, out, err) \<and>
         take 2 out = gzip_magic \<and> pb_output p' = Some out)) \<and>
    (case r of Inl _ \<Rightarrow> True
     | Inr d \<Rightarrow> (\<exists>cf out err. compose = Inr cf \<and> run (deployment_command cf service database policy_config cameras_config) = Inr (0, out, err) \<and>
         take 2 out = gzip_magic \<and> pb_output p' = Some out \<and> pb_temp p' = None \<and> dget d ''size'' = JInt (int (length out)))) \<and>
    ((\<forall>n. \<not> fault n) \<longrightarrow> pb_temp p' = None)"
proof (cases compose)
  case (Inr cf)
  let ?cmd = "deployment_command cf service database policy_config cameras_config"
  obtain rt p0 where mt: "make_temp fault p = (rt, p0)" by force
  note m = make_temp_cases[OF mt]
  show ?thesis
  proof (cases rt)
    case (Inl e)
    then show ?thesis using assms m mt by (auto simp: backup_deployment_def Inr sbind_def)
  next
    case r0: (Inr u)
    obtain rd pd where dp: "deploy fault run ?cmd p0 = (rd, pd)" by force
    obtain rf pf where fu: "finally_unlink fault (rd, pd) = (rf, pf)" by force
    note d = deploy_cases[OF dp] and f = finally_unlink_cases[OF fu]
    have p': "p' = pf" and r: "r = (case rf of Inl e \<Rightarrow> Inl e | Inr _ \<Rightarrow> Inr [(''archive'', JStr output),
        (''size'', JInt (case pb_output pf of None \<Rightarrow> 0 | Some content \<Rightarrow> int (length content))), (''service'', JStr service)])"
      using assms mt dp fu by (auto simp: backup_deployment_def Inr sbind_def r0 split: sum.splits)
    show ?thesis
      using d f m r0 by (cases rf; cases rd) (auto simp: p' r Inr dget_def)
  qed
qed (use assms in \<open>auto simp: backup_deployment_def\<close>)

definition sample_docker :: runs where
  "sample_docker command = (if take 2 command = [''docker'', ''compose''] then ret (0, gzip_magic @ ''abc'', []) else ret (1, [], ''no''))"

definition sample_publishing :: publishing where
  "sample_publishing = \<lparr>pb_output = Some ''old'', pb_temp = None, pb_ops = 0\<rparr>"

theorem deployment_backup_is_published_whole_witness:
  "\<exists>d p'. backup_deployment (\<lambda>_. False) sample_docker (Inr ''c.yml'') ''smoke-detect'' ''out'' ''db'' ''p'' ''c'' sample_publishing = (Inr d, p') \<and>
    pb_output p' = Some (gzip_magic @ ''abc'') \<and> dget d ''size'' = JInt 5 \<and> pb_temp p' = None"
proof -
  let ?x = "backup_deployment (\<lambda>_. False) sample_docker (Inr ''c.yml'') ''smoke-detect'' ''out'' ''db'' ''p'' ''c'' sample_publishing"
  have "\<not> isl (fst ?x)" by code_simp
  then obtain d p' where x: "?x = (Inr d, p')" by (cases ?x; cases "fst ?x") auto
  have t: "pb_temp sample_publishing = None" by (simp add: sample_publishing_def)
  have run: "sample_docker (deployment_command cf ''smoke-detect'' ''db'' ''p'' ''c'') = Inr (0, gzip_magic @ ''abc'', [])" for cf
    by (simp add: sample_docker_def deployment_command_def)
  from deployment_backup_is_published_whole[OF x t] x run show ?thesis by (auto simp: gzip_magic_def)
qed

text \<open>The same for the output of \<open>backup-runtime\<close>: it always ends, and the output is untouched or the whole archive.\<close>

lemma publish_copy_whole:
  "\<exists>r p'. publish_copy pick full fault archive p = Some (r, p') \<and>
    (pb_output p' = pb_output p \<or> pb_output p' = Some archive) \<and> (\<forall>x. r = Inr x \<longrightarrow> pb_output p' = Some archive \<and> pb_temp p' = None)"
proof -
  obtain c where loop: "while_option copying_on (copy_body pick full) (read_chunk pick (copy_start archive)) = Some c"
    "copy_inv full archive c" "\<not> copying_on c" using copy_loop by blast
  obtain rt p0 where mt: "make_temp fault p = (rt, p0)" by force
  note m = make_temp_cases[OF mt]
  show ?thesis
  proof (cases "\<exists>u. rt = Inr u \<and> cp_error c = None")
    case True
    then have out: "cp_out c = archive" using loop(2,3) by (auto simp: copy_inv_def copying_on_def in_step_def)
    let ?q = "p0\<lparr>pb_temp := Some archive\<rparr>"
    obtain rp pp where s: "sbind (pstep fault (\<lambda>p. p)) (\<lambda>_. publish_temp_file fault) ?q = (rp, pp)" by force
    obtain rf pf where fu: "finally_unlink fault (rp, pp) = (rf, pf)" by force
    have run: "publish_copy pick full fault archive p = Some (rf, pf)"
      using True mt loop(1) s fu by (auto simp: publish_copy_def copy_stream_def out Let_def)
    have "(pb_output pp = pb_output p \<and> isl rp) \<or> pb_output pp = Some archive"
      using s m True by (auto simp: sbind_def pstep_def Let_def split: if_splits dest!: publish_cases)
    then show ?thesis using run finally_unlink_cases[OF fu] by auto
  next
    case False
    then show ?thesis
      using mt m loop(1) finally_unlink_cases(1,2)[of fault]
      by (cases rt) (auto simp: publish_copy_def copy_stream_def Let_def finally_unlink_def pstep_def split: option.splits)
  qed
qed

end
