(* ===== verification/Runtime_Backup.thy ===== *)
theory Runtime_Backup
  imports Streams
begin

text \<open>
  The snapshot of a running service and its restore, \<open>scripts/backup_restore.py\<close>: \<open>create_runtime_backup\<close> packs a SQLite snapshot and the
  two mounted configurations with \<open>create_backup\<close>, \<open>restore_runtime\<close> unpacks an archive with \<open>restore_backup\<close> beside the database,
  checks the snapshot in it and renames it over the database.  SQLite's online backup and its integrity check are parameters.
\<close>

section \<open>The snapshot\<close>

text \<open>What a path given on the command line stands for.\<close>

datatype given_file = Missing | NotRegular | Regular string

definition resolve_strict :: "given_file \<Rightarrow> unit result" where
  "resolve_strict s = (if s = Missing then raise (AdapterError ''FileNotFoundError'') else ret ())"

fun regular_content :: "given_file \<Rightarrow> string option" where
  "regular_content (Regular content) = Some content"
| "regular_content _ = None"

definition sqlite_snapshot :: "(string \<Rightarrow> string result) \<Rightarrow> (string \<Rightarrow> string result) \<Rightarrow> string \<Rightarrow> string result" where
  "sqlite_snapshot online_backup integrity database =
    rbind (online_backup database) (\<lambda>copy. rbind (integrity copy) (\<lambda>verdict.
      if verdict \<noteq> ''ok'' then raise (ValueError ''SQLite snapshot failed integrity_check'') else ret copy))"

definition SNAPSHOT :: path where
  "SNAPSHOT = [''state'', ''audit.sqlite3'']"

text \<open>The temporary directory; new files get the same mode.\<close>

definition runtime_nodes :: "nat \<Rightarrow> string \<Rightarrow> string \<Rightarrow> string \<Rightarrow> (path \<times> node) list" where
  "runtime_nodes mode database policy cameras =
    [([''state''], Directory), ([''config''], Directory), (SNAPSHOT, RegularFile database mode),
     ([''config'', ''policy.yaml''], RegularFile policy mode), ([''config'', ''cameras.yaml''], RegularFile cameras mode)]"

definition create_runtime_backup ::
  "env \<Rightarrow> (string \<Rightarrow> string result) \<Rightarrow> (string \<Rightarrow> string result) \<Rightarrow> string \<Rightarrow> string \<Rightarrow> nat \<Rightarrow> given_file \<Rightarrow> given_file \<Rightarrow> given_file \<Rightarrow> member list result" where
  "create_runtime_backup env online_backup integrity created_at temporary mode database policy_config cameras_config =
    rbind (resolve_strict database) (\<lambda>_. rbind (resolve_strict policy_config) (\<lambda>_. rbind (resolve_strict cameras_config) (\<lambda>_.
    case (regular_content database, regular_content policy_config, regular_content cameras_config) of
      (Some db, Some policy, Some cameras) \<Rightarrow>
        rbind (sqlite_snapshot online_backup integrity db) (\<lambda>copy.
          ret (create_backup env created_at temporary (runtime_nodes mode copy policy cameras)))
    | _ \<Rightarrow> raise (ValueError ''runtime backup inputs must be regular files''))))"

section \<open>The restore\<close>

text \<open>The database with its mode, and the directories that \<open>restore_backup\<close> works on: its destination is the staging
  directory of \<open>restore_runtime\<close>.\<close>

record host =
  hs_database :: "(string \<times> nat) option"
  hs_disk :: disk

definition on_disk :: "'a io \<Rightarrow> host \<Rightarrow> 'a result \<times> host" where
  "on_disk m h = (case m (hs_disk h) of (r, d) \<Rightarrow> (r, h\<lparr>hs_disk := d\<rparr>))"

definition snapshot_of :: "disk \<Rightarrow> (string \<times> nat) option" where
  "snapshot_of d = (case dk_dest d of None \<Rightarrow> None | Some t \<Rightarrow> map_of t SNAPSHOT)"

text \<open>\<open>os.replace(snapshot, database)\<close>.\<close>

definition replace_database :: "env \<Rightarrow> string \<times> nat \<Rightarrow> host \<Rightarrow> unit result \<times> host" where
  "replace_database env snapshot h =
    (if ev_fault env (dk_ops (hs_disk h)) then (raise os_error, h\<lparr>hs_disk := tick (hs_disk h)\<rparr>)
     else (ret (), h\<lparr>hs_database := Some snapshot,
       hs_disk := (tick (hs_disk h))\<lparr>dk_dest := map_option (AList.delete SNAPSHOT) (dk_dest (hs_disk h))\<rparr>\<rparr>))"

definition restore_snapshot :: "env \<Rightarrow> (string \<Rightarrow> string result) \<Rightarrow> member list result \<Rightarrow> host \<Rightarrow> unit result \<times> host" where
  "restore_snapshot env integrity archive =
    sbind (on_disk (restore_backup env archive)) (\<lambda>_ h. case snapshot_of (hs_disk h) of
      None \<Rightarrow> (raise (ValueError ''runtime backup does not contain state/audit.sqlite3''), h)
    | Some (content, mode) \<Rightarrow> (case integrity content of
        Inl e \<Rightarrow> (raise e, h)
      | Inr verdict \<Rightarrow>
          if verdict \<noteq> ''ok'' then (raise (ValueError ''restored SQLite database failed integrity_check''), h)
          else replace_database env (content, mode) h))"

definition clean_staging :: "env \<Rightarrow> 'a result \<times> host \<Rightarrow> 'a result \<times> host" where
  "clean_staging env = (\<lambda>(r, h).
    if dk_dest (hs_disk h) = None then (r, h)
    else (case on_disk (rmtree env dk_dest put_dest) h of (Inl e, h') \<Rightarrow> (raise e, h') | (Inr _, h') \<Rightarrow> (r, h')))"

definition restore_receipt :: "string \<Rightarrow> dict" where
  "restore_receipt name =
    [(''database'', JStr name), (''mounted_configs'', JStr ''verified_in_archive; apply from host restore staging''),
     (''integrity_check'', JStr ''ok'')]"

definition restore_runtime :: "env \<Rightarrow> (string \<Rightarrow> string result) \<Rightarrow> string \<Rightarrow> member list result \<Rightarrow> host \<Rightarrow> dict result \<times> host" where
  "restore_runtime env integrity name archive h =
    (if dk_dest (hs_disk h) \<noteq> None then (raise (ValueError ''restore staging path already exists''), h)
     else sbind (\<lambda>h. clean_staging env (restore_snapshot env integrity archive h)) (\<lambda>_ h. (ret (restore_receipt name), h)) h)"

section \<open>The database is replaced by a verified snapshot\<close>

text \<open>A snapshot of an archive that \<open>restore_backup\<close> accepts.\<close>

definition vouched :: "env \<Rightarrow> (string \<Rightarrow> string result) \<Rightarrow> member list \<Rightarrow> string \<times> nat \<Rightarrow> bool" where
  "vouched env integrity members snapshot \<longleftrightarrow> integrity (fst snapshot) = Inr ''ok'' \<and> map_of (extracted members) SNAPSHOT = Some snapshot \<and>
     (\<exists>manifest expected m. check_archive env members = Inr (manifest, expected) \<and> m \<in> set members \<and>
        path_parts (tm_name m) = SNAPSHOT \<and> tm_data m = fst snapshot \<and>
        map_of expected (tm_name m) = Some (int (length (fst snapshot)), ev_sha256 env (fst snapshot)))"

lemma restored_snapshot:
  assumes "restore_backup env archive d = (Inr manifest, d')" and "snapshot_of d' = Some snapshot" and "integrity (fst snapshot) = Inr ''ok''"
  shows "\<exists>members. archive = Inr members \<and> vouched env integrity members snapshot"
proof -
  obtain members expected where r: "archive = Inr members" "check_archive env members = Inr (manifest, expected)"
      "dk_dest d' = Some (extracted members)"
    and m: "\<forall>m \<in> set members. tm_name m \<noteq> MANIFEST_NAME \<longrightarrow>
       map_of expected (tm_name m) = Some (int (length (tm_data m)), ev_sha256 env (tm_data m))"
    using restore_backup_Inr[OF assms(1)] by blast
  have s: "map_of (extracted members) SNAPSHOT = Some snapshot" using assms(2) r(3) by (simp add: snapshot_of_def)
  then obtain mm where "mm \<in> set members" "tm_name mm \<noteq> MANIFEST_NAME" "path_parts (tm_name mm) = SNAPSHOT" "tm_data mm = fst snapshot"
    using place_set[of _ "filter (\<lambda>m. tm_name m \<noteq> MANIFEST_NAME) members" "[]"] map_of_SomeD[OF s] by (fastforce simp: extracted_def)
  then show ?thesis using r s m assms(3) unfolding vouched_def by metis
qed

lemma restore_snapshot_cases:
  assumes "restore_snapshot env integrity archive h = (r, h')"
  shows "case r of
      Inl _ \<Rightarrow> hs_database h' = hs_database h
    | Inr _ \<Rightarrow> \<exists>members snapshot. archive = Inr members \<and> vouched env integrity members snapshot \<and> hs_database h' = Some snapshot"
proof (cases "restore_backup env archive (hs_disk h)")
  case (Pair x d)
  show ?thesis
  proof (cases x)
    case (Inr manifest)
    then show ?thesis
      using assms restored_snapshot[OF Pair[unfolded Inr], of _ integrity]
      by (auto simp: restore_snapshot_def sbind_def on_disk_def Pair replace_database_def split: option.splits sum.splits if_splits)
  qed (use assms Pair in \<open>auto simp: restore_snapshot_def sbind_def on_disk_def\<close>)
qed

lemma clean_staging_cases:
  assumes "clean_staging env (r, h) = (r', h')"
  shows "hs_database h' = hs_database h" and "r' = Inr x \<Longrightarrow> r = Inr x \<and> dk_dest (hs_disk h') = None"
    and "faultless env \<Longrightarrow> r' = r \<and> dk_dest (hs_disk h') = None"
  using assms by (auto simp: clean_staging_def on_disk_def rmtree_def put_dest_def tick_def faultless_def split: if_splits)

text \<open>Property C30.  Restoring a runtime backup leaves the database as it was, or replaces it in one step by the snapshot of the archive: a
  member at the expected path, with the size and the digest of the manifest, that passes SQLite's integrity check.  If it
  returns the database is that snapshot and the staging directory is gone; an occupied staging path changes nothing, and
  without faults no staging directory is left behind in any case.\<close>

theorem restore_runtime_installs_verified_snapshot:
  assumes "restore_runtime env integrity name archive h = (r, h')"
  shows "(hs_database h' = hs_database h \<or>
      (\<exists>members snapshot. archive = Inr members \<and> vouched env integrity members snapshot \<and> hs_database h' = Some snapshot)) \<and>
    (case r of
       Inl _ \<Rightarrow> dk_dest (hs_disk h) \<noteq> None \<longrightarrow> h' = h
     | Inr _ \<Rightarrow> dk_dest (hs_disk h) = None \<and> dk_dest (hs_disk h') = None \<and>
         (\<exists>members snapshot. archive = Inr members \<and> vouched env integrity members snapshot \<and> hs_database h' = Some snapshot)) \<and>
    (faultless env \<longrightarrow> dk_dest (hs_disk h) = None \<longrightarrow> dk_dest (hs_disk h') = None)"
proof (cases "dk_dest (hs_disk h) = None")
  case True
  obtain rs hs where s: "restore_snapshot env integrity archive h = (rs, hs)" by force
  obtain rc hc where c: "clean_staging env (rs, hs) = (rc, hc)" by force
  have r: "h' = hc" "r = (case rc of Inl e \<Rightarrow> Inl e | Inr _ \<Rightarrow> Inr (restore_receipt name))"
    using assms True s c by (auto simp: restore_runtime_def sbind_def split: sum.splits)
  show ?thesis
    using restore_snapshot_cases[OF s] clean_staging_cases[OF c] True by (cases rs; cases rc) (auto simp: r)
qed (use assms in \<open>auto simp: restore_runtime_def\<close>)

definition runtime_doc :: json where
  "runtime_doc = JObj [(''schema_version'', JStr ''smoke-detect-backup.v1''),
     (''files'', JList [JObj [(''path'', JStr ''state/audit.sqlite3''), (''sha256'', JStr (replicate 64 (CHR ''0''))), (''size'', JInt 3)]])]"

definition runtime_members :: "member list" where
  "runtime_members = [\<lparr>tm_name = ''state/audit.sqlite3'', tm_regular = True, tm_mode = 384, tm_data = ''new''\<rparr>,
     \<lparr>tm_name = MANIFEST_NAME, tm_regular = True, tm_mode = 420, tm_data = ''{}''\<rparr>]"

definition sample_host :: host where
  "sample_host = \<lparr>hs_database = Some (''old'', 384),
     hs_disk = \<lparr>dk_dest = None, dk_prev = None, dk_staging = None, dk_old = False, dk_owned = False, dk_ops = 0\<rparr>\<rparr>"

theorem restore_runtime_installs_verified_snapshot_witness:
  "(\<exists>d h'. restore_runtime (restore_env (\<lambda>_. False) runtime_doc) (\<lambda>_. ret ''ok'') ''db'' (Inr runtime_members) sample_host = (Inr d, h') \<and>
      hs_database h' = Some (''new'', 384)) \<and>
   (\<exists>e h'. restore_runtime (restore_env (\<lambda>_. False) runtime_doc) (\<lambda>_. ret ''malformed'') ''db'' (Inr runtime_members) sample_host = (Inl e, h') \<and>
      hs_database h' = Some (''old'', 384))"
proof -
  let ?x = "\<lambda>verdict. restore_runtime (restore_env (\<lambda>_. False) runtime_doc) (\<lambda>_. ret verdict) ''db'' (Inr runtime_members) sample_host"
  have "\<not> isl (fst (?x ''ok''))" by code_simp
  then obtain d h1 where x1: "?x ''ok'' = (Inr d, h1)" by (cases "?x ''ok''"; cases "fst (?x ''ok'')") auto
  have "isl (fst (?x ''malformed''))" by code_simp
  then obtain e h2 where x2: "?x ''malformed'' = (Inl e, h2)" by (cases "?x ''malformed''"; cases "fst (?x ''malformed'')") auto
  have snap: "map_of (extracted runtime_members) SNAPSHOT = Some (''new'', 384)" by code_simp
  have "hs_database sample_host = Some (''old'', 384)" by (simp add: sample_host_def)
  then show ?thesis
    using restore_runtime_installs_verified_snapshot[OF x1] restore_runtime_installs_verified_snapshot[OF x2] x1 x2 snap
    by (auto simp: vouched_def)
qed

section \<open>Round trip\<close>

lemma runtime_files:
  "iter_files (runtime_nodes mode database policy cameras) =
    [([''config'', ''cameras.yaml''], cameras, mode), ([''config'', ''policy.yaml''], policy, mode), (SNAPSHOT, database, mode)]"
  by (simp add: iter_files_def runtime_nodes_def SNAPSHOT_def excluded_def MEDIA_NAMES_def)

lemma runtime_storable: "storable (runtime_nodes mode database policy cameras)"
  by (simp add: storable_def runtime_files SNAPSHOT_def clean_part_def MANIFEST_NAME_def is_prefix_def)

text \<open>Property C31.  A runtime backup restores the database: when the inputs are regular files, SQLite makes a sound copy, no operation fails and
  the manifest reads back, the backup is created, and restoring it on any host whose staging path is free succeeds and leaves
  exactly that copy as the database.\<close>

theorem runtime_backup_round_trip:
  assumes "online_backup db = Inr copy" and "integrity copy = Inr ''ok''" and "\<forall>s. length (ev_sha256 env s) = 64" and "faultless env"
    and "reads_back env created_at temporary (runtime_nodes mode copy policy cameras)" and "dk_dest (hs_disk h) = None"
  shows "\<exists>members h'.
    create_runtime_backup env online_backup integrity created_at temporary mode (Regular db) (Regular policy) (Regular cameras) = Inr members \<and>
    restore_runtime env integrity name (Inr members) h = (Inr (restore_receipt name), h') \<and>
    hs_database h' = Some (copy, mode mod 512) \<and> dk_dest (hs_disk h') = None"
proof -
  let ?nodes = "runtime_nodes mode copy policy cameras"
  let ?members = "create_backup env created_at temporary ?nodes"
  have made: "create_runtime_backup env online_backup integrity created_at temporary mode (Regular db) (Regular policy) (Regular cameras) = Inr ?members"
    using assms(1,2) by (simp add: create_runtime_backup_def resolve_strict_def sqlite_snapshot_def)
  obtain d where d: "restore_backup env (Inr ?members) (hs_disk h) = (Inr (backup_manifest env created_at temporary ?nodes), d)"
    using restore_created[OF runtime_storable assms(3,5,4)] by blast
  then have dest: "dk_dest d = Some (map placed (iter_files ?nodes))"
    using extracted_created[OF runtime_storable] by (fastforce dest: restore_backup_Inr)
  then have snap: "snapshot_of d = Some (copy, mode mod 512)"
    by (simp add: snapshot_of_def runtime_files placed_def SNAPSHOT_def)
  have nf: "\<not> ev_fault env n" for n using assms(4) by (simp add: faultless_def)
  obtain h1 where h1: "restore_snapshot env integrity (Inr ?members) h = (Inr (), h1)" "hs_database h1 = Some (copy, mode mod 512)"
    using d snap assms(2) nf by (simp add: restore_snapshot_def sbind_def on_disk_def replace_database_def)
  obtain rc h2 where c: "clean_staging env (Inr () :: unit result, h1) = (rc, h2)" by force
  have "restore_runtime env integrity name (Inr ?members) h = (Inr (restore_receipt name), h2)"
    using assms(6) h1(1) c clean_staging_cases(3)[OF c assms(4)] by (simp add: restore_runtime_def sbind_def)
  then show ?thesis using made clean_staging_cases(1,3)[OF c] h1(2) assms(4) by auto
qed

definition sample_runtime_env :: env where
  "sample_runtime_env = restore_env (\<lambda>_. False)
     (JObj (backup_manifest (restore_env (\<lambda>_. False) JNull) ''now'' ''tmp'' (runtime_nodes 420 ''copy'' ''p'' ''c'')))"

theorem runtime_backup_round_trip_witness:
  "\<exists>members h'. create_runtime_backup sample_runtime_env (\<lambda>_. ret ''copy'') (\<lambda>_. ret ''ok'') ''now'' ''tmp'' 420
       (Regular ''live'') (Regular ''p'') (Regular ''c'') = Inr members \<and>
     restore_runtime sample_runtime_env (\<lambda>_. ret ''ok'') ''db'' (Inr members) sample_host = (Inr (restore_receipt ''db''), h') \<and>
     hs_database h' = Some (''copy'', 420)"
proof -
  have sha: "\<forall>s. length (ev_sha256 sample_runtime_env s) = 64" and nf: "faultless sample_runtime_env"
    by (simp_all add: sample_runtime_env_def restore_env_def faultless_def)
  have "file_entry sample_runtime_env = file_entry (restore_env (\<lambda>_. False) JNull)"
    by (simp add: file_entry_def sample_runtime_env_def restore_env_def)
  then have "reads_back sample_runtime_env ''now'' ''tmp'' (runtime_nodes 420 ''copy'' ''p'' ''c'')"
    by (simp add: reads_back_def backup_manifest_def sample_runtime_env_def restore_env_def)
  from runtime_backup_round_trip[where online_backup = "\<lambda>_. ret ''copy''" and integrity = "\<lambda>_. ret ''ok''" and db = "''live''"
      and name = "''db''", OF refl refl sha nf this, of sample_host]
  show ?thesis by (auto simp: sample_host_def)
qed

text \<open>A source that is missing or no regular file makes no archive.\<close>

lemma create_runtime_backup_refuses:
  assumes "\<exists>s \<in> {database, policy_config, cameras_config}. regular_content s = None"
  shows "isl (create_runtime_backup env online_backup integrity created_at temporary mode database policy_config cameras_config)"
  using assms by (auto simp: create_runtime_backup_def resolve_strict_def split: option.splits given_file.splits)

text \<open>An archive on standard input is first copied to a file: \<open>restore-runtime --archive -\<close>; \<open>untar\<close> reads the members of an archive file.\<close>

definition restore_runtime_stdin ::
  "env \<Rightarrow> (nat \<Rightarrow> nat) \<Rightarrow> (nat \<Rightarrow> nat option) \<Rightarrow> (string \<Rightarrow> member list result) \<Rightarrow> (string \<Rightarrow> string result) \<Rightarrow> string \<Rightarrow> string \<Rightarrow> host \<Rightarrow>
   (dict result \<times> host) option" where
  "restore_runtime_stdin env pick full untar integrity name input h = (case copy_stream pick full input of
     None \<Rightarrow> None
   | Some (Inl e, _) \<Rightarrow> Some (raise e, h)
   | Some (Inr _, c) \<Rightarrow> Some (restore_runtime env integrity name (untar (cp_out c)) h))"

lemma restore_runtime_stdin_intact:
  "restore_runtime_stdin env pick (\<lambda>_. None) untar integrity name input h = Some (restore_runtime env integrity name (untar input) h)"
  using copy_stream_intact[of pick input] by (auto simp: restore_runtime_stdin_def)

end
