(* ===== verification/Spec2Isabelle.thy ===== *)
theory Spec2Isabelle
  imports Engine Evidence Retention Adapters Egress Api_Audio Api_Evaluations Api_Cameras Operations Releases Baseline Runtime_Backup
begin

text \<open>
  A verification library for TP Smoke Detect, an on-premise pipeline that turns camera observations
  into audited decisions and, under a policy, into catalogued loudspeaker messages.

  \<^bold>\<open>The program.\<close>  Observations of a tracked person enter a cascade engine
  (\<open>src/tp_smoke_detect/domain/cascade\<close>), which keeps an aggregation window per track, counts
  approach-dwell-retreat cycles and asks the evidence policy
  (\<open>domain/policy/evidence.py\<close>) for a verdict.  A verified decision is stored by the SQLite
  repository (\<open>adapters/persistence/sqlite.py\<close>) under an idempotency key.  An announcement goes
  through one service (\<open>application/request_audio.py\<close>): the audio policy
  (\<open>domain/policy/audio.py\<close>) allows or suppresses it, the repository grants a lease within cooldown
  and caps, a controller (\<open>adapters/audio\<close>) plays it, and the outcome is recorded under the lease's
  token.  The REST edge (\<open>api/app.py\<close>) composes them over one repository; settings
  (\<open>settings.py\<close>), metrics and health (\<open>observability\<close>), media retention
  (\<open>application/retention.py\<close>) and the model router (\<open>application/model_router.py\<close>) complete the
  service.  Recorded material enters through the replay worker (\<open>application/replay.py\<close>), which turns a
  manifest of frames into candidate envelopes on a message bus (\<open>adapters/messaging/in_memory.py\<close>).
  Beside the service stand the offline tooling under \<open>ml\<close> (dataset splits, event metrics, ablation,
  baseline artifacts, release gates) and the operator scripts under \<open>scripts\<close>: backup and restore of a deployment,
  health probe, fixture replay, qualification receipt.

  \<^bold>\<open>Theories.\<close>
  \<^item> \<open>Prelude\<close>: errors and results as sums, datetimes, generic lemmas.
  \<^item> \<open>Contracts\<close>, \<open>Candidates\<close>: the enumerations and envelopes of \<open>contracts.py\<close> with their validation, which returns
    normal forms.
  \<^item> \<open>Observations\<close>: \<open>domain/models\<close>.  \<open>Cycle\<close>, \<open>Track\<close>, \<open>Evidence\<close>, \<open>Engine\<close>: the cascade.  The
    incremental detector equals a reference machine, the window and the transition log keep their
    invariants over every input sequence, and the engine's verdict is characterised exactly.
  \<^item> \<open>Audio_Policy\<close>: \<open>domain/policy/audio.py\<close>; fail-closed, antitone in every restriction, commands bounded.
  \<^item> \<open>Json\<close>, \<open>Sqlite\<close>, \<open>Schema\<close>: stored values, the connection with its implicit transactions, tables
    and constraints.  A repository method is a function from the connection to a result and a
    connection; every raise is an \<open>Inl\<close>.
  \<^item> \<open>Receipts\<close>: the audio ledger operations.  \<open>Ledger\<close>: their complete case analysis.  \<open>Leases\<close>: the
    abstract lease machine, the locale \<open>audio_ledger\<close> of what a client relies on, and its
    interpretation by the repository.  \<open>Rate_Limits\<close>: all interleavings of concurrent requests as
    an inductive relation, with caps and cooldown as invariants.
  \<^item> \<open>Audit_Store\<close>, \<open>Evaluation_Store\<close>, \<open>Artifact_Store\<close>: the other operations of the repository.
    \<open>Idempotency\<close>: the specification of a claim, atomic completion, and the interleavings of claims.
  \<^item> \<open>Playback\<close>: the controllers, the locale \<open>audio_controller\<close> with both as instances, the egress check.  \<open>Egress\<close>: the
    pinned opener and a trace of what a send does on the network.
  \<^item> \<open>Request_Audio\<close>: the service, composed of policy, ledger and an arbitrary controller.
  \<^item> \<open>Paths\<close>: path strings, \<open>LocalArtifactStore\<close> and the file deleter.  \<open>Retention\<close>: the retention pass over
    repository and files, with its exact effect.
  \<^item> \<open>Floats\<close>: binary64 rounding and arithmetic on rationals, monotone and exact on representable values.
    \<open>Float_Json\<close>, \<open>Py_Convert\<close>: floats in JSON documents, and the conversions \<open>str\<close>, \<open>int\<close>, \<open>float\<close>.  \<open>Inference\<close>, \<open>Router\<close>: the inference port and the router;
    failures are contained and the circuit of a role is a function of its call history.
    \<open>Adapters\<close>: the ONNX and the compatible provider, with the locale \<open>inference_provider\<close> of what the router relies on and
    its interpretation by the three providers.
  \<^item> \<open>Metrics\<close>, \<open>Health\<close>: registry, exposition and readiness; series stay bounded, histograms are exact,
    label blocks read back, degraded transitions are the rising edges.
  \<^item> \<open>Settings\<close>: configuration documents and the environment layer.
  \<^item> \<open>Api_Models\<close>, \<open>Api\<close>: request models and handlers.  \<open>Api_Audio\<close>, \<open>Api_Evaluations\<close>, \<open>Api_Cameras\<close>: the
    end-to-end properties of the audio and evaluation endpoints and of the boot.
  \<^item> \<open>Replay\<close>: the replay worker over a loaded manifest and the in-memory bus; the sampling plan is a function of times
    and ids, and every frame is isolated from the others.  \<open>Replay_Parser\<close>: the manifest parser and replay from a
    mapping or a stored file; what is emitted is admitted by the region gates.  \<open>Cli\<close>: the commands, the schema export
    and the demo, which runs the whole path.
  \<^item> \<open>Event_Metrics\<close>, \<open>Ablation\<close>: \<open>ml/evaluation\<close>; sessions, reports, confidence intervals, threshold calibration and
    the comparison of profiles.  \<open>Datasets\<close>: \<open>ml/datasets/manifest.py\<close> and the split by camera.  \<open>Releases\<close>:
    \<open>ml/registry\<close>, the promotion gate.  \<open>Baseline\<close>: \<open>ml/training/baseline.py\<close>, export and load.
  \<^item> \<open>Backup\<close>: backup and restore of a directory (\<open>scripts/backup_restore.py\<close>), with a fault possible at every file
    operation.  \<open>Streams\<close>: its chunked loops as \<open>while_option\<close>, which end for every stream, and the publication of a
    finished file.  \<open>Runtime_Backup\<close>: the snapshot of a running service, its verified restore and the round trip.
  \<^item> \<open>Operations\<close>: the structured log, the constant endpoints, the health probe, the replay script and the qualification
    receipt.

  \<^bold>\<open>Conventions.\<close>  Instants are integers in microseconds, an aware datetime is its UTC instant; scores
  are rationals; identifiers are strings.  \<open>uuid4\<close>, the clock, the resolver and the audio worker are
  arguments, as are SHA-256 digests, the YAML and JSON readers and the printers of numbers.  The sum of a list of
  floats is an argument too (\<open>fsum\<close>), since the algorithm of the built-in \<open>sum\<close> differs between Python
  versions.  All
  recursion is structural or has a termination proof; only the reference parser of label blocks counts
  down, from the length of its input, which bounds the number of labels.

  \<^bold>\<open>Not modelled.\<close>  What sockets and TLS do, and the HTTP framework; the migration of databases of earlier
  releases; argument parsing and the dispatch of the scripts on their commands; ONNX Runtime, the compatible endpoint, Docker and
  SQLite's online backup, which are parameters; the writing of the offline reports to files; the branches of the API for
  repositories without the optional operations.
\<close>

end
